(* ===== verification/Prelude.thy ===== *)
theory Prelude
  imports Main "HOL-Library.Multiset" "HOL-Library.Char_ord" "HOL-Library.List_Lexorder"
begin

text \<open>
  Shared vocabulary of the development: the result type of a fallible Go call, the contract of a
  row scan whose order the SQL statement does not fix, the collections of rewrite rules the
  component theories fill, and facts about lists that several components use.
\<close>

section \<open>Results of fallible calls\<close>

text \<open>
  A Go function that returns \<open>(T, error)\<close> returns \<open>Inl e\<close> for a non-nil error and \<open>Inr x\<close>
  otherwise. A method that also changes state takes the state last and returns it updated beside the
  result.
\<close>

type_synonym ('e, 'a, 's) op = "'s \<Rightarrow> ('e + 'a) \<times> 's"

definition is_ok :: "'e + 'a \<Rightarrow> bool" where
  "is_ok x = (case x of Inl _ \<Rightarrow> False | Inr _ \<Rightarrow> True)"

lemma is_ok_simps [simp]: "is_ok (Inl e) = False" "is_ok (Inr x) = True"
  by (simp_all add: is_ok_def)

named_theorems moves_intros \<open>operations that move by steps of their component\<close>

section \<open>Result orders that SQL leaves open\<close>

text \<open>
  A query without an \<open>ORDER BY\<close> returns its rows in an order the engine chooses, and rows with equal
  sort keys are not ordered either. That choice is a function from the selected rows in rowid order
  to the rows as returned; SQL promises only that no row is lost, invented or repeated.
\<close>

definition permuting :: "('a list \<Rightarrow> 'a list) \<Rightarrow> bool" where
  "permuting f \<longleftrightarrow> (\<forall>xs. mset (f xs) = mset xs)"

lemma permuting_id: "permuting (\<lambda>xs. xs)"
  by (simp add: permuting_def)

lemma permuting_rev: "permuting rev"
  by (simp add: permuting_def)

lemma permuting_set: "permuting f \<Longrightarrow> set (f xs) = set xs"
  by (metis permuting_def set_mset_mset)

lemma permuting_length: "permuting f \<Longrightarrow> length (f xs) = length xs"
  by (metis permuting_def size_mset)

lemma permuting_Nil: "permuting f \<Longrightarrow> f xs = [] \<longleftrightarrow> xs = []"
  by (metis permuting_length length_0_conv)

lemma permuting_distinct: "permuting f \<Longrightarrow> distinct (f xs) = distinct xs"
  by (metis permuting_def mset_eq_imp_distinct_iff)

lemma permuting_distinct_map:
  assumes "permuting f"
  shows "distinct (map g (f xs)) = distinct (map g xs)"
proof -
  have "mset (map g (f xs)) = mset (map g xs)"
    using assms by (simp add: permuting_def)
  then show ?thesis by (rule mset_eq_imp_distinct_iff)
qed

section \<open>Lists\<close>

lemma find_Some_mem: "find P xs = Some x \<Longrightarrow> x \<in> set xs \<and> P x"
  by (induction xs) (auto split: if_splits)

lemma find_None_all: "find P xs = None \<longleftrightarrow> (\<forall>x \<in> set xs. \<not> P x)"
  by (auto simp: find_None_iff)

lemma find_key:
  assumes "distinct (map k xs)" and "x \<in> set xs"
  shows "find (\<lambda>y. k y = k x) xs = Some x"
  using assms by (induction xs) (auto simp: image_iff)

lemma filter_key:
  assumes "distinct (map k xs)" and "x \<in> set xs"
  shows "filter (\<lambda>y. k y = k x) xs = [x]"
  using assms
proof (induction xs)
  case Nil
  then show ?case by simp
next
  case (Cons y ys)
  then show ?case
    by (cases "x = y") (auto simp: filter_empty_conv image_iff)
qed

lemma find_append: "find P (xs @ ys) = (case find P xs of None \<Rightarrow> find P ys | Some x \<Rightarrow> Some x)"
  by (induction xs) auto

section \<open>Invariants of step relations\<close>

text \<open>
  A component that moves by steps and a predicate every step keeps. Components interpret it with their
  own step relation; what holds initially then holds after any number of steps.
\<close>

locale step_invariant =
  fixes step :: "'s \<Rightarrow> 's \<Rightarrow> bool" and inv :: "'s \<Rightarrow> bool"
  assumes step_inv: "inv s \<Longrightarrow> step s t \<Longrightarrow> inv t"
begin

lemma steps_inv: "step\<^sup>*\<^sup>* s t \<Longrightarrow> inv s \<Longrightarrow> inv t"
  by (induction rule: rtranclp_induct) (auto intro: step_inv)

lemma run_inv: "(\<And>i. i < n \<Longrightarrow> step (f i) (f (Suc i))) \<Longrightarrow> inv (f 0) \<Longrightarrow> inv (f n)"
  by (induction n) (auto intro: step_inv)

end

text \<open>An operation whose effect is a sequence of steps, and sequencing of such operations.\<close>

definition moves_by :: "('s \<Rightarrow> 's \<Rightarrow> bool) \<Rightarrow> ('e, 'a, 's) op \<Rightarrow> bool" where
  "moves_by step u \<longleftrightarrow> (\<forall>s. step\<^sup>*\<^sup>* s (snd (u s)))"

lemma moves_byI: "(\<And>s. step\<^sup>*\<^sup>* s (snd (u s))) \<Longrightarrow> moves_by step u"
  by (simp add: moves_by_def)

lemma moves_byD: "moves_by step u \<Longrightarrow> u s = (x, t) \<Longrightarrow> step\<^sup>*\<^sup>* s t"
  by (metis moves_by_def snd_conv)

lemma moves_by_step: "(\<And>s. step s (snd (u s))) \<Longrightarrow> moves_by step u"
  by (rule moves_byI) blast

lemma moves_by_return: "moves_by step (Pair x)"
  by (simp add: moves_by_def)

lemma moves_by_if:
  "moves_by step u \<Longrightarrow> moves_by step v \<Longrightarrow> moves_by step (\<lambda>s. if P s then u s else v s)"
  by (simp add: moves_by_def)

text \<open>An operation that at each state behaves like one that moves by steps.\<close>

lemma moves_by_pointwise: "(\<And>s. \<exists>u. moves_by step u \<and> f s = u s) \<Longrightarrow> moves_by step f"
  by (rule moves_byI) (metis moves_by_def)

lemma moves_by_bind:
  assumes "moves_by step u" and "\<And>a. moves_by step (k a)"
  shows "moves_by step (\<lambda>s. case u s of (Inl e, s) \<Rightarrow> (Inl (h e), s) | (Inr a, s) \<Rightarrow> k a s)"
proof (rule moves_byI)
  fix s
  obtain x t where u: "u s = (x, t)" by fastforce
  from moves_byD [OF assms(1) u] have st: "step\<^sup>*\<^sup>* s t" .
  show "step\<^sup>*\<^sup>* s (snd (case u s of (Inl e, s) \<Rightarrow> (Inl (h e), s) | (Inr a, s) \<Rightarrow> k a s))"
  proof (cases x)
    case (Inl e)
    with u st show ?thesis by simp
  next
    case (Inr a)
    from assms(2) have "step\<^sup>*\<^sup>* t (snd (k a t))" by (simp add: moves_by_def)
    with u st Inr show ?thesis by simp
  qed
qed

end
