(* ===== verification/GoNum.thy ===== *)
theory GoNum
  imports GoText
begin

text \<open>
  Decimal numbers as Go's \<open>fmt\<close> (\<open>%d\<close>, \<open>%02d\<close>-style time fields) prints them and as \<open>strconv.ParseInt\<close>
  and \<open>strconv.Atoi\<close> read them, the 64-bit range checks included.
\<close>

section \<open>Printing\<close>

definition digit :: "nat \<Rightarrow> char" where
  "digit d = char_of (48 + d)"

fun digits :: "nat \<Rightarrow> string" where
  "digits n = (if n < 10 then [digit n] else digits (n div 10) @ [digit (n mod 10)])"

declare digits.simps [simp del]

definition itoa :: "int \<Rightarrow> string" where
  "itoa n = (if n < 0 then CHR ''-'' # digits (nat (- n)) else digits (nat n))"

text \<open>Two digits with a leading zero, as the layouts \<open>15\<close>, \<open>04\<close>, \<open>05\<close>, \<open>01\<close>, \<open>02\<close> and \<open>06\<close> print.\<close>

definition pad2 :: "nat \<Rightarrow> string" where
  "pad2 n = [digit (n div 10 mod 10), digit (n mod 10)]"

definition pad4 :: "nat \<Rightarrow> string" where
  "pad4 n = pad2 (n div 100) @ pad2 (n mod 100)"

section \<open>Reading\<close>

datatype num_error = ErrSyntax | ErrRange

definition is_digit :: "char \<Rightarrow> bool" where
  "is_digit c = (let n = (of_char c :: nat) in 48 \<le> n \<and> n \<le> 57)"

definition digit_val :: "char \<Rightarrow> nat" where
  "digit_val c = of_char c - 48"

definition max_uint64 :: nat where "max_uint64 = 18446744073709551615"
definition max_int64 :: int where "max_int64 = 9223372036854775807"
definition min_int64 :: int where "min_int64 = - 9223372036854775808"

text \<open>
  The digit loop of \<open>strconv.ParseUint\<close> in base 10: a byte that is no digit is a syntax error, and the
  first digit that takes the value past 64 bits ends the loop with a range error, whatever follows.
\<close>

fun uint_loop :: "nat \<Rightarrow> string \<Rightarrow> nat \<times> num_error option" where
  "uint_loop n [] = (n, None)"
| "uint_loop n (c # cs) =
     (if \<not> is_digit c then (0, Some ErrSyntax)
      else if 10 * n + digit_val c > max_uint64 then (max_uint64, Some ErrRange)
      else uint_loop (10 * n + digit_val c) cs)"

definition ParseUint :: "string \<Rightarrow> nat \<times> num_error option" where
  "ParseUint s = (if s = [] then (0, Some ErrSyntax) else uint_loop 0 s)"

text \<open>
  \<open>strconv.ParseInt(s, 10, 64)\<close>: the value is meaningful next to a range error too (it is the nearest
  bound), and 0 next to a syntax error. \<open>strconv.Atoi\<close> agrees with it where \<open>int\<close> has 64 bits.
\<close>

definition ParseInt :: "string \<Rightarrow> int \<times> num_error option" where
  "ParseInt s =
     (if s = [] then (0, Some ErrSyntax)
      else
        let neg = (hd s = CHR ''-'');
            body = (if hd s = CHR ''+'' \<or> hd s = CHR ''-'' then tl s else s)
        in case ParseUint body of
             (un, Some ErrSyntax) \<Rightarrow> (0, Some ErrSyntax)
           | (un, _) \<Rightarrow>
               if \<not> neg \<and> un \<ge> 9223372036854775808 then (max_int64, Some ErrRange)
               else if neg \<and> un > 9223372036854775808 then (min_int64, Some ErrRange)
               else (if neg then - int un else int un, None))"

definition Atoi :: "string \<Rightarrow> int \<times> num_error option" where
  "Atoi s = ParseInt s"

section \<open>Digits\<close>

lemma of_char_digit [simp]: "d < 10 \<Longrightarrow> (of_char (digit d) :: nat) = 48 + d"
  by (simp add: digit_def)

lemma is_digit_digit [simp]: "d < 10 \<Longrightarrow> is_digit (digit d)"
  by (simp add: is_digit_def Let_def)

lemma digit_val_digit [simp]: "d < 10 \<Longrightarrow> digit_val (digit d) = d"
  by (simp add: digit_val_def)

lemma digit_inj: "a < 10 \<Longrightarrow> b < 10 \<Longrightarrow> digit a = digit b \<longleftrightarrow> a = b"
  by (metis digit_val_digit)

lemma digit_val_less: "is_digit c \<Longrightarrow> digit_val c < 10"
  by (auto simp: is_digit_def digit_val_def Let_def)

lemma digit_of_val: "is_digit c \<Longrightarrow> digit (digit_val c) = c"
  by (auto simp: is_digit_def digit_val_def digit_def Let_def)

lemma digits_ne [simp]: "digits n \<noteq> []"
  by (subst digits.simps) simp

lemma digits_are_digits: "c \<in> set (digits n) \<Longrightarrow> is_digit c"
proof (induction n rule: digits.induct)
  case (1 n)
  then show ?case
    by (cases "n < 10") (auto simp: digits.simps [of n])
qed

lemma not_digit_signs [simp]:
  "\<not> is_digit CHR ''-''" "\<not> is_digit CHR ''+''" "\<not> is_digit CHR ''|''" "\<not> is_digit CHR '':''"
  by (simp_all add: is_digit_def Let_def)

lemma pad2_inj: "a < 100 \<Longrightarrow> b < 100 \<Longrightarrow> pad2 a = pad2 b \<longleftrightarrow> a = b"
  by (auto simp: pad2_def digit_inj) (metis div_mult_mod_eq mod_less mult.commute div_less_iff_less_mult zero_less_numeral numeral_times_numeral)

lemma length_pad2 [simp]: "length (pad2 n) = 2"
  by (simp add: pad2_def)

lemma length_pad4 [simp]: "length (pad4 n) = 4"
  by (simp add: pad4_def)

lemma pad4_inj: "a < 10000 \<Longrightarrow> b < 10000 \<Longrightarrow> pad4 a = pad4 b \<longleftrightarrow> a = b"
proof -
  assume ab: "a < 10000" "b < 10000"
  then have *: "a div 100 < 100" "b div 100 < 100" "a mod 100 < 100" "b mod 100 < 100" by auto
  have "pad4 a = pad4 b \<longleftrightarrow> a div 100 = b div 100 \<and> a mod 100 = b mod 100"
    using * by (simp add: pad4_def pad2_inj)
  also have "\<dots> \<longleftrightarrow> a = b" by (metis div_mult_mod_eq)
  finally show ?thesis .
qed

section \<open>Reading back what was printed\<close>

lemma uint_loop_append:
  "uint_loop n xs = (m, None) \<Longrightarrow> uint_loop n (xs @ ys) = uint_loop m ys"
  by (induction xs arbitrary: n) (auto split: if_splits)

lemma uint_loop_digits: "n \<le> max_uint64 \<Longrightarrow> uint_loop 0 (digits n) = (n, None)"
proof (induction n rule: digits.induct)
  case (1 n)
  show ?case
  proof (cases "n < 10")
    case True
    then show ?thesis by (simp add: digits.simps [of n] max_uint64_def)
  next
    case False
    then have "uint_loop 0 (digits (n div 10)) = (n div 10, None)"
      using 1 by (simp add: max_uint64_def)
    then have "uint_loop 0 (digits n) = uint_loop (n div 10) [digit (n mod 10)]"
      using False by (simp add: digits.simps [of n] uint_loop_append)
    then show ?thesis using "1.prems" by simp
  qed
qed

lemma ParseUint_digits: "n \<le> max_uint64 \<Longrightarrow> ParseUint (digits n) = (n, None)"
  by (simp add: ParseUint_def uint_loop_digits)

lemma hd_digits_not_sign: "hd (digits n) \<noteq> CHR ''-'' \<and> hd (digits n) \<noteq> CHR ''+''"
  using digits_are_digits [of "hd (digits n)" n] by auto

lemma ParseInt_itoa:
  assumes "min_int64 \<le> n" and "n \<le> max_int64"
  shows "ParseInt (itoa n) = (n, None)"
proof (cases "n < 0")
  case True
  then have "ParseUint (digits (nat (- n))) = (nat (- n), None)"
    using assms by (intro ParseUint_digits) (simp add: max_uint64_def min_int64_def)
  with True assms show ?thesis
    by (simp add: ParseInt_def itoa_def Let_def min_int64_def)
next
  case False
  then have "ParseUint (digits (nat n)) = (nat n, None)"
    using assms by (intro ParseUint_digits) (simp add: max_uint64_def max_int64_def)
  with False assms hd_digits_not_sign [of "nat n"] show ?thesis
    by (simp add: ParseInt_def itoa_def Let_def max_int64_def)
qed

lemma ParseInt_range: "min_int64 \<le> fst (ParseInt s) \<and> fst (ParseInt s) \<le> max_int64"
  by (auto simp: ParseInt_def Let_def max_int64_def min_int64_def
      split: prod.splits option.splits num_error.splits)

lemma itoa_inj: 
  assumes "min_int64 \<le> m" "m \<le> max_int64" "min_int64 \<le> n" "n \<le> max_int64"
  shows "itoa m = itoa n \<longleftrightarrow> m = n"
  using assms by (metis ParseInt_itoa prod.inject)

end
