(* ===== verification/Json.thy ===== *)
theory Json
  imports GoNum
begin

text \<open>
  \<open>encoding/json\<close> as the repository uses it: \<open>Marshal\<close> of structs of strings, integers and booleans
  (queue jobs, agent requests and replies, storage and channel configurations) and the reader behind
  \<open>Unmarshal\<close>. Strings are bytes; the encoder's treatment of invalid UTF-8 and of the characters it
  escapes is written out, and so is the decoder's.
\<close>

section \<open>UTF-8\<close>

abbreviation code :: "char \<Rightarrow> nat" where
  "code c \<equiv> of_char c"

definition cont :: "char \<Rightarrow> bool" where
  "cont c = (128 \<le> code c \<and> code c \<le> 191)"

text \<open>
  The length of the UTF-8 sequence at the front of a string, 0 where \<open>utf8.DecodeRuneInString\<close> reports
  an invalid one (a stray continuation byte, an overlong form, a surrogate, a value past U+10FFFF, or a
  cut-off sequence).
\<close>

fun utf8_size :: "string \<Rightarrow> nat" where
  "utf8_size [] = 0"
| "utf8_size (a # s) =
     (let n = code a in
      if n < 128 then 1
      else if 194 \<le> n \<and> n \<le> 223 then
        (case s of b # _ \<Rightarrow> if cont b then 2 else 0 | _ \<Rightarrow> 0)
      else if 224 \<le> n \<and> n \<le> 239 then
        (case s of b # c # _ \<Rightarrow>
           if cont b \<and> cont c \<and> (n = 224 \<longrightarrow> 160 \<le> code b) \<and> (n = 237 \<longrightarrow> code b \<le> 159) then 3 else 0
         | _ \<Rightarrow> 0)
      else if 240 \<le> n \<and> n \<le> 244 then
        (case s of b # c # d # _ \<Rightarrow>
           if cont b \<and> cont c \<and> cont d \<and> (n = 240 \<longrightarrow> 144 \<le> code b) \<and> (n = 244 \<longrightarrow> code b \<le> 143)
           then 4 else 0
         | _ \<Rightarrow> 0)
      else 0)"

lemma utf8_size_le: "utf8_size s \<le> length s"
  by (cases s) (auto simp: Let_def split: list.splits)

lemma utf8_size_append: "0 < utf8_size s \<Longrightarrow> utf8_size (s @ t) = utf8_size s"
  by (cases s) (auto simp: Let_def split: list.splits if_splits)

lemma utf8_size_ascii: "code c < 128 \<Longrightarrow> utf8_size (c # s) = 1"
  by simp

lemmas utf8_size_Cons = utf8_size.simps(2)

declare utf8_size.simps(2) [simp del]

fun valid_utf8_fuel :: "nat \<Rightarrow> string \<Rightarrow> bool" where
  "valid_utf8_fuel f [] = True"
| "valid_utf8_fuel 0 (c # s) = False"
| "valid_utf8_fuel (Suc f) (c # s) =
     (0 < utf8_size (c # s) \<and> valid_utf8_fuel f (drop (utf8_size (c # s)) (c # s)))"

definition valid_utf8 :: "string \<Rightarrow> bool" where
  "valid_utf8 s = valid_utf8_fuel (length s) s"

lemma valid_utf8_fuel_enough: "length s \<le> f \<Longrightarrow> valid_utf8_fuel f s = valid_utf8_fuel (length s) s"
proof (induction "length s" arbitrary: s f rule: less_induct)
  case less
  show ?case
  proof (cases s)
    case Nil
    then show ?thesis by (cases f) auto
  next
    case (Cons c t)
    let ?r = "drop (utf8_size s) s"
    from less.prems Cons obtain g where g: "f = Suc g" "length t \<le> g" by (cases f) auto
    show ?thesis
    proof (cases "0 < utf8_size s")
      case True
      with Cons have *: "length ?r < length s" "length ?r \<le> length t" by auto
      then have "valid_utf8_fuel g ?r = valid_utf8_fuel (length ?r) ?r"
        using less.hyps [of ?r g] g by simp
      moreover have "valid_utf8_fuel (length t) ?r = valid_utf8_fuel (length ?r) ?r"
        using less.hyps [of ?r "length t"] * by simp
      ultimately show ?thesis using Cons g by simp
    next
      case False
      then show ?thesis using Cons g by simp
    qed
  qed
qed

lemma valid_utf8_Nil [simp]: "valid_utf8 []"
  by (simp add: valid_utf8_def)

lemma valid_utf8_Cons:
  "valid_utf8 (c # s) \<longleftrightarrow>
   0 < utf8_size (c # s) \<and> valid_utf8 (drop (utf8_size (c # s)) (c # s))"
proof -
  let ?r = "drop (utf8_size (c # s)) (c # s)"
  have "0 < utf8_size (c # s) \<Longrightarrow> length ?r \<le> length s" by simp
  then show ?thesis
    using valid_utf8_fuel_enough [of ?r "length s"]
    by (auto simp: valid_utf8_def)
qed

lemma valid_utf8_ascii: "code c < 128 \<Longrightarrow> valid_utf8 (c # s) = valid_utf8 s"
  by (simp add: valid_utf8_Cons utf8_size_ascii)

text \<open>\<open>utf8.AppendRune\<close> for a code point that is no surrogate.\<close>

definition utf8_encode :: "nat \<Rightarrow> string" where
  "utf8_encode n =
     (if n < 128 then [char_of n]
      else if n < 2048 then [char_of (192 + n div 64), char_of (128 + n mod 64)]
      else if n < 65536 then
        [char_of (224 + n div 4096), char_of (128 + n div 64 mod 64), char_of (128 + n mod 64)]
      else
        [char_of (240 + n div 262144), char_of (128 + n div 4096 mod 64),
         char_of (128 + n div 64 mod 64), char_of (128 + n mod 64)])"

definition replacement :: string where
  "replacement = [CHR 0xEF, CHR 0xBF, CHR 0xBD]"

section \<open>Encoding a string\<close>

definition hex_digit :: "nat \<Rightarrow> char" where
  "hex_digit d = (if d < 10 then char_of (48 + d) else char_of (87 + d))"

abbreviation bslash :: char where "bslash \<equiv> CHR 0x5C"
abbreviation dquote :: char where "dquote \<equiv> CHR 0x22"

definition escape_ascii :: "char \<Rightarrow> string" where
  "escape_ascii c =
     (let n = code c in
      if c = bslash \<or> c = dquote then [bslash, c]
      else if n = 8 then [bslash, CHR ''b'']
      else if n = 12 then [bslash, CHR ''f'']
      else if n = 10 then [bslash, CHR ''n'']
      else if n = 13 then [bslash, CHR ''r'']
      else if n = 9 then [bslash, CHR ''t'']
      else if n < 32 \<or> c = CHR ''<'' \<or> c = CHR ''>'' \<or> c = CHR ''&''
      then [bslash, CHR ''u'', CHR ''0'', CHR ''0'', hex_digit (n div 16), hex_digit (n mod 16)]
      else [c])"

definition line_sep :: string where "line_sep = [CHR 0xE2, CHR 0x80, CHR 0xA8]"
definition para_sep :: string where "para_sep = [CHR 0xE2, CHR 0x80, CHR 0xA9]"

function json_chars :: "string \<Rightarrow> string" where
  "json_chars [] = []"
| "json_chars (c # s) =
     (if code c < 128 then escape_ascii c @ json_chars s
      else let k = utf8_size (c # s) in
        if k = 0 then bslash # ''ufffd'' @ json_chars s
        else if take 3 (c # s) = line_sep then bslash # ''u2028'' @ json_chars (drop k (c # s))
        else if take 3 (c # s) = para_sep then bslash # ''u2029'' @ json_chars (drop k (c # s))
        else take k (c # s) @ json_chars (drop k (c # s)))"
  by pat_completeness auto
termination
  by (relation "measure length") auto

declare json_chars.simps(2) [simp del]

section \<open>Decoding a string\<close>

definition hex_val :: "char \<Rightarrow> nat option" where
  "hex_val c =
     (let n = code c in
      if 48 \<le> n \<and> n \<le> 57 then Some (n - 48)
      else if 97 \<le> n \<and> n \<le> 102 then Some (n - 87)
      else if 65 \<le> n \<and> n \<le> 70 then Some (n - 55)
      else None)"

text \<open>Four hexadecimal digits, and what follows them.\<close>

definition hex4 :: "string \<Rightarrow> (nat \<times> string) option" where
  "hex4 s =
     (case s of
        a # b # c # d # r \<Rightarrow>
          (case (hex_val a, hex_val b, hex_val c, hex_val d) of
             (Some w, Some x, Some y, Some z) \<Rightarrow> Some (4096 * w + 256 * x + 16 * y + z, r)
           | _ \<Rightarrow> None)
      | _ \<Rightarrow> None)"

definition is_surrogate :: "nat \<Rightarrow> bool" where
  "is_surrogate n = (55296 \<le> n \<and> n \<le> 57343)"

text \<open>
  A \<open>\u\<close> escape of value \<open>n\<close> with \<open>r\<close> after it: a high surrogate takes a following low one with it, and a
  surrogate on its own reads as U+FFFD.
\<close>

definition unescape_u :: "nat \<Rightarrow> string \<Rightarrow> string \<times> string" where
  "unescape_u n r =
     (if \<not> is_surrogate n then (utf8_encode n, r)
      else (case r of
              b # u # r' \<Rightarrow>
                (if b = bslash \<and> u = CHR ''u'' \<and> n \<le> 56319 then
                   (case hex4 r' of
                      Some (m, r'') \<Rightarrow>
                        (if 56320 \<le> m \<and> m \<le> 57343
                         then (utf8_encode (65536 + (n - 55296) * 1024 + (m - 56320)), r'')
                         else (replacement, r))
                    | None \<Rightarrow> (replacement, r))
                 else (replacement, r))
            | _ \<Rightarrow> (replacement, r)))"

lemma hex4_shorter: "hex4 s = Some (n, r) \<Longrightarrow> length r < length s"
  by (auto simp: hex4_def split: list.splits option.splits)

lemma unescape_u_le: "length (snd (unescape_u n r)) \<le> length r"
  by (auto simp: unescape_u_def split: list.splits option.splits dest!: hex4_shorter)

definition simple_escape :: "char \<Rightarrow> char option" where
  "simple_escape c =
     (if c = dquote \<or> c = bslash \<or> c = CHR ''/'' then Some c
      else if c = CHR ''b'' then Some (CHR 0x08)
      else if c = CHR ''f'' then Some (CHR 0x0C)
      else if c = CHR ''n'' then Some (CHR 0x0A)
      else if c = CHR ''r'' then Some (CHR 0x0D)
      else if c = CHR ''t'' then Some (CHR 0x09)
      else None)"

text \<open>
  One character or escape of a literal (with the byte \<open>c\<close> at its front, no quote): the bytes it stands
  for and the rest of the input. Then a literal after its opening quote.
\<close>

definition string_item :: "char \<Rightarrow> string \<Rightarrow> (string \<times> string) option" where
  "string_item c s =
     (if c = bslash then
        (case s of
           [] \<Rightarrow> None
         | e # s' \<Rightarrow>
             if e = CHR ''u'' then map_option (\<lambda>(n, r). unescape_u n r) (hex4 s')
             else map_option (\<lambda>b. ([b], s')) (simple_escape e))
      else if code c < 32 then None
      else if code c < 128 then Some ([c], s)
      else let k = utf8_size (c # s) in
        if k = 0 then Some (replacement, s) else Some (take k (c # s), drop k (c # s)))"

lemma string_item_le: "string_item c s = Some (b, r) \<Longrightarrow> length r \<le> length s"
proof -
  assume a: "string_item c s = Some (b, r)"
  have "length (snd (unescape_u n q)) \<le> length s'" if "hex4 s' = Some (n, q)" for s' n q
    using hex4_shorter [OF that] unescape_u_le [of n q] by simp
  moreover have "length (drop (utf8_size (c # s)) (c # s)) \<le> length s" if "utf8_size (c # s) \<noteq> 0"
    using that by simp
  ultimately show ?thesis
    using a by (auto simp: string_item_def Let_def split: if_splits list.splits) (metis le_SucI snd_conv)
qed

function json_string :: "string \<Rightarrow> (string \<times> string) option" where
  "json_string [] = None"
| "json_string (c # s) =
     (if c = dquote then Some ([], s)
      else (case string_item c s of
              None \<Rightarrow> None
            | Some (b, r) \<Rightarrow> map_option (apfst (append b)) (json_string r)))"
  by pat_completeness auto
termination by (relation "measure length") (auto dest!: string_item_le)

lemma json_string_shorter: "json_string s = Some (x, r) \<Longrightarrow> length r < length s"
  by (induction s arbitrary: x r rule: json_string.induct)
    (fastforce split: if_splits option.splits dest!: string_item_le)+

section \<open>A string read back\<close>

lemma utf8_size_take: "0 < utf8_size s \<Longrightarrow> utf8_size (take (utf8_size s) s) = utf8_size s"
  by (cases s) (auto simp: utf8_size_Cons Let_def split: list.splits if_splits)

lemma hex_val_digit: "d < 16 \<Longrightarrow> hex_val (hex_digit d) = Some d"
  by (auto simp: hex_val_def hex_digit_def Let_def)

lemma hex_val_0 [simp]: "hex_val CHR ''0'' = Some 0"
  by (simp add: hex_val_def)

lemma json_string_item:
  "c \<noteq> dquote \<Longrightarrow> string_item c s = Some (b, r) \<Longrightarrow>
   json_string (c # s) = map_option (apfst (append b)) (json_string r)"
  by simp

declare json_string.simps(2) [simp del]

lemma json_string_end [simp]: "json_string (dquote # s) = Some ([], s)"
  by (simp add: json_string.simps)

lemma json_string_simple:
  "simple_escape e = Some b \<Longrightarrow>
   json_string (bslash # e # t) = map_option (apfst (append [b])) (json_string t)"
  by (rule json_string_item) (auto simp: simple_escape_def string_item_def)

lemma json_string_plain:
  "32 \<le> code c \<Longrightarrow> code c < 128 \<Longrightarrow> c \<noteq> dquote \<Longrightarrow> c \<noteq> bslash \<Longrightarrow>
   json_string (c # t) = map_option (apfst (append [c])) (json_string t)"
  by (rule json_string_item) (auto simp: string_item_def)

lemma json_string_u:
  assumes "hex4 s = Some (n, r)" and "\<not> is_surrogate n"
  shows "json_string (bslash # CHR ''u'' # s) = map_option (apfst (append (utf8_encode n))) (json_string r)"
  using assms by (intro json_string_item) (simp_all add: string_item_def unescape_u_def)

lemma code_eqD: "code c = code d \<Longrightarrow> c = d"
  by simp

lemma code_low:
  "code c \<in> {8, 9, 10, 12, 13} \<Longrightarrow>
   c = CHR 0x08 \<or> c = CHR 0x09 \<or> c = CHR 0x0A \<or> c = CHR 0x0C \<or> c = CHR 0x0D"
  using code_eqD [of c "CHR 0x08"] code_eqD [of c "CHR 0x09"] code_eqD [of c "CHR 0x0A"]
    code_eqD [of c "CHR 0x0C"] code_eqD [of c "CHR 0x0D"]
  by (elim insertE emptyE) simp_all

lemma json_string_escape_ascii:
  assumes "code c < 128"
  shows "json_string (escape_ascii c @ t) = map_option (apfst (append [c])) (json_string t)"
proof -
  let ?h = "[bslash, CHR ''u'', CHR ''0'', CHR ''0'', hex_digit (code c div 16), hex_digit (code c mod 16)]"
  have u: "json_string (?h @ t) = map_option (apfst (append [c])) (json_string t)"
  proof -
    have "hex4 ([CHR ''0'', CHR ''0'', hex_digit (code c div 16), hex_digit (code c mod 16)] @ t) =
          Some (code c, t)"
      using assms by (simp add: hex4_def hex_val_digit)
    moreover have "utf8_encode (code c) = [c]" using assms by (simp add: utf8_encode_def)
    moreover have "\<not> is_surrogate (code c)" using assms by (simp add: is_surrogate_def)
    ultimately show ?thesis using json_string_u by simp
  qed
  consider "c = bslash \<or> c = dquote" | "code c \<in> {8, 9, 10, 12, 13}"
    | "c \<noteq> bslash \<and> c \<noteq> dquote \<and> code c \<notin> {8, 9, 10, 12, 13}" by blast
  then show ?thesis
  proof cases
    case 1
    then show ?thesis by (auto simp: escape_ascii_def simple_escape_def intro!: json_string_simple)
  next
    case 2
    then consider "c = CHR 0x08" | "c = CHR 0x09" | "c = CHR 0x0A" | "c = CHR 0x0C" | "c = CHR 0x0D"
      using code_low by blast
    then show ?thesis
      by cases (simp_all add: escape_ascii_def simple_escape_def json_string_simple)
  next
    case 3
    show ?thesis
    proof (cases "code c < 32 \<or> c = CHR ''<'' \<or> c = CHR ''>'' \<or> c = CHR ''&''")
      case True
      with 3 have "escape_ascii c = ?h" by (simp add: escape_ascii_def Let_def)
      with u show ?thesis by simp
    next
      case False
      with 3 have "escape_ascii c = [c]" by (simp add: escape_ascii_def Let_def)
      with False 3 assms show ?thesis using json_string_plain [of c t] by simp
    qed
  qed
qed

lemma json_string_multi:
  assumes "128 \<le> code c" and "0 < utf8_size (c # s)"
  shows "json_string (take (utf8_size (c # s)) (c # s) @ t) =
         map_option (apfst (append (take (utf8_size (c # s)) (c # s)))) (json_string t)"
proof -
  let ?k = "utf8_size (c # s)"
  obtain u where u: "take ?k (c # s) = c # u" using assms(2) by (cases ?k) auto
  have k: "utf8_size (c # u @ t) = ?k"
    using utf8_size_append [of "take ?k (c # s)" t] utf8_size_take [OF assms(2)] assms(2) u by simp
  have len: "length (c # u) = ?k"
    using utf8_size_le [of "c # s"] by (simp only: u [symmetric]) simp
  have "c \<noteq> dquote" "c \<noteq> bslash" using assms(1) by auto
  moreover have "take ?k (c # u @ t) = c # u" "drop ?k (c # u @ t) = t"
    by (simp_all add: len [symmetric])
  ultimately have "string_item c (u @ t) = Some (c # u, t)"
    using assms k by (simp add: string_item_def Let_def)
  with \<open>c \<noteq> dquote\<close> show ?thesis
    by (simp add: u json_string_item)
qed

lemma sep_code: "\<not> is_surrogate 8232" "\<not> is_surrogate 8233"
  by (simp_all add: is_surrogate_def)

lemma sep_text: "utf8_encode 8232 = line_sep" "utf8_encode 8233 = para_sep"
proof -
  have c: "char_of (226 :: nat) = CHR 0xE2" "char_of (128 :: nat) = CHR 0x80"
    "char_of (168 :: nat) = CHR 0xA8" "char_of (169 :: nat) = CHR 0xA9"
    by (rule code_eqD, simp)+
  show "utf8_encode 8232 = line_sep" "utf8_encode 8233 = para_sep"
    by (simp_all add: utf8_encode_def line_sep_def para_sep_def c)
qed

lemma json_chars_sep:
  "json_chars (line_sep @ r) = bslash # ''u2028'' @ json_chars r"
  "json_chars (para_sep @ r) = bslash # ''u2029'' @ json_chars r"
  by (simp_all add: line_sep_def para_sep_def json_chars.simps(2) utf8_size_Cons cont_def)

lemma json_string_sep:
  "json_string (bslash # ''u2028'' @ t) = map_option (apfst (append line_sep)) (json_string t)"
  "json_string (bslash # ''u2029'' @ t) = map_option (apfst (append para_sep)) (json_string t)"
proof -
  have "hex4 (''2028'' @ t) = Some (8232, t)" by (simp add: hex4_def hex_val_def)
  from json_string_u [OF this sep_code(1)]
  show "json_string (bslash # ''u2028'' @ t) = map_option (apfst (append line_sep)) (json_string t)"
    by (simp add: sep_text)
  have "hex4 (''2029'' @ t) = Some (8233, t)" by (simp add: hex4_def hex_val_def)
  from json_string_u [OF this sep_code(2)]
  show "json_string (bslash # ''u2029'' @ t) = map_option (apfst (append para_sep)) (json_string t)"
    by (simp add: sep_text)
qed

lemma utf8_size_sep: "utf8_size (line_sep @ r) = 3" "utf8_size (para_sep @ r) = 3"
  by (simp_all add: line_sep_def para_sep_def utf8_size_Cons cont_def)

lemma json_string_chars:
  "valid_utf8 s \<Longrightarrow> json_string (json_chars s @ dquote # t) = Some (s, t)"
proof (induction s rule: json_chars.induct)
  case 1
  show ?case by simp
next
  case (2 c s)
  show ?case
  proof (cases "code c < 128")
    case True
    with 2 have "json_string (json_chars s @ dquote # t) = Some (s, t)" by (simp add: valid_utf8_ascii)
    with True show ?thesis
      by (simp add: json_chars.simps(2) json_string_escape_ascii)
  next
    case False
    let ?k = "utf8_size (c # s)" and ?xs = "c # s"
    from "2.prems" have k: "0 < ?k" and v: "valid_utf8 (drop ?k ?xs)"
      by (simp_all only: valid_utf8_Cons)
    have IH: "json_string (json_chars (drop ?k ?xs) @ dquote # t) = Some (drop ?k ?xs, t)"
      if "take 3 ?xs = line_sep \<or> take 3 ?xs \<noteq> line_sep \<and> take 3 ?xs = para_sep \<or>
          take 3 ?xs \<noteq> line_sep \<and> take 3 ?xs \<noteq> para_sep"
      using that 2(3-5) [OF False refl] k v by auto
    consider r where "?xs = line_sep @ r" "take 3 ?xs = line_sep"
      | r where "?xs = para_sep @ r" "take 3 ?xs = para_sep" "take 3 ?xs \<noteq> line_sep"
      | "take 3 ?xs \<noteq> line_sep" "take 3 ?xs \<noteq> para_sep"
      by (metis append_take_drop_id)
    then show ?thesis
    proof cases
      case (1 r)
      moreover from 1 have "drop ?k ?xs = r" by (simp only: utf8_size_sep) (simp add: line_sep_def)
      ultimately show ?thesis using IH by (simp only: json_chars_sep) (use json_string_sep(1) in simp)
    next
      case (2 r)
      moreover from 2 have "drop ?k ?xs = r" by (simp only: utf8_size_sep) (simp add: para_sep_def)
      ultimately show ?thesis using IH by (simp only: json_chars_sep) (use json_string_sep(2) in simp)
    next
      case 3
      with IH k False show ?thesis
        using json_string_multi [of c s "json_chars (drop ?k ?xs) @ dquote # t"]
        by (simp add: json_chars.simps(2) Let_def del: take.simps)
    qed
  qed
qed

end
