(* ===== verification/JsonValue.thy ===== *)
theory JsonValue
  imports Json
begin

text \<open>
  \<open>encoding/json\<close> on whole values: the text \<open>json.Marshal\<close> writes, the grammar \<open>json.Unmarshal\<close> and
  \<open>json.Decoder\<close> read, and the way a decoded object is stored into a struct, field by field, with Go's
  rules for field names, \<open>null\<close> and values of another type. Nesting deeper than 10,000 levels, which the
  library refuses, is the one input treated differently here.
\<close>

section \<open>Values and their text\<close>

datatype json =
    JNull
  | JBool bool
  | JNum string
  | JStr string
  | JArr "json list"
  | JObj "(string \<times> json) list"

definition quoted :: "string \<Rightarrow> string" where
  "quoted s = dquote # json_chars s @ [dquote]"

fun json_text :: "json \<Rightarrow> string" and elems_text :: "json list \<Rightarrow> string"
  and members_text :: "(string \<times> json) list \<Rightarrow> string" where
  "json_text JNull = ''null''"
| "json_text (JBool b) = (if b then ''true'' else ''false'')"
| "json_text (JNum n) = n"
| "json_text (JStr s) = quoted s"
| "json_text (JArr []) = ''[]''"
| "json_text (JArr (v # vs)) = ''['' @ elems_text (v # vs)"
| "json_text (JObj []) = ''{}''"
| "json_text (JObj (m # ms)) = ''{'' @ members_text (m # ms)"
| "elems_text [] = []"
| "elems_text (v # vs) = json_text v @ (if vs = [] then '']'' else '','' @ elems_text vs)"
| "members_text [] = []"
| "members_text ((k, v) # ms) =
     quoted k @ '':'' @ json_text v @ (if ms = [] then ''}'' else '','' @ members_text ms)"

section \<open>Reading a value\<close>

definition is_ws :: "char \<Rightarrow> bool" where
  "is_ws c = (c = CHR 0x20 \<or> c = CHR 0x09 \<or> c = CHR 0x0D \<or> c = CHR 0x0A)"

definition skip_ws :: "string \<Rightarrow> string" where
  "skip_ws s = dropWhile is_ws s"

definition expect :: "char \<Rightarrow> string \<Rightarrow> string option" where
  "expect c s = (case skip_ws s of [] \<Rightarrow> None | x # r \<Rightarrow> if x = c then Some r else None)"

definition literal :: "string \<Rightarrow> json \<Rightarrow> string \<Rightarrow> (json \<times> string) option" where
  "literal w v s = (if HasPrefix s w then Some (v, drop (length w) s) else None)"

text \<open>Numbers: an integer part without superfluous zeros, then an optional fraction and exponent.\<close>

definition starts_digit :: "string \<Rightarrow> bool" where
  "starts_digit s = (s \<noteq> [] \<and> is_digit (hd s))"

definition span_digits :: "string \<Rightarrow> string \<times> string" where
  "span_digits s = (takeWhile is_digit s, dropWhile is_digit s)"

definition lex_int :: "string \<Rightarrow> (string \<times> string) option" where
  "lex_int s =
     (if \<not> starts_digit s then None
      else if hd s = CHR ''0'' then Some ([hd s], tl s)
      else Some (span_digits s))"

definition lex_frac :: "string \<Rightarrow> (string \<times> string) option" where
  "lex_frac s =
     (if s \<noteq> [] \<and> hd s = CHR ''.''
      then if starts_digit (tl s) then Some (apfst (Cons (hd s)) (span_digits (tl s))) else None
      else Some ([], s))"

definition lex_exp :: "string \<Rightarrow> (string \<times> string) option" where
  "lex_exp s =
     (if s \<noteq> [] \<and> (hd s = CHR ''e'' \<or> hd s = CHR ''E'')
      then let sgn = (if tl s \<noteq> [] \<and> (hd (tl s) = CHR ''+'' \<or> hd (tl s) = CHR ''-'') then [hd (tl s)] else []);
               t = drop (length sgn) (tl s)
           in if starts_digit t then Some (apfst (\<lambda>d. hd s # sgn @ d) (span_digits t)) else None
      else Some ([], s))"

definition lex_number :: "string \<Rightarrow> (string \<times> string) option" where
  "lex_number s =
     (let sgn = (if s \<noteq> [] \<and> hd s = CHR ''-'' then ''-'' else []) in
      case lex_int (drop (length sgn) s) of
        None \<Rightarrow> None
      | Some (i, r) \<Rightarrow>
          (case lex_frac r of
             None \<Rightarrow> None
           | Some (f, r') \<Rightarrow>
               (case lex_exp r' of
                  None \<Rightarrow> None
                | Some (e, r'') \<Rightarrow> Some (sgn @ i @ f @ e, r''))))"

text \<open>
  The first argument bounds the depth of calls. An input of \<open>n\<close> bytes never needs more than
  \<open>2 * n + 2\<close> (lemma \<open>fuel_enough\<close>), which is what \<open>read_value\<close> and the two readers beside it start with.
\<close>

fun parse_value :: "nat \<Rightarrow> string \<Rightarrow> (json \<times> string) option"
  and parse_elems :: "nat \<Rightarrow> string \<Rightarrow> (json list \<times> string) option"
  and parse_members :: "nat \<Rightarrow> string \<Rightarrow> ((string \<times> json) list \<times> string) option" where
  "parse_value 0 s = None"
| "parse_value (Suc f) s =
     (case skip_ws s of
        [] \<Rightarrow> None
      | c # t \<Rightarrow>
          if c = dquote then map_option (apfst JStr) (json_string t)
          else if c = CHR ''{'' then
            (case expect (CHR ''}'') t of
               Some r \<Rightarrow> Some (JObj [], r)
             | None \<Rightarrow> map_option (apfst JObj) (parse_members f t))
          else if c = CHR ''['' then
            (case expect (CHR '']'') t of
               Some r \<Rightarrow> Some (JArr [], r)
             | None \<Rightarrow> map_option (apfst JArr) (parse_elems f t))
          else if c = CHR ''t'' then literal ''rue'' (JBool True) t
          else if c = CHR ''f'' then literal ''alse'' (JBool False) t
          else if c = CHR ''n'' then literal ''ull'' JNull t
          else map_option (apfst JNum) (lex_number (c # t)))"
| "parse_elems 0 s = None"
| "parse_elems (Suc f) s =
     (case parse_value f s of
        None \<Rightarrow> None
      | Some (v, r) \<Rightarrow>
          (case expect (CHR '','') r of
             Some r' \<Rightarrow> map_option (apfst (Cons v)) (parse_elems f r')
           | None \<Rightarrow> map_option (Pair [v]) (expect (CHR '']'') r)))"
| "parse_members 0 s = None"
| "parse_members (Suc f) s =
     (case expect dquote s of
        None \<Rightarrow> None
      | Some t \<Rightarrow>
          (case json_string t of
             None \<Rightarrow> None
           | Some (k, r) \<Rightarrow>
               (case expect (CHR '':'') r of
                  None \<Rightarrow> None
                | Some r' \<Rightarrow>
                    (case parse_value f r' of
                       None \<Rightarrow> None
                     | Some (v, q) \<Rightarrow>
                         (case expect (CHR '','') q of
                            Some q' \<Rightarrow> map_option (apfst (Cons (k, v))) (parse_members f q')
                          | None \<Rightarrow> map_option (Pair [(k, v)]) (expect (CHR ''}'') q))))))"

definition read_value :: "string \<Rightarrow> (json \<times> string) option" where
  "read_value s = parse_value (2 * length s + 2) s"

definition read_elems :: "string \<Rightarrow> (json list \<times> string) option" where
  "read_elems s = parse_elems (2 * length s + 2) s"

definition read_members :: "string \<Rightarrow> ((string \<times> json) list \<times> string) option" where
  "read_members s = parse_members (2 * length s + 2) s"

text \<open>
  \<open>json.Decoder.Decode\<close> takes the first value of its input; \<open>json.Unmarshal\<close> also refuses an input with
  anything but white space after it.
\<close>

definition json_first :: "string \<Rightarrow> json option" where
  "json_first s = map_option fst (read_value s)"

definition json_parse :: "string \<Rightarrow> json option" where
  "json_parse s =
     (case read_value s of
        None \<Rightarrow> None
      | Some (v, r) \<Rightarrow> if skip_ws r = [] then Some v else None)"

section \<open>Storing into a struct\<close>

text \<open>
  Field names match exactly or, failing that, with Go's \<open>foldName\<close>: letters of the ASCII range in either
  case, and the two other code points that fold to ASCII letters (the Kelvin sign and the long s).
\<close>

definition upper_byte :: "char \<Rightarrow> char" where
  "upper_byte c =
     (let n = (of_char c :: nat) in if 97 \<le> n \<and> n \<le> 122 then char_of (n - 32) else c)"

function fold_name :: "string \<Rightarrow> string" where
  "fold_name s =
     (if s = [] then []
      else if take 3 s = [CHR 0xE2, CHR 0x84, CHR 0xAA] then CHR ''K'' # fold_name (drop 3 s)
      else if take 2 s = [CHR 0xC5, CHR 0xBF] then CHR ''S'' # fold_name (drop 2 s)
      else upper_byte (hd s) # fold_name (tl s))"
  by pat_completeness auto
termination by (relation "measure length") auto

declare fold_name.simps [simp del]

text \<open>
  A setter stores a decoded value and tells whether it had the field's type; a value of another type
  leaves the field as it is and makes \<open>Unmarshal\<close> return an error at the end, and \<open>null\<close> does nothing.
\<close>

type_synonym 'a field = "string \<times> (json \<Rightarrow> 'a \<Rightarrow> 'a \<times> bool)"

definition set_string :: "(string \<Rightarrow> 'a \<Rightarrow> 'a) \<Rightarrow> json \<Rightarrow> 'a \<Rightarrow> 'a \<times> bool" where
  "set_string upd v x =
     (case v of JNull \<Rightarrow> (x, True) | JStr s \<Rightarrow> (upd s x, True) | _ \<Rightarrow> (x, False))"

definition set_bool :: "(bool \<Rightarrow> 'a \<Rightarrow> 'a) \<Rightarrow> json \<Rightarrow> 'a \<Rightarrow> 'a \<times> bool" where
  "set_bool upd v x =
     (case v of JNull \<Rightarrow> (x, True) | JBool b \<Rightarrow> (upd b x, True) | _ \<Rightarrow> (x, False))"

definition set_int64 :: "(int \<Rightarrow> 'a \<Rightarrow> 'a) \<Rightarrow> json \<Rightarrow> 'a \<Rightarrow> 'a \<times> bool" where
  "set_int64 upd v x =
     (case v of
        JNull \<Rightarrow> (x, True)
      | JNum n \<Rightarrow> (case ParseInt n of (i, None) \<Rightarrow> (upd i x, True) | _ \<Rightarrow> (x, False))
      | _ \<Rightarrow> (x, False))"

definition find_field :: "'a field list \<Rightarrow> string \<Rightarrow> 'a field option" where
  "find_field fs k =
     (case find (\<lambda>f. fst f = k) fs of
        Some f \<Rightarrow> Some f
      | None \<Rightarrow> find (\<lambda>f. fold_name (fst f) = fold_name k) fs)"

fun store_members :: "'a field list \<Rightarrow> (string \<times> json) list \<Rightarrow> 'a \<Rightarrow> 'a \<times> bool" where
  "store_members fs [] x = (x, True)"
| "store_members fs ((k, v) # ms) x =
     (case find_field fs k of
        None \<Rightarrow> store_members fs ms x
      | Some f \<Rightarrow>
          (case snd f v x of
             (y, ok) \<Rightarrow> (case store_members fs ms y of (z, ok') \<Rightarrow> (z, ok \<and> ok'))))"

definition store_struct :: "'a field list \<Rightarrow> json \<Rightarrow> 'a \<Rightarrow> 'a \<times> bool" where
  "store_struct fs v x =
     (case v of JNull \<Rightarrow> (x, True) | JObj ms \<Rightarrow> store_members fs ms x | _ \<Rightarrow> (x, False))"

text \<open>A struct field of a struct.\<close>

definition set_struct :: "('a \<Rightarrow> 'b) \<Rightarrow> ('b \<Rightarrow> 'a \<Rightarrow> 'a) \<Rightarrow> 'b field list \<Rightarrow> json \<Rightarrow> 'a \<Rightarrow> 'a \<times> bool" where
  "set_struct get upd fs v x = (case store_struct fs v (get x) of (y, ok) \<Rightarrow> (upd y x, ok))"

definition Unmarshal :: "'a field list \<Rightarrow> 'a \<Rightarrow> string \<Rightarrow> 'a option" where
  "Unmarshal fs zero s =
     (case json_parse s of
        None \<Rightarrow> None
      | Some v \<Rightarrow> (case store_struct fs v zero of (x, ok) \<Rightarrow> if ok then Some x else None))"

definition Decode :: "'a field list \<Rightarrow> 'a \<Rightarrow> string \<Rightarrow> 'a option" where
  "Decode fs zero s =
     (case json_first s of
        None \<Rightarrow> None
      | Some v \<Rightarrow> (case store_struct fs v zero of (x, ok) \<Rightarrow> if ok then Some x else None))"

section \<open>The fuel is enough\<close>

lemma skip_ws_le: "length (skip_ws s) \<le> length s"
  by (simp add: skip_ws_def length_dropWhile_le)

lemma expect_shorter: "expect c s = Some r \<Longrightarrow> length r < length s"
  using skip_ws_le [of s] by (auto simp: expect_def split: list.splits if_splits)

lemma span_digits_le: "length (snd (span_digits s)) \<le> length s"
  by (simp add: span_digits_def length_dropWhile_le)

lemma span_digits_shorter: "starts_digit s \<Longrightarrow> length (snd (span_digits s)) < length s"
  by (cases s) (auto simp: span_digits_def starts_digit_def le_imp_less_Suc length_dropWhile_le)

lemma apfst_eq: "apfst f p = (i, r) \<longleftrightarrow> i = f (fst p) \<and> r = snd p"
  by (cases p) auto

lemma lex_int_shorter: "lex_int s = Some (i, r) \<Longrightarrow> length r < length s"
  using span_digits_shorter [of s] by (cases s) (auto simp: lex_int_def starts_digit_def split: if_splits)

lemma lex_frac_le: "lex_frac s = Some (i, r) \<Longrightarrow> length r \<le> length s"
  using span_digits_le [of "tl s"] by (cases s) (auto simp: lex_frac_def apfst_eq split: if_splits)

lemma lex_exp_le:
  assumes "lex_exp s = Some (i, r)"
  shows "length r \<le> length s"
proof -
  have "length (snd (span_digits (drop n (tl s)))) \<le> length s" for n
    using span_digits_le [of "drop n (tl s)"] by simp
  from this [of 0] this [of 1] assms show ?thesis
    by (simp only: lex_exp_def Let_def split: if_splits) (auto simp: apfst_eq)
qed

lemma lex_number_shorter:
  assumes "lex_number s = Some (n, r)"
  shows "length r < length s"
proof -
  obtain k i p f q e where "lex_int (drop k s) = Some (i, p)" "lex_frac p = Some (f, q)"
    "lex_exp q = Some (e, r)"
    using assms by (auto simp: lex_number_def Let_def split: option.splits)
  from lex_int_shorter [OF this(1)] lex_frac_le [OF this(2)] lex_exp_le [OF this(3)]
  show ?thesis by simp
qed

lemma literal_le: "literal w v s = Some (x, r) \<Longrightarrow> length r \<le> length s"
  by (auto simp: literal_def split: if_splits)

lemma parse_shorter:
  "parse_value f s = Some (v, r) \<Longrightarrow> length r < length s"
  "parse_elems f s = Some (vs, r) \<Longrightarrow> length r < length s"
  "parse_members f s = Some (ms, r) \<Longrightarrow> length r < length s"
proof (induction f s and f s and f s arbitrary: v r and vs r and ms r
    rule: parse_value_parse_elems_parse_members.induct)
  case (2 f s)
  show ?case
  proof (cases "skip_ws s")
    case Nil
    with 2 show ?thesis by simp
  next
    case (Cons c t)
    with skip_ws_le [of s] have t: "length t < length s" by simp
    with 2 Cons show ?thesis
      by (auto simp: apfst_eq split: if_splits option.splits
          dest!: json_string_shorter expect_shorter literal_le lex_number_shorter; fastforce)
  qed
next
  case (4 f s)
  from "4.prems" obtain v q where v: "parse_value f s = Some (v, q)" by (auto split: option.splits)
  with "4.IH"(1) have "length q < length s" by blast
  with "4.prems" v "4.IH"(2) [of "(v, q)" v q] show ?case
    by (auto simp: apfst_eq split: option.splits dest!: expect_shorter) fastforce
next
  case (6 f s)
  from "6.prems" obtain k a b c v q
    where *: "expect dquote s = Some a" "json_string a = Some (k, b)" "expect (CHR '':'') b = Some c"
      "parse_value f c = Some (v, q)"
    by (auto split: option.splits)
  then have q: "length q < length s"
    using "6.IH"(1) [of a "(k, b)" k b c v q]
    by (auto dest!: expect_shorter json_string_shorter)
  from "6.prems" * q "6.IH"(2) [of a "(k, b)" k b c "(v, q)" v q] show ?case
    by (auto simp: apfst_eq split: option.splits dest!: expect_shorter) fastforce
qed simp_all

lemma fuel_any:
  "2 * length s + 1 \<le> f \<Longrightarrow> 2 * length s + 1 \<le> g \<Longrightarrow> parse_value f s = parse_value g s"
  "2 * length s + 2 \<le> f \<Longrightarrow> 2 * length s + 2 \<le> g \<Longrightarrow> parse_elems f s = parse_elems g s"
  "2 * length s + 2 \<le> f \<Longrightarrow> 2 * length s + 2 \<le> g \<Longrightarrow> parse_members f s = parse_members g s"
proof (induction f s and f s and f s arbitrary: g and g and g
    rule: parse_value_parse_elems_parse_members.induct)
  case (2 f s)
  from "2.prems" obtain h where g: "g = Suc h" by (cases g) auto
  show ?case
  proof (cases "skip_ws s")
    case Nil
    with g show ?thesis by simp
  next
    case (Cons c t)
    with skip_ws_le [of s] have "length t < length s" by simp
    with "2.prems" g have l: "2 * length t + 2 \<le> f" "2 * length t + 2 \<le> h" by auto
    have m: "parse_members f t = parse_members h t"
      if "c \<noteq> dquote" "c = CHR ''{''" "expect (CHR ''}'') t = None"
      using "2.IH"(1) [OF Cons that l] .
    have e: "parse_elems f t = parse_elems h t"
      if "c \<noteq> dquote" "c \<noteq> CHR ''{''" "c = CHR ''[''" "expect (CHR '']'') t = None"
      using "2.IH"(2) [OF Cons that l] .
    consider "c = dquote" | "c \<noteq> dquote" "c = CHR ''{''" | "c \<noteq> dquote" "c \<noteq> CHR ''{''" "c = CHR ''[''"
      | "c \<noteq> dquote" "c \<noteq> CHR ''{''" "c \<noteq> CHR ''[''" by blast
    then show ?thesis
    proof cases
      case 1
      then show ?thesis by (simp add: g Cons)
    next
      case 2
      from m [OF 2] show ?thesis by (cases "expect (CHR ''}'') t") (simp_all add: g Cons 2)
    next
      case 3
      from e [OF 3] show ?thesis by (cases "expect (CHR '']'') t") (simp_all add: g Cons 3)
    next
      case 4
      then show ?thesis by (simp only: g Cons parse_value.simps list.case if_False)
    qed
  qed
next
  case (4 f s)
  from "4.prems" obtain h where g: "g = Suc h" by (cases g) auto
  from "4.prems" g have v: "parse_value f s = parse_value h s" using "4.IH"(1) [of h] by simp
  have "parse_elems f q' = parse_elems h q'"
    if *: "parse_value f s = Some (x, q)" "expect (CHR '','') q = Some q'" for x q q'
  proof -
    from parse_shorter(1) [OF *(1)] expect_shorter [OF *(2)] have "length q' + 2 \<le> length s" by simp
    with "4.prems" g show ?thesis using "4.IH"(2) [OF *(1) refl *(2), of h] by simp
  qed
  with v g show ?case by (auto split: option.splits)
next
  case (6 f s)
  from "6.prems" obtain h where g: "g = Suc h" by (cases g) auto
  have v: "parse_value f c = parse_value h c"
    if *: "expect dquote s = Some a" "json_string a = Some (k, b)" "expect (CHR '':'') b = Some c"
    for a k b c
  proof -
    from expect_shorter [OF *(1)] json_string_shorter [OF *(2)] expect_shorter [OF *(3)]
    have "length c + 3 \<le> length s" by simp
    with "6.prems" g show ?thesis using "6.IH"(1) [OF *(1,2) refl *(3), of h] by simp
  qed
  have "parse_members f q' = parse_members h q'"
    if *: "expect dquote s = Some a" "json_string a = Some (k, b)" "expect (CHR '':'') b = Some c"
      "parse_value f c = Some (x, q)" "expect (CHR '','') q = Some q'" for a k b c x q q'
  proof -
    from expect_shorter [OF *(1)] json_string_shorter [OF *(2)] expect_shorter [OF *(3)]
      parse_shorter(1) [OF *(4)] expect_shorter [OF *(5)]
    have "length q' + 5 \<le> length s" by simp
    with "6.prems" g show ?thesis using "6.IH"(2) [OF *(1,2) refl *(3,4) refl *(5), of h] by simp
  qed
  with v g show ?case by (auto split: option.splits)
qed auto

lemma fuel_enough:
  "2 * length s + 2 \<le> f \<Longrightarrow> parse_value f s = read_value s"
  "2 * length s + 2 \<le> f \<Longrightarrow> parse_elems f s = read_elems s"
  "2 * length s + 2 \<le> f \<Longrightarrow> parse_members f s = read_members s"
  unfolding read_value_def read_elems_def read_members_def by (rule fuel_any; simp)+

section \<open>The readers without fuel\<close>

lemma skip_ws_Cons [simp]: "\<not> is_ws c \<Longrightarrow> skip_ws (c # s) = c # s"
  by (simp add: skip_ws_def)

lemma expect_Cons: "\<not> is_ws d \<Longrightarrow> expect c (d # s) = (if d = c then Some s else None)"
  by (simp add: expect_def)

lemma read_string: "read_value (dquote # s) = map_option (apfst JStr) (json_string s)"
  by (simp add: read_value_def is_ws_def)

lemma read_object:
  "read_value (CHR ''{'' # t) =
   (case expect (CHR ''}'') t of
      Some r \<Rightarrow> Some (JObj [], r) | None \<Rightarrow> map_option (apfst JObj) (read_members t))"
proof -
  have n: "2 * length (CHR ''{'' # t) + 2 = Suc (2 * length t + 3)" by simp
  show ?thesis unfolding read_value_def n parse_value.simps(2)
    by (simp add: is_ws_def fuel_enough(3) split: option.split)
qed

lemma read_array:
  "read_value (CHR ''['' # t) =
   (case expect (CHR '']'') t of
      Some r \<Rightarrow> Some (JArr [], r) | None \<Rightarrow> map_option (apfst JArr) (read_elems t))"
proof -
  have n: "2 * length (CHR ''['' # t) + 2 = Suc (2 * length t + 3)" by simp
  show ?thesis unfolding read_value_def n parse_value.simps(2)
    by (simp add: is_ws_def fuel_enough(2) split: option.split)
qed

lemma read_literal:
  "read_value (CHR ''t'' # t) = literal ''rue'' (JBool True) t"
  "read_value (CHR ''f'' # t) = literal ''alse'' (JBool False) t"
  "read_value (CHR ''n'' # t) = literal ''ull'' JNull t"
  by (simp_all add: read_value_def is_ws_def)

lemma read_number:
  "is_digit c \<or> c = CHR ''-'' \<Longrightarrow> read_value (c # t) = map_option (apfst JNum) (lex_number (c # t))"
proof -
  assume "is_digit c \<or> c = CHR ''-''"
  then have "\<not> is_ws c" "c \<noteq> dquote" "c \<noteq> CHR ''{''" "c \<noteq> CHR ''[''" "c \<noteq> CHR ''t''"
    "c \<noteq> CHR ''f''" "c \<noteq> CHR ''n''"
    by (auto simp: is_ws_def is_digit_def)
  then show ?thesis by (simp add: read_value_def)
qed

lemma read_elems_step:
  assumes "read_value s = Some (v, r)"
  shows "read_elems s =
    (case expect (CHR '','') r of
       Some r' \<Rightarrow> map_option (apfst (Cons v)) (read_elems r')
     | None \<Rightarrow> map_option (Pair [v]) (expect (CHR '']'') r))"
proof -
  define f where "f = 2 * length s + 1"
  have n: "2 * length s + 2 = Suc f" by (simp add: f_def)
  have v: "parse_value f s = Some (v, r)"
    using assms fuel_any(1) [of s f "2 * length s + 2"] by (simp add: read_value_def f_def)
  have "parse_elems f r' = read_elems r'" if "expect (CHR '','') r = Some r'" for r'
    using fuel_enough(2) [of r' f] parse_shorter(1) [OF v] expect_shorter [OF that] by (simp add: f_def)
  with v show ?thesis unfolding read_elems_def n
    by (simp split: option.split)
qed

lemma read_members_step:
  assumes k: "json_string t = Some (k, CHR '':'' # r)" and x: "read_value r = Some (v, q)"
  shows "read_members (dquote # t) =
    (case expect (CHR '','') q of
       Some q' \<Rightarrow> map_option (apfst (Cons (k, v))) (read_members q')
     | None \<Rightarrow> map_option (Pair [(k, v)]) (expect (CHR ''}'') q))"
proof -
  define f where "f = 2 * length t + 3"
  have n: "2 * length (dquote # t) + 2 = Suc f" by (simp add: f_def)
  have l: "length r < length t" using json_string_shorter [OF k] by simp
  have v: "parse_value f r = Some (v, q)" using x fuel_enough(1) [of r f] l by (simp add: f_def)
  have "parse_members f q' = read_members q'" if "expect (CHR '','') q = Some q'" for q'
    using fuel_enough(3) [of q' f] parse_shorter(1) [OF v] expect_shorter [OF that] l by (simp add: f_def)
  with v k show ?thesis unfolding read_members_def n
    by (simp add: expect_Cons is_ws_def split: option.split)
qed

section \<open>A value read back\<close>

text \<open>The range of an \<open>int64\<close>.\<close>

definition int64 :: "int \<Rightarrow> bool" where
  "int64 i = (min_int64 \<le> i \<and> i \<le> max_int64)"

text \<open>
  The values the program writes: strings of valid UTF-8 and decimal integers of 64 bits. After a number
  the input must not go on with a character that could belong to it.
\<close>

definition stops :: "string \<Rightarrow> bool" where
  "stops r = (r = [] \<or> (\<not> is_digit (hd r) \<and> hd r \<noteq> CHR ''.'' \<and> hd r \<noteq> CHR ''e'' \<and> hd r \<noteq> CHR ''E''))"

fun wf_json :: "json \<Rightarrow> bool" and wf_elems :: "json list \<Rightarrow> bool"
  and wf_members :: "(string \<times> json) list \<Rightarrow> bool" where
  "wf_json (JNum n) = (n = itoa (fst (ParseInt n)))"
| "wf_json (JStr s) = valid_utf8 s"
| "wf_json (JArr vs) = wf_elems vs"
| "wf_json (JObj ms) = wf_members ms"
| "wf_json _ = True"
| "wf_elems [] = True"
| "wf_elems (v # vs) = (wf_json v \<and> wf_elems vs)"
| "wf_members [] = True"
| "wf_members ((k, v) # ms) = (valid_utf8 k \<and> wf_json v \<and> wf_members ms)"

lemma digits_hd: "is_digit (hd (digits n))"
  using digits_are_digits [of "hd (digits n)" n] by simp

lemma digit_0: "digit 0 = CHR ''0''"
  by (rule code_eqD) simp

lemma digits_zero: "hd (digits n) = CHR ''0'' \<Longrightarrow> n = 0"
proof (induction n rule: digits.induct)
  case (1 n)
  show ?case
  proof (cases "n < 10")
    case True
    with "1.prems" have "digit n = digit 0" by (simp add: digits.simps [of n] digit_0)
    with True show ?thesis by (simp add: digit_inj)
  next
    case False
    with "1.prems" have "hd (digits (n div 10)) = CHR ''0''" by (simp add: digits.simps [of n])
    with 1 False show ?thesis by simp
  qed
qed

lemma digits_0: "digits 0 = ''0''"
  by (simp add: digits.simps digit_0)

lemma span_digits_append:
  "(\<And>c. c \<in> set d \<Longrightarrow> is_digit c) \<Longrightarrow> stops r \<Longrightarrow> span_digits (d @ r) = (d, r)"
  by (cases r) (auto simp: span_digits_def stops_def)

lemma lex_int_digits: "stops r \<Longrightarrow> lex_int (digits n @ r) = Some (digits n, r)"
  using span_digits_append [of "digits n" r, OF digits_are_digits] digits_hd [of n]
  by (cases "n = 0") (auto simp: lex_int_def starts_digit_def digits_0 hd_append dest: digits_zero)

lemma lex_stops: "stops r \<Longrightarrow> lex_frac r = Some ([], r)" "stops r \<Longrightarrow> lex_exp r = Some ([], r)"
  by (auto simp: lex_frac_def lex_exp_def stops_def)

lemma digits_not_minus: "hd (digits n @ r) \<noteq> CHR ''-''"
  using digits_hd [of n] by (auto simp: hd_append)

lemma lex_number_itoa: "stops r \<Longrightarrow> lex_number (itoa n @ r) = Some (itoa n, r)"
  using digits_not_minus [of "nat n" r]
  by (auto simp: lex_number_def itoa_def lex_int_digits lex_stops)

lemma read_itoa: "stops r \<Longrightarrow> read_value (itoa n @ r) = Some (JNum (itoa n), r)"
proof -
  assume r: "stops r"
  obtain c t where c: "itoa n = c # t" "is_digit c \<or> c = CHR ''-''"
    using digits_hd [of "nat n"] by (cases "n < 0"; cases "digits (nat n)") (auto simp: itoa_def)
  with r lex_number_itoa [of r n] show ?thesis by (simp add: read_number)
qed

lemma stops_delim: "stops (CHR '','' # r)" "stops (CHR '']'' # r)" "stops (CHR ''}'' # r)" "stops []"
  by (simp_all add: stops_def is_digit_def)

lemma delim_not_ws [simp]:
  "\<not> is_ws dquote" "\<not> is_ws CHR '',''" "\<not> is_ws CHR '':''" "\<not> is_ws CHR '']''" "\<not> is_ws CHR ''}''"
  by (simp_all add: is_ws_def)

lemma json_text_hd:
  assumes "wf_json v"
  obtains c t where "json_text v = c # t" "\<not> is_ws c" "c \<noteq> CHR '']''"
proof (cases v)
  case (JNum n)
  with assms have n: "n = itoa (fst (ParseInt n))" by simp
  show ?thesis
  proof (cases "itoa (fst (ParseInt n))")
    case Nil
    then show ?thesis by (simp add: itoa_def split: if_splits)
  next
    case (Cons c t)
    have "is_digit c \<or> c = CHR ''-''"
      using Cons digits_hd by (auto simp: itoa_def split: if_splits) (metis list.sel(1))
    then have "\<not> is_ws c" "c \<noteq> CHR '']''" by (auto simp: is_ws_def is_digit_def)
    with Cons n JNum show ?thesis using that by (metis json_text.simps(3))
  qed
next
  case (JBool b)
  then show ?thesis using that by (cases b) (auto simp: is_ws_def)
next
  case (JArr vs)
  then show ?thesis using that by (cases vs) (auto simp: is_ws_def)
next
  case (JObj ms)
  then show ?thesis using that by (cases ms) (auto simp: is_ws_def)
qed (use that in \<open>auto simp: quoted_def is_ws_def split: if_splits\<close>)

lemma read_text:
  "wf_json v \<Longrightarrow> stops r \<Longrightarrow> read_value (json_text v @ r) = Some (v, r)"
  "wf_elems vs \<Longrightarrow> vs \<noteq> [] \<Longrightarrow> read_elems (elems_text vs @ r) = Some (vs, r)"
  "wf_members ms \<Longrightarrow> ms \<noteq> [] \<Longrightarrow> read_members (members_text ms @ r) = Some (ms, r)"
proof (induction v and vs and ms arbitrary: r and r and r rule: json_text_elems_text_members_text.induct)
  case (3 n)
  then show ?case using read_itoa by (metis json_text.simps(3) wf_json.simps(1))
next
  case (4 s)
  then show ?case by (simp add: quoted_def read_string json_string_chars)
next
  case (6 v vs)
  from 6(2) have "wf_json v" by simp
  then obtain c t where "json_text v = c # t" "\<not> is_ws c" "c \<noteq> CHR '']''" by (rule json_text_hd)
  then have "expect (CHR '']'') (elems_text (v # vs) @ r) = None" by (simp add: expect_Cons)
  with 6 show ?case by (simp add: read_array del: elems_text.simps)
next
  case (8 m ms)
  have "expect (CHR ''}'') (members_text (m # ms) @ r) = None"
    by (cases m) (simp add: expect_Cons quoted_def)
  with 8 show ?case by (simp add: read_object del: members_text.simps)
next
  case (10 v vs)
  show ?case
  proof (cases "vs = []")
    case True
    with 10 have "read_value (json_text v @ '']'' @ r) = Some (v, '']'' @ r)" by (simp add: stops_delim)
    from read_elems_step [OF this] True show ?thesis by (simp add: expect_Cons)
  next
    case False
    with 10 have "read_value (json_text v @ '','' @ elems_text vs @ r) = Some (v, '','' @ elems_text vs @ r)"
      by (simp add: stops_delim)
    from read_elems_step [OF this] False 10 show ?thesis by (simp add: expect_Cons)
  qed
next
  case (12 k v ms)
  let ?t = "json_text v @ (if ms = [] then ''}'' else '','' @ members_text ms) @ r"
  from "12.prems" have k: "json_string (json_chars k @ dquote # CHR '':'' # ?t) = Some (k, CHR '':'' # ?t)"
    by (simp add: json_string_chars)
  show ?case
  proof (cases "ms = []")
    case True
    with 12 have v: "read_value ?t = Some (v, ''}'' @ r)" by (simp add: stops_delim)
    from read_members_step [OF k v] True show ?thesis by (simp add: quoted_def expect_Cons)
  next
    case False
    with 12 have v: "read_value ?t = Some (v, '','' @ members_text ms @ r)" by (simp add: stops_delim)
    from read_members_step [OF k v] False 12 show ?thesis by (simp add: quoted_def expect_Cons)
  qed
qed (simp_all add: read_literal read_array read_object literal_def expect_Cons)

lemma json_parse_text: "wf_json v \<Longrightarrow> json_parse (json_text v) = Some v"
  using read_text(1) [of v "[]"] by (simp add: json_parse_def stops_delim skip_ws_def)

lemma json_first_text: "wf_json v \<Longrightarrow> json_first (json_text v @ [CHR 0x0A]) = Some v"
  using read_text(1) [of v "[CHR 0x0A]"] by (simp add: json_first_def stops_def is_digit_def)

lemma int64_json: "int64 n \<Longrightarrow> fst (ParseInt (itoa n)) = n"
  by (simp add: int64_def ParseInt_itoa)

lemma set_int64_itoa: "int64 i \<Longrightarrow> set_int64 upd (JNum (itoa i)) x = (upd i x, True)"
  by (simp add: set_int64_def int64_def ParseInt_itoa)

lemma set_string_JStr: "set_string upd (JStr s) x = (upd s x, True)"
  by (simp add: set_string_def)

lemma set_bool_JBool: "set_bool upd (JBool b) x = (upd b x, True)"
  by (simp add: set_bool_def)

lemmas store_simps = set_int64_itoa set_string_JStr set_bool_JBool

lemma Unmarshal_text:
  "wf_json (JObj ms) \<Longrightarrow>
   Unmarshal fs zero (json_text (JObj ms)) =
     (case store_members fs ms zero of (x, ok) \<Rightarrow> if ok then Some x else None)"
  unfolding Unmarshal_def by (simp only: json_parse_text option.case store_struct_def json.case)

lemma Decode_text:
  "wf_json (JObj ms) \<Longrightarrow>
   Decode fs zero (json_text (JObj ms) @ [CHR 0x0A]) =
     (case store_members fs ms zero of (x, ok) \<Rightarrow> if ok then Some x else None)"
  unfolding Decode_def by (simp only: json_first_text option.case store_struct_def json.case)

end
