(* ===== verification/Errors.thy ===== *)
theory Errors
  imports GoNum
begin

text \<open>
  The error values of the program: one constructor per \<open>fmt.Errorf\<close> or \<open>errors\<close> site the modelled
  functions reach, wrapping the cause where the code uses \<open>%w\<close>, and \<open>Error\<close>, the text \<open>err.Error()\<close>
  gives, which the consumer stores in the run log and sends to the notification channels.
\<close>

datatype go_error =
    SqlUnique string                    \<comment> \<open>UNIQUE constraint failed, with the columns\<close>
  | SqlForeignKey                       \<comment> \<open>FOREIGN KEY constraint failed\<close>
  | SqlFault string                     \<comment> \<open>any other failure the driver reports\<close>
  | External string                     \<comment> \<open>an error of a package or service outside the repository\<close>
  | Wrap string go_error                \<comment> \<open>\<open>fmt.Errorf("<text>: %w", err)\<close>\<close>
  | UnknownDriver string
  | NoStorageSelected
  | LoadStorage int go_error
  | StorageNotFound int
  | UnknownStorageKind string
  | LoadAgent int go_error
  | AgentNotFound int
  | DispatchToAgent string go_error
  | AgentTimedOut string string
  | AgentReported string string
  | ContextDone
  | UnknownNotifyKind string
  | TelegramIncomplete
  | JsonError string                    \<comment> \<open>\<open>encoding/json\<close> rejects this input\<close>
  | NumError string string num_error    \<comment> \<open>\<open>strconv\<close>: function, input, reason\<close>
  | ToolFailed string go_error string   \<comment> \<open>a dump tool: its name, the cause, its standard error\<close>
  | AgentReturned string string         \<comment> \<open>an HTTP status of 300 or more and the body\<close>
  | TelegramApi string string
  | FingerprintMismatch string string
  | BadEscape string                    \<comment> \<open>\<open>net/url\<close> rejects this escape\<close>
  | Message string                      \<comment> \<open>a text of its own, without a cause\<close>

text \<open>UTF-8 for the em dash of two messages.\<close>

definition em_dash :: string where
  "em_dash = [CHR 0xE2, CHR 0x80, CHR 0x94]"

text \<open>
  Texts made outside the repository: \<open>quote\<close> is \<open>strconv.Quote\<close>, the verb \<open>%q\<close>, whose treatment of
  unprintable characters follows the Unicode tables of the Go release, the SQLite driver words its
  constraint errors, and \<open>encoding/json\<close> its complaints about an input. No property depends on them.
\<close>

record err_texts =
  quote :: "string \<Rightarrow> string"
  unique_text :: "string \<Rightarrow> string"
  foreign_key_text :: string
  json_error :: "string \<Rightarrow> string"

fun Error :: "err_texts \<Rightarrow> go_error \<Rightarrow> string" where
  "Error tx (SqlUnique cols) = unique_text tx cols"
| "Error tx SqlForeignKey = foreign_key_text tx"
| "Error tx (SqlFault m) = m"
| "Error tx (External m) = m"
| "Error tx (Wrap p e) = p @ '': '' @ Error tx e"
| "Error tx (UnknownDriver d) = ''unknown driver: '' @ d"
| "Error tx NoStorageSelected =
     ''no storage destination selected for this database '' @ em_dash @ '' assign one in the admin UI''"
| "Error tx (LoadStorage i e) = ''load storage destination #'' @ itoa i @ '': '' @ Error tx e"
| "Error tx (StorageNotFound i) =
     ''storage destination #'' @ itoa i @ '' not found (was it deleted?)''"
| "Error tx (UnknownStorageKind k) = ''unknown storage destination kind: '' @ quote tx k"
| "Error tx (LoadAgent i e) = ''load remote agent #'' @ itoa i @ '': '' @ Error tx e"
| "Error tx (AgentNotFound i) = ''remote agent #'' @ itoa i @ '' not found (was it deleted?)''"
| "Error tx (DispatchToAgent l e) = ''dispatch to agent '' @ quote tx l @ '': '' @ Error tx e"
| "Error tx (AgentTimedOut l j) =
     ''agent '' @ quote tx l @ '' job '' @ j @ '': timed out after 6h0m0s waiting for a result''"
| "Error tx (AgentReported l m) = ''agent '' @ quote tx l @ '': '' @ m"
| "Error tx ContextDone = ''context canceled''"
| "Error tx (UnknownNotifyKind k) = ''unknown notify channel kind: '' @ quote tx k"
| "Error tx TelegramIncomplete = ''telegram channel missing bot token or chat id''"
| "Error tx (JsonError s) = json_error tx s"
| "Error tx (NumError f s r) =
     ''strconv.'' @ f @ '': parsing '' @ quote tx s @ '': '' @
     (case r of ErrSyntax \<Rightarrow> ''invalid syntax'' | ErrRange \<Rightarrow> ''value out of range'')"
| "Error tx (ToolFailed n e out) = n @ '' failed: '' @ Error tx e @ '': '' @ out"
| "Error tx (AgentReturned st b) = ''agent returned '' @ st @ '': '' @ b"
| "Error tx (TelegramApi st b) = ''telegram api '' @ st @ '': '' @ b"
| "Error tx (FingerprintMismatch g w) =
     ''agent certificate fingerprint mismatch: got '' @ g @ '', want '' @ w"
| "Error tx (BadEscape s) = ''invalid URL escape '' @ quote tx s"
| "Error tx (Message m) = m"

lemma Wrap_keeps_cause: "\<exists>p. Error tx (Wrap m e) = p @ Error tx e"
  by (intro exI [of _ "m @ '': ''"]) simp

end
