(* ===== verification/Sql.thy ===== *)
theory Sql
  imports Errors
begin

text \<open>
  The relational meaning of the SQL the repository writes: tables with an
  \<open>INTEGER PRIMARY KEY AUTOINCREMENT\<close> column, and the insert, update, delete and lookup by key that
  \<open>registry.go\<close> uses. Rows are kept in rowid order. A key is drawn from the table's sequence, which never
  goes back, so a deleted key is not used again. The laws are stated once, in the locale \<open>id_table\<close>,
  for any row type with a key column.
\<close>

record 'r table =
  t_rows :: "'r list"
  t_seq :: int

definition empty_table :: "'r table" where
  "empty_table = \<lparr>t_rows = [], t_seq = 0\<rparr>"

definition sql_insert :: "(int \<Rightarrow> 'r \<Rightarrow> 'r) \<Rightarrow> 'r \<Rightarrow> 'r table \<Rightarrow> int \<times> 'r table" where
  "sql_insert set_key row t =
     (let i = t_seq t + 1 in (i, \<lparr>t_rows = t_rows t @ [set_key i row], t_seq = i\<rparr>))"

definition sql_update :: "('r \<Rightarrow> bool) \<Rightarrow> ('r \<Rightarrow> 'r) \<Rightarrow> 'r table \<Rightarrow> 'r table" where
  "sql_update P f t = t\<lparr>t_rows := map (\<lambda>r. if P r then f r else r) (t_rows t)\<rparr>"

definition sql_delete :: "('r \<Rightarrow> bool) \<Rightarrow> 'r table \<Rightarrow> 'r table" where
  "sql_delete P t = t\<lparr>t_rows := filter (\<lambda>r. \<not> P r) (t_rows t)\<rparr>"

definition by_id :: "('r \<Rightarrow> int) \<Rightarrow> int \<Rightarrow> 'r table \<Rightarrow> 'r option" where
  "by_id key i t = find (\<lambda>r. key r = i) (t_rows t)"

definition ids :: "('r \<Rightarrow> int) \<Rightarrow> 'r table \<Rightarrow> int set" where
  "ids key t = key ` set (t_rows t)"

definition has_id :: "('r \<Rightarrow> int) \<Rightarrow> int \<Rightarrow> 'r table \<Rightarrow> bool" where
  "has_id key i t = (\<exists>r \<in> set (t_rows t). key r = i)"

definition wf_table :: "('r \<Rightarrow> int) \<Rightarrow> 'r table \<Rightarrow> bool" where
  "wf_table key t \<longleftrightarrow>
     distinct (map key (t_rows t)) \<and>
     (\<forall>r \<in> set (t_rows t). 0 < key r \<and> key r \<le> t_seq t) \<and> 0 \<le> t_seq t"

lemma has_id_iff: "has_id key i t \<longleftrightarrow> i \<in> ids key t"
  by (auto simp: has_id_def ids_def)

lemma by_id_Some: "by_id key i t = Some r \<Longrightarrow> r \<in> set (t_rows t) \<and> key r = i"
  by (auto simp: by_id_def dest: find_Some_mem)

lemma by_id_None: "by_id key i t = None \<longleftrightarrow> i \<notin> ids key t"
  by (auto simp: by_id_def ids_def find_None_iff)

lemma ids_delete [simp]: "ids key (sql_delete (\<lambda>r. key r = i) t) = ids key t - {i}"
  by (auto simp: ids_def sql_delete_def)

lemma rows_delete [simp]: "t_rows (sql_delete P t) = filter (\<lambda>r. \<not> P r) (t_rows t)"
  by (simp add: sql_delete_def)

lemma rows_update [simp]: "t_rows (sql_update P f t) = map (\<lambda>r. if P r then f r else r) (t_rows t)"
  by (simp add: sql_update_def)

lemma rows_empty [simp]: "t_rows empty_table = []"
  by (simp add: empty_table_def)

lemma seq_update [simp]: "t_seq (sql_update P f t) = t_seq t"
  by (simp add: sql_update_def)

lemma seq_delete [simp]: "t_seq (sql_delete P t) = t_seq t"
  by (simp add: sql_delete_def)

text \<open>The contract of a keyed table; each table of the registry interprets it.\<close>

locale id_table =
  fixes key :: "'r \<Rightarrow> int" and set_key :: "int \<Rightarrow> 'r \<Rightarrow> 'r"
  assumes key_set_key: "key (set_key i r) = i"
begin

lemma wf_empty: "wf_table key empty_table"
  by (simp add: wf_table_def empty_table_def)

lemma insert_id: "fst (sql_insert set_key row t) = t_seq t + 1"
  by (simp add: sql_insert_def Let_def)

lemma insert_rows: "t_rows (snd (sql_insert set_key row t)) = t_rows t @ [set_key (t_seq t + 1) row]"
  by (simp add: sql_insert_def Let_def)

lemma wf_insert: "wf_table key t \<Longrightarrow> wf_table key (snd (sql_insert set_key row t))"
  by (fastforce simp: wf_table_def sql_insert_def Let_def key_set_key)

lemma wf_update:
  assumes "wf_table key t" and "\<And>r. key (f r) = key r"
  shows "wf_table key (sql_update P f t)"
proof -
  have "key \<circ> (\<lambda>r. if P r then f r else r) = key" using assms(2) by (auto simp: fun_eq_iff)
  then have "map key (map (\<lambda>r. if P r then f r else r) (t_rows t)) = map key (t_rows t)" by simp
  with assms show ?thesis unfolding wf_table_def by (auto simp del: map_map)
qed

lemma wf_delete: "wf_table key t \<Longrightarrow> wf_table key (sql_delete P t)"
  by (auto simp: wf_table_def distinct_map_filter)

lemma fresh: "wf_table key t \<Longrightarrow> t_seq t + 1 \<notin> ids key t"
  by (auto simp: wf_table_def ids_def)

lemma positive: "wf_table key t \<Longrightarrow> i \<in> ids key t \<Longrightarrow> 0 < i"
  by (auto simp: wf_table_def ids_def)

lemma positive_insert: "wf_table key t \<Longrightarrow> 0 < fst (sql_insert set_key row t)"
  by (auto simp: wf_table_def insert_id)

lemma ids_insert: "ids key (snd (sql_insert set_key row t)) = insert (t_seq t + 1) (ids key t)"
  by (auto simp: ids_def insert_rows key_set_key)

lemma ids_update:
  assumes "\<And>r. key (f r) = key r"
  shows "ids key (sql_update P f t) = ids key t"
proof -
  have "(\<lambda>r. key (if P r then f r else r)) = key" using assms by auto
  then show ?thesis by (simp only: ids_def rows_update set_map image_image)
qed

lemma by_id_insert:
  assumes "wf_table key t"
  shows "by_id key i (snd (sql_insert set_key row t)) =
         (if i = t_seq t + 1 then Some (set_key i row) else by_id key i t)"
proof -
  have "by_id key (t_seq t + 1) t = None"
    using fresh [OF assms] by (simp add: by_id_None)
  then show ?thesis
    by (auto simp: by_id_def insert_rows find_append key_set_key split: option.splits)
qed

lemma by_id_update:
  assumes "\<And>r. key (f r) = key r"
  shows "by_id key i (sql_update (\<lambda>r. key r = j) f t) =
         (if i = j then map_option f (by_id key i t) else by_id key i t)"
proof -
  have "find (\<lambda>r. key r = i) (map (\<lambda>r. if key r = j then f r else r) xs) =
        (if i = j then map_option f (find (\<lambda>r. key r = i) xs) else find (\<lambda>r. key r = i) xs)" for xs
    by (induction xs) (auto simp: assms)
  then show ?thesis by (simp add: by_id_def)
qed

lemma by_id_delete:
  "by_id key i (sql_delete (\<lambda>r. key r = j) t) = (if i = j then None else by_id key i t)"
proof -
  have "find (\<lambda>r. key r = i) (filter (\<lambda>r. key r \<noteq> j) xs) =
        (if i = j then None else find (\<lambda>r. key r = i) xs)" for xs
    by (induction xs) auto
  then show ?thesis by (simp add: by_id_def)
qed

lemma by_id_mem: "wf_table key t \<Longrightarrow> r \<in> set (t_rows t) \<Longrightarrow> by_id key (key r) t = Some r"
  by (simp add: by_id_def wf_table_def find_key)

end

end
