(* ===== verification/GoTime.thy ===== *)
theory GoTime
  imports GoNum
begin

text \<open>
  Wall-clock times in the deployment's time zone and the layouts of Go's \<open>time\<close> package the repository
  formats and parses them with. Which civil time a moment has in a zone (\<open>time.LoadLocation\<close>,
  \<open>t.In(loc)\<close>) depends on the zone database, so the functions of the model take the civil time as an
  argument.
\<close>

record civil =
  c_year :: nat
  c_month :: nat
  c_day :: nat
  c_hour :: nat
  c_minute :: nat
  c_second :: nat

definition civil_ok :: "civil \<Rightarrow> bool" where
  "civil_ok t \<longleftrightarrow>
     c_year t < 10000 \<and> c_month t < 100 \<and> c_day t < 100 \<and>
     c_hour t < 24 \<and> c_minute t < 60 \<and> c_second t < 60"

section \<open>Layouts\<close>

definition format_15_04 :: "civil \<Rightarrow> string" where
  "format_15_04 t = pad2 (c_hour t) @ '':'' @ pad2 (c_minute t)"

definition format_15h04 :: "civil \<Rightarrow> string" where
  "format_15h04 t = pad2 (c_hour t) @ ''h'' @ pad2 (c_minute t)"

definition format_2006_01_02 :: "civil \<Rightarrow> string" where
  "format_2006_01_02 t = pad4 (c_year t) @ ''-'' @ pad2 (c_month t) @ ''-'' @ pad2 (c_day t)"

definition format_060102 :: "civil \<Rightarrow> string" where
  "format_060102 t = pad2 (c_year t mod 100) @ pad2 (c_month t) @ pad2 (c_day t)"

definition format_datetime :: "civil \<Rightarrow> string" where
  "format_datetime t =
     format_2006_01_02 t @ '' '' @ format_15_04 t @ '':'' @ pad2 (c_second t)"

section \<open>Parsing an hour and a minute\<close>

text \<open>
  \<open>getnum\<close> of Go's \<open>time\<close> package: one digit or two, unless two are required.
\<close>

definition getnum :: "string \<Rightarrow> bool \<Rightarrow> (nat \<times> string) option" where
  "getnum s fixed =
     (case s of
        [] \<Rightarrow> None
      | a # rest \<Rightarrow>
          if \<not> is_digit a then None
          else (case rest of
                  [] \<Rightarrow> if fixed then None else Some (digit_val a, [])
                | b # rest' \<Rightarrow>
                    if is_digit b then Some (10 * digit_val a + digit_val b, rest')
                    else if fixed then None else Some (digit_val a, rest)))"

text \<open>
  \<open>time.Parse("15:04", s)\<close>: the layout field \<open>15\<close> accepts one digit or two, \<open>04\<close> exactly two, and
  nothing may follow.
\<close>

definition Parse_15_04 :: "string \<Rightarrow> (nat \<times> nat) option" where
  "Parse_15_04 s =
     (case getnum s False of
        None \<Rightarrow> None
      | Some (h, r) \<Rightarrow>
          if 24 \<le> h then None
          else (case r of
                  [] \<Rightarrow> None
                | c # r' \<Rightarrow>
                    if c \<noteq> CHR '':'' then None
                    else (case getnum r' True of
                            None \<Rightarrow> None
                          | Some (m, r'') \<Rightarrow>
                              if 60 \<le> m then None
                              else if r'' \<noteq> [] then None else Some (h, m))))"

section \<open>Facts\<close>

lemma length_format_15_04 [simp]: "length (format_15_04 t) = 5"
  by (simp add: format_15_04_def)

lemma format_15_04_inj:
  assumes "civil_ok s" and "civil_ok t"
  shows "format_15_04 s = format_15_04 t \<longleftrightarrow> c_hour s = c_hour t \<and> c_minute s = c_minute t"
  using assms by (simp add: format_15_04_def civil_ok_def pad2_inj)

lemma format_date_inj:
  assumes "civil_ok s" and "civil_ok t"
  shows "format_2006_01_02 s = format_2006_01_02 t \<longleftrightarrow>
         c_year s = c_year t \<and> c_month s = c_month t \<and> c_day s = c_day t"
  using assms by (simp add: format_2006_01_02_def civil_ok_def pad2_inj pad4_inj)

lemma format_date_ne [simp]: "format_2006_01_02 t \<noteq> []"
  by (simp add: format_2006_01_02_def)

lemma pad2_digits: "n < 100 \<Longrightarrow> \<exists>a b. a < 10 \<and> b < 10 \<and> pad2 n = [digit a, digit b] \<and> n = 10 * a + b"
  by (intro exI [of _ "n div 10"] exI [of _ "n mod 10"]) (auto simp: pad2_def)

lemma getnum_pad2: "n < 100 \<Longrightarrow> getnum (pad2 n @ r) fixed = Some (n, r)"
  using pad2_digits [of n] by (auto simp: getnum_def)

lemma Parse_format: 
  assumes "h < 24" "m < 60"
  shows "Parse_15_04 (pad2 h @ '':'' @ pad2 m) = Some (h, m)"
  using assms getnum_pad2 [of h "'':'' @ pad2 m" False] getnum_pad2 [of m "[]" True]
  by (simp add: Parse_15_04_def)

lemma Parse_15_04_format: "civil_ok t \<Longrightarrow> Parse_15_04 (format_15_04 t) = Some (c_hour t, c_minute t)"
  unfolding format_15_04_def by (rule Parse_format) (simp_all add: civil_ok_def)

lemma pad2_of_digits:
  "is_digit a \<Longrightarrow> is_digit b \<Longrightarrow> pad2 (10 * digit_val a + digit_val b) = [a, b]"
  using digit_val_less [of a] digit_val_less [of b] by (simp add: pad2_def digit_of_val)

lemma getnum_Some:
  assumes "getnum s fixed = Some (n, r)"
  shows "s = pad2 n @ r \<or> (\<not> fixed \<and> n < 10 \<and> s = digit n # r)"
  using assms
  by (auto simp: getnum_def pad2_of_digits digit_val_less digit_of_val split: list.splits if_splits)

text \<open>
  What \<open>time.Parse("15:04", _)\<close> accepts, exactly: the five-byte form the scheduler prints, or the hour
  with its leading zero left out.
\<close>

lemma Parse_15_04_Some:
  assumes "Parse_15_04 s = Some (h, m)"
  shows "h < 24 \<and> m < 60 \<and>
         (s = pad2 h @ '':'' @ pad2 m \<or> (h < 10 \<and> s = digit h # '':'' @ pad2 m))"
proof -
  from assms obtain r where h: "getnum s False = Some (h, CHR '':'' # r)" "h < 24"
    and m: "getnum r True = Some (m, [])" "m < 60"
    by (auto simp: Parse_15_04_def split: option.splits list.splits if_splits)
  from getnum_Some [OF m(1)] have "r = pad2 m" by simp
  with getnum_Some [OF h(1)] h(2) m(2) show ?thesis by auto
qed

lemma Parse_short_hour:
  assumes "h < 10" "m < 60"
  shows "Parse_15_04 (digit h # '':'' @ pad2 m) = Some (h, m)"
proof -
  have "getnum (digit h # '':'' @ pad2 m) False = Some (h, '':'' @ pad2 m)"
    using assms by (simp add: getnum_def)
  with assms getnum_pad2 [of m "[]" True] show ?thesis
    by (simp add: Parse_15_04_def)
qed

end
