(* ===== verification/Registry.thy ===== *)
theory Registry
  imports Sql GoTime "HOL-Library.Product_Lexorder"
begin

text \<open>
  \<open>internal/registry\<close>: the SQLite store every process of the deployment shares. The structs of
  \<open>registry.go\<close> are records, the eleven tables of \<open>schema.go\<close> the fields of \<open>registry\<close>, and each method
  of \<open>Registry\<close> a function from the state to its result and the new state. A method that runs several
  statements is composed of them, so that a failure between two leaves what the code leaves.

  Every statement may fail: the engine's list of faults is consumed one entry per statement, a text
  making that statement fail with no effect, \<open>None\<close> (or the end of the list) letting it run. The order
  of rows that the SQL does not fix is the engine's choice too.
\<close>

section \<open>Rows\<close>

text \<open>
  \<open>enabled\<close> columns are integers in SQL; every value the code writes is \<open>boolToInt\<close> of a bool, or 1.
  A row keeps the bool, and a statement that compares the column compares \<open>boolToInt\<close> of it.
\<close>

definition boolToInt :: "bool \<Rightarrow> int" where
  "boolToInt b = (if b then 1 else 0)"

record Database =
  d_ID :: int
  d_Name :: string
  d_Driver :: string
  d_Host :: string
  d_Port :: string
  d_Username :: string
  d_Password :: string
  d_AuthDB :: string
  d_StorageTargetID :: int
  d_AgentID :: int
  d_Enabled :: bool
  d_CreatedAt :: string
  d_UpdatedAt :: string

record Schedule =
  s_ID :: int
  s_DatabaseID :: int
  s_TimeOfDay :: string
  s_Enabled :: bool
  s_LastRunDate :: string
  s_CreatedAt :: string

text \<open>A row of \<open>shared_schedules\<close>, and the struct that adds the joined times and databases.\<close>

record SharedScheduleRow =
  ss_ID :: int
  ss_Name :: string
  ss_Enabled :: bool
  ss_CreatedAt :: string

record SharedScheduleTime =
  sst_ID :: int
  sst_SharedScheduleID :: int
  sst_TimeOfDay :: string
  sst_LastRunDate :: string
  sst_CreatedAt :: string

record SharedSchedule = SharedScheduleRow +
  ss_Times :: "SharedScheduleTime list"
  ss_Databases :: "Database list"

record StorageTarget =
  st_ID :: int
  st_Kind :: string
  st_Label :: string
  st_Config :: string
  st_CreatedAt :: string
  st_UpdatedAt :: string

record NotifyChannel =
  nc_ID :: int
  nc_Kind :: string
  nc_Label :: string
  nc_Config :: string
  nc_CreatedAt :: string
  nc_UpdatedAt :: string

record BackupRun =
  br_ID :: int
  br_DatabaseID :: int
  br_DBName :: string
  br_Driver :: string
  br_Status :: string
  br_Message :: string
  br_DurationMS :: int
  br_StartedAt :: string
  br_CreatedAt :: string

record BackupFile =
  bf_ID :: int
  bf_DatabaseID :: int
  bf_DBName :: string
  bf_StorageTargetID :: int
  bf_Filename :: string
  bf_RemoteRef :: string
  bf_SizeBytes :: int
  bf_CreatedAt :: string

record RemoteAgent =
  ra_ID :: int
  ra_Label :: string
  ra_Endpoint :: string
  ra_Token :: string
  ra_CertFingerprint :: string
  ra_CreatedAt :: string
  ra_UpdatedAt :: string

record DueJob =
  dj_ScheduleID :: int
  dj_Database :: Database

section \<open>The engine and the store\<close>

record engine =
  e_clock :: string
  e_faults :: "string option list"
  e_ord_db :: "Database list \<Rightarrow> Database list"
  e_ord_sched :: "Schedule list \<Rightarrow> Schedule list"
  e_ord_time :: "SharedScheduleTime list \<Rightarrow> SharedScheduleTime list"
  e_ord_target :: "StorageTarget list \<Rightarrow> StorageTarget list"
  e_ord_channel :: "NotifyChannel list \<Rightarrow> NotifyChannel list"
  e_ord_agent :: "RemoteAgent list \<Rightarrow> RemoteAgent list"
  e_ord_due :: "DueJob list \<Rightarrow> DueJob list"
  e_ord_link :: "(int \<times> int) list \<Rightarrow> (int \<times> int) list"

definition engine_ok :: "engine \<Rightarrow> bool" where
  "engine_ok e \<longleftrightarrow>
     permuting (e_ord_db e) \<and> permuting (e_ord_sched e) \<and> permuting (e_ord_time e) \<and>
     permuting (e_ord_target e) \<and> permuting (e_ord_channel e) \<and> permuting (e_ord_agent e) \<and>
     permuting (e_ord_due e) \<and> permuting (e_ord_link e)"

text \<open>An engine that returns rows in rowid order and never fails.\<close>

definition plain_engine :: "string \<Rightarrow> engine" where
  "plain_engine now =
     \<lparr>e_clock = now, e_faults = [], e_ord_db = (\<lambda>x. x), e_ord_sched = (\<lambda>x. x), e_ord_time = (\<lambda>x. x),
      e_ord_target = (\<lambda>x. x), e_ord_channel = (\<lambda>x. x), e_ord_agent = (\<lambda>x. x), e_ord_due = (\<lambda>x. x),
      e_ord_link = (\<lambda>x. x)\<rparr>"

lemma plain_engine_ok: "engine_ok (plain_engine now)"
  by (simp add: engine_ok_def plain_engine_def permuting_id)

lemma plain_engine_faults [simp]: "e_faults (plain_engine now) = []"
  by (simp add: plain_engine_def)

lemma engine_ok_faults [simp]: "engine_ok (e\<lparr>e_faults := fs\<rparr>) = engine_ok e"
  by (simp add: engine_ok_def)

record registry =
  storage_targets :: "StorageTarget table"
  databases :: "Database table"
  schedules :: "Schedule table"
  shared_schedules :: "SharedScheduleRow table"
  shared_schedule_databases :: "(int \<times> int) list"   \<comment> \<open>shared schedule, database\<close>
  shared_schedule_times :: "SharedScheduleTime table"
  notify_channels :: "NotifyChannel table"
  database_notify_channels :: "(int \<times> int) list"    \<comment> \<open>database, channel\<close>
  backup_runs :: "BackupRun table"
  backup_files :: "BackupFile table"
  remote_agents :: "RemoteAgent table"
  eng :: engine

definition empty_registry :: "engine \<Rightarrow> registry" where
  "empty_registry e =
     \<lparr>storage_targets = empty_table, databases = empty_table, schedules = empty_table,
      shared_schedules = empty_table, shared_schedule_databases = [],
      shared_schedule_times = empty_table, notify_channels = empty_table,
      database_notify_channels = [], backup_runs = empty_table, backup_files = empty_table,
      remote_agents = empty_table, eng = e\<rparr>"

type_synonym 'a reg_op = "(go_error, 'a, registry) op"

section \<open>Running a statement\<close>

definition next_fault :: "registry \<Rightarrow> string option \<times> registry" where
  "next_fault r =
     (case e_faults (eng r) of
        [] \<Rightarrow> (None, r)
      | f # fs \<Rightarrow> (f, r\<lparr>eng := (eng r)\<lparr>e_faults := fs\<rparr>\<rparr>))"

definition query :: "(registry \<Rightarrow> 'a) \<Rightarrow> 'a reg_op" where
  "query q r =
     (case next_fault r of
        (Some m, r') \<Rightarrow> (Inl (SqlFault m), r')
      | (None, r') \<Rightarrow> (Inr (q r'), r'))"

definition exec :: "'a reg_op \<Rightarrow> 'a reg_op" where
  "exec u r =
     (case next_fault r of
        (Some m, r') \<Rightarrow> (Inl (SqlFault m), r')
      | (None, r') \<Rightarrow> u r')"

abbreviation no_faults :: "registry \<Rightarrow> bool" where
  "no_faults r \<equiv> e_faults (eng r) = []"

abbreviation now_utc :: "registry \<Rightarrow> string" where
  "now_utc r \<equiv> e_clock (eng r)"

lemma next_fault_none [simp]: "no_faults r \<Longrightarrow> next_fault r = (None, r)"
  by (simp add: next_fault_def)

lemma query_ok [simp]: "no_faults r \<Longrightarrow> query q r = (Inr (q r), r)"
  by (simp add: query_def)

lemma exec_ok [simp]: "no_faults r \<Longrightarrow> exec u r = u r"
  by (simp add: exec_def)

lemma next_fault_eq: "\<exists>fs. snd (next_fault r) = r\<lparr>eng := (eng r)\<lparr>e_faults := fs\<rparr>\<rparr>"
  by (cases "e_faults (eng r)")
    (auto simp: next_fault_def intro: exI [of _ "e_faults (eng r)"])

lemma query_state: "\<exists>fs. snd (query q r) = r\<lparr>eng := (eng r)\<lparr>e_faults := fs\<rparr>\<rparr>"
  using next_fault_eq [of r] by (auto simp: query_def split: prod.splits option.splits)

text \<open>A faulty statement does nothing; a query never writes a table.\<close>

lemma exec_cases:
  obtains fs m where "exec u r = (Inl (SqlFault m), r\<lparr>eng := (eng r)\<lparr>e_faults := fs\<rparr>\<rparr>)"
  | fs where "exec u r = u (r\<lparr>eng := (eng r)\<lparr>e_faults := fs\<rparr>\<rparr>)"
  using next_fault_eq [of r]
  by (cases "next_fault r"; cases "fst (next_fault r)") (auto simp: exec_def)

end
