(* ===== verification/RegistryDb.thy ===== *)
theory RegistryDb
  imports Registry
begin

text \<open>
  \<open>internal/registry/registry.go\<close>: databases, their schedules, shared schedules and the queries the
  scheduler runs.
\<close>

section \<open>Databases\<close>

text \<open>The columns of \<open>idx_databases_name_agent_driver\<close>.\<close>

definition db_identity :: "Database \<Rightarrow> string \<times> int \<times> string" where
  "db_identity d = (d_Name d, d_AgentID d, d_Driver d)"

definition db_identity_columns :: string where
  "db_identity_columns = ''databases.name, databases.agent_id, databases.driver''"

definition reg_List :: "Database list reg_op" where
  "reg_List = query (\<lambda>r. sort_key d_Name (e_ord_db (eng r) (t_rows (databases r))))"

definition ListEnabled :: "Database list reg_op" where
  "ListEnabled =
     query (\<lambda>r. sort_key d_Name
       (e_ord_db (eng r) (filter (\<lambda>d. boolToInt (d_Enabled d) = 1) (t_rows (databases r)))))"

definition reg_Get :: "int \<Rightarrow> Database option reg_op" where
  "reg_Get i = query (\<lambda>r. by_id d_ID i (databases r))"

text \<open>\<open>QueryRow\<close> on a column that is not unique: the first row the engine returns.\<close>

definition GetByName :: "string \<Rightarrow> Database option reg_op" where
  "GetByName name =
     query (\<lambda>r. case e_ord_db (eng r) (filter (\<lambda>d. d_Name d = name) (t_rows (databases r))) of
                  [] \<Rightarrow> None | d # _ \<Rightarrow> Some d)"

definition GetByNameAgentDriver :: "string \<Rightarrow> int \<Rightarrow> string \<Rightarrow> Database option reg_op" where
  "GetByNameAgentDriver name agentID driver =
     query (\<lambda>r. find (\<lambda>d. d_Name d = name \<and> d_AgentID d = agentID \<and> d_Driver d = driver)
                  (t_rows (databases r)))"

definition set_d_ID :: "int \<Rightarrow> Database \<Rightarrow> Database" where
  "set_d_ID i d = d\<lparr>d_ID := i\<rparr>"

definition reg_Create :: "Database \<Rightarrow> int reg_op" where
  "reg_Create d = exec (\<lambda>r.
     if db_identity d \<in> db_identity ` set (t_rows (databases r))
     then (Inl (SqlUnique db_identity_columns), r)
     else let (i, t) = sql_insert set_d_ID
                (d\<lparr>d_CreatedAt := now_utc r, d_UpdatedAt := now_utc r\<rparr>) (databases r)
          in (Inr i, r\<lparr>databases := t\<rparr>))"

definition reg_Update :: "Database \<Rightarrow> unit reg_op" where
  "reg_Update d = exec (\<lambda>r.
     let t = sql_update (\<lambda>x. d_ID x = d_ID d)
               (\<lambda>x. x\<lparr>d_Name := d_Name d, d_Driver := d_Driver d, d_Host := d_Host d,
                      d_Port := d_Port d, d_Username := d_Username d, d_Password := d_Password d,
                      d_AuthDB := d_AuthDB d, d_StorageTargetID := d_StorageTargetID d,
                      d_AgentID := d_AgentID d, d_Enabled := d_Enabled d,
                      d_UpdatedAt := now_utc r\<rparr>) (databases r)
     in if distinct (map db_identity (t_rows t)) then (Inr (), r\<lparr>databases := t\<rparr>)
        else (Inl (SqlUnique db_identity_columns), r))"

definition SetEnabled :: "int \<Rightarrow> bool \<Rightarrow> unit reg_op" where
  "SetEnabled i enabled = exec (\<lambda>r.
     (Inr (), r\<lparr>databases := sql_update (\<lambda>x. d_ID x = i)
        (\<lambda>x. x\<lparr>d_Enabled := enabled, d_UpdatedAt := now_utc r\<rparr>) (databases r)\<rparr>))"

text \<open>Deleting a database cascades to its schedules and to both join tables.\<close>

definition reg_Delete :: "int \<Rightarrow> unit reg_op" where
  "reg_Delete i = exec (\<lambda>r.
     if has_id d_ID i (databases r)
     then (Inr (), r\<lparr>databases := sql_delete (\<lambda>x. d_ID x = i) (databases r),
                     schedules := sql_delete (\<lambda>x. s_DatabaseID x = i) (schedules r),
                     shared_schedule_databases := filter (\<lambda>p. snd p \<noteq> i) (shared_schedule_databases r),
                     database_notify_channels := filter (\<lambda>p. fst p \<noteq> i) (database_notify_channels r)\<rparr>)
     else (Inr (), r))"

section \<open>Schedules of one database\<close>

definition ListSchedulesByDatabase :: "int \<Rightarrow> Schedule list reg_op" where
  "ListSchedulesByDatabase databaseID =
     query (\<lambda>r. sort_key s_TimeOfDay
       (e_ord_sched (eng r) (filter (\<lambda>s. s_DatabaseID s = databaseID) (t_rows (schedules r)))))"

text \<open>The result is a Go map from ids to \<open>true\<close>: the set of its keys.\<close>

definition DatabaseIDsWithSchedule :: "int set reg_op" where
  "DatabaseIDsWithSchedule =
     query (\<lambda>r. set (map s_DatabaseID (t_rows (schedules r)) @ map snd (shared_schedule_databases r)))"

definition GetSchedule :: "int \<Rightarrow> Schedule option reg_op" where
  "GetSchedule i = query (\<lambda>r. by_id s_ID i (schedules r))"

definition set_s_ID :: "int \<Rightarrow> Schedule \<Rightarrow> Schedule" where
  "set_s_ID i s = s\<lparr>s_ID := i\<rparr>"

definition CreateSchedule :: "int \<Rightarrow> string \<Rightarrow> int reg_op" where
  "CreateSchedule databaseID timeOfDay = exec (\<lambda>r.
     if \<not> has_id d_ID databaseID (databases r) then (Inl SqlForeignKey, r)
     else let (i, t) = sql_insert set_s_ID
                \<lparr>s_ID = 0, s_DatabaseID = databaseID, s_TimeOfDay = timeOfDay, s_Enabled = True,
                 s_LastRunDate = [], s_CreatedAt = now_utc r\<rparr> (schedules r)
          in (Inr i, r\<lparr>schedules := t\<rparr>))"

definition DeleteSchedule :: "int \<Rightarrow> unit reg_op" where
  "DeleteSchedule i = exec (\<lambda>r. (Inr (), r\<lparr>schedules := sql_delete (\<lambda>x. s_ID x = i) (schedules r)\<rparr>))"

definition due_rows :: "registry \<Rightarrow> string \<Rightarrow> string \<Rightarrow> DueJob list" where
  "due_rows r hhmm today =
     [\<lparr>dj_ScheduleID = s_ID s, dj_Database = d\<rparr>.
        s \<leftarrow> t_rows (schedules r), d \<leftarrow> t_rows (databases r),
        d_ID d = s_DatabaseID s \<and> boolToInt (s_Enabled s) = 1 \<and> boolToInt (d_Enabled d) = 1 \<and>
        s_TimeOfDay s = hhmm \<and> s_LastRunDate s \<noteq> today]"

definition ListDueSchedules :: "civil \<Rightarrow> DueJob list reg_op" where
  "ListDueSchedules now =
     query (\<lambda>r. e_ord_due (eng r) (due_rows r (format_15_04 now) (format_2006_01_02 now)))"

definition MarkScheduleRun :: "int \<Rightarrow> string \<Rightarrow> unit reg_op" where
  "MarkScheduleRun i date = exec (\<lambda>r.
     (Inr (), r\<lparr>schedules := sql_update (\<lambda>x. s_ID x = i) (\<lambda>x. x\<lparr>s_LastRunDate := date\<rparr>) (schedules r)\<rparr>))"

section \<open>Shared schedules\<close>

definition ListSharedScheduleTimes :: "int \<Rightarrow> SharedScheduleTime list reg_op" where
  "ListSharedScheduleTimes sharedScheduleID =
     query (\<lambda>r. sort_key sst_TimeOfDay
       (e_ord_time (eng r)
         (filter (\<lambda>t. sst_SharedScheduleID t = sharedScheduleID) (t_rows (shared_schedule_times r)))))"

definition ListDatabasesForSharedSchedule :: "int \<Rightarrow> Database list reg_op" where
  "ListDatabasesForSharedSchedule sharedScheduleID =
     query (\<lambda>r. sort_key d_Name
       (e_ord_db (eng r)
         (filter (\<lambda>d. (sharedScheduleID, d_ID d) \<in> set (shared_schedule_databases r))
            (t_rows (databases r)))))"

text \<open>The struct of a row with its times and databases filled in, as both readers do.\<close>

definition load_shared :: "SharedScheduleRow \<Rightarrow> SharedSchedule reg_op" where
  "load_shared s r =
     (case ListSharedScheduleTimes (ss_ID s) r of
        (Inl e, r) \<Rightarrow> (Inl e, r)
      | (Inr ts, r) \<Rightarrow>
          (case ListDatabasesForSharedSchedule (ss_ID s) r of
             (Inl e, r) \<Rightarrow> (Inl e, r)
           | (Inr dbs, r) \<Rightarrow>
               (Inr \<lparr>ss_ID = ss_ID s, ss_Name = ss_Name s, ss_Enabled = ss_Enabled s,
                     ss_CreatedAt = ss_CreatedAt s, ss_Times = ts, ss_Databases = dbs\<rparr>, r)))"

fun load_all_shared :: "SharedScheduleRow list \<Rightarrow> SharedSchedule list reg_op" where
  "load_all_shared [] r = (Inr [], r)"
| "load_all_shared (s # ss) r =
     (case load_shared s r of
        (Inl e, r) \<Rightarrow> (Inl e, r)
      | (Inr x, r) \<Rightarrow>
          (case load_all_shared ss r of
             (Inl e, r) \<Rightarrow> (Inl e, r)
           | (Inr xs, r) \<Rightarrow> (Inr (x # xs), r)))"

definition ListSharedSchedules :: "SharedSchedule list reg_op" where
  "ListSharedSchedules r =
     (case query (\<lambda>r. sort_key ss_ID (t_rows (shared_schedules r))) r of
        (Inl e, r) \<Rightarrow> (Inl e, r)
      | (Inr rows, r) \<Rightarrow> load_all_shared rows r)"

definition GetSharedSchedule :: "int \<Rightarrow> SharedSchedule option reg_op" where
  "GetSharedSchedule i r =
     (case query (\<lambda>r. by_id ss_ID i (shared_schedules r)) r of
        (Inl e, r) \<Rightarrow> (Inl e, r)
      | (Inr None, r) \<Rightarrow> (Inr None, r)
      | (Inr (Some s), r) \<Rightarrow>
          (case load_shared s r of
             (Inl e, r) \<Rightarrow> (Inl e, r)
           | (Inr x, r) \<Rightarrow> (Inr (Some x), r)))"

definition GetSharedScheduleTime :: "int \<Rightarrow> SharedScheduleTime option reg_op" where
  "GetSharedScheduleTime i = query (\<lambda>r. by_id sst_ID i (shared_schedule_times r))"

definition set_sst_ID :: "int \<Rightarrow> SharedScheduleTime \<Rightarrow> SharedScheduleTime" where
  "set_sst_ID i t = t\<lparr>sst_ID := i\<rparr>"

definition CreateSharedScheduleTime :: "int \<Rightarrow> string \<Rightarrow> int reg_op" where
  "CreateSharedScheduleTime sharedScheduleID timeOfDay = exec (\<lambda>r.
     if \<not> has_id ss_ID sharedScheduleID (shared_schedules r) then (Inl SqlForeignKey, r)
     else let (i, t) = sql_insert set_sst_ID
                \<lparr>sst_ID = 0, sst_SharedScheduleID = sharedScheduleID, sst_TimeOfDay = timeOfDay,
                 sst_LastRunDate = [], sst_CreatedAt = now_utc r\<rparr> (shared_schedule_times r)
          in (Inr i, r\<lparr>shared_schedule_times := t\<rparr>))"

definition DeleteSharedScheduleTime :: "int \<Rightarrow> unit reg_op" where
  "DeleteSharedScheduleTime i = exec (\<lambda>r.
     (Inr (), r\<lparr>shared_schedule_times := sql_delete (\<lambda>x. sst_ID x = i) (shared_schedule_times r)\<rparr>))"

definition set_ss_ID :: "int \<Rightarrow> SharedScheduleRow \<Rightarrow> SharedScheduleRow" where
  "set_ss_ID i s = s\<lparr>ss_ID := i\<rparr>"

text \<open>
  The two statements of \<open>setSharedScheduleDatabases\<close>, and the method: it empties the set and inserts
  the members one by one, with no transaction around them.
\<close>

definition clear_members :: "int \<Rightarrow> unit reg_op" where
  "clear_members sid = exec (\<lambda>r.
     (Inr (), r\<lparr>shared_schedule_databases := filter (\<lambda>p. fst p \<noteq> sid) (shared_schedule_databases r)\<rparr>))"

definition insert_member :: "int \<Rightarrow> int \<Rightarrow> unit reg_op" where
  "insert_member sid dbID = exec (\<lambda>r.
     if (sid, dbID) \<in> set (shared_schedule_databases r)
     then (Inl (SqlUnique ''shared_schedule_databases.shared_schedule_id, shared_schedule_databases.database_id''), r)
     else if \<not> has_id ss_ID sid (shared_schedules r) \<or> \<not> has_id d_ID dbID (databases r)
     then (Inl SqlForeignKey, r)
     else (Inr (), r\<lparr>shared_schedule_databases := shared_schedule_databases r @ [(sid, dbID)]\<rparr>))"

fun insert_members :: "int \<Rightarrow> int list \<Rightarrow> unit reg_op" where
  "insert_members sid [] r = (Inr (), r)"
| "insert_members sid (dbID # dbIDs) r =
     (case insert_member sid dbID r of
        (Inl e, r) \<Rightarrow> (Inl e, r)
      | (Inr _, r) \<Rightarrow> insert_members sid dbIDs r)"

definition setSharedScheduleDatabases :: "int \<Rightarrow> int list \<Rightarrow> unit reg_op" where
  "setSharedScheduleDatabases sid dbIDs r =
     (case clear_members sid r of
        (Inl e, r) \<Rightarrow> (Inl e, r)
      | (Inr _, r) \<Rightarrow> insert_members sid dbIDs r)"

text \<open>The first statement of \<open>CreateSharedSchedule\<close> and of \<open>UpdateSharedSchedule\<close>.\<close>

definition insert_shared :: "string \<Rightarrow> int reg_op" where
  "insert_shared name = exec (\<lambda>r.
     let (i, t) = sql_insert set_ss_ID
           \<lparr>ss_ID = 0, ss_Name = name, ss_Enabled = True, ss_CreatedAt = now_utc r\<rparr> (shared_schedules r)
     in (Inr i, r\<lparr>shared_schedules := t\<rparr>))"

definition rename_shared :: "int \<Rightarrow> string \<Rightarrow> unit reg_op" where
  "rename_shared i name = exec (\<lambda>r.
     (Inr (), r\<lparr>shared_schedules := sql_update (\<lambda>x. ss_ID x = i) (\<lambda>x. x\<lparr>ss_Name := name\<rparr>) (shared_schedules r)\<rparr>))"

definition CreateSharedSchedule :: "string \<Rightarrow> int list \<Rightarrow> int reg_op" where
  "CreateSharedSchedule name databaseIDs r =
     (case insert_shared name r of
        (Inl e, r) \<Rightarrow> (Inl e, r)
      | (Inr i, r) \<Rightarrow>
          (case setSharedScheduleDatabases i databaseIDs r of
             (Inl e, r) \<Rightarrow> (Inl e, r)
           | (Inr _, r) \<Rightarrow> (Inr i, r)))"

definition UpdateSharedSchedule :: "int \<Rightarrow> string \<Rightarrow> int list \<Rightarrow> unit reg_op" where
  "UpdateSharedSchedule i name databaseIDs r =
     (case rename_shared i name r of
        (Inl e, r) \<Rightarrow> (Inl e, r)
      | (Inr _, r) \<Rightarrow> setSharedScheduleDatabases i databaseIDs r)"

definition SetSharedScheduleEnabled :: "int \<Rightarrow> bool \<Rightarrow> unit reg_op" where
  "SetSharedScheduleEnabled i enabled = exec (\<lambda>r.
     (Inr (), r\<lparr>shared_schedules :=
        sql_update (\<lambda>x. ss_ID x = i) (\<lambda>x. x\<lparr>ss_Enabled := enabled\<rparr>) (shared_schedules r)\<rparr>))"

text \<open>Deleting a shared schedule cascades to its times and its memberships.\<close>

definition DeleteSharedSchedule :: "int \<Rightarrow> unit reg_op" where
  "DeleteSharedSchedule i = exec (\<lambda>r.
     if has_id ss_ID i (shared_schedules r)
     then (Inr (), r\<lparr>shared_schedules := sql_delete (\<lambda>x. ss_ID x = i) (shared_schedules r),
                     shared_schedule_databases := filter (\<lambda>p. fst p \<noteq> i) (shared_schedule_databases r),
                     shared_schedule_times :=
                       sql_delete (\<lambda>x. sst_SharedScheduleID x = i) (shared_schedule_times r)\<rparr>)
     else (Inr (), r))"

definition due_shared_rows :: "registry \<Rightarrow> string \<Rightarrow> string \<Rightarrow> DueJob list" where
  "due_shared_rows r hhmm today =
     [\<lparr>dj_ScheduleID = sst_ID t, dj_Database = d\<rparr>.
        t \<leftarrow> t_rows (shared_schedule_times r), s \<leftarrow> t_rows (shared_schedules r),
        m \<leftarrow> shared_schedule_databases r, d \<leftarrow> t_rows (databases r),
        ss_ID s = sst_SharedScheduleID t \<and> fst m = ss_ID s \<and> d_ID d = snd m \<and>
        boolToInt (ss_Enabled s) = 1 \<and> boolToInt (d_Enabled d) = 1 \<and>
        sst_TimeOfDay t = hhmm \<and> sst_LastRunDate t \<noteq> today]"

definition ListDueSharedSchedules :: "civil \<Rightarrow> DueJob list reg_op" where
  "ListDueSharedSchedules now =
     query (\<lambda>r. e_ord_due (eng r) (due_shared_rows r (format_15_04 now) (format_2006_01_02 now)))"

definition MarkSharedScheduleRun :: "int \<Rightarrow> string \<Rightarrow> unit reg_op" where
  "MarkSharedScheduleRun i date = exec (\<lambda>r.
     (Inr (), r\<lparr>shared_schedule_times :=
        sql_update (\<lambda>x. sst_ID x = i) (\<lambda>x. x\<lparr>sst_LastRunDate := date\<rparr>) (shared_schedule_times r)\<rparr>))"

end
