(* ===== verification/RegistryCfg.thy ===== *)
theory RegistryCfg
  imports RegistryDb
begin

text \<open>
  \<open>internal/registry/registry.go\<close>: storage targets, notification channels and their assignment to
  databases, and remote agents.
\<close>

section \<open>Storage targets\<close>

definition ListStorageTargets :: "StorageTarget list reg_op" where
  "ListStorageTargets =
     query (\<lambda>r. sort_key (\<lambda>t. (st_Kind t, st_Label t)) (e_ord_target (eng r) (t_rows (storage_targets r))))"

definition GetStorageTarget :: "int \<Rightarrow> StorageTarget option reg_op" where
  "GetStorageTarget i = query (\<lambda>r. by_id st_ID i (storage_targets r))"

definition set_st_ID :: "int \<Rightarrow> StorageTarget \<Rightarrow> StorageTarget" where
  "set_st_ID i t = t\<lparr>st_ID := i\<rparr>"

definition CreateStorageTarget :: "string \<Rightarrow> string \<Rightarrow> string \<Rightarrow> int reg_op" where
  "CreateStorageTarget kind label config = exec (\<lambda>r.
     let (i, t) = sql_insert set_st_ID
           \<lparr>st_ID = 0, st_Kind = kind, st_Label = label, st_Config = config,
            st_CreatedAt = now_utc r, st_UpdatedAt = now_utc r\<rparr> (storage_targets r)
     in (Inr i, r\<lparr>storage_targets := t\<rparr>))"

definition UpdateStorageTargetConfig :: "int \<Rightarrow> string \<Rightarrow> unit reg_op" where
  "UpdateStorageTargetConfig i config = exec (\<lambda>r.
     (Inr (), r\<lparr>storage_targets := sql_update (\<lambda>x. st_ID x = i)
        (\<lambda>x. x\<lparr>st_Config := config, st_UpdatedAt := now_utc r\<rparr>) (storage_targets r)\<rparr>))"

definition UpdateStorageTargetLabel :: "int \<Rightarrow> string \<Rightarrow> unit reg_op" where
  "UpdateStorageTargetLabel i label = exec (\<lambda>r.
     (Inr (), r\<lparr>storage_targets := sql_update (\<lambda>x. st_ID x = i)
        (\<lambda>x. x\<lparr>st_Label := label, st_UpdatedAt := now_utc r\<rparr>) (storage_targets r)\<rparr>))"

definition UpdateStorageTargetLabelConfig :: "int \<Rightarrow> string \<Rightarrow> string \<Rightarrow> unit reg_op" where
  "UpdateStorageTargetLabelConfig i label config = exec (\<lambda>r.
     (Inr (), r\<lparr>storage_targets := sql_update (\<lambda>x. st_ID x = i)
        (\<lambda>x. x\<lparr>st_Label := label, st_Config := config, st_UpdatedAt := now_utc r\<rparr>)
        (storage_targets r)\<rparr>))"

definition DeleteStorageTarget :: "int \<Rightarrow> unit reg_op" where
  "DeleteStorageTarget i = exec (\<lambda>r.
     (Inr (), r\<lparr>storage_targets := sql_delete (\<lambda>x. st_ID x = i) (storage_targets r)\<rparr>))"

section \<open>Notification channels\<close>

definition ListNotifyChannels :: "NotifyChannel list reg_op" where
  "ListNotifyChannels =
     query (\<lambda>r. sort_key (\<lambda>c. (nc_Kind c, nc_Label c)) (e_ord_channel (eng r) (t_rows (notify_channels r))))"

definition GetNotifyChannel :: "int \<Rightarrow> NotifyChannel option reg_op" where
  "GetNotifyChannel i = query (\<lambda>r. by_id nc_ID i (notify_channels r))"

definition ListNotifyChannelsForDatabase :: "int \<Rightarrow> NotifyChannel list reg_op" where
  "ListNotifyChannelsForDatabase databaseID =
     query (\<lambda>r. sort_key (\<lambda>c. (nc_Kind c, nc_Label c))
       (e_ord_channel (eng r)
         (filter (\<lambda>c. (databaseID, nc_ID c) \<in> set (database_notify_channels r))
            (t_rows (notify_channels r)))))"

text \<open>The Go map from a database id to its channel ids; a missing key reads as the empty slice.\<close>

definition NotifyChannelIDsByDatabase :: "(int \<Rightarrow> int list) reg_op" where
  "NotifyChannelIDsByDatabase =
     query (\<lambda>r dbID. map snd (filter (\<lambda>p. fst p = dbID) (e_ord_link (eng r) (database_notify_channels r))))"

definition set_nc_ID :: "int \<Rightarrow> NotifyChannel \<Rightarrow> NotifyChannel" where
  "set_nc_ID i c = c\<lparr>nc_ID := i\<rparr>"

definition CreateNotifyChannel :: "string \<Rightarrow> string \<Rightarrow> string \<Rightarrow> int reg_op" where
  "CreateNotifyChannel kind label config = exec (\<lambda>r.
     let (i, t) = sql_insert set_nc_ID
           \<lparr>nc_ID = 0, nc_Kind = kind, nc_Label = label, nc_Config = config,
            nc_CreatedAt = now_utc r, nc_UpdatedAt = now_utc r\<rparr> (notify_channels r)
     in (Inr i, r\<lparr>notify_channels := t\<rparr>))"

definition UpdateNotifyChannel :: "int \<Rightarrow> string \<Rightarrow> string \<Rightarrow> unit reg_op" where
  "UpdateNotifyChannel i label config = exec (\<lambda>r.
     (Inr (), r\<lparr>notify_channels := sql_update (\<lambda>x. nc_ID x = i)
        (\<lambda>x. x\<lparr>nc_Label := label, nc_Config := config, nc_UpdatedAt := now_utc r\<rparr>)
        (notify_channels r)\<rparr>))"

definition DeleteNotifyChannel :: "int \<Rightarrow> unit reg_op" where
  "DeleteNotifyChannel i = exec (\<lambda>r.
     if has_id nc_ID i (notify_channels r)
     then (Inr (), r\<lparr>notify_channels := sql_delete (\<lambda>x. nc_ID x = i) (notify_channels r),
                     database_notify_channels := filter (\<lambda>p. snd p \<noteq> i) (database_notify_channels r)\<rparr>)
     else (Inr (), r))"

text \<open>\<open>SetDatabaseNotifyChannels\<close> and its two statements, again without a transaction.\<close>

definition clear_channels :: "int \<Rightarrow> unit reg_op" where
  "clear_channels dbID = exec (\<lambda>r.
     (Inr (), r\<lparr>database_notify_channels := filter (\<lambda>p. fst p \<noteq> dbID) (database_notify_channels r)\<rparr>))"

definition insert_channel :: "int \<Rightarrow> int \<Rightarrow> unit reg_op" where
  "insert_channel dbID chID = exec (\<lambda>r.
     if (dbID, chID) \<in> set (database_notify_channels r)
     then (Inl (SqlUnique ''database_notify_channels.database_id, database_notify_channels.notify_channel_id''), r)
     else if \<not> has_id d_ID dbID (databases r) \<or> \<not> has_id nc_ID chID (notify_channels r)
     then (Inl SqlForeignKey, r)
     else (Inr (), r\<lparr>database_notify_channels := database_notify_channels r @ [(dbID, chID)]\<rparr>))"

fun insert_channels :: "int \<Rightarrow> int list \<Rightarrow> unit reg_op" where
  "insert_channels dbID [] r = (Inr (), r)"
| "insert_channels dbID (chID # chIDs) r =
     (case insert_channel dbID chID r of
        (Inl e, r) \<Rightarrow> (Inl e, r)
      | (Inr _, r) \<Rightarrow> insert_channels dbID chIDs r)"

definition SetDatabaseNotifyChannels :: "int \<Rightarrow> int list \<Rightarrow> unit reg_op" where
  "SetDatabaseNotifyChannels dbID chIDs r =
     (case clear_channels dbID r of
        (Inl e, r) \<Rightarrow> (Inl e, r)
      | (Inr _, r) \<Rightarrow> insert_channels dbID chIDs r)"

section \<open>Remote agents\<close>

definition ListRemoteAgents :: "RemoteAgent list reg_op" where
  "ListRemoteAgents =
     query (\<lambda>r. sort_key ra_Label (e_ord_agent (eng r) (t_rows (remote_agents r))))"

definition GetRemoteAgent :: "int \<Rightarrow> RemoteAgent option reg_op" where
  "GetRemoteAgent i = query (\<lambda>r. by_id ra_ID i (remote_agents r))"

definition set_ra_ID :: "int \<Rightarrow> RemoteAgent \<Rightarrow> RemoteAgent" where
  "set_ra_ID i a = a\<lparr>ra_ID := i\<rparr>"

definition CreateRemoteAgent :: "RemoteAgent \<Rightarrow> int reg_op" where
  "CreateRemoteAgent a = exec (\<lambda>r.
     let (i, t) = sql_insert set_ra_ID
           (a\<lparr>ra_CreatedAt := now_utc r, ra_UpdatedAt := now_utc r\<rparr>) (remote_agents r)
     in (Inr i, r\<lparr>remote_agents := t\<rparr>))"

definition UpdateRemoteAgent :: "RemoteAgent \<Rightarrow> unit reg_op" where
  "UpdateRemoteAgent a = exec (\<lambda>r.
     (Inr (), r\<lparr>remote_agents := sql_update (\<lambda>x. ra_ID x = ra_ID a)
        (\<lambda>x. x\<lparr>ra_Label := ra_Label a, ra_Endpoint := ra_Endpoint a, ra_Token := ra_Token a,
               ra_CertFingerprint := ra_CertFingerprint a, ra_UpdatedAt := now_utc r\<rparr>)
        (remote_agents r)\<rparr>))"

definition DeleteRemoteAgent :: "int \<Rightarrow> unit reg_op" where
  "DeleteRemoteAgent i = exec (\<lambda>r.
     (Inr (), r\<lparr>remote_agents := sql_delete (\<lambda>x. ra_ID x = i) (remote_agents r)\<rparr>))"

end
