(* ===== verification/RegistryLog.thy ===== *)
theory RegistryLog
  imports RegistryCfg
begin

text \<open>
  \<open>internal/registry/registry.go\<close>: the run log (\<open>backup_runs\<close>), its filter with SQL's \<open>LIKE\<close>, and the
  list of uploaded files (\<open>backup_files\<close>).
\<close>

section \<open>The life of a run\<close>

definition set_br_ID :: "int \<Rightarrow> BackupRun \<Rightarrow> BackupRun" where
  "set_br_ID i b = b\<lparr>br_ID := i\<rparr>"

definition CreateBackupRun :: "BackupRun \<Rightarrow> int reg_op" where
  "CreateBackupRun run = exec (\<lambda>r.
     let (i, t) = sql_insert set_br_ID (run\<lparr>br_CreatedAt := now_utc r\<rparr>) (backup_runs r)
     in (Inr i, r\<lparr>backup_runs := t\<rparr>))"

definition UpdateBackupRunStarted :: "int \<Rightarrow> string \<Rightarrow> unit reg_op" where
  "UpdateBackupRunStarted i startedAt = exec (\<lambda>r.
     (Inr (), r\<lparr>backup_runs := sql_update (\<lambda>x. br_ID x = i) (\<lambda>x. x\<lparr>br_StartedAt := startedAt\<rparr>)
        (backup_runs r)\<rparr>))"

definition FinishBackupRun :: "int \<Rightarrow> string \<Rightarrow> string \<Rightarrow> int \<Rightarrow> string \<Rightarrow> unit reg_op" where
  "FinishBackupRun i status message durationMS startedAt =
     (if startedAt = []
      then exec (\<lambda>r. (Inr (), r\<lparr>backup_runs := sql_update (\<lambda>x. br_ID x = i)
             (\<lambda>x. x\<lparr>br_Status := status, br_Message := message, br_DurationMS := durationMS\<rparr>)
             (backup_runs r)\<rparr>))
      else exec (\<lambda>r. (Inr (), r\<lparr>backup_runs := sql_update (\<lambda>x. br_ID x = i)
             (\<lambda>x. x\<lparr>br_Status := status, br_Message := message, br_DurationMS := durationMS,
                    br_StartedAt := startedAt\<rparr>) (backup_runs r)\<rparr>)))"

definition DeleteAllBackupRuns :: "unit reg_op" where
  "DeleteAllBackupRuns = exec (\<lambda>r. (Inr (), r\<lparr>backup_runs := sql_delete (\<lambda>_. True) (backup_runs r)\<rparr>))"

section \<open>Filtering the log\<close>

text \<open>
  SQL's \<open>LIKE\<close> with an escape character: \<open>%\<close> matches any text, \<open>_\<close> one character (in UTF-8, a byte and the
  continuation bytes after it), an escaped character itself, and letters of the ASCII range match in
  either case. A pattern that ends in its escape character matches nothing.
\<close>

definition drop_char :: "string \<Rightarrow> string" where
  "drop_char s = dropWhile (\<lambda>c. 128 \<le> (of_char c :: nat) \<and> (of_char c :: nat) < 192) (tl s)"

fun like :: "char \<Rightarrow> string \<Rightarrow> string \<Rightarrow> bool" where
  "like esc [] s = (s = [])"
| "like esc (p # ps) s =
     (if p = esc then
        (case ps of
           [] \<Rightarrow> False
         | q # qs \<Rightarrow> (case s of [] \<Rightarrow> False | c # cs \<Rightarrow> lower_byte c = lower_byte q \<and> like esc qs cs))
      else if p = CHR ''%'' then
        like esc ps s \<or> (case s of [] \<Rightarrow> False | c # cs \<Rightarrow> like esc (p # ps) cs)
      else if p = CHR ''_'' then (s \<noteq> [] \<and> like esc ps (drop_char s))
      else (case s of [] \<Rightarrow> False | c # cs \<Rightarrow> lower_byte c = lower_byte p \<and> like esc ps cs))"

abbreviation backslash :: char where
  "backslash \<equiv> CHR 0x5C"

definition likeEscape :: "string \<Rightarrow> string" where
  "likeEscape s = replace_bytes
     (\<lambda>c. if c = backslash then [backslash, backslash]
          else if c = CHR ''%'' then [backslash, CHR ''%'']
          else if c = CHR ''_'' then [backslash, CHR ''_'']
          else [c]) s"

text \<open>
  The conditions \<open>backupRunFilter\<close> joins with \<open>AND\<close>, each with its argument, and the clause as SQL text.
\<close>

datatype run_cond = StatusIs string | DBNameLike string

fun cond_text :: "run_cond \<Rightarrow> string" where
  "cond_text (StatusIs v) = ''status = ?''"
| "cond_text (DBNameLike v) = ''dbname LIKE ? ESCAPE '' @ [CHR 0x27, backslash, CHR 0x27]"

fun cond_arg :: "run_cond \<Rightarrow> string" where
  "cond_arg (StatusIs v) = v"
| "cond_arg (DBNameLike v) = v"

fun cond_holds :: "run_cond \<Rightarrow> BackupRun \<Rightarrow> bool" where
  "cond_holds (StatusIs v) b = (br_Status b = v)"
| "cond_holds (DBNameLike v) b = like backslash v (br_DBName b)"

definition run_conds :: "string \<Rightarrow> string \<Rightarrow> run_cond list" where
  "run_conds status dbnameQuery =
     (if status \<noteq> [] then [StatusIs status] else []) @
     (if dbnameQuery \<noteq> [] then [DBNameLike (''%'' @ likeEscape dbnameQuery @ ''%'')] else [])"

definition backupRunFilter :: "string \<Rightarrow> string \<Rightarrow> string \<times> string list" where
  "backupRunFilter status dbnameQuery =
     (let conds = run_conds status dbnameQuery
      in if conds = [] then ([], [])
         else ('' WHERE '' @ Join (map cond_text conds) '' AND '', map cond_arg conds))"

definition run_matches :: "string \<Rightarrow> string \<Rightarrow> BackupRun \<Rightarrow> bool" where
  "run_matches status dbnameQuery b = (\<forall>c \<in> set (run_conds status dbnameQuery). cond_holds c b)"

text \<open>\<open>LIMIT l OFFSET o\<close>: a negative limit is no limit, a negative offset is 0.\<close>

definition sql_page :: "int \<Rightarrow> int \<Rightarrow> 'a list \<Rightarrow> 'a list" where
  "sql_page limit offset xs =
     (let ys = drop (nat offset) xs in if limit < 0 then ys else take (nat limit) ys)"

definition ListBackupRuns :: "int \<Rightarrow> int \<Rightarrow> string \<Rightarrow> string \<Rightarrow> BackupRun list reg_op" where
  "ListBackupRuns limit offset status dbnameQuery =
     query (\<lambda>r. sql_page limit offset
       (rev (sort_key br_ID (filter (run_matches status dbnameQuery) (t_rows (backup_runs r))))))"

definition CountBackupRuns :: "string \<Rightarrow> string \<Rightarrow> int reg_op" where
  "CountBackupRuns status dbnameQuery =
     query (\<lambda>r. int (length (filter (run_matches status dbnameQuery) (t_rows (backup_runs r)))))"

section \<open>Uploaded files\<close>

definition set_bf_ID :: "int \<Rightarrow> BackupFile \<Rightarrow> BackupFile" where
  "set_bf_ID i f = f\<lparr>bf_ID := i\<rparr>"

definition CreateBackupFile :: "BackupFile \<Rightarrow> int reg_op" where
  "CreateBackupFile f = exec (\<lambda>r.
     let (i, t) = sql_insert set_bf_ID (f\<lparr>bf_CreatedAt := now_utc r\<rparr>) (backup_files r)
     in (Inr i, r\<lparr>backup_files := t\<rparr>))"

definition ListBackupFilesByDatabase :: "int \<Rightarrow> int \<Rightarrow> BackupFile list reg_op" where
  "ListBackupFilesByDatabase databaseID limit =
     query (\<lambda>r. sql_page limit 0
       (rev (sort_key bf_ID (filter (\<lambda>f. bf_DatabaseID f = databaseID) (t_rows (backup_files r))))))"

definition GetBackupFile :: "int \<Rightarrow> BackupFile option reg_op" where
  "GetBackupFile i = query (\<lambda>r. by_id bf_ID i (backup_files r))"

section \<open>What the search box finds\<close>

text \<open>A text that contains the query, upper and lower case letters of ASCII taken as the same.\<close>

definition contains_ci :: "string \<Rightarrow> string \<Rightarrow> bool" where
  "contains_ci s q \<longleftrightarrow> (\<exists>a b c. s = a @ b @ c \<and> ToLower b = ToLower q)"

lemma like_percent: "like backslash [CHR ''%''] s"
  by (induction s) auto

lemma likeEscape_Nil [simp]: "likeEscape [] = []"
  by (simp add: likeEscape_def replace_bytes_def)

lemma likeEscape_Cons:
  "likeEscape (c # cs) =
     (if c = backslash \<or> c = CHR ''%'' \<or> c = CHR ''_'' then [backslash, c] else [c]) @ likeEscape cs"
  by (auto simp: likeEscape_def replace_bytes_def)

lemma like_escaped_Cons:
  "like backslash (likeEscape (q # qs) @ ps) s =
     (case s of [] \<Rightarrow> False
      | c # cs \<Rightarrow> lower_byte c = lower_byte q \<and> like backslash (likeEscape qs @ ps) cs)"
  by (auto simp: likeEscape_Cons split: list.splits)

lemma like_literal:
  "like backslash (likeEscape q @ ''%'') s \<longleftrightarrow> (\<exists>b c. s = b @ c \<and> ToLower b = ToLower q)"
proof (induction q arbitrary: s)
  case Nil
  show ?case using like_percent [of s] by (auto simp: ToLower_def)
next
  case (Cons x q)
  show ?case
  proof (cases s)
    case Nil
    then show ?thesis by (simp only: like_escaped_Cons) (auto simp: ToLower_def)
  next
    case (Cons y s')
    have "(\<exists>b c. y # s' = b @ c \<and> ToLower b = ToLower (x # q)) \<longleftrightarrow>
          lower_byte y = lower_byte x \<and> (\<exists>b c. s' = b @ c \<and> ToLower b = ToLower q)"
    proof
      assume "\<exists>b c. y # s' = b @ c \<and> ToLower b = ToLower (x # q)"
      then show "lower_byte y = lower_byte x \<and> (\<exists>b c. s' = b @ c \<and> ToLower b = ToLower q)"
        by (auto simp: ToLower_def Cons_eq_append_conv)
    next
      assume "lower_byte y = lower_byte x \<and> (\<exists>b c. s' = b @ c \<and> ToLower b = ToLower q)"
      then obtain b c where "lower_byte y = lower_byte x" "s' = b @ c" "ToLower b = ToLower q"
        by blast
      then have "y # s' = (y # b) @ c \<and> ToLower (y # b) = ToLower (x # q)"
        by (simp add: ToLower_def)
      then show "\<exists>b c. y # s' = b @ c \<and> ToLower b = ToLower (x # q)" by blast
    qed
    with Cons.IH Cons show ?thesis by (simp only: like_escaped_Cons list.case)
  qed
qed

lemma like_anywhere:
  "like backslash (CHR ''%'' # ps) s \<longleftrightarrow> (\<exists>a t. s = a @ t \<and> like backslash ps t)"
proof (induction s)
  case Nil
  then show ?case by simp
next
  case (Cons c cs)
  have "like backslash (CHR ''%'' # ps) (c # cs) \<longleftrightarrow>
        like backslash ps (c # cs) \<or> like backslash (CHR ''%'' # ps) cs"
    by simp
  also have "\<dots> \<longleftrightarrow> (\<exists>a t. c # cs = a @ t \<and> like backslash ps t)"
    using Cons.IH by (auto simp: Cons_eq_append_conv)
  finally show ?case .
qed

lemma like_search: "like backslash (''%'' @ likeEscape q @ ''%'') s \<longleftrightarrow> contains_ci s q"
  using like_anywhere [of "likeEscape q @ ''%''" s]
  by (auto simp: like_literal contains_ci_def)

end
