(* ===== verification/RegistryInv.thy ===== *)
theory RegistryInv
  imports RegistryLog
begin

text \<open>
  What the schema promises of the store, and that every statement of \<open>registry.go\<close> keeps it: keys are
  distinct, positive and never ahead of their table's sequence, the triple of name, agent and driver
  identifies a database, a membership or assignment is stored once, and no row refers to a parent that
  is gone. The steps are single statements, so the invariant holds under any interleaving of the
  processes that share the file.
\<close>

section \<open>The tables as instances of the keyed-table contract\<close>

interpretation db_tbl: id_table d_ID set_d_ID
  by unfold_locales (simp add: set_d_ID_def)

interpretation sched_tbl: id_table s_ID set_s_ID
  by unfold_locales (simp add: set_s_ID_def)

interpretation shared_tbl: id_table ss_ID set_ss_ID
  by unfold_locales (simp add: set_ss_ID_def)

interpretation time_tbl: id_table sst_ID set_sst_ID
  by unfold_locales (simp add: set_sst_ID_def)

interpretation target_tbl: id_table st_ID set_st_ID
  by unfold_locales (simp add: set_st_ID_def)

interpretation channel_tbl: id_table nc_ID set_nc_ID
  by unfold_locales (simp add: set_nc_ID_def)

interpretation run_tbl: id_table br_ID set_br_ID
  by unfold_locales (simp add: set_br_ID_def)

interpretation file_tbl: id_table bf_ID set_bf_ID
  by unfold_locales (simp add: set_bf_ID_def)

interpretation agent_tbl: id_table ra_ID set_ra_ID
  by unfold_locales (simp add: set_ra_ID_def)

lemmas tbl_wf_insert =
  db_tbl.wf_insert sched_tbl.wf_insert shared_tbl.wf_insert time_tbl.wf_insert target_tbl.wf_insert
  channel_tbl.wf_insert run_tbl.wf_insert file_tbl.wf_insert agent_tbl.wf_insert

lemmas tbl_wf_update =
  db_tbl.wf_update sched_tbl.wf_update shared_tbl.wf_update time_tbl.wf_update target_tbl.wf_update
  channel_tbl.wf_update run_tbl.wf_update file_tbl.wf_update agent_tbl.wf_update

lemmas tbl_wf_delete =
  db_tbl.wf_delete sched_tbl.wf_delete shared_tbl.wf_delete time_tbl.wf_delete target_tbl.wf_delete
  channel_tbl.wf_delete run_tbl.wf_delete file_tbl.wf_delete agent_tbl.wf_delete

lemmas tbl_ids_insert =
  db_tbl.ids_insert sched_tbl.ids_insert shared_tbl.ids_insert time_tbl.ids_insert
  target_tbl.ids_insert channel_tbl.ids_insert run_tbl.ids_insert file_tbl.ids_insert
  agent_tbl.ids_insert

lemmas tbl_ids_update =
  db_tbl.ids_update shared_tbl.ids_update channel_tbl.ids_update

section \<open>The invariant\<close>

definition tables_wf :: "registry \<Rightarrow> bool" where
  "tables_wf r \<longleftrightarrow>
     wf_table st_ID (storage_targets r) \<and> wf_table d_ID (databases r) \<and> wf_table s_ID (schedules r) \<and>
     wf_table ss_ID (shared_schedules r) \<and> wf_table sst_ID (shared_schedule_times r) \<and>
     wf_table nc_ID (notify_channels r) \<and> wf_table br_ID (backup_runs r) \<and>
     wf_table bf_ID (backup_files r) \<and> wf_table ra_ID (remote_agents r)"

definition unique_wf :: "registry \<Rightarrow> bool" where
  "unique_wf r \<longleftrightarrow>
     distinct (map db_identity (t_rows (databases r))) \<and>
     distinct (shared_schedule_databases r) \<and> distinct (database_notify_channels r)"

definition refs_wf :: "registry \<Rightarrow> bool" where
  "refs_wf r \<longleftrightarrow>
     s_DatabaseID ` set (t_rows (schedules r)) \<subseteq> ids d_ID (databases r) \<and>
     sst_SharedScheduleID ` set (t_rows (shared_schedule_times r)) \<subseteq> ids ss_ID (shared_schedules r) \<and>
     set (shared_schedule_databases r) \<subseteq> ids ss_ID (shared_schedules r) \<times> ids d_ID (databases r) \<and>
     set (database_notify_channels r) \<subseteq> ids d_ID (databases r) \<times> ids nc_ID (notify_channels r)"

definition reg_inv :: "registry \<Rightarrow> bool" where
  "reg_inv r \<longleftrightarrow> tables_wf r \<and> unique_wf r \<and> refs_wf r \<and> engine_ok (eng r)"

lemma reg_inv_empty: "engine_ok e \<Longrightarrow> reg_inv (empty_registry e)"
  by (simp add: reg_inv_def tables_wf_def unique_wf_def refs_wf_def empty_registry_def
      db_tbl.wf_empty sched_tbl.wf_empty shared_tbl.wf_empty time_tbl.wf_empty target_tbl.wf_empty
      channel_tbl.wf_empty run_tbl.wf_empty file_tbl.wf_empty agent_tbl.wf_empty)

lemma reg_inv_engine: "engine_ok e \<Longrightarrow> reg_inv r \<Longrightarrow> reg_inv (r\<lparr>eng := e\<rparr>)"
  by (simp add: reg_inv_def tables_wf_def unique_wf_def refs_wf_def)

lemma reg_inv_faults [simp]: "reg_inv (r\<lparr>eng := (eng r)\<lparr>e_faults := fs\<rparr>\<rparr>) = reg_inv r"
  by (simp add: reg_inv_def tables_wf_def unique_wf_def refs_wf_def)

section \<open>Each statement keeps it\<close>

lemma exec_inv:
  assumes "\<And>r. reg_inv r \<Longrightarrow> reg_inv (snd (u r))" and "reg_inv r"
  shows "reg_inv (snd (exec u r))"
  using assms by (cases rule: exec_cases [of u r]) simp_all

lemmas inv_defs = reg_inv_def tables_wf_def unique_wf_def refs_wf_def

lemma reg_Create_inv: "reg_inv r \<Longrightarrow> reg_inv (snd (reg_Create d r))"
  unfolding reg_Create_def
  by (erule exec_inv [rotated])
    (auto simp: inv_defs Let_def split_beta tbl_wf_insert tbl_ids_insert db_tbl.insert_rows
      set_d_ID_def db_identity_def)

lemma reg_Update_inv: "reg_inv r \<Longrightarrow> reg_inv (snd (reg_Update d r))"
  unfolding reg_Update_def
  by (erule exec_inv [rotated])
    (auto simp: inv_defs Let_def tbl_wf_update tbl_ids_update simp del: rows_update)

lemma SetEnabled_inv: "reg_inv r \<Longrightarrow> reg_inv (snd (SetEnabled i b r))"
  unfolding SetEnabled_def
proof (erule exec_inv [rotated])
  fix r :: registry
  let ?t = "sql_update (\<lambda>x. d_ID x = i) (\<lambda>x. x\<lparr>d_Enabled := b, d_UpdatedAt := now_utc r\<rparr>) (databases r)"
  assume "reg_inv r"
  moreover have "map db_identity (t_rows ?t) = map db_identity (t_rows (databases r))"
    by (auto simp: db_identity_def)
  ultimately show "reg_inv (snd (Inr (), r\<lparr>databases := ?t\<rparr>))"
    by (simp add: inv_defs tbl_wf_update tbl_ids_update del: rows_update)
qed

lemma reg_Delete_inv: "reg_inv r \<Longrightarrow> reg_inv (snd (reg_Delete i r))"
  unfolding reg_Delete_def
  by (erule exec_inv [rotated])
    (auto simp: inv_defs tbl_wf_delete distinct_map_filter)

lemma CreateSchedule_inv: "reg_inv r \<Longrightarrow> reg_inv (snd (CreateSchedule i t r))"
  unfolding CreateSchedule_def
  by (erule exec_inv [rotated])
    (auto simp: inv_defs Let_def split_beta tbl_wf_insert sched_tbl.insert_rows set_s_ID_def has_id_iff)

lemma DeleteSchedule_inv: "reg_inv r \<Longrightarrow> reg_inv (snd (DeleteSchedule i r))"
  unfolding DeleteSchedule_def
  by (erule exec_inv [rotated]) (auto simp: inv_defs tbl_wf_delete)

lemma MarkScheduleRun_inv: "reg_inv r \<Longrightarrow> reg_inv (snd (MarkScheduleRun i d r))"
  unfolding MarkScheduleRun_def
  by (erule exec_inv [rotated]) (auto simp: inv_defs tbl_wf_update)

lemma CreateSharedScheduleTime_inv: "reg_inv r \<Longrightarrow> reg_inv (snd (CreateSharedScheduleTime i t r))"
  unfolding CreateSharedScheduleTime_def
  by (erule exec_inv [rotated])
    (auto simp: inv_defs Let_def split_beta tbl_wf_insert time_tbl.insert_rows set_sst_ID_def has_id_iff)

lemma DeleteSharedScheduleTime_inv: "reg_inv r \<Longrightarrow> reg_inv (snd (DeleteSharedScheduleTime i r))"
  unfolding DeleteSharedScheduleTime_def
  by (erule exec_inv [rotated]) (auto simp: inv_defs tbl_wf_delete)

lemma MarkSharedScheduleRun_inv: "reg_inv r \<Longrightarrow> reg_inv (snd (MarkSharedScheduleRun i d r))"
  unfolding MarkSharedScheduleRun_def
  by (erule exec_inv [rotated]) (auto simp: inv_defs tbl_wf_update)

lemma clear_members_inv: "reg_inv r \<Longrightarrow> reg_inv (snd (clear_members i r))"
  unfolding clear_members_def
  by (erule exec_inv [rotated]) (auto simp: inv_defs)

lemma insert_member_inv: "reg_inv r \<Longrightarrow> reg_inv (snd (insert_member i d r))"
  unfolding insert_member_def
  by (erule exec_inv [rotated]) (auto simp: inv_defs has_id_iff)

lemma insert_shared_inv: "reg_inv r \<Longrightarrow> reg_inv (snd (insert_shared n r))"
  unfolding insert_shared_def
  by (erule exec_inv [rotated])
    (auto simp: inv_defs Let_def split_beta tbl_wf_insert tbl_ids_insert)

lemma rename_shared_inv: "reg_inv r \<Longrightarrow> reg_inv (snd (rename_shared i n r))"
  unfolding rename_shared_def
  by (erule exec_inv [rotated]) (simp add: inv_defs tbl_wf_update tbl_ids_update)

lemma SetSharedScheduleEnabled_inv: "reg_inv r \<Longrightarrow> reg_inv (snd (SetSharedScheduleEnabled i b r))"
  unfolding SetSharedScheduleEnabled_def
  by (erule exec_inv [rotated]) (simp add: inv_defs tbl_wf_update tbl_ids_update)

lemma DeleteSharedSchedule_inv: "reg_inv r \<Longrightarrow> reg_inv (snd (DeleteSharedSchedule i r))"
  unfolding DeleteSharedSchedule_def
  by (erule exec_inv [rotated]) (auto simp: inv_defs tbl_wf_delete)

lemma CreateStorageTarget_inv: "reg_inv r \<Longrightarrow> reg_inv (snd (CreateStorageTarget k l c r))"
  unfolding CreateStorageTarget_def
  by (erule exec_inv [rotated]) (auto simp: inv_defs Let_def split_beta tbl_wf_insert)

lemma UpdateStorageTargetConfig_inv: "reg_inv r \<Longrightarrow> reg_inv (snd (UpdateStorageTargetConfig i c r))"
  unfolding UpdateStorageTargetConfig_def
  by (erule exec_inv [rotated]) (auto simp: inv_defs tbl_wf_update)

lemma UpdateStorageTargetLabel_inv: "reg_inv r \<Longrightarrow> reg_inv (snd (UpdateStorageTargetLabel i l r))"
  unfolding UpdateStorageTargetLabel_def
  by (erule exec_inv [rotated]) (auto simp: inv_defs tbl_wf_update)

lemma UpdateStorageTargetLabelConfig_inv:
  "reg_inv r \<Longrightarrow> reg_inv (snd (UpdateStorageTargetLabelConfig i l c r))"
  unfolding UpdateStorageTargetLabelConfig_def
  by (erule exec_inv [rotated]) (auto simp: inv_defs tbl_wf_update)

lemma DeleteStorageTarget_inv: "reg_inv r \<Longrightarrow> reg_inv (snd (DeleteStorageTarget i r))"
  unfolding DeleteStorageTarget_def
  by (erule exec_inv [rotated]) (auto simp: inv_defs tbl_wf_delete)

lemma CreateNotifyChannel_inv: "reg_inv r \<Longrightarrow> reg_inv (snd (CreateNotifyChannel k l c r))"
  unfolding CreateNotifyChannel_def
  by (erule exec_inv [rotated]) (auto simp: inv_defs Let_def split_beta tbl_wf_insert tbl_ids_insert)

lemma UpdateNotifyChannel_inv: "reg_inv r \<Longrightarrow> reg_inv (snd (UpdateNotifyChannel i l c r))"
  unfolding UpdateNotifyChannel_def
  by (erule exec_inv [rotated]) (simp add: inv_defs tbl_wf_update tbl_ids_update)

lemma DeleteNotifyChannel_inv: "reg_inv r \<Longrightarrow> reg_inv (snd (DeleteNotifyChannel i r))"
  unfolding DeleteNotifyChannel_def
  by (erule exec_inv [rotated]) (auto simp: inv_defs tbl_wf_delete)

lemma clear_channels_inv: "reg_inv r \<Longrightarrow> reg_inv (snd (clear_channels i r))"
  unfolding clear_channels_def
  by (erule exec_inv [rotated]) (auto simp: inv_defs)

lemma insert_channel_inv: "reg_inv r \<Longrightarrow> reg_inv (snd (insert_channel i d r))"
  unfolding insert_channel_def
  by (erule exec_inv [rotated]) (auto simp: inv_defs has_id_iff)

lemma CreateRemoteAgent_inv: "reg_inv r \<Longrightarrow> reg_inv (snd (CreateRemoteAgent a r))"
  unfolding CreateRemoteAgent_def
  by (erule exec_inv [rotated]) (auto simp: inv_defs Let_def split_beta tbl_wf_insert)

lemma UpdateRemoteAgent_inv: "reg_inv r \<Longrightarrow> reg_inv (snd (UpdateRemoteAgent a r))"
  unfolding UpdateRemoteAgent_def
  by (erule exec_inv [rotated]) (auto simp: inv_defs tbl_wf_update)

lemma DeleteRemoteAgent_inv: "reg_inv r \<Longrightarrow> reg_inv (snd (DeleteRemoteAgent i r))"
  unfolding DeleteRemoteAgent_def
  by (erule exec_inv [rotated]) (auto simp: inv_defs tbl_wf_delete)

lemma CreateBackupRun_inv: "reg_inv r \<Longrightarrow> reg_inv (snd (CreateBackupRun b r))"
  unfolding CreateBackupRun_def
  by (erule exec_inv [rotated]) (auto simp: inv_defs Let_def split_beta tbl_wf_insert)

lemma UpdateBackupRunStarted_inv: "reg_inv r \<Longrightarrow> reg_inv (snd (UpdateBackupRunStarted i s r))"
  unfolding UpdateBackupRunStarted_def
  by (erule exec_inv [rotated]) (auto simp: inv_defs tbl_wf_update)

lemma FinishBackupRun_inv: "reg_inv r \<Longrightarrow> reg_inv (snd (FinishBackupRun i s m d t r))"
  unfolding FinishBackupRun_def
  by (cases "t = []"; simp only: if_True if_False simp_thms; erule exec_inv [rotated];
      auto simp: inv_defs tbl_wf_update)

lemma DeleteAllBackupRuns_inv: "reg_inv r \<Longrightarrow> reg_inv (snd (DeleteAllBackupRuns r))"
  unfolding DeleteAllBackupRuns_def
  by (erule exec_inv [rotated]) (auto simp: inv_defs tbl_wf_delete)

lemma CreateBackupFile_inv: "reg_inv r \<Longrightarrow> reg_inv (snd (CreateBackupFile f r))"
  unfolding CreateBackupFile_def
  by (erule exec_inv [rotated]) (auto simp: inv_defs Let_def split_beta tbl_wf_insert)

section \<open>Steps of the store\<close>

text \<open>
  One step is one statement of any process, or a change of the engine (time passing, a fault arming or
  consumed, another choice of row orders).
\<close>

inductive reg_step :: "registry \<Rightarrow> registry \<Rightarrow> bool" where
  step_reg_Create: "reg_step r (snd (reg_Create d r))"
| step_reg_Update: "reg_step r (snd (reg_Update d r))"
| step_SetEnabled: "reg_step r (snd (SetEnabled i b r))"
| step_reg_Delete: "reg_step r (snd (reg_Delete i r))"
| step_CreateSchedule: "reg_step r (snd (CreateSchedule i n r))"
| step_DeleteSchedule: "reg_step r (snd (DeleteSchedule i r))"
| step_MarkScheduleRun: "reg_step r (snd (MarkScheduleRun i n r))"
| step_CreateSharedScheduleTime: "reg_step r (snd (CreateSharedScheduleTime i n r))"
| step_DeleteSharedScheduleTime: "reg_step r (snd (DeleteSharedScheduleTime i r))"
| step_MarkSharedScheduleRun: "reg_step r (snd (MarkSharedScheduleRun i n r))"
| step_clear_members: "reg_step r (snd (clear_members i r))"
| step_insert_member: "reg_step r (snd (insert_member i j r))"
| step_insert_shared: "reg_step r (snd (insert_shared n r))"
| step_rename_shared: "reg_step r (snd (rename_shared i n r))"
| step_SetSharedScheduleEnabled: "reg_step r (snd (SetSharedScheduleEnabled i b r))"
| step_DeleteSharedSchedule: "reg_step r (snd (DeleteSharedSchedule i r))"
| step_CreateStorageTarget: "reg_step r (snd (CreateStorageTarget n l c r))"
| step_UpdateStorageTargetConfig: "reg_step r (snd (UpdateStorageTargetConfig i c r))"
| step_UpdateStorageTargetLabel: "reg_step r (snd (UpdateStorageTargetLabel i l r))"
| step_UpdateStorageTargetLabelConfig: "reg_step r (snd (UpdateStorageTargetLabelConfig i l c r))"
| step_DeleteStorageTarget: "reg_step r (snd (DeleteStorageTarget i r))"
| step_CreateNotifyChannel: "reg_step r (snd (CreateNotifyChannel n l c r))"
| step_UpdateNotifyChannel: "reg_step r (snd (UpdateNotifyChannel i l c r))"
| step_DeleteNotifyChannel: "reg_step r (snd (DeleteNotifyChannel i r))"
| step_clear_channels: "reg_step r (snd (clear_channels i r))"
| step_insert_channel: "reg_step r (snd (insert_channel i j r))"
| step_CreateRemoteAgent: "reg_step r (snd (CreateRemoteAgent a r))"
| step_UpdateRemoteAgent: "reg_step r (snd (UpdateRemoteAgent a r))"
| step_DeleteRemoteAgent: "reg_step r (snd (DeleteRemoteAgent i r))"
| step_CreateBackupRun: "reg_step r (snd (CreateBackupRun u r))"
| step_UpdateBackupRunStarted: "reg_step r (snd (UpdateBackupRunStarted i n r))"
| step_FinishBackupRun: "reg_step r (snd (FinishBackupRun i n m k l r))"
| step_DeleteAllBackupRuns: "reg_step r (snd (DeleteAllBackupRuns r))"
| step_CreateBackupFile: "reg_step r (snd (CreateBackupFile f r))"
| step_faults: "reg_step r (r\<lparr>eng := (eng r)\<lparr>e_faults := fs\<rparr>\<rparr>)"
| step_engine: "engine_ok e \<Longrightarrow> reg_step r (r\<lparr>eng := e\<rparr>)"

lemmas stmt_inv =
  reg_Create_inv
  reg_Update_inv
  SetEnabled_inv
  reg_Delete_inv
  CreateSchedule_inv
  DeleteSchedule_inv
  MarkScheduleRun_inv
  CreateSharedScheduleTime_inv
  DeleteSharedScheduleTime_inv
  MarkSharedScheduleRun_inv
  clear_members_inv
  insert_member_inv
  insert_shared_inv
  rename_shared_inv
  SetSharedScheduleEnabled_inv
  DeleteSharedSchedule_inv
  CreateStorageTarget_inv
  UpdateStorageTargetConfig_inv
  UpdateStorageTargetLabel_inv
  UpdateStorageTargetLabelConfig_inv
  DeleteStorageTarget_inv
  CreateNotifyChannel_inv
  UpdateNotifyChannel_inv
  DeleteNotifyChannel_inv
  clear_channels_inv
  insert_channel_inv
  CreateRemoteAgent_inv
  UpdateRemoteAgent_inv
  DeleteRemoteAgent_inv
  CreateBackupRun_inv
  UpdateBackupRunStarted_inv
  FinishBackupRun_inv
  DeleteAllBackupRuns_inv
  CreateBackupFile_inv

lemma reg_step_inv:
  assumes "reg_inv r" and "reg_step r t"
  shows "reg_inv t"
  using assms(2,1) by (cases rule: reg_step.cases) (simp_all add: stmt_inv reg_inv_engine)

interpretation reg_sys: step_invariant reg_step reg_inv
  by unfold_locales (rule reg_step_inv)

section \<open>Every method moves by steps\<close>

lemma query_moves [moves_intros]: "moves_by reg_step (query q)"
proof (rule moves_byI)
  fix r
  obtain fs where "snd (query q r) = r\<lparr>eng := (eng r)\<lparr>e_faults := fs\<rparr>\<rparr>"
    using query_state by blast
  then show "reg_step\<^sup>*\<^sup>* r (snd (query q r))"
    using step_faults [of r fs] by (metis r_into_rtranclp)
qed

lemma stmt_moves [moves_intros]:
  "moves_by reg_step (reg_Create d)"
  "moves_by reg_step (reg_Update d)"
  "moves_by reg_step (SetEnabled i b)"
  "moves_by reg_step (reg_Delete i)"
  "moves_by reg_step (CreateSchedule i n)"
  "moves_by reg_step (DeleteSchedule i)"
  "moves_by reg_step (MarkScheduleRun i n)"
  "moves_by reg_step (CreateSharedScheduleTime i n)"
  "moves_by reg_step (DeleteSharedScheduleTime i)"
  "moves_by reg_step (MarkSharedScheduleRun i n)"
  "moves_by reg_step (clear_members i)"
  "moves_by reg_step (insert_member i j)"
  "moves_by reg_step (insert_shared n)"
  "moves_by reg_step (rename_shared i n)"
  "moves_by reg_step (SetSharedScheduleEnabled i b)"
  "moves_by reg_step (DeleteSharedSchedule i)"
  "moves_by reg_step (CreateStorageTarget n l c)"
  "moves_by reg_step (UpdateStorageTargetConfig i c)"
  "moves_by reg_step (UpdateStorageTargetLabel i l)"
  "moves_by reg_step (UpdateStorageTargetLabelConfig i l c)"
  "moves_by reg_step (DeleteStorageTarget i)"
  "moves_by reg_step (CreateNotifyChannel n l c)"
  "moves_by reg_step (UpdateNotifyChannel i l c)"
  "moves_by reg_step (DeleteNotifyChannel i)"
  "moves_by reg_step (clear_channels i)"
  "moves_by reg_step (insert_channel i j)"
  "moves_by reg_step (CreateRemoteAgent a)"
  "moves_by reg_step (UpdateRemoteAgent a)"
  "moves_by reg_step (DeleteRemoteAgent i)"
  "moves_by reg_step (CreateBackupRun u)"
  "moves_by reg_step (UpdateBackupRunStarted i n)"
  "moves_by reg_step (FinishBackupRun i n m k l)"
  "moves_by reg_step (DeleteAllBackupRuns)"
  "moves_by reg_step (CreateBackupFile f)"
  by (rule moves_by_step, rule reg_step.intros)+

lemmas read_defs =
  reg_List_def
  ListEnabled_def
  reg_Get_def
  GetByName_def
  GetByNameAgentDriver_def
  ListSchedulesByDatabase_def
  DatabaseIDsWithSchedule_def
  GetSchedule_def
  ListDueSchedules_def
  ListSharedScheduleTimes_def
  ListDatabasesForSharedSchedule_def
  GetSharedScheduleTime_def
  ListDueSharedSchedules_def
  ListStorageTargets_def
  GetStorageTarget_def
  ListNotifyChannels_def
  GetNotifyChannel_def
  ListNotifyChannelsForDatabase_def
  NotifyChannelIDsByDatabase_def
  ListRemoteAgents_def
  GetRemoteAgent_def
  ListBackupRuns_def
  CountBackupRuns_def
  ListBackupFilesByDatabase_def
  GetBackupFile_def

lemma read_moves [moves_intros]:
  "moves_by reg_step (reg_List)"
  "moves_by reg_step (ListEnabled)"
  "moves_by reg_step (reg_Get i)"
  "moves_by reg_step (GetByName n)"
  "moves_by reg_step (GetByNameAgentDriver n i m)"
  "moves_by reg_step (ListSchedulesByDatabase i)"
  "moves_by reg_step (DatabaseIDsWithSchedule)"
  "moves_by reg_step (GetSchedule i)"
  "moves_by reg_step (ListDueSchedules now)"
  "moves_by reg_step (ListSharedScheduleTimes i)"
  "moves_by reg_step (ListDatabasesForSharedSchedule i)"
  "moves_by reg_step (GetSharedScheduleTime i)"
  "moves_by reg_step (ListDueSharedSchedules now)"
  "moves_by reg_step (ListStorageTargets)"
  "moves_by reg_step (GetStorageTarget i)"
  "moves_by reg_step (ListNotifyChannels)"
  "moves_by reg_step (GetNotifyChannel i)"
  "moves_by reg_step (ListNotifyChannelsForDatabase i)"
  "moves_by reg_step (NotifyChannelIDsByDatabase)"
  "moves_by reg_step (ListRemoteAgents)"
  "moves_by reg_step (GetRemoteAgent i)"
  "moves_by reg_step (ListBackupRuns i j n m)"
  "moves_by reg_step (CountBackupRuns n m)"
  "moves_by reg_step (ListBackupFilesByDatabase i j)"
  "moves_by reg_step (GetBackupFile i)"
  unfolding read_defs by (rule query_moves)+

lemma insert_members_moves [moves_intros]: "moves_by reg_step (insert_members sid ds)"
proof (induction ds)
  case Nil
  show ?case by (simp add: moves_by_def)
next
  case (Cons d ds)
  have "insert_members sid (d # ds) =
    (\<lambda>r. case insert_member sid d r of (Inl e, r) \<Rightarrow> (Inl e, r) | (Inr _, r) \<Rightarrow> insert_members sid ds r)"
    by (rule ext) simp
  then show ?case by (simp only:) (rule moves_by_bind, rule stmt_moves, rule Cons.IH)
qed

lemma insert_channels_moves [moves_intros]: "moves_by reg_step (insert_channels dbID cs)"
proof (induction cs)
  case Nil
  show ?case by (simp add: moves_by_def)
next
  case (Cons c cs)
  have "insert_channels dbID (c # cs) =
    (\<lambda>r. case insert_channel dbID c r of (Inl e, r) \<Rightarrow> (Inl e, r) | (Inr _, r) \<Rightarrow> insert_channels dbID cs r)"
    by (rule ext) simp
  then show ?case by (simp only:) (rule moves_by_bind, rule stmt_moves, rule Cons.IH)
qed

lemma setSharedScheduleDatabases_moves [moves_intros]:
  "moves_by reg_step (setSharedScheduleDatabases sid ds)"
  unfolding setSharedScheduleDatabases_def [abs_def]
  by (rule moves_by_bind) (rule moves_intros)+

lemma CreateSharedSchedule_moves [moves_intros]: "moves_by reg_step (CreateSharedSchedule n ds)"
  unfolding CreateSharedSchedule_def [abs_def]
  by (rule moves_by_bind moves_intros moves_by_return)+

lemma UpdateSharedSchedule_moves [moves_intros]: "moves_by reg_step (UpdateSharedSchedule i n ds)"
  unfolding UpdateSharedSchedule_def [abs_def]
  by (rule moves_by_bind moves_intros)+

lemma SetDatabaseNotifyChannels_moves [moves_intros]:
  "moves_by reg_step (SetDatabaseNotifyChannels i cs)"
  unfolding SetDatabaseNotifyChannels_def [abs_def]
  by (rule moves_by_bind moves_intros)+

lemma load_shared_moves [moves_intros]: "moves_by reg_step (load_shared s)"
  unfolding load_shared_def [abs_def]
  by (rule moves_by_bind moves_intros moves_by_return)+

lemma load_all_shared_moves [moves_intros]: "moves_by reg_step (load_all_shared ss)"
proof (induction ss)
  case Nil
  show ?case by (simp add: moves_by_def)
next
  case (Cons s ss)
  have "load_all_shared (s # ss) =
    (\<lambda>r. case load_shared s r of
           (Inl e, r) \<Rightarrow> (Inl e, r)
         | (Inr x, r) \<Rightarrow>
             (case load_all_shared ss r of (Inl e, r) \<Rightarrow> (Inl e, r) | (Inr xs, r) \<Rightarrow> (Inr (x # xs), r)))"
    by (rule ext) simp
  then show ?case
    by (simp only:) (intro moves_by_bind [where h = "\<lambda>e. e"] load_shared_moves Cons.IH moves_by_return)
qed

lemma ListSharedSchedules_moves [moves_intros]: "moves_by reg_step ListSharedSchedules"
  unfolding ListSharedSchedules_def [abs_def]
  by (intro moves_by_bind [where h = "\<lambda>e. e"] query_moves load_all_shared_moves)

lemma GetSharedSchedule_moves [moves_intros]: "moves_by reg_step (GetSharedSchedule i)"
proof -
  have "moves_by reg_step (\<lambda>r. case x of None \<Rightarrow> (Inr None, r)
      | Some s \<Rightarrow> (case load_shared s r of (Inl e, r) \<Rightarrow> (Inl e, r) | (Inr y, r) \<Rightarrow> (Inr (Some y), r)))" for x
    by (cases x) (simp_all add: moves_by_return moves_by_bind [where h = "\<lambda>e. e"] load_shared_moves)
  then show ?thesis
    unfolding GetSharedSchedule_def [abs_def]
    by (intro moves_by_bind [where h = "\<lambda>e. e"] query_moves)
qed

lemma moves_inv: "moves_by reg_step u \<Longrightarrow> reg_inv r \<Longrightarrow> reg_inv (snd (u r))"
  using reg_sys.steps_inv by (auto simp: moves_by_def)

end
