(* ===== verification/Samples.thy ===== *)
theory Samples
  imports RegistryInv
begin

text \<open>
  One small deployment, built with the operations of the registry, at which the theorems of the other
  theories are applied: two databases, one of them behind an agent, a schedule of its own for the first and
  a shared schedule for both, all at half past two.
\<close>

definition sample_db :: Database where
  "sample_db = \<lparr>d_ID = 0, d_Name = ''shop'', d_Driver = ''mysql'', d_Host = ''db1'', d_Port = ''3306'',
     d_Username = ''root'', d_Password = ''secret'', d_AuthDB = [], d_StorageTargetID = 1, d_AgentID = 0,
     d_Enabled = True, d_CreatedAt = [], d_UpdatedAt = []\<rparr>"

definition sample_db2 :: Database where
  "sample_db2 = sample_db\<lparr>d_Name := ''blog'', d_Driver := ''mongo'', d_AgentID := 1\<rparr>"

definition sample_agent :: RemoteAgent where
  "sample_agent = \<lparr>ra_ID = 0, ra_Label = ''site2'', ra_Endpoint = ''https://site2:8443'', ra_Token = ''t0k'',
     ra_CertFingerprint = ''ab12'', ra_CreatedAt = [], ra_UpdatedAt = []\<rparr>"

definition sample_clock :: string where "sample_clock = ''2026-03-01 02:29:00''"

definition sample_registry :: registry where
  "sample_registry =
     (let r = empty_registry (plain_engine sample_clock);
          r = snd (CreateStorageTarget ''s3'' ''bucket'' ''{}'' r);
          r = snd (CreateRemoteAgent sample_agent r);
          r = snd (reg_Create sample_db r);
          r = snd (reg_Create sample_db2 r);
          r = snd (CreateSchedule 1 ''02:30'' r);
          r = snd (CreateSharedSchedule ''night'' [1, 2] r)
      in snd (CreateSharedScheduleTime 1 ''02:30'' r))"

definition sample_time :: civil where
  "sample_time = \<lparr>c_year = 2026, c_month = 3, c_day = 1, c_hour = 2, c_minute = 30, c_second = 7\<rparr>"

definition sample_row1 :: Database where
  "sample_row1 = sample_db\<lparr>d_ID := 1, d_CreatedAt := sample_clock, d_UpdatedAt := sample_clock\<rparr>"

definition sample_row2 :: Database where
  "sample_row2 = sample_db2\<lparr>d_ID := 2, d_CreatedAt := sample_clock, d_UpdatedAt := sample_clock\<rparr>"

lemma sample_registry_inv: "reg_inv sample_registry"
  unfolding sample_registry_def Let_def
  by (intro moves_inv reg_inv_empty plain_engine_ok moves_intros)

lemmas sample_ops =
  sample_registry_def empty_registry_def empty_table_def plain_engine_def CreateStorageTarget_def CreateRemoteAgent_def
  reg_Create_def CreateSchedule_def CreateSharedSchedule_def CreateSharedScheduleTime_def insert_shared_def
  setSharedScheduleDatabases_def clear_members_def insert_member_def sql_insert_def has_id_def
  set_st_ID_def set_ra_ID_def set_d_ID_def set_s_ID_def set_ss_ID_def set_sst_ID_def db_identity_def
  sample_db_def sample_db2_def sample_row1_def sample_row2_def exec_def next_fault_def

lemma sample_databases: "databases sample_registry = \<lparr>t_rows = [sample_row1, sample_row2], t_seq = 2\<rparr>"
  by (simp add: sample_ops Let_def)

lemma sample_schedules:
  "schedules sample_registry =
   \<lparr>t_rows = [\<lparr>s_ID = 1, s_DatabaseID = 1, s_TimeOfDay = ''02:30'', s_Enabled = True, s_LastRunDate = [],
              s_CreatedAt = sample_clock\<rparr>], t_seq = 1\<rparr>"
  by (simp add: sample_ops Let_def)

lemma sample_shared:
  "shared_schedules sample_registry =
   \<lparr>t_rows = [\<lparr>ss_ID = 1, ss_Name = ''night'', ss_Enabled = True, ss_CreatedAt = sample_clock\<rparr>], t_seq = 1\<rparr>"
  "shared_schedule_databases sample_registry = [(1, 1), (1, 2)]"
  "shared_schedule_times sample_registry =
   \<lparr>t_rows = [\<lparr>sst_ID = 1, sst_SharedScheduleID = 1, sst_TimeOfDay = ''02:30'', sst_LastRunDate = [],
              sst_CreatedAt = sample_clock\<rparr>], t_seq = 1\<rparr>"
  by (simp_all add: sample_ops Let_def)

lemma sample_others:
  "storage_targets sample_registry =
   \<lparr>t_rows = [\<lparr>st_ID = 1, st_Kind = ''s3'', st_Label = ''bucket'', st_Config = ''{}'',
              st_CreatedAt = sample_clock, st_UpdatedAt = sample_clock\<rparr>], t_seq = 1\<rparr>"
  "backup_runs sample_registry = \<lparr>t_rows = [], t_seq = 0\<rparr>"
  "backup_files sample_registry = \<lparr>t_rows = [], t_seq = 0\<rparr>"
  "eng sample_registry = plain_engine sample_clock"
  by (simp_all add: sample_ops Let_def)

lemma sample_agents:
  "remote_agents sample_registry =
   \<lparr>t_rows = [sample_agent\<lparr>ra_ID := 1, ra_CreatedAt := sample_clock, ra_UpdatedAt := sample_clock\<rparr>],
     t_seq = 1\<rparr>"
  by (simp add: sample_ops Let_def)

lemmas sample_tables = sample_databases sample_schedules sample_shared sample_others sample_agents

lemma sample_time_texts:
  "format_15_04 sample_time = ''02:30''" "format_2006_01_02 sample_time = ''2026-03-01''"
  by code_simp+

end
