(* ===== verification/Notify.thy ===== *)
theory Notify
  imports JsonValue Samples
begin

text \<open>
  \<open>internal/notify\<close>: the messages about a finished backup, the kinds of channel, and the delivery to every
  channel of a database. The network is a parameter, the record \<open>net\<close> over a state of any type: what
  \<open>http.NewRequest\<close> makes of a URL and what comes back for a request.
\<close>

section \<open>The network\<close>

record http_request =
  rq_method :: string
  rq_url :: string
  rq_headers :: "(string \<times> string) list"
  rq_body :: string

record http_response =
  rs_code :: int
  rs_status :: string
  rs_body :: string

record 'n net =
  net_bad_url :: "string \<Rightarrow> string option"
  net_do :: "http_request \<Rightarrow> 'n \<Rightarrow> (string + http_response) \<times> 'n"

section \<open>Channels\<close>

record telegramConfig =
  tc_BotToken :: string
  tc_ChatID :: string

definition telegram_fields :: "telegramConfig field list" where
  "telegram_fields =
     [(''bot_token'', set_string (\<lambda>x c. c\<lparr>tc_BotToken := x\<rparr>)),
      (''chat_id'', set_string (\<lambda>x c. c\<lparr>tc_ChatID := x\<rparr>))]"

definition telegram_json :: "telegramConfig \<Rightarrow> json" where
  "telegram_json c = JObj [(''bot_token'', JStr (tc_BotToken c)), (''chat_id'', JStr (tc_ChatID c))]"

datatype Channel = Telegram (botToken: string) (chatID: string)

definition newTelegram :: "NotifyChannel \<Rightarrow> go_error + Channel" where
  "newTelegram ch =
     (case Unmarshal telegram_fields \<lparr>tc_BotToken = [], tc_ChatID = []\<rparr> (nc_Config ch) of
        None \<Rightarrow> Inl (Wrap ''parse telegram channel config'' (JsonError (nc_Config ch)))
      | Some tc \<Rightarrow>
          if tc_BotToken tc = [] \<or> tc_ChatID tc = [] then Inl TelegramIncomplete
          else Inr (Telegram (tc_BotToken tc) (tc_ChatID tc)))"

definition Build :: "NotifyChannel \<Rightarrow> go_error + Channel" where
  "Build ch = (if nc_Kind ch = ''telegram'' then newTelegram ch else Inl (UnknownNotifyKind (nc_Kind ch)))"

text \<open>\<open>json.Marshal\<close> of a map writes its keys in sorted order.\<close>

definition telegram_request :: "Channel \<Rightarrow> string \<Rightarrow> http_request" where
  "telegram_request ch message =
     \<lparr>rq_method = ''POST'',
      rq_url = ''https://api.telegram.org/bot'' @ botToken ch @ ''/sendMessage'',
      rq_headers = [(''Content-Type'', ''application/json'')],
      rq_body = json_text (JObj [(''chat_id'', JStr (chatID ch)), (''parse_mode'', JStr ''HTML''),
                                 (''text'', JStr message)])\<rparr>"

definition Send :: "'n net \<Rightarrow> Channel \<Rightarrow> string \<Rightarrow> (go_error, unit, 'n) op" where
  "Send N ch message w =
     (let req = telegram_request ch message in
      case net_bad_url N (rq_url req) of
        Some m \<Rightarrow> (Inl (External m), w)
      | None \<Rightarrow>
          (case net_do N req w of
             (Inl m, w) \<Rightarrow> (Inl (External m), w)
           | (Inr resp, w) \<Rightarrow>
               (if 300 \<le> rs_code resp then (Inl (TelegramApi (rs_status resp) (TrimSpace (rs_body resp))), w)
                else (Inr (), w))))"

section \<open>Messages and delivery\<close>

definition withProject :: "string \<Rightarrow> string \<Rightarrow> string" where
  "withProject projectName message =
     (if projectName = [] then message else ''['' @ projectName @ ''] '' @ message)"

definition success_message :: "string \<Rightarrow> string \<Rightarrow> string \<Rightarrow> string" where
  "success_message projectName dbname driver =
     withProject projectName (''Backup: '' @ dbname @ '' ('' @ driver @ '')'')"

text \<open>The literal of the code is Vietnamese for ``backup error''; its second letter takes three bytes.\<close>

definition error_message :: "err_texts \<Rightarrow> string \<Rightarrow> string \<Rightarrow> go_error \<Rightarrow> string" where
  "error_message tx projectName dbname jobErr =
     withProject projectName
       (''L'' @ [CHR 0xE1, CHR 0xBB, CHR 0x97] @ ''i backup database: '' @ dbname @ [CHR 0x0A] @ '' - '' @
        Error tx jobErr)"

fun send_all :: "'n net \<Rightarrow> string \<Rightarrow> NotifyChannel list \<Rightarrow> 'n \<Rightarrow> 'n" where
  "send_all N message [] w = w"
| "send_all N message (ch # chs) w =
     (case Build ch of
        Inl e \<Rightarrow> send_all N message chs w
      | Inr impl \<Rightarrow> send_all N message chs (snd (Send N impl message w)))"

definition dispatch :: "'n net \<Rightarrow> int \<Rightarrow> string \<Rightarrow> registry \<times> 'n \<Rightarrow> registry \<times> 'n" where
  "dispatch N databaseID message s =
     (case s of (r, w) \<Rightarrow>
        (case ListNotifyChannelsForDatabase databaseID r of
           (Inl e, r) \<Rightarrow> (r, w)
         | (Inr channels, r) \<Rightarrow> (r, send_all N message channels w)))"

definition DispatchSuccess ::
  "'n net \<Rightarrow> int \<Rightarrow> string \<Rightarrow> string \<Rightarrow> string \<Rightarrow> registry \<times> 'n \<Rightarrow> registry \<times> 'n" where
  "DispatchSuccess N databaseID projectName dbname driver =
     dispatch N databaseID (success_message projectName dbname driver)"

definition DispatchError ::
  "'n net \<Rightarrow> err_texts \<Rightarrow> int \<Rightarrow> string \<Rightarrow> string \<Rightarrow> go_error \<Rightarrow> registry \<times> 'n \<Rightarrow> registry \<times> 'n" where
  "DispatchError N tx databaseID projectName dbname jobErr =
     dispatch N databaseID (error_message tx projectName dbname jobErr)"

section \<open>What is delivered\<close>

definition usable :: "NotifyChannel list \<Rightarrow> Channel list" where
  "usable chs = [c. Inr c \<leftarrow> map Build chs]"

lemma usable_simps [simp]:
  "usable [] = []"
  "usable (ch # chs) = (case Build ch of Inl e \<Rightarrow> usable chs | Inr c \<Rightarrow> c # usable chs)"
  by (simp_all add: usable_def split: sum.split)

lemma send_all_usable:
  "send_all N message chs w = fold (\<lambda>c w. snd (Send N c message w)) (usable chs) w"
  by (induction chs arbitrary: w) (simp_all split: sum.split)

text \<open>The requests that reach the network: one for each usable channel whose URL is well formed.\<close>

lemma fold_Send:
  "fold (\<lambda>c w. snd (Send N c message w)) cs w =
   fold (\<lambda>req w. snd (net_do N req w))
     (filter (\<lambda>req. net_bad_url N (rq_url req) = None) (map (\<lambda>c. telegram_request c message) cs)) w"
  by (induction cs arbitrary: w) (auto simp: Send_def Let_def split: prod.split sum.split option.split)

lemma ListNotifyChannelsForDatabase_calm:
  "no_faults r \<Longrightarrow> ListNotifyChannelsForDatabase i r =
   (Inr (sort_key (\<lambda>c. (nc_Kind c, nc_Label c))
      (e_ord_channel (eng r)
        (filter (\<lambda>c. (i, nc_ID c) \<in> set (database_notify_channels r)) (t_rows (notify_channels r))))), r)"
  by (simp add: ListNotifyChannelsForDatabase_def)

lemma dispatch_moves: "reg_step\<^sup>*\<^sup>* r (fst (dispatch N i message (r, w)))"
proof -
  obtain x r' where l: "ListNotifyChannelsForDatabase i r = (x, r')" by fastforce
  have "moves_by reg_step (ListNotifyChannelsForDatabase i)" by (rule moves_intros)
  from moves_byD [OF this l] show ?thesis
    by (simp add: dispatch_def l split: sum.split)
qed

section \<open>Properties\<close>

text \<open>
  C30. One bad channel never blocks the others: whatever a channel's configuration and whatever the network
  answers, the message goes out once to each assigned channel that can be built and whose URL is accepted,
  in the order of the list, and to no other address.
\<close>

theorem dispatch_reaches_all:
  assumes "ListNotifyChannelsForDatabase i r = (Inr channels, r')"
  shows "dispatch N i message (r, w) =
    (r', fold (\<lambda>req w. snd (net_do N req w))
          (filter (\<lambda>req. net_bad_url N (rq_url req) = None)
            (map (\<lambda>c. telegram_request c message) (usable channels))) w)"
  using assms by (simp add: dispatch_def send_all_usable fold_Send)

text \<open>A network that notes the addresses asked and answers each request with an error status.\<close>

definition noting_net :: "string list net" where
  "noting_net =
     \<lparr>net_bad_url = (\<lambda>u. None),
      net_do = (\<lambda>req w. (Inr \<lparr>rs_code = 502, rs_status = ''502 Bad Gateway'', rs_body = []\<rparr>, w @ [rq_url req]))\<rparr>"

definition sample_channel :: "int \<Rightarrow> string \<Rightarrow> NotifyChannel" where
  "sample_channel i kind =
     \<lparr>nc_ID = i, nc_Kind = kind, nc_Label = ''ops'',
      nc_Config = json_text (telegram_json \<lparr>tc_BotToken = ''42:x'', tc_ChatID = ''-7''\<rparr>),
      nc_CreatedAt = [], nc_UpdatedAt = []\<rparr>"

definition notify_registry :: registry where
  "notify_registry = sample_registry
     \<lparr>notify_channels := \<lparr>t_rows = [sample_channel 1 ''slack'', sample_channel 2 ''telegram''], t_seq = 2\<rparr>,
      database_notify_channels := [(1, 1), (1, 2)]\<rparr>"

lemma newTelegram_of_json:
  assumes "valid_utf8 (tc_BotToken c)" and "valid_utf8 (tc_ChatID c)" and "nc_Config ch = json_text (telegram_json c)"
  shows "newTelegram ch =
    (if tc_BotToken c = [] \<or> tc_ChatID c = [] then Inl TelegramIncomplete
     else Inr (Telegram (tc_BotToken c) (tc_ChatID c)))"
proof -
  have "wf_json (telegram_json c)"
    using assms by (simp add: telegram_json_def valid_utf8_ascii)
  then have "Unmarshal telegram_fields \<lparr>tc_BotToken = [], tc_ChatID = []\<rparr> (nc_Config ch) = Some c"
    unfolding assms(3) telegram_json_def
    by (subst Unmarshal_text) (simp_all add: find_field_def telegram_fields_def store_simps)
  then show ?thesis by (simp add: newTelegram_def)
qed

lemma dispatch_reaches_all_witness:
  "snd (dispatch noting_net 1 ''hello'' (notify_registry, [])) =
   [''https://api.telegram.org/bot42:x/sendMessage'']"
proof -
  have l: "ListNotifyChannelsForDatabase 1 notify_registry =
      (Inr [sample_channel 1 ''slack'', sample_channel 2 ''telegram''], notify_registry)"
    by (simp add: ListNotifyChannelsForDatabase_calm notify_registry_def sample_tables plain_engine_def
        sample_channel_def sort_key_def)
  have "Build (sample_channel 1 ''slack'') = Inl (UnknownNotifyKind ''slack'')"
    by (simp add: Build_def sample_channel_def)
  moreover have "Build (sample_channel 2 ''telegram'') = Inr (Telegram ''42:x'' ''-7'')"
    using newTelegram_of_json [of "\<lparr>tc_BotToken = ''42:x'', tc_ChatID = ''-7''\<rparr>" "sample_channel 2 ''telegram''"]
    by (simp add: Build_def sample_channel_def valid_utf8_ascii)
  ultimately show ?thesis
    using dispatch_reaches_all [OF l, of noting_net "''hello''" "[]"]
    by (simp add: noting_net_def telegram_request_def)
qed

end
