(* ===== verification/Config.thy ===== *)
theory Config
  imports GoNum
begin

text \<open>
  \<open>internal/config\<close>: the settings of a process, read from its environment. The environment is a map that
  already holds what \<open>godotenv.Load\<close> adds to it from \<open>.env\<close>; \<open>os.TempDir\<close> is the variable \<open>TMPDIR\<close> or
  \<open>/tmp\<close>.
\<close>

type_synonym environ = "string \<rightharpoonup> string"

record Config =
  c_RedisHost :: string
  c_RedisPort :: string
  c_ProjectName :: string
  c_GoogleCredentialsFile :: string
  c_SQLitePath :: string
  c_Timezone :: string
  c_AdminUsername :: string
  c_AdminPassword :: string
  c_AdminPort :: string
  c_LogListLimit :: int
  c_AgentPort :: string
  c_AgentToken :: string
  c_AgentCertFile :: string
  c_AgentKeyFile :: string
  c_TmpDir :: string

definition getEnv :: "environ \<Rightarrow> string \<Rightarrow> string \<Rightarrow> string" where
  "getEnv env key fallback = (case env key of Some v \<Rightarrow> if v \<noteq> [] then v else fallback | None \<Rightarrow> fallback)"

definition getEnvInt :: "environ \<Rightarrow> string \<Rightarrow> int \<Rightarrow> int" where
  "getEnvInt env key fallback =
     (case env key of
        None \<Rightarrow> fallback
      | Some v \<Rightarrow>
          if v = [] then fallback
          else (case Atoi v of (n, None) \<Rightarrow> n | (n, Some err) \<Rightarrow> fallback))"

definition TempDir :: "environ \<Rightarrow> string" where
  "TempDir env = getEnv env ''TMPDIR'' ''/tmp''"

definition Load :: "environ \<Rightarrow> Config" where
  "Load env =
     \<lparr>c_RedisHost = getEnv env ''REDIS_HOST'' ''127.0.0.1'',
      c_RedisPort = getEnv env ''REDIS_PORT'' ''6379'',
      c_ProjectName = getEnv env ''PROJECT_NAME'' [],
      c_GoogleCredentialsFile = getEnv env ''GOOGLE_CREDENTIALS_FILE'' ''./google/credentials.json'',
      c_SQLitePath = getEnv env ''SQLITE_PATH'' ''./data/backupdb.sqlite3'',
      c_Timezone = getEnv env ''TIMEZONE'' ''Asia/Ho_Chi_Minh'',
      c_AdminUsername = getEnv env ''ADMIN_USERNAME'' [],
      c_AdminPassword = getEnv env ''ADMIN_PASSWORD'' [],
      c_AdminPort = getEnv env ''ADMIN_PORT'' ''8080'',
      c_LogListLimit = getEnvInt env ''LOG_LIST_LIMIT'' 200,
      c_AgentPort = getEnv env ''AGENT_PORT'' ''8443'',
      c_AgentToken = getEnv env ''AGENT_TOKEN'' [],
      c_AgentCertFile = getEnv env ''AGENT_CERT_FILE'' ''./data/agent-cert.pem'',
      c_AgentKeyFile = getEnv env ''AGENT_KEY_FILE'' ''./data/agent-key.pem'',
      c_TmpDir = getEnv env ''TMP_DIR'' (TempDir env @ ''/backupdb'')\<rparr>"

lemma getEnv_ne: "fallback \<noteq> [] \<Longrightarrow> getEnv env key fallback \<noteq> []"
  by (auto simp: getEnv_def split: option.split)

lemma getEnvInt_itoa:
  assumes "env key = Some (itoa n)" and "min_int64 \<le> n" and "n \<le> max_int64"
  shows "getEnvInt env key fallback = n"
proof -
  have "itoa n \<noteq> []" by (simp add: itoa_def)
  with assms show ?thesis by (simp add: getEnvInt_def Atoi_def ParseInt_itoa)
qed

lemma Load_TmpDir_ne: "c_TmpDir (Load env) \<noteq> []"
  by (simp add: Load_def getEnv_ne)

end
