(* ===== verification/GoPath.thy ===== *)
theory GoPath
  imports GoText
begin

text \<open>
  \<open>path/filepath\<close> on Unix as the repository uses it: \<open>Clean\<close>, \<open>Join\<close> and \<open>Ext\<close>.
\<close>

text \<open>
  The elements of a cleaned path: empty ones and \<open>.\<close> vanish, \<open>..\<close> takes the element before it along,
  and at the root it has nothing to take.
\<close>

fun clean_parts :: "bool \<Rightarrow> string list \<Rightarrow> string list \<Rightarrow> string list" where
  "clean_parts rooted done [] = done"
| "clean_parts rooted done (p # ps) =
     clean_parts rooted
       (if p = [] \<or> p = ''.'' then done
        else if p = ''..'' then
          (if done \<noteq> [] \<and> last done \<noteq> ''..'' then butlast done
           else if rooted then done else done @ [p])
        else done @ [p]) ps"

definition Clean :: "string \<Rightarrow> string" where
  "Clean p =
     (let rooted = HasPrefix p ''/'';
          parts = clean_parts rooted [] (Split (CHR ''/'') p)
      in if rooted then ''/'' @ Join parts ''/''
         else if parts = [] then ''.''
         else Join parts ''/'')"

definition path_Join :: "string list \<Rightarrow> string" where
  "path_Join elems =
     (let es = filter (\<lambda>e. e \<noteq> []) elems in if es = [] then [] else Clean (Join es ''/''))"

text \<open>\<open>filepath.Ext\<close>: from the last dot of the last path element, dot included.\<close>

definition path_Ext :: "string \<Rightarrow> string" where
  "path_Ext p =
     (let base = last (Split (CHR ''/'') p) in
      if CHR ''.'' \<in> set base then CHR ''.'' # last (Split (CHR ''.'') base) else [])"

text \<open>A file name that is a plain element stays the last element, below the cleaned directory.\<close>

definition plain_name :: "string \<Rightarrow> bool" where
  "plain_name f \<longleftrightarrow> f \<noteq> [] \<and> f \<noteq> ''.'' \<and> f \<noteq> ''..'' \<and> CHR ''/'' \<notin> set f"

lemma clean_parts_append:
  "clean_parts rooted done (ps @ qs) = clean_parts rooted (clean_parts rooted done ps) qs"
  by (induction ps arbitrary: "done") simp_all

lemma Split_append_end: "sep \<notin> set f \<Longrightarrow> Split sep (s @ sep # f) = Split sep s @ [f]"
proof (induction s)
  case Nil
  then show ?case by (simp add: Split_no_sep)
next
  case (Cons c s)
  then show ?case by (cases "Split sep s") auto
qed

lemma Join_snoc: "ps \<noteq> [] \<Longrightarrow> Join (ps @ [f]) sep = Join ps sep @ sep @ f"
  by (induction ps rule: induct_list012) auto

lemma path_Join_plain:
  assumes "dir \<noteq> []" and "plain_name f"
  shows "\<exists>d. path_Join [dir, f] = d @ f \<and> (d = [] \<or> last d = CHR ''/'')"
proof -
  let ?r = "HasPrefix dir ''/''"
  let ?ps = "clean_parts ?r [] (Split (CHR ''/'') dir)"
  have r: "HasPrefix (dir @ ''/'' @ f) ''/'' = ?r" using assms(1) by (cases dir) auto
  have "clean_parts ?r [] (Split (CHR ''/'') (dir @ ''/'' @ f)) = ?ps @ [f]"
    using assms(2) Split_append_end [of "CHR ''/''" f dir] by (simp add: plain_name_def clean_parts_append)
  moreover have "f \<noteq> []" using assms(2) by (simp add: plain_name_def)
  ultimately have *: "path_Join [dir, f] = (if ?r then ''/'' else []) @ Join (?ps @ [f]) ''/''"
    using assms(1) r by (cases "HasPrefix dir ''/''") (simp_all add: path_Join_def Clean_def Let_def)
  show ?thesis
  proof (cases "?ps = []")
    case True
    with * show ?thesis by (intro exI [of _ "if ?r then ''/'' else []"]) simp
  next
    case False
    with * show ?thesis
      by (intro exI [of _ "(if ?r then ''/'' else []) @ Join ?ps ''/'' @ ''/''"]) (simp add: Join_snoc)
  qed
qed

end
