(* ===== verification/Queue.thy ===== *)
theory Queue
  imports JsonValue Errors
begin

text \<open>
  \<open>internal/queue\<close>: the job queue, a Redis list of JSON texts. \<open>Job\<close> is the struct with its field tags,
  \<open>NewBackupJob\<close> packs the connection details of a database into one text, \<open>Push\<close> appends a job at the
  right end of the list and \<open>Pop\<close> takes the leftmost one. Redis and its client are a parameter, the record
  \<open>redis\<close> over a state of any type; \<open>redis_ok\<close> states what the two commands are documented to do.
\<close>

section \<open>Jobs\<close>

record Job =
  j_Cmd :: string
  j_DBName :: string
  j_Driver :: string
  j_Params :: string
  j_StorageTargetID :: int
  j_AgentID :: int
  j_RunID :: int

definition zero_job :: Job where
  "zero_job = \<lparr>j_Cmd = [], j_DBName = [], j_Driver = [], j_Params = [], j_StorageTargetID = 0,
     j_AgentID = 0, j_RunID = 0\<rparr>"

definition job_fields :: "Job field list" where
  "job_fields =
     [(''cmd'', set_string (\<lambda>x j. j\<lparr>j_Cmd := x\<rparr>)),
      (''dbname'', set_string (\<lambda>x j. j\<lparr>j_DBName := x\<rparr>)),
      (''driver'', set_string (\<lambda>x j. j\<lparr>j_Driver := x\<rparr>)),
      (''params'', set_string (\<lambda>x j. j\<lparr>j_Params := x\<rparr>)),
      (''storage_target_id'', set_int64 (\<lambda>x j. j\<lparr>j_StorageTargetID := x\<rparr>)),
      (''agent_id'', set_int64 (\<lambda>x j. j\<lparr>j_AgentID := x\<rparr>)),
      (''run_id'', set_int64 (\<lambda>x j. j\<lparr>j_RunID := x\<rparr>))]"

definition job_json :: "Job \<Rightarrow> json" where
  "job_json j =
     JObj [(''cmd'', JStr (j_Cmd j)), (''dbname'', JStr (j_DBName j)), (''driver'', JStr (j_Driver j)),
           (''params'', JStr (j_Params j)), (''storage_target_id'', JNum (itoa (j_StorageTargetID j))),
           (''agent_id'', JNum (itoa (j_AgentID j))), (''run_id'', JNum (itoa (j_RunID j)))]"

definition NewBackupJob ::
  "string \<Rightarrow> string \<Rightarrow> string \<Rightarrow> string \<Rightarrow> string \<Rightarrow> string \<Rightarrow> string \<Rightarrow> int \<Rightarrow> int \<Rightarrow> int \<Rightarrow> Job" where
  "NewBackupJob dbname driver host port username password authDB storageTargetID agentID runID =
     \<lparr>j_Cmd = ''backup'', j_DBName = dbname, j_Driver = driver,
      j_Params = host @ ''|'' @ port @ ''|'' @ username @ ''|'' @ password @ ''|'' @ authDB,
      j_StorageTargetID = storageTargetID, j_AgentID = agentID, j_RunID = runID\<rparr>"

section \<open>The Redis list\<close>

definition QueueName :: string where
  "QueueName = ''backup_db_queue''"

text \<open>
  \<open>RPUSH key value\<close> returns an error or nothing, \<open>BLPOP key\<close> an error, nothing (\<open>redis.Nil\<close>, a time-out) or
  the value popped. \<open>rd_list\<close> is the list stored under a key, which the program never reads as a whole.
\<close>

record 'q redis =
  rd_rpush :: "string \<Rightarrow> string \<Rightarrow> 'q \<Rightarrow> string option \<times> 'q"
  rd_blpop :: "string \<Rightarrow> 'q \<Rightarrow> (string + string option) \<times> 'q"
  rd_list :: "string \<Rightarrow> 'q \<Rightarrow> string list"

type_synonym ('a, 'q) redis_op = "(go_error, 'a, 'q) op"

definition redis_ok :: "'q redis \<Rightarrow> bool" where
  "redis_ok R \<longleftrightarrow>
     (\<forall>k v q. rd_list R k (snd (rd_rpush R k v q)) =
        (case fst (rd_rpush R k v q) of None \<Rightarrow> rd_list R k q @ [v] | Some m \<Rightarrow> rd_list R k q)) \<and>
     (\<forall>k q. case fst (rd_blpop R k q) of
        Inl m \<Rightarrow> rd_list R k (snd (rd_blpop R k q)) = rd_list R k q
      | Inr None \<Rightarrow> rd_list R k (snd (rd_blpop R k q)) = rd_list R k q
      | Inr (Some v) \<Rightarrow> rd_list R k q = v # rd_list R k (snd (rd_blpop R k q)))"

text \<open>A Redis that is reachable: no push fails.\<close>

definition redis_up :: "'q redis \<Rightarrow> bool" where
  "redis_up R \<longleftrightarrow> (\<forall>k v q. fst (rd_rpush R k v q) = None)"

definition Push :: "'q redis \<Rightarrow> Job \<Rightarrow> (unit, 'q) redis_op" where
  "Push R job q =
     (case rd_rpush R QueueName (json_text (job_json job)) q of
        (Some m, q) \<Rightarrow> (Inl (External m), q)
      | (None, q) \<Rightarrow> (Inr (), q))"

definition Pop :: "'q redis \<Rightarrow> (Job option, 'q) redis_op" where
  "Pop R q =
     (case rd_blpop R QueueName q of
        (Inl m, q) \<Rightarrow> (Inl (External m), q)
      | (Inr None, q) \<Rightarrow> (Inr None, q)
      | (Inr (Some v), q) \<Rightarrow>
          (case Unmarshal job_fields zero_job v of
             None \<Rightarrow> (Inl (JsonError v), q)
           | Some job \<Rightarrow> (Inr (Some job), q)))"

section \<open>A job read back\<close>

text \<open>What the fields hold: texts of valid UTF-8 and 64-bit ids, as read from the registry.\<close>

definition job_ok :: "Job \<Rightarrow> bool" where
  "job_ok j =
     (valid_utf8 (j_Cmd j) \<and> valid_utf8 (j_DBName j) \<and> valid_utf8 (j_Driver j) \<and>
      valid_utf8 (j_Params j) \<and> int64 (j_StorageTargetID j) \<and> int64 (j_AgentID j) \<and> int64 (j_RunID j))"

lemma job_json_wf: "job_ok j \<Longrightarrow> wf_json (job_json j)"
  by (simp add: job_ok_def job_json_def int64_json valid_utf8_ascii)

lemma Unmarshal_job:
  assumes "job_ok j"
  shows "Unmarshal job_fields zero_job (json_text (job_json j)) = Some j"
  unfolding job_json_def Unmarshal_text [OF job_json_wf [OF assms, unfolded job_json_def]]
  using assms by (simp add: job_ok_def find_field_def job_fields_def store_simps zero_job_def)

lemma rpush_ok:
  "redis_ok R \<Longrightarrow> rd_rpush R k v q = (m, q') \<Longrightarrow>
   rd_list R k q' = (case m of None \<Rightarrow> rd_list R k q @ [v] | Some e \<Rightarrow> rd_list R k q)"
  unfolding redis_ok_def by (metis fst_conv snd_conv)

lemma blpop_ok:
  assumes "redis_ok R" and "rd_blpop R k q = (x, q')"
  shows "case x of Inr (Some v) \<Rightarrow> rd_list R k q = v # rd_list R k q' | _ \<Rightarrow> rd_list R k q' = rd_list R k q"
proof -
  from assms(1) have "case fst (rd_blpop R k q) of
        Inl m \<Rightarrow> rd_list R k (snd (rd_blpop R k q)) = rd_list R k q
      | Inr None \<Rightarrow> rd_list R k (snd (rd_blpop R k q)) = rd_list R k q
      | Inr (Some v) \<Rightarrow> rd_list R k q = v # rd_list R k (snd (rd_blpop R k q))"
    by (simp add: redis_ok_def)
  with assms(2) show ?thesis by (simp split: sum.splits option.splits)
qed

lemma Push_list:
  assumes "redis_ok R" and "Push R j q = (x, q')"
  shows "rd_list R QueueName q' =
         (case x of Inl e \<Rightarrow> rd_list R QueueName q
          | Inr _ \<Rightarrow> rd_list R QueueName q @ [json_text (job_json j)])"
  using assms(2) rpush_ok [OF assms(1)]
  by (cases "rd_rpush R QueueName (json_text (job_json j)) q") (auto simp: Push_def split: option.splits)

lemma Push_up:
  assumes "redis_up R"
  shows "fst (Push R j q) = Inr ()"
proof -
  obtain q' where "rd_rpush R QueueName (json_text (job_json j)) q = (None, q')"
    using assms unfolding redis_up_def by (metis prod.collapse)
  then show ?thesis by (simp add: Push_def)
qed

section \<open>A list in memory\<close>

text \<open>An instance of the parameter: the list itself, with a fault for each command that is to fail.\<close>

record list_state =
  ls_list :: "string list"
  ls_faults :: "string option list"

definition list_redis :: "list_state redis" where
  "list_redis =
     \<lparr>rd_rpush = (\<lambda>k v q. case ls_faults q of
         Some m # fs \<Rightarrow> (Some m, q\<lparr>ls_faults := fs\<rparr>)
       | fs \<Rightarrow> (None, q\<lparr>ls_list := ls_list q @ [v], ls_faults := tl fs\<rparr>)),
      rd_blpop = (\<lambda>k q. case ls_faults q of
         Some m # fs \<Rightarrow> (Inl m, q\<lparr>ls_faults := fs\<rparr>)
       | fs \<Rightarrow> (case ls_list q of
             [] \<Rightarrow> (Inr None, q\<lparr>ls_faults := tl fs\<rparr>)
           | v # vs \<Rightarrow> (Inr (Some v), q\<lparr>ls_list := vs, ls_faults := tl fs\<rparr>))),
      rd_list = (\<lambda>k q. ls_list q)\<rparr>"

lemma list_redis_ok: "redis_ok list_redis"
  by (auto simp: redis_ok_def list_redis_def split: list.split option.split)

text \<open>The same without faults.\<close>

definition calm_redis :: "string list redis" where
  "calm_redis =
     \<lparr>rd_rpush = (\<lambda>k v q. (None, q @ [v])),
      rd_blpop = (\<lambda>k q. case q of [] \<Rightarrow> (Inr None, q) | v # vs \<Rightarrow> (Inr (Some v), vs)),
      rd_list = (\<lambda>k q. q)\<rparr>"

lemma calm_redis_ok: "redis_ok calm_redis" "redis_up calm_redis"
  by (auto simp: redis_ok_def redis_up_def calm_redis_def split: list.split)

section \<open>Properties\<close>

text \<open>
  C32. A job whose texts are valid UTF-8 and whose ids are 64-bit integers comes off the queue as it went on:
  decoding the JSON text that \<open>Push\<close> stores gives back every field.
\<close>

theorem job_round_trip:
  assumes "job_ok j"
  shows "Unmarshal job_fields zero_job (json_text (job_json j)) = Some j"
  using assms by (rule Unmarshal_job)

definition sample_job :: Job where
  "sample_job = NewBackupJob ''shop'' ''mysql'' ''db1'' [] ''root'' (''p<'' @ [dquote, CHR 0xC3, CHR 0xA9]) [] 3 0 17"

lemma sample_job_ok: "job_ok sample_job"
  by (simp add: job_ok_def sample_job_def NewBackupJob_def valid_utf8_Cons utf8_size_Cons cont_def int64_def
      max_int64_def min_int64_def)

lemma job_round_trip_witness:
  "Unmarshal job_fields zero_job (json_text (job_json sample_job)) = Some sample_job"
  by (rule job_round_trip [OF sample_job_ok])

text \<open>
  The queue is first in, first out: on a Redis that keeps its promises, if a job is pushed onto the
  queue and every job before it is popped, the next pop returns that job.
\<close>

theorem queue_fifo:
  assumes "redis_ok R" and "job_ok j" and "Push R j q = (Inr (), q1)"
    and "rd_list R QueueName q2 = drop (length (rd_list R QueueName q)) (rd_list R QueueName q1) @ later"
    and "Pop R q2 = (x, q3)" and "\<forall>m. fst (rd_blpop R QueueName q2) \<noteq> Inl m" and "fst (rd_blpop R QueueName q2) \<noteq> Inr None"
  shows "x = Inr (Some j) \<and> rd_list R QueueName q3 = later"
proof -
  from Push_list [OF assms(1,3)] assms(4)
  have l: "rd_list R QueueName q2 = json_text (job_json j) # later" by simp
  obtain v q4 where b: "rd_blpop R QueueName q2 = (Inr (Some v), q4)"
    using assms(6,7) by (metis obj_sumE option.exhaust prod.collapse)
  from blpop_ok [OF assms(1) b] l have v: "v = json_text (job_json j)"
    and r: "rd_list R QueueName q4 = later" by auto
  have "Pop R q2 = (Inr (Some j), q4)"
    using Unmarshal_job [OF assms(2)] by (simp add: Pop_def b v)
  with assms(5) r show ?thesis by simp
qed

lemma queue_fifo_witness:
  "fst (Pop calm_redis [json_text (job_json sample_job), ''later'']) = Inr (Some sample_job)"
proof -
  have "Pop calm_redis [json_text (job_json sample_job), ''later''] =
      (fst (Pop calm_redis [json_text (job_json sample_job), ''later'']),
       snd (Pop calm_redis [json_text (job_json sample_job), ''later'']))" by simp
  from queue_fifo [OF calm_redis_ok(1) sample_job_ok, of "[''old'']" "[''old'', json_text (job_json sample_job)]"
      _ "[''later'']", OF _ _ this]
  show ?thesis by (simp add: Push_def calm_redis_def)
qed

end
