(* ===== verification/Dump.thy ===== *)
theory Dump
  imports Queue
begin

text \<open>
  \<open>internal/dump\<close>: the connection details of a job, the command line and environment of the three dump
  tools, and the two ways their output reaches a file. What a tool does when it is run, whether a file
  can be created and what \<open>gzip\<close> produces are a parameter, the record \<open>host\<close>; the file system is a map from
  paths to contents.
\<close>

section \<open>Parameters of a dump\<close>

definition Extension :: "string \<Rightarrow> go_error + string" where
  "Extension driver =
     (if driver = ''mysql'' \<or> driver = ''postgres'' then Inr ''sql''
      else if driver = ''mongo'' then Inr ''archive''
      else Inl (UnknownDriver driver))"

record Params =
  p_Host :: string
  p_Port :: string
  p_Username :: string
  p_Password :: string
  p_AuthDB :: string

definition ParseParams :: "string \<Rightarrow> Params" where
  "ParseParams raw =
     (let parts = Split (CHR ''|'') raw in
      \<lparr>p_Host = get_part parts 0, p_Port = get_part parts 1, p_Username = get_part parts 2,
       p_Password = get_part parts 3, p_AuthDB = get_part parts 4\<rparr>)"

section \<open>Running a tool into a file\<close>

type_synonym files = "string \<rightharpoonup> string"

text \<open>
  One run of a command: whether it starts, what it prints, what the copy of its output comes to when
  that fails half way, and how it ends.
\<close>

record proc =
  pr_start :: "string option"
  pr_stdout :: string
  pr_copy :: "(string \<times> string) option"   \<comment> \<open>error, and the bytes in the file by then\<close>
  pr_close :: "(string \<times> string) option"
  pr_wait :: "string option"
  pr_stderr :: string

record host =
  h_environ :: "string list"
  h_pipe :: "string option"
  h_create :: "string \<Rightarrow> string option"
  h_exec :: "string \<Rightarrow> string list \<Rightarrow> string list option \<Rightarrow> proc"
  h_gzip :: "string \<Rightarrow> string"

text \<open>\<open>cmd.Env\<close>: left nil, the tool inherits the environment; set, it gets exactly that list.\<close>

definition cmd_env :: "host \<Rightarrow> string list \<Rightarrow> string list option" where
  "cmd_env h env = (if 0 < length env then Some (h_environ h @ env) else None)"

definition runToGzipFile ::
  "host \<Rightarrow> string \<Rightarrow> string list \<Rightarrow> string list \<Rightarrow> string \<Rightarrow> (go_error, unit, files) op" where
  "runToGzipFile h name args env outPath fs =
     (let p = h_exec h name args (cmd_env h env) in
      case h_pipe h of
        Some m \<Rightarrow> (Inl (External m), fs)
      | None \<Rightarrow>
     (case h_create h outPath of
        Some m \<Rightarrow> (Inl (External m), fs)
      | None \<Rightarrow>
     (case pr_start p of
        Some m \<Rightarrow> (Inl (Wrap (''start '' @ name) (External m)), fs(outPath \<mapsto> []))
      | None \<Rightarrow>
     (case pr_copy p of
        Some (m, part) \<Rightarrow>
          (Inl (Wrap (''copy '' @ name @ '' output'') (External m)), fs(outPath \<mapsto> part))
      | None \<Rightarrow>
     (case pr_close p of
        Some (m, part) \<Rightarrow> (Inl (Wrap ''close gzip writer'' (External m)), fs(outPath \<mapsto> part))
      | None \<Rightarrow>
     (case pr_wait p of
        Some m \<Rightarrow>
          (Inl (ToolFailed name (External m) (pr_stderr p)), fs(outPath \<mapsto> h_gzip h (pr_stdout p)))
      | None \<Rightarrow> (Inr (), fs(outPath \<mapsto> h_gzip h (pr_stdout p)))))))))"

text \<open>
  \<open>cmd.Run\<close> starts the command, copies and waits; it fails with the first of those to fail.
\<close>

definition runToFile ::
  "host \<Rightarrow> string \<Rightarrow> string list \<Rightarrow> string list \<Rightarrow> string \<Rightarrow> (go_error, unit, files) op" where
  "runToFile h name args env outPath fs =
     (let p = h_exec h name args (cmd_env h env) in
      case h_create h outPath of
        Some m \<Rightarrow> (Inl (External m), fs)
      | None \<Rightarrow>
     (case pr_start p of
        Some m \<Rightarrow> (Inl (ToolFailed name (External m) (pr_stderr p)), fs(outPath \<mapsto> []))
      | None \<Rightarrow>
     (case pr_wait p of
        Some m \<Rightarrow> (Inl (ToolFailed name (External m) (pr_stderr p)), fs(outPath \<mapsto> pr_stdout p))
      | None \<Rightarrow> (Inr (), fs(outPath \<mapsto> pr_stdout p)))))"

section \<open>The three tools\<close>

definition mysql_args :: "string \<Rightarrow> Params \<Rightarrow> string list" where
  "mysql_args dbname p =
     (let port = (if p_Port p = [] then ''3306'' else p_Port p);
          user = (if p_Username p = [] then ''root'' else p_Username p)
      in [''-h'', p_Host p, ''-P'', port, ''-u'', user, ''--skip-tz-utc'',
          ''--default-character-set=utf8mb4'', ''--opt'', ''--no-autocommit'', ''--single-transaction'',
          ''--routines'', ''--no-tablespaces'', ''--force'', dbname])"

definition mysql_env :: "Params \<Rightarrow> string list" where
  "mysql_env p = (if p_Password p \<noteq> [] then [''MYSQL_PWD='' @ p_Password p] else [])"

definition MySQL :: "host \<Rightarrow> string \<Rightarrow> Params \<Rightarrow> string \<Rightarrow> (go_error, unit, files) op" where
  "MySQL h dbname p outPath = runToGzipFile h ''mysqldump'' (mysql_args dbname p) (mysql_env p) outPath"

definition postgres_args :: "string \<Rightarrow> Params \<Rightarrow> string list" where
  "postgres_args dbname p =
     (let port = (if p_Port p = [] then ''5432'' else p_Port p);
          user = (if p_Username p = [] then ''postgres'' else p_Username p)
      in [''-h'', p_Host p, ''-p'', port, ''-U'', user, dbname])"

definition postgres_env :: "Params \<Rightarrow> string list" where
  "postgres_env p = (if p_Password p \<noteq> [] then [''PGPASSWORD='' @ p_Password p] else [])"

definition Postgres :: "host \<Rightarrow> string \<Rightarrow> Params \<Rightarrow> string \<Rightarrow> (go_error, unit, files) op" where
  "Postgres h dbname p outPath =
     runToGzipFile h ''pg_dump'' (postgres_args dbname p) (postgres_env p) outPath"

definition mongo_args :: "string \<Rightarrow> Params \<Rightarrow> string list" where
  "mongo_args dbname p =
     (let port = (if p_Port p = [] then ''27017'' else p_Port p);
          authDB = (if p_AuthDB p = [] then ''admin'' else p_AuthDB p)
      in [''--host='' @ p_Host p, ''--port='' @ port, ''--db='' @ dbname, ''--archive'', ''--gzip''] @
         (if p_Username p \<noteq> [] \<and> p_Password p \<noteq> []
          then [''--username='' @ p_Username p, ''--password='' @ p_Password p,
                ''--authenticationDatabase='' @ authDB]
          else []))"

definition Mongo :: "host \<Rightarrow> string \<Rightarrow> Params \<Rightarrow> string \<Rightarrow> (go_error, unit, files) op" where
  "Mongo h dbname p outPath = runToFile h ''mongodump'' (mongo_args dbname p) [] outPath"

text \<open>
  The \<open>switch job.Driver\<close> of the consumer and of the agent: no default, since an unknown driver has been
  refused by \<open>Extension\<close> before it.
\<close>

definition run_dump :: "host \<Rightarrow> string \<Rightarrow> string \<Rightarrow> Params \<Rightarrow> string \<Rightarrow> (go_error, unit, files) op" where
  "run_dump h driver dbname p outPath fs =
     (if driver = ''mysql'' then MySQL h dbname p outPath fs
      else if driver = ''postgres'' then Postgres h dbname p outPath fs
      else if driver = ''mongo'' then Mongo h dbname p outPath fs
      else (Inr (), fs))"

section \<open>Facts\<close>

lemma ParseParams_pack:
  assumes "CHR ''|'' \<notin> set host" "CHR ''|'' \<notin> set port" "CHR ''|'' \<notin> set user"
    "CHR ''|'' \<notin> set password" "CHR ''|'' \<notin> set authDB"
  shows "ParseParams (host @ ''|'' @ port @ ''|'' @ user @ ''|'' @ password @ ''|'' @ authDB) =
         \<lparr>p_Host = host, p_Port = port, p_Username = user, p_Password = password, p_AuthDB = authDB\<rparr>"
  using assms by (simp add: ParseParams_def Split_append Split_no_sep get_part_def)

lemma runToGzipFile_frame: "q \<noteq> out \<Longrightarrow> snd (runToGzipFile h n a v out fs) q = fs q"
  by (simp add: runToGzipFile_def Let_def split: option.split prod.split)

lemma runToFile_frame: "q \<noteq> out \<Longrightarrow> snd (runToFile h n a v out fs) q = fs q"
  by (simp add: runToFile_def Let_def split: option.split)

lemma run_dump_frame: "q \<noteq> out \<Longrightarrow> snd (run_dump h driver db p out fs) q = fs q"
  by (simp add: run_dump_def MySQL_def Postgres_def Mongo_def runToGzipFile_frame runToFile_frame)

lemma runToGzipFile_ok:
  "runToGzipFile h n a v out fs = (Inr (), fs') \<Longrightarrow>
   fs' = fs(out \<mapsto> h_gzip h (pr_stdout (h_exec h n a (cmd_env h v))))"
  by (simp add: runToGzipFile_def Let_def split: option.splits prod.splits)

lemma runToFile_ok:
  "runToFile h n a v out fs = (Inr (), fs') \<Longrightarrow>
   fs' = fs(out \<mapsto> pr_stdout (h_exec h n a (cmd_env h v)))"
  by (auto simp: runToFile_def Let_def split: option.splits)

lemma Extension_known: "Extension driver = Inr x \<Longrightarrow> driver \<in> {''mysql'', ''postgres'', ''mongo''}"
  by (auto simp: Extension_def split: if_splits)

text \<open>A known driver's dump succeeds only by writing the file.\<close>

lemma run_dump_writes:
  assumes "Extension driver = Inr x" and "run_dump h driver db p out fs = (Inr (), fs')"
  shows "\<exists>c. fs' = fs(out \<mapsto> c)"
  using Extension_known [OF assms(1)] assms(2)
  by (auto simp: run_dump_def MySQL_def Postgres_def Mongo_def
      dest!: runToGzipFile_ok runToFile_ok split: if_splits)

text \<open>A host on which every tool prints its own name and succeeds.\<close>

definition sample_host :: host where
  "sample_host = \<lparr>h_environ = [], h_pipe = None, h_create = (\<lambda>p. None),
     h_exec = (\<lambda>n a e. \<lparr>pr_start = None, pr_stdout = n, pr_copy = None, pr_close = None, pr_wait = None,
        pr_stderr = []\<rparr>),
     h_gzip = (\<lambda>x. ''gz:'' @ x)\<rparr>"

section \<open>Properties\<close>

text \<open>
  The connection details packed into a job come out of \<open>ParseParams\<close> unchanged, provided none of them
  contains the separator.
\<close>

theorem params_round_trip:
  assumes "CHR ''|'' \<notin> set host" "CHR ''|'' \<notin> set port" "CHR ''|'' \<notin> set user"
    "CHR ''|'' \<notin> set password" "CHR ''|'' \<notin> set authDB"
  shows "ParseParams (j_Params (NewBackupJob db drv host port user password authDB st ag run)) =
         \<lparr>p_Host = host, p_Port = port, p_Username = user, p_Password = password, p_AuthDB = authDB\<rparr>"
  using ParseParams_pack [OF assms] by (simp add: NewBackupJob_def)

lemma params_round_trip_witness:
  "p_Password (ParseParams (j_Params (NewBackupJob ''d'' ''mysql'' ''h'' [] ''u'' ''p:w'' [] 1 0 2))) = ''p:w''"
  using params_round_trip [of "''h''" "[]" "''u''" "''p:w''" "[]" "''d''" "''mysql''" 1 0 2] by simp

text \<open>
  A password with a separator in it is cut there, and what follows is taken for the authentication
  database: the tool is run with the wrong password although the registry holds the right one.
\<close>

theorem params_password_cut:
  assumes "CHR ''|'' \<notin> set host" "CHR ''|'' \<notin> set port" "CHR ''|'' \<notin> set user" "CHR ''|'' \<notin> set p1"
    "CHR ''|'' \<notin> set p2"
  shows "ParseParams (j_Params (NewBackupJob db drv host port user (p1 @ ''|'' @ p2) authDB st ag run)) =
         \<lparr>p_Host = host, p_Port = port, p_Username = user, p_Password = p1, p_AuthDB = p2\<rparr>"
  using assms by (simp add: NewBackupJob_def ParseParams_def Split_append get_part_def)

lemma params_password_cut_witness:
  "p_Password (ParseParams (j_Params (NewBackupJob ''d'' ''mysql'' ''h'' [] ''u'' ''pa|ss'' [] 1 0 2))) = ''pa''"
  using params_password_cut [of "''h''" "[]" "''u''" "''pa''" "''ss''" "''d''" "''mysql''" "[]" 1 0 2] by simp

text \<open>
  The password of a MySQL or PostgreSQL database never shows in the process list: the command line does not
  depend on it, and it reaches the tool through the environment alone.
\<close>

theorem password_not_on_command_line:
  "mysql_args db (p\<lparr>p_Password := x\<rparr>) = mysql_args db p \<and>
   postgres_args db (p\<lparr>p_Password := x\<rparr>) = postgres_args db p \<and>
   mysql_env (p\<lparr>p_Password := x\<rparr>) = (if x = [] then [] else [''MYSQL_PWD='' @ x]) \<and>
   postgres_env (p\<lparr>p_Password := x\<rparr>) = (if x = [] then [] else [''PGPASSWORD='' @ x])"
  by (simp add: mysql_args_def postgres_args_def mysql_env_def postgres_env_def)

end
