(* ===== verification/Storage.thy ===== *)
theory Storage
  imports JsonValue Config GoPath Dump Samples
begin

text \<open>
  \<open>internal/storage\<close> with its two kinds of destination, \<open>gdrive\<close> and \<open>s3store\<close>: how the configuration of a
  row is read, how a Google token is kept, where a file goes and what comes back. The Google and S3 client
  libraries are a parameter, the record \<open>cloud\<close> over a state of any type; \<open>cl_asks\<close> tells whether the
  library asks its token source before a request, which is its own choice.
\<close>

section \<open>The client libraries\<close>

text \<open>An \<open>oauth2.Token\<close>: its access token, and whatever else it holds.\<close>

record oauth_token =
  ot_AccessToken :: string
  ot_rest :: string

record S3Config =
  s3_Endpoint :: string
  s3_Region :: string
  s3_Bucket :: string
  s3_AccessKey :: string
  s3_SecretKey :: string
  s3_UseSSL :: bool
  s3_Prefix :: string

record 'd cloud =
  cl_read_file :: "string \<Rightarrow> string + string"
  cl_oauth_config :: "string \<Rightarrow> string + string"
  cl_token_json :: "oauth_token \<Rightarrow> string"
  cl_token_parse :: "string \<Rightarrow> oauth_token option"
  cl_asks :: "'d \<Rightarrow> bool"
  cl_token :: "string \<Rightarrow> oauth_token \<Rightarrow> 'd \<Rightarrow> (string + oauth_token) \<times> 'd"
  cl_request :: string                     \<comment> \<open>what the HTTP client puts before a token error\<close>
  cl_service :: "string option"
  cl_list :: "string \<Rightarrow> 'd \<Rightarrow> (string + string list) \<times> 'd"
  cl_create_folder :: "string \<Rightarrow> string \<Rightarrow> 'd \<Rightarrow> (string + string) \<times> 'd"
  cl_create_file :: "string \<Rightarrow> string \<Rightarrow> string \<Rightarrow> string \<Rightarrow> 'd \<Rightarrow> (string + string \<times> int) \<times> 'd"
  cl_download :: "string \<Rightarrow> 'd \<Rightarrow> (string + string \<times> string) \<times> 'd"
  cl_mime :: "string \<Rightarrow> string"
  cl_s3_new :: "S3Config \<Rightarrow> string option"
  cl_s3_put :: "S3Config \<Rightarrow> string \<Rightarrow> string option \<Rightarrow> 'd \<Rightarrow> (string + int) \<times> 'd"
  cl_s3_presign :: "S3Config \<Rightarrow> string \<Rightarrow> 'd \<Rightarrow> string + string"

section \<open>Configurations\<close>

record gdriveConfig =
  gc_Token :: string
  gc_Email :: string

definition gdrive_fields :: "gdriveConfig field list" where
  "gdrive_fields =
     [(''token'', set_string (\<lambda>x c. c\<lparr>gc_Token := x\<rparr>)), (''email'', set_string (\<lambda>x c. c\<lparr>gc_Email := x\<rparr>))]"

definition zero_gdrive :: gdriveConfig where
  "zero_gdrive = \<lparr>gc_Token = [], gc_Email = []\<rparr>"

definition gdrive_json :: "gdriveConfig \<Rightarrow> json" where
  "gdrive_json c = JObj [(''token'', JStr (gc_Token c)), (''email'', JStr (gc_Email c))]"

definition s3_fields :: "S3Config field list" where
  "s3_fields =
     [(''endpoint'', set_string (\<lambda>x c. c\<lparr>s3_Endpoint := x\<rparr>)),
      (''region'', set_string (\<lambda>x c. c\<lparr>s3_Region := x\<rparr>)),
      (''bucket'', set_string (\<lambda>x c. c\<lparr>s3_Bucket := x\<rparr>)),
      (''access_key'', set_string (\<lambda>x c. c\<lparr>s3_AccessKey := x\<rparr>)),
      (''secret_key'', set_string (\<lambda>x c. c\<lparr>s3_SecretKey := x\<rparr>)),
      (''use_ssl'', set_bool (\<lambda>x c. c\<lparr>s3_UseSSL := x\<rparr>)),
      (''prefix'', set_string (\<lambda>x c. c\<lparr>s3_Prefix := x\<rparr>))]"

definition zero_s3 :: S3Config where
  "zero_s3 = \<lparr>s3_Endpoint = [], s3_Region = [], s3_Bucket = [], s3_AccessKey = [], s3_SecretKey = [],
     s3_UseSSL = False, s3_Prefix = []\<rparr>"

definition s3_json :: "S3Config \<Rightarrow> json" where
  "s3_json c =
     JObj [(''endpoint'', JStr (s3_Endpoint c)), (''region'', JStr (s3_Region c)),
           (''bucket'', JStr (s3_Bucket c)), (''access_key'', JStr (s3_AccessKey c)),
           (''secret_key'', JStr (s3_SecretKey c)), (''use_ssl'', JBool (s3_UseSSL c)),
           (''prefix'', JStr (s3_Prefix c))]"

section \<open>Keeping a Google token\<close>

text \<open>
  The two implementations of \<open>gdrive.TokenStore\<close>: the central one writes a refreshed token back to its row
  of \<open>storage_targets\<close>, the agent's has nowhere to keep it.
\<close>

datatype token_store =
    RegistryTokenStore (ts_target: int) (ts_email: string) (ts_json: string)
  | DiscardTokenStore (ts_json: string)

definition ts_Load :: "'d cloud \<Rightarrow> token_store \<Rightarrow> go_error + oauth_token" where
  "ts_Load C s = (case cl_token_parse C (ts_json s) of None \<Rightarrow> Inl (JsonError (ts_json s)) | Some tok \<Rightarrow> Inr tok)"

definition ts_Save :: "'d cloud \<Rightarrow> token_store \<Rightarrow> oauth_token \<Rightarrow> unit reg_op" where
  "ts_Save C s tok =
     (case s of
        RegistryTokenStore targetID email _ \<Rightarrow>
          UpdateStorageTargetConfig targetID
            (json_text (gdrive_json \<lparr>gc_Token = cl_token_json C tok, gc_Email = email\<rparr>))
      | DiscardTokenStore _ \<Rightarrow> Pair (Inr ()))"

text \<open>
  A Drive client: its OAuth configuration, the token it was given, its store and its root folder. The state
  of a request is the registry, the services and the access token last seen (\<open>savingTokenSource.last\<close>).
\<close>

record source =
  so_config :: string
  so_token :: oauth_token
  so_store :: token_store

record 'd drive_state =
  ds_reg :: registry
  ds_cloud :: 'd
  ds_last :: string

definition on_ds :: "('d \<Rightarrow> (string + 'a) \<times> 'd) \<Rightarrow> (go_error, 'a, 'd drive_state) op" where
  "on_ds f st =
     (case f (ds_cloud st) of
        (Inl m, d) \<Rightarrow> (Inl (External m), st\<lparr>ds_cloud := d\<rparr>)
      | (Inr x, d) \<Rightarrow> (Inr x, st\<lparr>ds_cloud := d\<rparr>))"

definition Token :: "'d cloud \<Rightarrow> source \<Rightarrow> (go_error, oauth_token, 'd drive_state) op" where
  "Token C src st =
     (case on_ds (cl_token C (so_config src) (so_token src)) st of
        (Inl e, st) \<Rightarrow> (Inl e, st)
      | (Inr tok, st) \<Rightarrow>
          if ot_AccessToken tok \<noteq> ds_last st then
            (case ts_Save C (so_store src) tok (ds_reg st) of
               (Inl e, r) \<Rightarrow> (Inl e, st\<lparr>ds_reg := r\<rparr>)
             | (Inr _, r) \<Rightarrow> (Inr tok, st\<lparr>ds_reg := r, ds_last := ot_AccessToken tok\<rparr>))
          else (Inr tok, st))"

text \<open>One request through the authorising HTTP client.\<close>

definition drive_call ::
  "'d cloud \<Rightarrow> source \<Rightarrow> ('d \<Rightarrow> (string + 'a) \<times> 'd) \<Rightarrow> (go_error, 'a, 'd drive_state) op" where
  "drive_call C src f st =
     (if cl_asks C (ds_cloud st) then
        (case Token C src st of
           (Inl e, st) \<Rightarrow> (Inl (Wrap (cl_request C) e), st)
         | (Inr _, st) \<Rightarrow> on_ds f st)
      else on_ds f st)"

section \<open>Google Drive\<close>

abbreviation squote :: char where "squote \<equiv> CHR 0x27"

definition escapeQueryValue :: "string \<Rightarrow> string" where
  "escapeQueryValue s = ReplaceAll s squote [bslash, squote]"

definition folder_query :: "string \<Rightarrow> string \<Rightarrow> string" where
  "folder_query parentID name =
     [squote] @ parentID @ [squote] @ '' in parents and name = '' @ [squote] @ escapeQueryValue name @ [squote] @
     '' and mimeType = '' @ [squote] @ ''application/vnd.google-apps.folder'' @ [squote] @
     '' and trashed = false''"

definition findOrCreateFolder ::
  "'d cloud \<Rightarrow> source \<Rightarrow> string \<Rightarrow> string \<Rightarrow> (go_error, string, 'd drive_state) op" where
  "findOrCreateFolder C src name parentID st =
     (case drive_call C src (cl_list C (folder_query parentID name)) st of
        (Inl e, st) \<Rightarrow> (Inl e, st)
      | (Inr files, st) \<Rightarrow>
          (case files of
             f # _ \<Rightarrow> (Inr f, st)
           | [] \<Rightarrow> drive_call C src (cl_create_folder C name parentID) st))"

definition loadOAuthConfig :: "'d cloud \<Rightarrow> string \<Rightarrow> go_error + string" where
  "loadOAuthConfig C credentialsFile =
     (case cl_read_file C credentialsFile of
        Inl m \<Rightarrow> Inl (Wrap ''read google credentials'' (External m))
      | Inr b \<Rightarrow>
          (case cl_oauth_config C b of
             Inl m \<Rightarrow> Inl (Wrap ''parse google credentials'' (External m))
           | Inr cfg \<Rightarrow> Inr cfg))"

definition defaultRootFolderName :: string where
  "defaultRootFolderName = ''Backups''"

record drive_client =
  dc_source :: source
  dc_rootID :: string

definition gdrive_New ::
  "'d cloud \<Rightarrow> string \<Rightarrow> token_store \<Rightarrow> string \<Rightarrow> (go_error, drive_client, 'd drive_state) op" where
  "gdrive_New C credentialsFile store rootFolder st =
     (let root = (if rootFolder = [] then defaultRootFolderName else rootFolder) in
      case loadOAuthConfig C credentialsFile of
        Inl e \<Rightarrow> (Inl e, st)
      | Inr cfg \<Rightarrow>
          (case ts_Load C store of
             Inl e \<Rightarrow> (Inl (Wrap ''load google token'' e), st)
           | Inr tok \<Rightarrow>
               (let src = \<lparr>so_config = cfg, so_token = tok, so_store = store\<rparr>;
                    st = st\<lparr>ds_last := ot_AccessToken tok\<rparr>
                in case cl_service C of
                     Some m \<Rightarrow> (Inl (Wrap ''create drive service'' (External m)), st)
                   | None \<Rightarrow>
                       (case findOrCreateFolder C src root ''root'' st of
                          (Inl e, st) \<Rightarrow> (Inl (Wrap ''init root folder'' e), st)
                        | (Inr rootID, st) \<Rightarrow> (Inr \<lparr>dc_source = src, dc_rootID = rootID\<rparr>, st)))))"

definition gdrive_Upload ::
  "'d cloud \<Rightarrow> drive_client \<Rightarrow> files \<Rightarrow> string \<Rightarrow> string \<Rightarrow> string \<Rightarrow> string \<Rightarrow>
   (go_error, string \<times> int, 'd drive_state) op" where
  "gdrive_Upload C c fs dbname date filename localPath st =
     (case findOrCreateFolder C (dc_source c) dbname (dc_rootID c) st of
        (Inl e, st) \<Rightarrow> (Inl (Wrap ''find/create db folder'' e), st)
      | (Inr dbFolderID, st) \<Rightarrow>
     (case findOrCreateFolder C (dc_source c) date dbFolderID st of
        (Inl e, st) \<Rightarrow> (Inl (Wrap ''find/create date folder'' e), st)
      | (Inr dateFolderID, st) \<Rightarrow>
     (case fs localPath of
        None \<Rightarrow> (Inl (External (''open '' @ localPath @ '': no such file or directory'')), st)
      | Some content \<Rightarrow>
          (let m = cl_mime C (path_Ext filename);
               mimeType = (if m = [] then ''application/gzip'' else m)
           in case drive_call C (dc_source c) (cl_create_file C filename mimeType dateFolderID content) st of
                (Inl e, st) \<Rightarrow> (Inl (Wrap (''upload '' @ filename) e), st)
              | (Inr created, st) \<Rightarrow> (Inr created, st)))))"

section \<open>S3\<close>

definition s3_New :: "'d cloud \<Rightarrow> S3Config \<Rightarrow> go_error + S3Config" where
  "s3_New C cfg =
     (case cl_s3_new C cfg of
        Some m \<Rightarrow> Inl (Wrap ''create s3 client'' (External m))
      | None \<Rightarrow> Inr cfg)"

definition s3_key :: "string \<Rightarrow> string \<Rightarrow> string \<Rightarrow> string \<Rightarrow> string" where
  "s3_key prefix0 dbname date filename =
     (let prefix = Trim prefix0 (CHR ''/'') in
      if prefix = [] then dbname @ ''/'' @ date @ ''/'' @ filename
      else prefix @ ''/'' @ dbname @ ''/'' @ date @ ''/'' @ filename)"

definition s3_Upload ::
  "'d cloud \<Rightarrow> S3Config \<Rightarrow> files \<Rightarrow> string \<Rightarrow> string \<Rightarrow> string \<Rightarrow> string \<Rightarrow>
   (go_error, string \<times> int, 'd drive_state) op" where
  "s3_Upload C c fs dbname date filename localPath st =
     (let key = s3_key (s3_Prefix c) dbname date filename in
      case cl_s3_put C c key (fs localPath) (ds_cloud st) of
        (Inl m, d) \<Rightarrow>
          (Inl (Wrap (''upload s3://'' @ s3_Bucket c @ ''/'' @ key) (External m)), st\<lparr>ds_cloud := d\<rparr>)
      | (Inr n, d) \<Rightarrow> (Inr (key, n), st\<lparr>ds_cloud := d\<rparr>))"

section \<open>Providers\<close>

datatype Provider = DriveProvider drive_client | S3Provider S3Config

definition newGDrive :: "'d cloud \<Rightarrow> Config \<Rightarrow> StorageTarget \<Rightarrow> (go_error, Provider, 'd drive_state) op" where
  "newGDrive C cfg target st =
     (case Unmarshal gdrive_fields zero_gdrive (st_Config target) of
        None \<Rightarrow> (Inl (Wrap ''parse google account config'' (JsonError (st_Config target))), st)
      | Some gc \<Rightarrow>
          (case gdrive_New C (c_GoogleCredentialsFile cfg)
                  (RegistryTokenStore (st_ID target) (gc_Email gc) (gc_Token gc)) (c_ProjectName cfg) st of
             (Inl e, st) \<Rightarrow> (Inl e, st)
           | (Inr c, st) \<Rightarrow> (Inr (DriveProvider c), st)))"

definition newS3 :: "'d cloud \<Rightarrow> StorageTarget \<Rightarrow> go_error + Provider" where
  "newS3 C target =
     (case Unmarshal s3_fields zero_s3 (st_Config target) of
        None \<Rightarrow> Inl (Wrap ''parse s3 config'' (JsonError (st_Config target)))
      | Some sc \<Rightarrow> (case s3_New C sc of Inl e \<Rightarrow> Inl e | Inr c \<Rightarrow> Inr (S3Provider c)))"

definition storage_Build ::
  "'d cloud \<Rightarrow> Config \<Rightarrow> StorageTarget \<Rightarrow> (go_error, Provider, 'd drive_state) op" where
  "storage_Build C cfg target st =
     (if st_Kind target = ''gdrive'' then newGDrive C cfg target st
      else if st_Kind target = ''s3'' then (newS3 C target, st)
      else (Inl (UnknownStorageKind (st_Kind target)), st))"

definition storage_New :: "'d cloud \<Rightarrow> Config \<Rightarrow> int \<Rightarrow> (go_error, Provider, 'd drive_state) op" where
  "storage_New C cfg targetID st =
     (if targetID = 0 then (Inl NoStorageSelected, st)
      else (case GetStorageTarget targetID (ds_reg st) of
              (Inl e, r) \<Rightarrow> (Inl (LoadStorage targetID e), st\<lparr>ds_reg := r\<rparr>)
            | (Inr None, r) \<Rightarrow> (Inl (StorageNotFound targetID), st\<lparr>ds_reg := r\<rparr>)
            | (Inr (Some target), r) \<Rightarrow> storage_Build C cfg target (st\<lparr>ds_reg := r\<rparr>)))"

definition provider_Upload ::
  "'d cloud \<Rightarrow> Provider \<Rightarrow> files \<Rightarrow> string \<Rightarrow> string \<Rightarrow> string \<Rightarrow> string \<Rightarrow>
   (go_error, string \<times> int, 'd drive_state) op" where
  "provider_Upload C p =
     (case p of DriveProvider c \<Rightarrow> gdrive_Upload C c | S3Provider c \<Rightarrow> s3_Upload C c)"

text \<open>A download is a link to follow, or the content and its type.\<close>

datatype download = Redirect string | Content string string

definition gdrive_Download ::
  "'d cloud \<Rightarrow> drive_client \<Rightarrow> string \<Rightarrow> (go_error, download, 'd drive_state) op" where
  "gdrive_Download C c remoteRef st =
     (case drive_call C (dc_source c) (cl_download C remoteRef) st of
        (Inl e, st) \<Rightarrow> (Inl (Wrap (''download '' @ remoteRef) e), st)
      | (Inr (body, contentType), st) \<Rightarrow> (Inr (Content body contentType), st))"

definition s3_Download :: "'d cloud \<Rightarrow> S3Config \<Rightarrow> string \<Rightarrow> (go_error, download, 'd drive_state) op" where
  "s3_Download C c remoteRef st =
     (case cl_s3_presign C c remoteRef (ds_cloud st) of
        Inl m \<Rightarrow> (Inl (Wrap (''presign s3://'' @ s3_Bucket c @ ''/'' @ remoteRef) (External m)), st)
      | Inr u \<Rightarrow> (Inr (Redirect u), st))"

definition provider_Download :: "'d cloud \<Rightarrow> Provider \<Rightarrow> string \<Rightarrow> (go_error, download, 'd drive_state) op" where
  "provider_Download C p =
     (case p of DriveProvider c \<Rightarrow> gdrive_Download C c | S3Provider c \<Rightarrow> s3_Download C c)"

section \<open>The registry under a request\<close>

text \<open>
  The only statements a storage request runs are the lookup of a target and the write of a refreshed
  token. Whatever relation on registries those two move by, every request moves by it too.
\<close>

definition ds_rel :: "(registry \<Rightarrow> registry \<Rightarrow> bool) \<Rightarrow> 'd drive_state \<Rightarrow> 'd drive_state \<Rightarrow> bool" where
  "ds_rel S s t \<longleftrightarrow> S\<^sup>*\<^sup>* (ds_reg s) (ds_reg t)"

lemma ds_rels: "(ds_rel S)\<^sup>*\<^sup>* s t \<Longrightarrow> S\<^sup>*\<^sup>* (ds_reg s) (ds_reg t)"
  by (induction rule: rtranclp_induct) (auto simp: ds_rel_def)

lemma ds_moves_step: "(\<And>st. S\<^sup>*\<^sup>* (ds_reg st) (ds_reg (snd (u st)))) \<Longrightarrow> moves_by (ds_rel S) u"
  by (rule moves_by_step) (simp add: ds_rel_def)

lemma ds_movesD: "moves_by (ds_rel S) u \<Longrightarrow> u st = (x, st') \<Longrightarrow> S\<^sup>*\<^sup>* (ds_reg st) (ds_reg st')"
  by (rule ds_rels) (rule moves_byD)

lemma on_ds_moves: "moves_by (ds_rel S) (on_ds f)"
  by (rule ds_moves_step) (simp add: on_ds_def split: prod.split sum.split)

lemma ds_moves_last:
  assumes "moves_by (ds_rel S) u"
  shows "S\<^sup>*\<^sup>* (ds_reg st) (ds_reg (snd (u (st\<lparr>ds_last := x\<rparr>))))"
proof -
  obtain y st' where u: "u (st\<lparr>ds_last := x\<rparr>) = (y, st')" by fastforce
  from ds_movesD [OF assms u] show ?thesis by (simp add: u)
qed

lemma s3_Upload_moves: "moves_by (ds_rel S) (s3_Upload C c fs dbname date filename localPath)"
  by (rule ds_moves_step) (simp add: s3_Upload_def Let_def split: prod.split sum.split)

lemma s3_Download_moves: "moves_by (ds_rel S) (s3_Download C c ref)"
  by (rule ds_moves_step) (simp add: s3_Download_def split: sum.split)

locale storage_requests =
  fixes S :: "registry \<Rightarrow> registry \<Rightarrow> bool"
  assumes save_target: "moves_by S (UpdateStorageTargetConfig i c)"
    and get_target: "moves_by S (GetStorageTarget i)"
begin

lemma ts_Save_moves: "moves_by S (ts_Save C s tok)"
  by (cases s) (simp_all add: ts_Save_def save_target moves_by_return)

lemma Token_moves: "moves_by (ds_rel S) (Token C src)"
proof (rule ds_moves_step)
  fix st :: "'a drive_state"
  obtain x st1 where t: "on_ds (cl_token C (so_config src) (so_token src)) st = (x, st1)" by fastforce
  have r1: "S\<^sup>*\<^sup>* (ds_reg st) (ds_reg st1)" using ds_movesD [OF on_ds_moves t] .
  have "S\<^sup>*\<^sup>* (ds_reg st1) (snd (ts_Save C (so_store src) tok (ds_reg st1)))" for tok
    using ts_Save_moves [of C "so_store src" tok] by (simp add: moves_by_def)
  with r1 have "S\<^sup>*\<^sup>* (ds_reg st) (snd (ts_Save C (so_store src) tok (ds_reg st1)))" for tok
    by (meson rtranclp_trans)
  with r1 show "S\<^sup>*\<^sup>* (ds_reg st) (ds_reg (snd (Token C src st)))"
    by (simp add: Token_def t split: sum.split prod.split) (metis snd_conv)
qed

lemma drive_call_moves: "moves_by (ds_rel S) (drive_call C src f)"
  unfolding drive_call_def [abs_def]
  by (intro moves_by_if moves_by_bind Token_moves on_ds_moves)

lemma findOrCreateFolder_moves: "moves_by (ds_rel S) (findOrCreateFolder C src name parentID)"
proof -
  have "moves_by (ds_rel S) (\<lambda>st. case files of f # _ \<Rightarrow> (Inr f, st)
          | [] \<Rightarrow> drive_call C src (cl_create_folder C name parentID) st)" for files
    by (cases files) (simp_all add: drive_call_moves moves_by_return)
  then show ?thesis unfolding findOrCreateFolder_def [abs_def]
    by (rule moves_by_bind [OF drive_call_moves])
qed

lemma gdrive_Upload_moves:
  "moves_by (ds_rel S) (gdrive_Upload C c fs dbname date filename localPath)"
proof (cases "fs localPath")
  case None
  then show ?thesis unfolding gdrive_Upload_def [abs_def] None option.case
    by (intro moves_by_bind findOrCreateFolder_moves) (rule moves_by_return)
next
  case (Some content)
  then show ?thesis unfolding gdrive_Upload_def [abs_def] Some option.case Let_def
    by (intro moves_by_bind findOrCreateFolder_moves drive_call_moves) (rule moves_by_return)
qed

lemma provider_Upload_moves:
  "moves_by (ds_rel S) (provider_Upload C p fs dbname date filename localPath)"
  by (cases p) (simp_all add: provider_Upload_def gdrive_Upload_moves s3_Upload_moves)

lemma provider_Download_moves: "moves_by (ds_rel S) (provider_Download C p ref)"
proof (cases p)
  case (DriveProvider c)
  have "moves_by (ds_rel S) (gdrive_Download C c ref)"
    unfolding gdrive_Download_def [abs_def]
    by (rule moves_by_bind [OF drive_call_moves]) (simp add: split_beta moves_by_return)
  then show ?thesis by (simp add: provider_Download_def DriveProvider)
next
  case (S3Provider c)
  then show ?thesis by (simp add: provider_Download_def s3_Download_moves)
qed

lemma gdrive_New_moves: "moves_by (ds_rel S) (gdrive_New C cred store root)"
proof -
  have f: "moves_by (ds_rel S) (\<lambda>st. case findOrCreateFolder C src r ''root'' st of
      (Inl e, st) \<Rightarrow> (Inl (Wrap ''init root folder'' e), st)
    | (Inr rootID, st) \<Rightarrow> (Inr \<lparr>dc_source = src, dc_rootID = rootID\<rparr>, st))" for src r
    by (intro moves_by_bind findOrCreateFolder_moves moves_by_return)
  show ?thesis
    by (rule ds_moves_step)
      (auto simp: gdrive_New_def Let_def split: sum.split option.split intro: ds_moves_last [OF f])
qed

lemma newGDrive_moves: "moves_by (ds_rel S) (newGDrive C cfg target)"
proof (cases "Unmarshal gdrive_fields zero_gdrive (st_Config target)")
  case None
  then show ?thesis unfolding newGDrive_def [abs_def] None option.case by (intro moves_by_return)
next
  case (Some gc)
  then show ?thesis unfolding newGDrive_def [abs_def] Some option.case
    by (intro moves_by_bind gdrive_New_moves moves_by_return)
qed

lemma storage_Build_moves: "moves_by (ds_rel S) (storage_Build C cfg target)"
  unfolding storage_Build_def [abs_def] by (intro moves_by_if newGDrive_moves moves_by_return)

lemma storage_New_moves: "moves_by (ds_rel S) (storage_New C cfg targetID)"
proof (rule ds_moves_step)
  fix st :: "'a drive_state"
  obtain x r where g: "GetStorageTarget targetID (ds_reg st) = (x, r)" by fastforce
  from moves_byD [OF get_target g] have r: "S\<^sup>*\<^sup>* (ds_reg st) r" .
  have "S\<^sup>*\<^sup>* r (ds_reg (snd (storage_Build C cfg target (st\<lparr>ds_reg := r\<rparr>))))" for target
    using ds_movesD [OF storage_Build_moves, of C cfg target "st\<lparr>ds_reg := r\<rparr>"] by (metis
      prod.collapse drive_state.select_convs(1) drive_state.update_convs(1) drive_state.surjective)
  with r show "S\<^sup>*\<^sup>* (ds_reg st) (ds_reg (snd (storage_New C cfg targetID st)))"
    by (auto simp: storage_New_def g split: sum.split option.split intro: rtranclp_trans)
qed

end

text \<open>Any step of the registry, and, when no statement fails, a write of \<open>storage_targets\<close> alone.\<close>

definition only_targets :: "registry \<Rightarrow> registry \<Rightarrow> bool" where
  "only_targets r r' \<longleftrightarrow> (no_faults r \<longrightarrow> (\<exists>X. r' = r\<lparr>storage_targets := X\<rparr>))"

lemma only_targets_steps:
  assumes "only_targets\<^sup>*\<^sup>* r r'" and "no_faults r"
  obtains X where "r' = r\<lparr>storage_targets := X\<rparr>"
proof -
  from assms have "\<exists>X. r' = r\<lparr>storage_targets := X\<rparr>"
  proof (induction rule: rtranclp_induct)
    case base
    show ?case by (intro exI [of _ "storage_targets r"]) simp
  next
    case (step s t)
    then obtain X where "s = r\<lparr>storage_targets := X\<rparr>" by blast
    moreover from this step obtain Y where "t = s\<lparr>storage_targets := Y\<rparr>" by (auto simp: only_targets_def)
    ultimately show ?case by (intro exI [of _ Y]) simp
  qed
  with that show thesis by blast
qed

interpretation reg_requests: storage_requests reg_step
  by unfold_locales (rule moves_intros)+

interpretation calm_requests: storage_requests only_targets
proof
  show "moves_by only_targets (UpdateStorageTargetConfig i c)" for i c
    by (rule moves_by_step) (auto simp: only_targets_def UpdateStorageTargetConfig_def)
  show "moves_by only_targets (GetStorageTarget i)" for i
  proof (rule moves_by_step)
    fix r
    show "only_targets r (snd (GetStorageTarget i r))"
      by (auto simp: only_targets_def GetStorageTarget_def intro: exI [of _ "storage_targets r"])
  qed
qed

section \<open>Keys and queries\<close>

lemma append_sep_inj:
  "c \<notin> set a \<Longrightarrow> c \<notin> set b \<Longrightarrow> a @ c # s = b @ c # t \<longleftrightarrow> a = b \<and> s = t"
proof (induction a arbitrary: b)
  case Nil
  then show ?case by (cases b) auto
next
  case (Cons x a)
  then show ?case by (cases b) auto
qed

lemma s3_key_inj:
  assumes "CHR ''/'' \<notin> set db" "CHR ''/'' \<notin> set db'" "CHR ''/'' \<notin> set date" "CHR ''/'' \<notin> set date'"
  shows "s3_key p db date f = s3_key p db' date' f' \<longleftrightarrow> db = db' \<and> date = date' \<and> f = f'"
  using assms by (auto simp: s3_key_def Let_def append_sep_inj)

text \<open>
  How Drive reads a text literal of a query, after its opening quote: a backslash takes the next
  character as it is, a quote ends the literal.
\<close>

fun query_literal :: "string \<Rightarrow> (string \<times> string) option" where
  "query_literal [] = None"
| "query_literal (c # s) =
     (if c = squote then Some ([], s)
      else if c = bslash then
        (case s of [] \<Rightarrow> None | d # t \<Rightarrow> map_option (apfst (Cons d)) (query_literal t))
      else map_option (apfst (Cons c)) (query_literal s))"

lemma escapeQueryValue_Cons:
  "escapeQueryValue (c # s) = (if c = squote then [bslash, squote] else [c]) @ escapeQueryValue s"
  by (simp add: escapeQueryValue_def ReplaceAll_def replace_bytes_def)

lemma query_literal_escaped:
  "bslash \<notin> set s \<Longrightarrow>
   query_literal (escapeQueryValue s @ u) = map_option (apfst (append s)) (query_literal u)"
proof (induction s)
  case Nil
  then show ?case
    by (cases "query_literal u") (auto simp: escapeQueryValue_def ReplaceAll_def replace_bytes_def)
next
  case (Cons c s)
  then show ?case
    by (cases "query_literal u") (auto simp: escapeQueryValue_Cons apfst_def map_prod_def)
qed

section \<open>Configurations read back\<close>

lemma Unmarshal_gdrive:
  assumes "valid_utf8 (gc_Token c)" and "valid_utf8 (gc_Email c)"
  shows "Unmarshal gdrive_fields zero_gdrive (json_text (gdrive_json c)) = Some c"
proof -
  have "wf_json (gdrive_json c)" using assms by (simp add: gdrive_json_def valid_utf8_ascii)
  then show ?thesis unfolding gdrive_json_def
    by (subst Unmarshal_text) (simp_all add: find_field_def gdrive_fields_def store_simps zero_gdrive_def)
qed

lemma Unmarshal_s3:
  assumes "\<forall>x \<in> {s3_Endpoint c, s3_Region c, s3_Bucket c, s3_AccessKey c, s3_SecretKey c, s3_Prefix c}. valid_utf8 x"
  shows "Unmarshal s3_fields zero_s3 (json_text (s3_json c)) = Some c"
proof -
  have "wf_json (s3_json c)" using assms by (simp add: s3_json_def valid_utf8_ascii)
  then show ?thesis unfolding s3_json_def
    by (subst Unmarshal_text) (simp_all add: find_field_def s3_fields_def store_simps zero_s3_def)
qed

section \<open>Services in memory\<close>

text \<open>
  An instance of the parameter: files are kept in a list, the token is written as two words and never
  refreshed, and everything succeeds.
\<close>

definition sample_cloud :: "(string \<times> string) list cloud" where
  "sample_cloud =
     \<lparr>cl_read_file = (\<lambda>p. Inr ''id''), cl_oauth_config = Inr,
      cl_token_json = (\<lambda>t. ot_AccessToken t @ '' '' @ ot_rest t),
      cl_token_parse = (\<lambda>s. case SplitN (CHR 0x20) s 2 of
         [a, b] \<Rightarrow> Some \<lparr>ot_AccessToken = a, ot_rest = b\<rparr> | _ \<Rightarrow> None),
      cl_asks = (\<lambda>d. True), cl_token = (\<lambda>cfg t d. (Inr t, d)), cl_request = ''Get'', cl_service = None,
      cl_list = (\<lambda>q d. (Inr [''f''], d)), cl_create_folder = (\<lambda>n p d. (Inr ''f'', d)),
      cl_create_file = (\<lambda>n m p c d. (Inr (''id'', int (length c)), d @ [(n, c)])),
      cl_download = (\<lambda>i d. (Inr ([], []), d)), cl_mime = (\<lambda>e. []), cl_s3_new = (\<lambda>c. None),
      cl_s3_put = (\<lambda>c k f d. case f of None \<Rightarrow> (Inl ''no such file'', d)
         | Some x \<Rightarrow> (Inr (int (length x)), (k, x) # filter (\<lambda>p. fst p \<noteq> k) d)),
      cl_s3_presign = (\<lambda>c k d. Inr (''https://s3/'' @ k))\<rparr>"

section \<open>Properties\<close>

text \<open>
  The key of an object tells the database, the date and the file name apart: for names and dates without a
  slash two uploads to one bucket meet in one object only if all three agree.
\<close>

theorem s3_key_identifies:
  assumes "CHR ''/'' \<notin> set db" "CHR ''/'' \<notin> set db'" "CHR ''/'' \<notin> set date" "CHR ''/'' \<notin> set date'"
  shows "s3_key p db date f = s3_key p db' date' f' \<longleftrightarrow> db = db' \<and> date = date' \<and> f = f'"
  using assms by (rule s3_key_inj)

lemma s3_key_identifies_witness:
  "s3_key ''/site/'' ''a'' ''260301'' ''x.gz'' \<noteq> s3_key ''/site/'' ''b'' ''260301'' ''x.gz''"
  using s3_key_identifies [of "''a''" "''b''" "''260301''" "''260301''" "''/site/''" "''x.gz''" "''x.gz''"] by simp

text \<open>
  C31. A refreshed Google token is not lost: after the central token store saves it, the row of the account
  holds a configuration from which the next job loads exactly that token, with the account's address kept.
\<close>

theorem refreshed_token_is_loaded_next:
  assumes "no_faults r" and "by_id st_ID i (storage_targets r) = Some t"
    and "valid_utf8 (cl_token_json C tok)" and "valid_utf8 email"
    and "cl_token_parse C (cl_token_json C tok) = Some tok"
    and "ts_Save C (RegistryTokenStore i email js) tok r = (x, r')"
  shows "x = Inr () \<and>
    (\<exists>t' gc. by_id st_ID i (storage_targets r') = Some t' \<and> st_Kind t' = st_Kind t \<and> st_Label t' = st_Label t \<and>
       Unmarshal gdrive_fields zero_gdrive (st_Config t') = Some gc \<and> gc_Email gc = email \<and>
       ts_Load C (RegistryTokenStore i (gc_Email gc) (gc_Token gc)) = Inr tok)"
proof -
  let ?gc = "\<lparr>gc_Token = cl_token_json C tok, gc_Email = email\<rparr>"
  let ?f = "\<lambda>t. t\<lparr>st_Config := json_text (gdrive_json ?gc), st_UpdatedAt := now_utc r\<rparr>"
  have r': "x = Inr ()" "storage_targets r' = sql_update (\<lambda>y. st_ID y = i) ?f (storage_targets r)"
    using assms(1,6) by (auto simp: ts_Save_def UpdateStorageTargetConfig_def)
  then have "by_id st_ID i (storage_targets r') = Some (?f t)"
    using target_tbl.by_id_update [of ?f i i "storage_targets r"] assms(2) by simp
  moreover have "Unmarshal gdrive_fields zero_gdrive (json_text (gdrive_json ?gc)) = Some ?gc"
    using assms(3,4) by (intro Unmarshal_gdrive) simp_all
  moreover have "ts_Load C (RegistryTokenStore i email (cl_token_json C tok)) = Inr tok"
    using assms(5) by (simp add: ts_Load_def)
  ultimately show ?thesis using r'(1) by fastforce
qed

lemma refreshed_token_is_loaded_next_witness:
  "fst (ts_Save sample_cloud (RegistryTokenStore 1 ''a@b.c'' []) \<lparr>ot_AccessToken = ''new'', ot_rest = ''r''\<rparr>
     sample_registry) = Inr ()"
proof -
  obtain x r' where s: "ts_Save sample_cloud (RegistryTokenStore 1 ''a@b.c'' [])
      \<lparr>ot_AccessToken = ''new'', ot_rest = ''r''\<rparr> sample_registry = (x, r')" by fastforce
  have b: "by_id st_ID 1 (storage_targets sample_registry) = Some (hd (t_rows (storage_targets sample_registry)))"
    by (simp add: by_id_def sample_tables)
  have h: "no_faults sample_registry" "valid_utf8 ''a@b.c''"
    "valid_utf8 (cl_token_json sample_cloud \<lparr>ot_AccessToken = ''new'', ot_rest = ''r''\<rparr>)"
    "cl_token_parse sample_cloud (cl_token_json sample_cloud \<lparr>ot_AccessToken = ''new'', ot_rest = ''r''\<rparr>) =
     Some \<lparr>ot_AccessToken = ''new'', ot_rest = ''r''\<rparr>"
    by (simp_all add: sample_cloud_def sample_tables valid_utf8_ascii numeral_2_eq_2)
  from refreshed_token_is_loaded_next [OF h(1) b h(3,2,4) s] show ?thesis by (simp add: s)
qed

text \<open>
  A folder is looked up under the name it was given: for a name without a backslash Drive reads the
  escaped literal of the query back as that name.
\<close>

theorem folder_name_survives_query:
  assumes "bslash \<notin> set name"
  shows "query_literal (escapeQueryValue name @ squote # rest) = Some (name, rest)"
  using query_literal_escaped [OF assms, of "squote # rest"] by simp

lemma folder_name_survives_query_witness:
  "query_literal (escapeQueryValue (''it'' @ [squote] @ ''s'') @ squote # ''!'') =
   Some (''it'' @ [squote] @ ''s'', ''!'')"
  using folder_name_survives_query [of "''it'' @ [squote] @ ''s''" "''!''"] by simp

text \<open>
  A name that ends in a backslash is not looked up under that name: the backslash takes the closing quote
  with it, and the literal runs on into what should be the rest of the query.
\<close>

theorem folder_name_backslash_runs_on:
  assumes "bslash \<notin> set name"
  shows "query_literal (escapeQueryValue (name @ [bslash]) @ squote # rest) =
         map_option (apfst (append (name @ [squote]))) (query_literal rest)"
proof -
  have "escapeQueryValue (name @ [bslash]) = escapeQueryValue name @ [bslash]"
    by (simp add: escapeQueryValue_def ReplaceAll_def replace_bytes_def)
  then show ?thesis
    using query_literal_escaped [OF assms, of "bslash # squote # rest"]
    by (cases "query_literal rest") (auto simp: apfst_def map_prod_def)
qed

lemma folder_name_backslash_runs_on_witness:
  "query_literal (escapeQueryValue (''db'' @ [bslash]) @ squote # '' and mimeType = '' @ squote # ''x'') =
   Some (''db'' @ squote # '' and mimeType = '', ''x'')"
  using folder_name_backslash_runs_on [of "''db''" "'' and mimeType = '' @ squote # ''x''"] by simp

end
