(* ===== verification/Pages.thy ===== *)
theory Pages
  imports Notify Storage "HOL-Library.Signed_Division"
begin

text \<open>
  \<open>internal/admin\<close>: what its pages are rendered from. The templates themselves are HTML; a page is modelled by
  its template's name, as the constructor, and the data handed to it. Also here: \<open>pagination.go\<close>, the display
  of sizes and durations, and the literals of the interface, whose Vietnamese letters are spelled in UTF-8.
\<close>

section \<open>Texts\<close>

definition text_this_server :: string where
  "text_this_server =
     ''Server n'' @ [CHR 0xC3, CHR 0xA0] @ ''y''"

definition text_agent_gone :: string where
  "text_agent_gone =
     ''Agent '' @ [CHR 0xC4, CHR 0x91, CHR 0xC3, CHR 0xA3] @ '' xo'' @ [CHR 0xC3, CHR 0xA1]"

definition text_wrong_login :: string where
  "text_wrong_login =
     ''Sai t'' @ [CHR 0xC3, CHR 0xAA] @ ''n '' @ [CHR 0xC4, CHR 0x91, CHR 0xC4, CHR 0x83] @ ''ng nh'' @
     [CHR 0xE1, CHR 0xBA, CHR 0xAD] @ ''p ho'' @ [CHR 0xE1, CHR 0xBA, CHR 0xB7] @ ''c m'' @
     [CHR 0xE1, CHR 0xBA, CHR 0xAD] @ ''t kh'' @ [CHR 0xE1, CHR 0xBA, CHR 0xA9] @ ''u.''"

definition text_own_title :: string where
  "text_own_title =
     ''L'' @ [CHR 0xE1, CHR 0xBB, CHR 0x8B] @ ''ch backup t'' @ [CHR 0xE1, CHR 0xBB, CHR 0xB1] @ '' '' @
     [CHR 0xC4, CHR 0x91, CHR 0xE1, CHR 0xBB, CHR 0x99] @ ''ng (gi'' @ [CHR 0xE1, CHR 0xBB, CHR 0x9D] @ '' ''"

definition text_own_hint :: string where
  "text_own_hint =
     ''C'' @ [CHR 0xC3, CHR 0xB3] @ '' th'' @ [CHR 0xE1, CHR 0xBB, CHR 0x83] @ '' th'' @
     [CHR 0xC3, CHR 0xAA] @ ''m nhi'' @ [CHR 0xE1, CHR 0xBB, CHR 0x81] @ ''u gi'' @
     [CHR 0xE1, CHR 0xBB, CHR 0x9D] @ '' trong ng'' @ [CHR 0xC3, CHR 0xA0] @ ''y '' @
     [CHR 0xE2, CHR 0x80, CHR 0x94] @ '' m'' @ [CHR 0xE1, CHR 0xBB, CHR 0x97] @ ''i gi'' @
     [CHR 0xE1, CHR 0xBB, CHR 0x9D] @ '' s'' @ [CHR 0xE1, CHR 0xBA, CHR 0xBD] @ '' t'' @
     [CHR 0xE1, CHR 0xBB, CHR 0xB1] @ '' '' @ [CHR 0xC4, CHR 0x91, CHR 0xE1, CHR 0xBA, CHR 0xA9] @
     ''y 1 job backup ri'' @ [CHR 0xC3, CHR 0xAA] @ ''ng cho database n'' @ [CHR 0xC3, CHR 0xA0] @ ''y.''"

definition text_own_empty :: string where
  "text_own_empty =
     ''Ch'' @ [CHR 0xC6, CHR 0xB0] @ ''a c'' @ [CHR 0xC3, CHR 0xB3] @ '' l'' @
     [CHR 0xE1, CHR 0xBB, CHR 0x8B] @ ''ch n'' @ [CHR 0xC3, CHR 0xA0] @ ''o '' @
     [CHR 0xE2, CHR 0x80, CHR 0x94] @ '' database s'' @ [CHR 0xE1, CHR 0xBA, CHR 0xBD] @ '' kh'' @
     [CHR 0xC3, CHR 0xB4] @ ''ng t'' @ [CHR 0xE1, CHR 0xBB, CHR 0xB1] @ '' '' @
     [CHR 0xC4, CHR 0x91, CHR 0xE1, CHR 0xBB, CHR 0x99] @ ''ng backup.''"

definition text_group_title :: string where
  "text_group_title =
     ''Khung gi'' @ [CHR 0xE1, CHR 0xBB, CHR 0x9D] @ '' backup (gi'' @ [CHR 0xE1, CHR 0xBB, CHR 0x9D] @ '' ''"

definition text_group_hint :: string where
  "text_group_hint =
     ''C'' @ [CHR 0xC3, CHR 0xB3] @ '' th'' @ [CHR 0xE1, CHR 0xBB, CHR 0x83] @ '' th'' @
     [CHR 0xC3, CHR 0xAA] @ ''m nhi'' @ [CHR 0xE1, CHR 0xBB, CHR 0x81] @ ''u khung gi'' @
     [CHR 0xE1, CHR 0xBB, CHR 0x9D] @ '' trong ng'' @ [CHR 0xC3, CHR 0xA0] @ ''y '' @
     [CHR 0xE2, CHR 0x80, CHR 0x94] @ '' m'' @ [CHR 0xE1, CHR 0xBB, CHR 0x97] @ ''i gi'' @
     [CHR 0xE1, CHR 0xBB, CHR 0x9D] @ '' t'' @ [CHR 0xE1, CHR 0xBB, CHR 0xB1] @ '' '' @
     [CHR 0xC4, CHR 0x91, CHR 0xE1, CHR 0xBA, CHR 0xA9] @ ''y 1 job backup ri'' @ [CHR 0xC3, CHR 0xAA] @
     ''ng cho t'' @ [CHR 0xE1, CHR 0xBA, CHR 0xA5] @ ''t c'' @ [CHR 0xE1, CHR 0xBA, CHR 0xA3] @
     '' database trong nh'' @ [CHR 0xC3, CHR 0xB3] @ ''m n'' @ [CHR 0xC3, CHR 0xA0] @ ''y.''"

definition text_group_empty :: string where
  "text_group_empty =
     ''Ch'' @ [CHR 0xC6, CHR 0xB0] @ ''a c'' @ [CHR 0xC3, CHR 0xB3] @ '' khung gi'' @
     [CHR 0xE1, CHR 0xBB, CHR 0x9D] @ '' n'' @ [CHR 0xC3, CHR 0xA0] @ ''o '' @
     [CHR 0xE2, CHR 0x80, CHR 0x94] @ '' l'' @ [CHR 0xE1, CHR 0xBB, CHR 0x8B] @ ''ch chung s'' @
     [CHR 0xE1, CHR 0xBA, CHR 0xBD] @ '' kh'' @ [CHR 0xC3, CHR 0xB4] @ ''ng t'' @
     [CHR 0xE1, CHR 0xBB, CHR 0xB1] @ '' '' @ [CHR 0xC4, CHR 0x91, CHR 0xE1, CHR 0xBB, CHR 0x99] @
     ''ng ch'' @ [CHR 0xE1, CHR 0xBA, CHR 0xA1] @ ''y.''"

definition text_choose_database :: string where
  "text_choose_database =
     ''Ch'' @ [CHR 0xE1, CHR 0xBB, CHR 0x8D] @ ''n '' @ [CHR 0xC3, CHR 0xAD] @ ''t nh'' @
     [CHR 0xE1, CHR 0xBA, CHR 0xA5] @ ''t 1 database''"

definition text_enter_label_code :: string where
  "text_enter_label_code =
     ''Vui l'' @ [CHR 0xC3, CHR 0xB2] @ ''ng nh'' @ [CHR 0xE1, CHR 0xBA, CHR 0xAD] @ ''p t'' @
     [CHR 0xC3, CHR 0xAA] @ ''n g'' @ [CHR 0xE1, CHR 0xBB, CHR 0xA3] @ ''i nh'' @
     [CHR 0xE1, CHR 0xBB, CHR 0x9B] @ '' v'' @ [CHR 0xC3, CHR 0xA0] @ '' verification code''"

definition text_enter_label :: string where
  "text_enter_label =
     ''Vui l'' @ [CHR 0xC3, CHR 0xB2] @ ''ng nh'' @ [CHR 0xE1, CHR 0xBA, CHR 0xAD] @ ''p t'' @
     [CHR 0xC3, CHR 0xAA] @ ''n g'' @ [CHR 0xE1, CHR 0xBB, CHR 0xA3] @ ''i nh'' @
     [CHR 0xE1, CHR 0xBB, CHR 0x9B]"

definition text_enter_s3_label :: string where
  "text_enter_s3_label =
     ''Vui l'' @ [CHR 0xC3, CHR 0xB2] @ ''ng nh'' @ [CHR 0xE1, CHR 0xBA, CHR 0xAD] @ ''p t'' @
     [CHR 0xC3, CHR 0xAA] @ ''n g'' @ [CHR 0xE1, CHR 0xBB, CHR 0xA3] @ ''i nh'' @
     [CHR 0xE1, CHR 0xBB, CHR 0x9B] @ '' cho c'' @ [CHR 0xE1, CHR 0xBA, CHR 0xA5] @ ''u h'' @
     [CHR 0xC3, CHR 0xAC] @ ''nh S3''"

definition text_enter_telegram :: string where
  "text_enter_telegram =
     ''Vui l'' @ [CHR 0xC3, CHR 0xB2] @ ''ng nh'' @ [CHR 0xE1, CHR 0xBA, CHR 0xAD] @ ''p '' @
     [CHR 0xC4, CHR 0x91, CHR 0xE1, CHR 0xBB, CHR 0xA7] @ '' t'' @ [CHR 0xC3, CHR 0xAA] @ ''n g'' @
     [CHR 0xE1, CHR 0xBB, CHR 0xA3] @ ''i nh'' @ [CHR 0xE1, CHR 0xBB, CHR 0x9B] @ '', bot token v'' @
     [CHR 0xC3, CHR 0xA0] @ '' chat id''"

definition text_enter_agent :: string where
  "text_enter_agent =
     ''Vui l'' @ [CHR 0xC3, CHR 0xB2] @ ''ng nh'' @ [CHR 0xE1, CHR 0xBA, CHR 0xAD] @ ''p '' @
     [CHR 0xC4, CHR 0x91, CHR 0xE1, CHR 0xBB, CHR 0xA7] @ '' t'' @ [CHR 0xC3, CHR 0xAA] @ ''n g'' @
     [CHR 0xE1, CHR 0xBB, CHR 0xA3] @ ''i nh'' @ [CHR 0xE1, CHR 0xBB, CHR 0x9B] @ '', endpoint, token v'' @
     [CHR 0xC3, CHR 0xA0] @ '' cert fingerprint''"

definition text_target_gone :: string where
  "text_target_gone =
     ''storage '' @ [CHR 0xC4, CHR 0x91, CHR 0xC3, CHR 0xAD] @ ''ch c'' @ [CHR 0xE1, CHR 0xBB, CHR 0xA7] @
     ''a file n'' @ [CHR 0xC3, CHR 0xA0] @ ''y kh'' @ [CHR 0xC3, CHR 0xB4] @ ''ng c'' @
     [CHR 0xC3, CHR 0xB2] @ ''n t'' @ [CHR 0xE1, CHR 0xBB, CHR 0x93] @ ''n t'' @
     [CHR 0xE1, CHR 0xBA, CHR 0xA1] @ ''i ('' @ [CHR 0xC4, CHR 0x91, CHR 0xC3, CHR 0xA3] @ '' b'' @
     [CHR 0xE1, CHR 0xBB, CHR 0x8B] @ '' xo'' @ [CHR 0xC3, CHR 0xA1] @ ''?)''"


section \<open>Pagination\<close>

definition wrap64 :: "int \<Rightarrow> int" where
  "wrap64 n = signed_take_bit 63 n"

record Pagination =
  pg_Page :: int
  pg_TotalPages :: int
  pg_Total :: int
  pg_BaseURL :: string
  pg_PageSep :: string
  pg_HasPrev :: bool
  pg_HasNext :: bool
  pg_PrevPage :: int
  pg_NextPage :: int

definition newPagination :: "int \<Rightarrow> int \<Rightarrow> int \<Rightarrow> string \<Rightarrow> Pagination" where
  "newPagination page rows pageSize baseURL =
     (let pageSize = (if pageSize < 1 then 1 else pageSize);
          totalPages = wrap64 (rows + pageSize - 1) sdiv pageSize;
          totalPages = (if totalPages < 1 then 1 else totalPages);
          page = (if page < 1 then 1 else page);
          page = (if page > totalPages then totalPages else page);
          pageSep = (if ContainsByte baseURL (CHR ''?'') then ''&'' else ''?'')
      in \<lparr>pg_Page = page, pg_TotalPages = totalPages, pg_Total = rows, pg_BaseURL = baseURL,
          pg_PageSep = pageSep, pg_HasPrev = page > 1, pg_HasNext = page < totalPages,
          pg_PrevPage = wrap64 (page - 1), pg_NextPage = wrap64 (page + 1)\<rparr>)"

definition Offset :: "Pagination \<Rightarrow> int \<Rightarrow> int" where
  "Offset p pageSize = wrap64 (wrap64 (pg_Page p - 1) * pageSize)"

section \<open>Sizes\<close>

text \<open>
  \<open>float64(n)\<close> for \<open>0 \<le> n\<close>, which is an integer: 53 significant bits, the nearest value, ties to even.
\<close>

definition round_half_even :: "int \<Rightarrow> int \<Rightarrow> int" where   \<comment> \<open>\<open>a / b\<close> to the nearest integer\<close>
  "round_half_even a b =
     (let q = a div b; r = a mod b in
      if 2 * r < b then q else if b < 2 * r then q + 1 else if even q then q else q + 1)"

fun float_shift :: "nat \<Rightarrow> int \<Rightarrow> int" where
  "float_shift 0 n = 1"
| "float_shift (Suc k) n = (if n < 2 ^ 53 then 1 else 2 * float_shift k (n div 2))"

definition float64 :: "int \<Rightarrow> int" where
  "float64 n = (let u = float_shift 64 n in round_half_even n u * u)"

text \<open>The division by a power of two is exact, and \<open>%.1f\<close> rounds the exact quotient, ties to even.\<close>

fun size_loop :: "nat \<Rightarrow> int \<Rightarrow> int \<times> nat \<Rightarrow> int \<times> nat" where
  "size_loop 0 n2 de = de"
| "size_loop (Suc k) n2 (d, e) = (if 1024 \<le> n2 then size_loop k (n2 div 1024) (d * 1024, e + 1) else (d, e))"

definition humanSize :: "int \<Rightarrow> string option" where   \<comment> \<open>\<open>None\<close>: the index into the units panics\<close>
  "humanSize n =
     (if n < 1024 then Some (itoa n @ '' B'')
      else
        (let (d, e) = size_loop 64 (n div 1024) (1024, 0);
             tenths = round_half_even (10 * float64 n) d
         in if e < 6
            then Some (itoa (tenths div 10) @ ''.'' @ itoa (tenths mod 10) @ '' '' @ [''KMGTPE'' ! e] @ ''B'')
            else None))"

section \<open>Durations\<close>

text \<open>\<open>d.Round(100 * time.Millisecond)\<close> and \<open>String\<close> of the result, in nanoseconds.\<close>

definition tick :: int where "tick = 100000000"

definition round_duration :: "int \<Rightarrow> int" where
  "round_duration d =
     (if 0 \<le> d then
        (let r = d mod tick in
         if 2 * r < tick then d - r else if d + tick - r \<le> max_int64 then d + tick - r else max_int64)
      else
        (let r = (- d) mod tick in
         if 2 * r < tick then d + r else if min_int64 \<le> d - tick + r then d - tick + r else min_int64))"

text \<open>The digits after the point, without the zeros that end them.\<close>

definition fraction :: "int \<Rightarrow> string" where
  "fraction n =
     (if n mod 1000000000 = 0 then []
      else ''.'' @ TrimRight (tl (itoa (1000000000 + n mod 1000000000))) (CHR ''0''))"

definition duration_text :: "int \<Rightarrow> string" where
  "duration_text d =
     (let u = abs d; sign = (if d < 0 then ''-'' else []);
          s = u div 1000000000; m = s div 60; h = m div 60
      in if u = 0 then ''0s''
         else if u < 1000000000 then sign @ itoa (u div 1000000) @ ''ms''
         else sign @ (if 0 < h then itoa h @ ''h'' else []) @ (if 0 < m then itoa (m mod 60) @ ''m'' else []) @
              itoa (s mod 60) @ fraction u @ ''s'')"

definition run_duration :: "int \<Rightarrow> string" where
  "run_duration ms = duration_text (round_duration (wrap64 (ms * 1000000)))"

section \<open>Data of the pages\<close>

datatype card_times = NoTimes | OwnTimes "Schedule list" | GroupTimes "SharedScheduleTime list"

record scheduleTimesCard =
  card_Title :: string
  card_Hint :: string
  card_Times :: card_times
  card_EmptyMsg :: string
  card_AddAction :: string
  card_DeletePrefix :: string

definition no_card :: scheduleTimesCard where
  "no_card = \<lparr>card_Title = [], card_Hint = [], card_Times = NoTimes, card_EmptyMsg = [], card_AddAction = [],
     card_DeletePrefix = []\<rparr>"

text \<open>A Go map from ids to \<open>true\<close> is the set of its keys.\<close>

record formData =
  fd_Action :: string
  fd_Editing :: bool
  fd_Database :: Database
  fd_StorageTargets :: "StorageTarget list"
  fd_RemoteAgents :: "RemoteAgent list"
  fd_NotifyChannels :: "NotifyChannel list"
  fd_SelectedChannels :: "int set"
  fd_Timezone :: string
  fd_TimesCard :: scheduleTimesCard

record listDatabaseView =
  lv_Database :: Database
  lv_AgentLabel :: string
  lv_NotifyChannelIDs :: "int list"
  lv_HasSchedule :: bool

record sharedScheduleFormData =
  sd_Editing :: bool
  sd_Action :: string
  sd_Name :: string
  sd_Databases :: "Database list"
  sd_Selected :: "int set"
  sd_Timezone :: string
  sd_TimesCard :: scheduleTimesCard
  sd_Error :: string

record storageTargetView =
  tv_StorageTarget :: StorageTarget
  tv_CreatedAtDisplay :: string

record googleFormData =
  gd_Editing :: bool
  gd_Action :: string
  gd_Target :: StorageTarget
  gd_AuthURL :: string
  gd_Error :: string

record s3FormData =
  s3d_Editing :: bool
  s3d_Action :: string
  s3d_Target :: StorageTarget
  s3d_Config :: S3Config
  s3d_Error :: string

record telegramFormData =
  td_Editing :: bool
  td_Action :: string
  td_Channel :: NotifyChannel
  td_Config :: telegramConfig
  td_Error :: string

record logRunView =
  rv_BackupRun :: BackupRun
  rv_Duration :: string

record logsData =
  ld_Runs :: "logRunView list"
  ld_Pagination :: Pagination
  ld_Status :: string
  ld_Query :: string
  ld_ToggleStatusURL :: string

record backupFileView =
  fv_BackupFile :: BackupFile
  fv_SizeDisplay :: string
  fv_CreatedAtDisplay :: string

record agentFormData =
  ad_Editing :: bool
  ad_Action :: string
  ad_Agent :: RemoteAgent
  ad_Error :: string

record loginPageData =
  lp_Next :: string
  lp_Error :: string
  lp_LoggedOut :: bool

datatype page =
    login_html loginPageData
  | databases_html "listDatabaseView list"
  | database_form_html formData
  | shared_schedules_html "SharedSchedule list"
  | shared_schedule_form_html sharedScheduleFormData
  | storage_html "storageTargetView list"
  | storage_google_html googleFormData
  | storage_s3_html s3FormData
  | notify_channels_html "NotifyChannel list"
  | notify_telegram_html telegramFormData
  | logs_html logsData
  | database_files_html Database "backupFileView list" int
  | agents_html "RemoteAgent list"
  | agent_form_html agentFormData

end
