(* ===== verification/Url.thy ===== *)
theory Url
  imports Json Errors
begin

text \<open>
  What the web interface uses of \<open>net/url\<close>: escaping and unescaping of query components, the parse of a query
  string into its pairs, and the text of a set of values.
\<close>

section \<open>Escaping\<close>

definition unreserved :: "char \<Rightarrow> bool" where
  "unreserved c =
     (let n = code c in
      48 \<le> n \<and> n \<le> 57 \<or> 65 \<le> n \<and> n \<le> 90 \<or> 97 \<le> n \<and> n \<le> 122 \<or>
      c = CHR ''-'' \<or> c = CHR ''_'' \<or> c = CHR ''.'' \<or> c = CHR ''~'')"

definition upper_hex :: "nat \<Rightarrow> char" where
  "upper_hex n = (if n < 10 then char_of (48 + n) else char_of (55 + n))"

definition escape_byte :: "char \<Rightarrow> string" where
  "escape_byte c =
     (if unreserved c then [c] else if c = CHR '' '' then ''+''
      else [CHR ''%'', upper_hex (code c div 16), upper_hex (code c mod 16)])"

definition QueryEscape :: "string \<Rightarrow> string" where
  "QueryEscape s = concat (map escape_byte s)"

text \<open>
  An escape that is no escape is an error with the (at most three) bytes at which it stands. A plus sign is a
  space in a query and itself in a path.
\<close>

fun unescape :: "bool \<Rightarrow> string \<Rightarrow> go_error + string" where
  "unescape in_query [] = Inr []"
| "unescape in_query (c # s) =
     (if c = CHR ''%'' then
        (case s of
           a # b # t \<Rightarrow>
             (case (hex_val a, hex_val b) of
                (Some x, Some y) \<Rightarrow>
                  (case unescape in_query t of Inl e \<Rightarrow> Inl e | Inr u \<Rightarrow> Inr (char_of (16 * x + y) # u))
              | _ \<Rightarrow> Inl (BadEscape (take 3 (c # s))))
         | _ \<Rightarrow> Inl (BadEscape (take 3 (c # s))))
      else
        (case unescape in_query s of
           Inl e \<Rightarrow> Inl e | Inr u \<Rightarrow> Inr ((if in_query \<and> c = CHR ''+'' then CHR '' '' else c) # u)))"

abbreviation QueryUnescape :: "string \<Rightarrow> go_error + string" where
  "QueryUnescape \<equiv> unescape True"

abbreviation PathUnescape :: "string \<Rightarrow> go_error + string" where
  "PathUnescape \<equiv> unescape False"

section \<open>Query strings\<close>

type_synonym pairs = "(string \<times> string) list"

definition Cut :: "string \<Rightarrow> char \<Rightarrow> string \<times> string" where
  "Cut s c = (takeWhile (\<lambda>x. x \<noteq> c) s, tl (dropWhile (\<lambda>x. x \<noteq> c) s))"

text \<open>
  \<open>url.ParseQuery\<close>: the pairs of the pieces that can be read, in order, and the error: the last semicolon
  complained of, or the first bad escape where none follows.
\<close>

definition read_piece :: "string \<Rightarrow> (go_error + (string \<times> string)) option" where
  "read_piece piece =
     (if CHR '';'' \<in> set piece then Some (Inl (Message ''invalid semicolon separator in query''))
      else if piece = [] then None
      else
        (case Cut piece (CHR ''='') of (k, v) \<Rightarrow>
         Some (case QueryUnescape k of
                 Inl e \<Rightarrow> Inl e
               | Inr k \<Rightarrow> (case QueryUnescape v of Inl e \<Rightarrow> Inl e | Inr v \<Rightarrow> Inr (k, v)))))"

fun parse_pieces :: "string list \<Rightarrow> go_error option \<Rightarrow> pairs \<times> go_error option" where
  "parse_pieces [] err = ([], err)"
| "parse_pieces (p # ps) err =
     (case read_piece p of
        None \<Rightarrow> parse_pieces ps err
      | Some (Inl e) \<Rightarrow>
          parse_pieces ps (if CHR '';'' \<in> set p then Some e else if err = None then Some e else err)
      | Some (Inr kv) \<Rightarrow> (case parse_pieces ps err of (kvs, err) \<Rightarrow> (kv # kvs, err)))"

definition ParseQuery :: "string \<Rightarrow> pairs \<times> go_error option" where
  "ParseQuery q = parse_pieces (Split (CHR ''&'') q) None"

text \<open>\<open>Values.Get\<close> and the values of a key.\<close>

definition get_value :: "pairs \<Rightarrow> string \<Rightarrow> string" where
  "get_value kvs k = (case find (\<lambda>p. fst p = k) kvs of None \<Rightarrow> [] | Some p \<Rightarrow> snd p)"

definition get_values :: "pairs \<Rightarrow> string \<Rightarrow> string list" where
  "get_values kvs k = map snd (filter (\<lambda>p. fst p = k) kvs)"

text \<open>\<open>Values.Encode\<close>: the pairs sorted by key.\<close>

definition Encode :: "pairs \<Rightarrow> string" where
  "Encode kvs = Join (map (\<lambda>(k, v). QueryEscape k @ ''='' @ QueryEscape v) (sort_key fst kvs)) ''&''"

section \<open>Reading back\<close>

lemma hex_val_upper: "n < 16 \<Longrightarrow> hex_val (upper_hex n) = Some n"
  by (auto simp: hex_val_def upper_hex_def Let_def)

lemma code_nibbles: "code c div 16 < 16" "code c mod 16 < 16"
proof -
  have "code c < 16 * 16" by simp
  then show "code c div 16 < 16" by (rule less_mult_imp_div_less)
qed simp

lemma unescape_escape_byte:
  "QueryUnescape (escape_byte c @ s) = (case QueryUnescape s of Inl e \<Rightarrow> Inl e | Inr u \<Rightarrow> Inr (c # u))"
proof (cases "unreserved c")
  case True
  then have "c \<noteq> CHR ''%''" "c \<noteq> CHR ''+''" by (auto simp: unreserved_def Let_def)
  with True show ?thesis by (simp add: escape_byte_def split: sum.split)
next
  case False
  with hex_val_upper [OF code_nibbles(1)] hex_val_upper [OF code_nibbles(2)] show ?thesis by (simp add: escape_byte_def split: sum.split)
qed

lemma unescape_escape: "QueryUnescape (QueryEscape s) = Inr s"
  by (induction s) (simp_all add: QueryEscape_def unescape_escape_byte)

text \<open>No escape reaches across a slash, so a path can be unescaped element by element.\<close>

lemma unescape_slash:
  "unescape q (a @ CHR ''/'' # b) = Inr u \<Longrightarrow>
   \<exists>ua ub. unescape q a = Inr ua \<and> unescape q b = Inr ub \<and> u = ua @ CHR ''/'' # ub"
proof (induction q a arbitrary: u rule: unescape.induct)
  case (1 q)
  then show ?case by (auto split: sum.splits)
next
  case (2 q c s)
  have slash: "hex_val (CHR ''/'') = None" by (simp add: hex_val_def)
  show ?case
  proof (cases "c = CHR ''%''")
    case True
    from "2.prems" True slash obtain x y t where s: "s = x # y # t"
      by (cases s; cases "tl s") (auto split: option.splits sum.splits list.splits)
    from "2.prems" True s obtain i j v where h: "hex_val x = Some i" "hex_val y = Some j"
      and v: "unescape q (t @ CHR ''/'' # b) = Inr v" "u = char_of (16 * i + j) # v"
      by (auto split: option.splits sum.splits)
    from "2.IH"(1) [OF True s refl refl h v(1)] obtain ua ub where
      "unescape q t = Inr ua" "unescape q b = Inr ub" "v = ua @ CHR ''/'' # ub" by blast
    with True s h v(2) show ?thesis by simp
  next
    case False
    from "2.prems" False obtain v where v: "unescape q (s @ CHR ''/'' # b) = Inr v"
      "u = (if q \<and> c = CHR ''+'' then CHR '' '' else c) # v"
      by (auto split: sum.splits)
    from "2.IH"(2) [OF False v(1)] obtain ua ub where
      "unescape q s = Inr ua" "unescape q b = Inr ub" "v = ua @ CHR ''/'' # ub" by blast
    with False v(2) show ?thesis by simp
  qed
qed

lemma escape_byte_plain: "x \<in> set (escape_byte c) \<Longrightarrow> x \<noteq> CHR ''&'' \<and> x \<noteq> CHR '';'' \<and> x \<noteq> CHR ''=''"
proof -
  assume x: "x \<in> set (escape_byte c)"
  have u: "upper_hex n \<noteq> CHR ''&'' \<and> upper_hex n \<noteq> CHR '';'' \<and> upper_hex n \<noteq> CHR ''=''" if "n < 16" for n
    using hex_val_upper [OF that] by (auto simp: hex_val_def Let_def split: if_splits)
  with u [OF code_nibbles(1)] u [OF code_nibbles(2)] x show ?thesis
    by (auto simp: escape_byte_def unreserved_def Let_def split: if_splits)
qed

lemma QueryEscape_plain:
  "CHR ''&'' \<notin> set (QueryEscape s)" "CHR '';'' \<notin> set (QueryEscape s)" "CHR ''='' \<notin> set (QueryEscape s)"
  using escape_byte_plain by (auto simp: QueryEscape_def)

lemma takeWhile_before: "c \<notin> set a \<Longrightarrow> takeWhile (\<lambda>x. x \<noteq> c) (a @ c # b) = a"
  by (induction a) auto

lemma dropWhile_before: "c \<notin> set a \<Longrightarrow> dropWhile (\<lambda>x. x \<noteq> c) (a @ c # b) = c # b"
  by (induction a) auto

lemma read_piece_escaped:
  "read_piece (QueryEscape k @ ''='' @ QueryEscape v) = Some (Inr (k, v))"
  using QueryEscape_plain
  by (auto simp: read_piece_def Cut_def takeWhile_before dropWhile_before unescape_escape)

lemma parse_pieces_escaped:
  "parse_pieces (map (\<lambda>(k, v). QueryEscape k @ ''='' @ QueryEscape v) kvs) err = (kvs, err)"
  by (induction kvs) (auto simp: read_piece_escaped [simplified])

lemma Split_single: "CHR ''&'' \<notin> set s \<Longrightarrow> Split (CHR ''&'') s = [s]"
  by (rule Split_no_sep)

lemma ParseQuery_one:
  "ParseQuery (QueryEscape k @ ''='' @ QueryEscape v) = ([(k, v)], None)"
proof -
  have "CHR ''&'' \<notin> set (QueryEscape k @ ''='' @ QueryEscape v)"
    using QueryEscape_plain by simp
  then show ?thesis
    using read_piece_escaped [of k v] by (simp add: ParseQuery_def Split_no_sep)
qed

text \<open>What \<open>Encode\<close> writes, \<open>ParseQuery\<close> reads, up to the order of the keys.\<close>

lemma Split_Join:
  "xs \<noteq> [] \<Longrightarrow> (\<And>x. x \<in> set xs \<Longrightarrow> c \<notin> set x) \<Longrightarrow> Split c (Join xs [c]) = xs"
proof (induction xs)
  case (Cons x xs)
  then show ?case
    by (cases xs) (auto simp: Join_Cons Split_no_sep Split_append)
qed simp

lemma ParseQuery_Encode:
  assumes "kvs \<noteq> []"
  shows "ParseQuery (Encode kvs) = (sort_key fst kvs, None)"
proof -
  let ?e = "\<lambda>(k, v). QueryEscape k @ ''='' @ QueryEscape v"
  have "Split (CHR ''&'') (Join (map ?e (sort_key fst kvs)) ''&'') = map ?e (sort_key fst kvs)"
    using assms QueryEscape_plain
    by (intro Split_Join) (auto simp flip: set_empty)
  then show ?thesis by (simp only: ParseQuery_def Encode_def parse_pieces_escaped)
qed

end
