(* ===== verification/GoogleAuth.thy ===== *)
theory GoogleAuth
  imports Storage Notify
begin

text \<open>
  The functions of \<open>internal/storage/gdrive\<close> with which the web interface connects an account. The OAuth library
  and Google's user service are a parameter.
\<close>

record 'd google =
  go_auth_url :: "string \<Rightarrow> string \<Rightarrow> string \<Rightarrow> string"   \<comment> \<open>of a configuration, a state and a prompt, for offline access\<close>
  go_exchange :: "string \<Rightarrow> string \<Rightarrow> 'd \<Rightarrow> (string + oauth_token) \<times> 'd"
  go_get :: "oauth_token \<Rightarrow> string \<Rightarrow> 'd \<Rightarrow> (string + http_response) \<times> 'd"

definition AuthURL :: "'d cloud \<Rightarrow> 'd google \<Rightarrow> string \<Rightarrow> go_error + string" where
  "AuthURL C G credentialsFile =
     (case loadOAuthConfig C credentialsFile of
        Inl e \<Rightarrow> Inl e
      | Inr cfg \<Rightarrow> Inr (go_auth_url G cfg ''state-token'' ''select_account consent''))"

definition Exchange :: "'d cloud \<Rightarrow> 'd google \<Rightarrow> string \<Rightarrow> string \<Rightarrow> (go_error, oauth_token, 'd drive_state) op" where
  "Exchange C G credentialsFile vcode st =
     (case loadOAuthConfig C credentialsFile of
        Inl e \<Rightarrow> (Inl e, st)
      | Inr cfg \<Rightarrow>
          (case on_ds (go_exchange G cfg vcode) st of
             (Inl e, st) \<Rightarrow> (Inl (Wrap ''exchange auth code'' e), st)
           | (Inr tok, st) \<Rightarrow> (Inr tok, st)))"

definition email_fields :: "string field list" where
  "email_fields = [(''email'', set_string (\<lambda>x r. x))]"

definition FetchEmail :: "'d google \<Rightarrow> oauth_token \<Rightarrow> (go_error, string, 'd drive_state) op" where
  "FetchEmail G tok st =
     (case on_ds (go_get G tok ''https://www.googleapis.com/oauth2/v2/userinfo'') st of
        (Inl e, st) \<Rightarrow> (Inl e, st)
      | (Inr resp, st) \<Rightarrow>
          if rs_code resp \<noteq> 200
          then (Inl (Message (''userinfo: '' @ rs_status resp @ '': '' @ rs_body resp)), st)
          else (case Decode email_fields [] (rs_body resp) of
                  None \<Rightarrow> (Inl (JsonError (rs_body resp)), st)
                | Some email \<Rightarrow> (Inr email, st)))"

lemma Exchange_moves: "moves_by (ds_rel S) (Exchange C G f c)"
proof (cases "loadOAuthConfig C f")
  case (Inl e)
  then show ?thesis unfolding Exchange_def [abs_def] Inl sum.case by (intro moves_by_return)
next
  case (Inr cfg)
  then show ?thesis unfolding Exchange_def [abs_def] Inr sum.case
    by (intro moves_by_bind [where h = "Wrap _"] on_ds_moves moves_by_return)
qed

lemma FetchEmail_moves: "moves_by (ds_rel S) (FetchEmail G tok)"
  unfolding FetchEmail_def [abs_def]
  by (intro moves_by_bind [where h = "\<lambda>e. e"] on_ds_moves ds_moves_step) (simp split: option.split)

end
