(* ===== verification/AgentProto.thy ===== *)
theory AgentProto
  imports Notify
begin

text \<open>
  \<open>internal/agentproto\<close>: what the central server and an agent say to each other, the client with its
  pinned certificate, and the check of the shared token. TLS and HTTP are the parameter \<open>agent_net\<close>: the
  certificates a server presents, SHA-256, and the exchange itself.
\<close>

section \<open>Messages\<close>

record StorageConfig =
  sc_Kind :: string
  sc_Label :: string
  sc_Config :: string

record RunRequest =
  rr_DBName :: string
  rr_Driver :: string
  rr_Params :: string
  rr_Storage :: StorageConfig
  rr_Timezone :: string

record RunStatus =
  rst_Status :: string
  rst_Success :: bool
  rst_Message :: string
  rst_Filename :: string
  rst_RemoteRef :: string
  rst_SizeBytes :: int
  rst_StartedAt :: string
  rst_DurationMS :: int

definition zero_storage_config :: StorageConfig where
  "zero_storage_config = \<lparr>sc_Kind = [], sc_Label = [], sc_Config = []\<rparr>"

definition zero_request :: RunRequest where
  "zero_request = \<lparr>rr_DBName = [], rr_Driver = [], rr_Params = [], rr_Storage = zero_storage_config,
     rr_Timezone = []\<rparr>"

definition zero_status :: RunStatus where
  "zero_status = \<lparr>rst_Status = [], rst_Success = False, rst_Message = [], rst_Filename = [],
     rst_RemoteRef = [], rst_SizeBytes = 0, rst_StartedAt = [], rst_DurationMS = 0\<rparr>"

definition storage_config_fields :: "StorageConfig field list" where
  "storage_config_fields =
     [(''kind'', set_string (\<lambda>x c. c\<lparr>sc_Kind := x\<rparr>)),
      (''label'', set_string (\<lambda>x c. c\<lparr>sc_Label := x\<rparr>)),
      (''config'', set_string (\<lambda>x c. c\<lparr>sc_Config := x\<rparr>))]"

definition request_fields :: "RunRequest field list" where
  "request_fields =
     [(''dbname'', set_string (\<lambda>x r. r\<lparr>rr_DBName := x\<rparr>)),
      (''driver'', set_string (\<lambda>x r. r\<lparr>rr_Driver := x\<rparr>)),
      (''params'', set_string (\<lambda>x r. r\<lparr>rr_Params := x\<rparr>)),
      (''storage'', set_struct rr_Storage (\<lambda>x r. r\<lparr>rr_Storage := x\<rparr>) storage_config_fields),
      (''timezone'', set_string (\<lambda>x r. r\<lparr>rr_Timezone := x\<rparr>))]"

definition status_fields :: "RunStatus field list" where
  "status_fields =
     [(''status'', set_string (\<lambda>x r. r\<lparr>rst_Status := x\<rparr>)),
      (''success'', set_bool (\<lambda>x r. r\<lparr>rst_Success := x\<rparr>)),
      (''message'', set_string (\<lambda>x r. r\<lparr>rst_Message := x\<rparr>)),
      (''filename'', set_string (\<lambda>x r. r\<lparr>rst_Filename := x\<rparr>)),
      (''remote_ref'', set_string (\<lambda>x r. r\<lparr>rst_RemoteRef := x\<rparr>)),
      (''size_bytes'', set_int64 (\<lambda>x r. r\<lparr>rst_SizeBytes := x\<rparr>)),
      (''started_at'', set_string (\<lambda>x r. r\<lparr>rst_StartedAt := x\<rparr>)),
      (''duration_ms'', set_int64 (\<lambda>x r. r\<lparr>rst_DurationMS := x\<rparr>))]"

text \<open>\<open>RunAccepted\<close> has a single field, so the record is its value.\<close>

definition accepted_fields :: "string field list" where
  "accepted_fields = [(''job_id'', set_string (\<lambda>x r. x))]"

definition request_json :: "RunRequest \<Rightarrow> json" where
  "request_json r =
     JObj [(''dbname'', JStr (rr_DBName r)), (''driver'', JStr (rr_Driver r)), (''params'', JStr (rr_Params r)),
           (''storage'', JObj [(''kind'', JStr (sc_Kind (rr_Storage r))), (''label'', JStr (sc_Label (rr_Storage r))),
                               (''config'', JStr (sc_Config (rr_Storage r)))]),
           (''timezone'', JStr (rr_Timezone r))]"

definition accepted_json :: "string \<Rightarrow> json" where
  "accepted_json jobID = JObj [(''job_id'', JStr jobID)]"

text \<open>The tag \<open>omitempty\<close>: a field is left out when it holds its zero value.\<close>

definition omit_string :: "string \<Rightarrow> string \<Rightarrow> (string \<times> json) list" where
  "omit_string k v = (if v = [] then [] else [(k, JStr v)])"

definition omit_bool :: "string \<Rightarrow> bool \<Rightarrow> (string \<times> json) list" where
  "omit_bool k v = (if v then [(k, JBool True)] else [])"

definition omit_int :: "string \<Rightarrow> int \<Rightarrow> (string \<times> json) list" where
  "omit_int k v = (if v = 0 then [] else [(k, JNum (itoa v))])"

definition status_json :: "RunStatus \<Rightarrow> json" where
  "status_json r =
     JObj ([(''status'', JStr (rst_Status r))] @ omit_bool ''success'' (rst_Success r) @
           omit_string ''message'' (rst_Message r) @ omit_string ''filename'' (rst_Filename r) @
           omit_string ''remote_ref'' (rst_RemoteRef r) @ omit_int ''size_bytes'' (rst_SizeBytes r) @
           omit_string ''started_at'' (rst_StartedAt r) @ omit_int ''duration_ms'' (rst_DurationMS r))"

section \<open>The pinned certificate\<close>

definition hex_byte :: "char \<Rightarrow> string" where
  "hex_byte c = (let n = code c in [hex_digit (n div 16), hex_digit (n mod 16)])"

definition hex_encode :: "string \<Rightarrow> string" where
  "hex_encode s = concat (map hex_byte s)"

record 'n agent_net =
  an_net :: "'n net"
  an_certs :: "string \<Rightarrow> 'n \<Rightarrow> string list"
  an_sha256 :: "string \<Rightarrow> string"
  an_tls :: string          \<comment> \<open>what the HTTP client puts before a failed handshake\<close>

definition Fingerprint :: "'n agent_net \<Rightarrow> string \<Rightarrow> string" where
  "Fingerprint A der = hex_encode (an_sha256 A der)"

record Client =
  cl_endpoint :: string
  cl_bearer :: string
  cl_pin :: string

definition NewClient :: "string \<Rightarrow> string \<Rightarrow> string \<Rightarrow> Client" where
  "NewClient endpoint token certFingerprint =
     \<lparr>cl_endpoint = TrimRight endpoint (CHR ''/''), cl_bearer = token,
      cl_pin = ToLower (ReplaceAll certFingerprint (CHR '':'') [])\<rparr>"

definition VerifyPeerCertificate :: "'n agent_net \<Rightarrow> string \<Rightarrow> string list \<Rightarrow> go_error option" where
  "VerifyPeerCertificate A fp rawCerts =
     (case rawCerts of
        [] \<Rightarrow> Some (Message ''agent presented no certificate'')
      | leaf # _ \<Rightarrow>
          let got = Fingerprint A leaf in
          if got \<noteq> fp then Some (FingerprintMismatch got fp) else None)"

section \<open>The client\<close>

text \<open>
  The transport makes a TLS connection when the scheme of the URL is \<open>https\<close>, in either case of its letters,
  and only the handshake of such a connection runs \<open>VerifyPeerCertificate\<close>.
\<close>

definition uses_tls :: "string \<Rightarrow> bool" where
  "uses_tls u = HasPrefix (ToLower u) ''https:''"

lemma uses_tls_append [simp]: "uses_tls u \<Longrightarrow> uses_tls (u @ v)"
  by (auto simp: uses_tls_def ToLower_def HasPrefix_iff)

lemma uses_tls_TrimRight [simp]:
  assumes "uses_tls u"
  shows "uses_tls (TrimRight u (CHR ''/''))"
proof -
  obtain p t where u: "u = p @ t" "ToLower p = ''https:''"
  proof
    show "u = take 6 u @ drop 6 u" by simp
    show "ToLower (take 6 u) = ''https:''"
      using assms by (auto simp: uses_tls_def ToLower_def HasPrefix_iff take_map [symmetric])
  qed
  have "p \<noteq> []" and "last p \<noteq> CHR ''/''"
    using u(2) by (auto simp: ToLower_def lower_byte_def split: if_splits dest: arg_cong [where f = last] simp: last_map)
  then have "dropWhile (\<lambda>x. x = CHR ''/'') (rev p) = rev p" by (cases p rule: rev_cases) auto
  then have "\<exists>t'. TrimRight u (CHR ''/'') = p @ t'"
    by (auto simp: TrimRight_def u(1) dropWhile_append)
  then show ?thesis using u(2) by (auto simp: uses_tls_def ToLower_def HasPrefix_iff)
qed

text \<open>
  \<open>Client.do\<close>: the result is the body of the reply, which a caller with an \<open>out\<close> argument decodes. The
  handshake comes before the request, so a server that fails it gets nothing, the token included; a connection
  without TLS has no handshake, and the request with the token is the first thing sent on it.
\<close>

definition client_do ::
  "'n agent_net \<Rightarrow> Client \<Rightarrow> string \<Rightarrow> string \<Rightarrow> json option \<Rightarrow> (go_error, string, 'n) op" where
  "client_do A c method path body w =
     (let req = \<lparr>rq_method = method, rq_url = cl_endpoint c @ path,
                 rq_headers = [(''Authorization'', ''Bearer '' @ cl_bearer c)] @
                   (if body = None then [] else [(''Content-Type'', ''application/json'')]),
                 rq_body = (case body of None \<Rightarrow> [] | Some v \<Rightarrow> json_text v)\<rparr>
      in case net_bad_url (an_net A) (rq_url req) of
           Some m \<Rightarrow> (Inl (External m), w)
         | None \<Rightarrow>
        (case (if uses_tls (rq_url req) then VerifyPeerCertificate A (cl_pin c) (an_certs A (rq_url req) w) else None) of
           Some e \<Rightarrow> (Inl (Wrap (an_tls A) e), w)
         | None \<Rightarrow>
        (case net_do (an_net A) req w of
           (Inl m, w) \<Rightarrow> (Inl (External m), w)
         | (Inr resp, w) \<Rightarrow>
             (if 300 \<le> rs_code resp
              then (Inl (AgentReturned (rs_status resp) (TrimSpace (take 4096 (rs_body resp)))), w)
              else (Inr (rs_body resp), w)))))"

definition client_Run :: "'n agent_net \<Rightarrow> Client \<Rightarrow> RunRequest \<Rightarrow> (go_error, string, 'n) op" where
  "client_Run A c req w =
     (case client_do A c ''POST'' ''/run'' (Some (request_json req)) w of
        (Inl e, w) \<Rightarrow> (Inl e, w)
      | (Inr body, w) \<Rightarrow>
          (case Decode accepted_fields [] body of
             None \<Rightarrow> (Inl (JsonError body), w)
           | Some jobID \<Rightarrow> (Inr jobID, w)))"

definition client_Health :: "'n agent_net \<Rightarrow> Client \<Rightarrow> (go_error, unit, 'n) op" where
  "client_Health A c w =
     (case client_do A c ''GET'' ''/health'' None w of
        (Inl e, w) \<Rightarrow> (Inl e, w) | (Inr body, w) \<Rightarrow> (Inr (), w))"

definition client_Status :: "'n agent_net \<Rightarrow> Client \<Rightarrow> string \<Rightarrow> (go_error, RunStatus, 'n) op" where
  "client_Status A c jobID w =
     (case client_do A c ''GET'' (''/run/'' @ jobID) None w of
        (Inl e, w) \<Rightarrow> (Inl e, w)
      | (Inr body, w) \<Rightarrow>
          (case Decode status_fields zero_status body of
             None \<Rightarrow> (Inl (JsonError body), w)
           | Some status \<Rightarrow> (Inr status, w)))"

section \<open>The shared token\<close>

text \<open>\<open>RequireToken\<close>: whether a request with this \<open>Authorization\<close> header reaches the handler.\<close>

definition RequireToken :: "string \<Rightarrow> string \<Rightarrow> bool" where
  "RequireToken token authorization =
     (let got = TrimPrefix authorization ''Bearer '' in got \<noteq> [] \<and> got = token)"

section \<open>Messages read back\<close>

definition request_ok :: "RunRequest \<Rightarrow> bool" where
  "request_ok r \<longleftrightarrow>
     valid_utf8 (rr_DBName r) \<and> valid_utf8 (rr_Driver r) \<and> valid_utf8 (rr_Params r) \<and>
     valid_utf8 (sc_Kind (rr_Storage r)) \<and> valid_utf8 (sc_Label (rr_Storage r)) \<and>
     valid_utf8 (sc_Config (rr_Storage r)) \<and> valid_utf8 (rr_Timezone r)"

definition status_ok :: "RunStatus \<Rightarrow> bool" where
  "status_ok r \<longleftrightarrow>
     valid_utf8 (rst_Status r) \<and> valid_utf8 (rst_Message r) \<and> valid_utf8 (rst_Filename r) \<and>
     valid_utf8 (rst_RemoteRef r) \<and> int64 (rst_SizeBytes r) \<and> valid_utf8 (rst_StartedAt r) \<and>
     int64 (rst_DurationMS r)"

lemma wf_members_append: "wf_members (xs @ ys) = (wf_members xs \<and> wf_members ys)"
  by (induction xs) auto

lemma store_members_append:
  "store_members fs (xs @ ys) x =
     (case store_members fs xs x of (y, ok) \<Rightarrow>
        (case store_members fs ys y of (z, ok') \<Rightarrow> (z, ok \<and> ok')))"
  by (induction xs arbitrary: x) (auto split: option.split prod.split)

lemma Decode_first:
  "wf_json (JObj ms) \<Longrightarrow>
   Decode fs zero (json_text (JObj ms)) =
     (case store_members fs ms zero of (x, ok) \<Rightarrow> if ok then Some x else None)"
  unfolding Decode_def json_first_def
  using read_text(1) [of "JObj ms" "[]"]
  by (simp only: stops_delim append_Nil2 option.map fst_conv option.case store_struct_def json.case simp_thms)

lemma Decode_request:
  assumes "request_ok r"
  shows "Decode request_fields zero_request (json_text (request_json r)) = Some r"
proof -
  have "wf_json (request_json r)" using assms by (simp add: request_json_def request_ok_def valid_utf8_ascii)
  then show ?thesis unfolding request_json_def
    by (subst Decode_first)
      (simp_all add: find_field_def request_fields_def storage_config_fields_def store_simps set_struct_def
        store_struct_def zero_request_def zero_storage_config_def)
qed

text \<open>A field left out keeps the zero value, which is the value it had.\<close>

lemma store_omit:
  "find_field fs k = Some (k, set_string upd) \<Longrightarrow>
   store_members fs (omit_string k v) x = (if v = [] then x else upd v x, True)"
  "find_field fs k = Some (k, set_bool updb) \<Longrightarrow>
   store_members fs (omit_bool k b) x = (if b then updb True x else x, True)"
  "find_field fs k = Some (k, set_int64 updi) \<Longrightarrow> int64 i \<Longrightarrow>
   store_members fs (omit_int k i) x = (if i = 0 then x else updi i x, True)"
  by (simp_all add: omit_string_def omit_bool_def omit_int_def store_simps)

lemma omit_keeps:
  "rst_Success x = False \<Longrightarrow> (if b then x\<lparr>rst_Success := True\<rparr> else x) = x\<lparr>rst_Success := b\<rparr>"
  "rst_Message x = [] \<Longrightarrow> (if v = [] then x else x\<lparr>rst_Message := v\<rparr>) = x\<lparr>rst_Message := v\<rparr>"
  "rst_Filename x = [] \<Longrightarrow> (if v = [] then x else x\<lparr>rst_Filename := v\<rparr>) = x\<lparr>rst_Filename := v\<rparr>"
  "rst_RemoteRef x = [] \<Longrightarrow> (if v = [] then x else x\<lparr>rst_RemoteRef := v\<rparr>) = x\<lparr>rst_RemoteRef := v\<rparr>"
  "rst_SizeBytes x = 0 \<Longrightarrow> (if i = 0 then x else x\<lparr>rst_SizeBytes := i\<rparr>) = x\<lparr>rst_SizeBytes := i\<rparr>"
  "rst_StartedAt x = [] \<Longrightarrow> (if v = [] then x else x\<lparr>rst_StartedAt := v\<rparr>) = x\<lparr>rst_StartedAt := v\<rparr>"
  "rst_DurationMS x = 0 \<Longrightarrow> (if i = 0 then x else x\<lparr>rst_DurationMS := i\<rparr>) = x\<lparr>rst_DurationMS := i\<rparr>"
  by (cases x; simp)+

lemma find_status_field:
  "find_field status_fields ''status'' = Some (''status'', set_string (\<lambda>x r. r\<lparr>rst_Status := x\<rparr>))"
  "find_field status_fields ''success'' = Some (''success'', set_bool (\<lambda>x r. r\<lparr>rst_Success := x\<rparr>))"
  "find_field status_fields ''message'' = Some (''message'', set_string (\<lambda>x r. r\<lparr>rst_Message := x\<rparr>))"
  "find_field status_fields ''filename'' = Some (''filename'', set_string (\<lambda>x r. r\<lparr>rst_Filename := x\<rparr>))"
  "find_field status_fields ''remote_ref'' = Some (''remote_ref'', set_string (\<lambda>x r. r\<lparr>rst_RemoteRef := x\<rparr>))"
  "find_field status_fields ''size_bytes'' = Some (''size_bytes'', set_int64 (\<lambda>x r. r\<lparr>rst_SizeBytes := x\<rparr>))"
  "find_field status_fields ''started_at'' = Some (''started_at'', set_string (\<lambda>x r. r\<lparr>rst_StartedAt := x\<rparr>))"
  "find_field status_fields ''duration_ms'' = Some (''duration_ms'', set_int64 (\<lambda>x r. r\<lparr>rst_DurationMS := x\<rparr>))"
  by (simp_all add: find_field_def status_fields_def)

lemma Decode_status:
  assumes "status_ok r"
  shows "Decode status_fields zero_status (json_text (status_json r) @ [CHR 0x0A]) = Some r"
proof -
  have "wf_json (status_json r)" using assms
    by (simp add: status_json_def status_ok_def wf_members_append omit_string_def omit_bool_def omit_int_def
        int64_json valid_utf8_ascii)
  moreover have "store_members status_fields
      ([(''status'', JStr (rst_Status r))] @ omit_bool ''success'' (rst_Success r) @
       omit_string ''message'' (rst_Message r) @ omit_string ''filename'' (rst_Filename r) @
       omit_string ''remote_ref'' (rst_RemoteRef r) @ omit_int ''size_bytes'' (rst_SizeBytes r) @
       omit_string ''started_at'' (rst_StartedAt r) @ omit_int ''duration_ms'' (rst_DurationMS r)) zero_status =
      (r, True)"
    using assms unfolding status_ok_def
    by (simp add: store_members_append find_status_field store_simps store_omit find_status_field omit_keeps zero_status_def del: if_split)
  ultimately show ?thesis unfolding status_json_def by (simp only: Decode_text prod.case if_True)
qed

section \<open>Fingerprints as text\<close>

lemma lower_upper: "\<not> (65 \<le> code c \<and> code c \<le> 90) \<Longrightarrow> lower_byte (upper_byte c) = c"
  by (auto simp: lower_byte_def upper_byte_def Let_def)

lemma code_hex_digit: "d < 16 \<Longrightarrow> code (hex_digit d) = (if d < 10 then 48 + d else 87 + d)"
  by (simp add: hex_digit_def)

lemma hex_byte_digits: "x \<in> set (hex_byte b) \<Longrightarrow> \<exists>d < 16. x = hex_digit d"
proof -
  assume "x \<in> set (hex_byte b)"
  then have "x = hex_digit (code b div 16) \<or> x = hex_digit (code b mod 16)"
    by (auto simp: hex_byte_def Let_def)
  moreover have "code b div 16 < 16" by (rule less_mult_imp_div_less) simp
  moreover have "code b mod 16 < 16" by simp
  ultimately show ?thesis by metis
qed

lemma upper_hex_byte:
  "ToLower (map upper_byte (hex_byte b)) = hex_byte b" "CHR '':'' \<notin> set (map upper_byte (hex_byte b))"
proof -
  have *: "lower_byte (upper_byte x) = x \<and> upper_byte x \<noteq> CHR '':''" if x: "x \<in> set (hex_byte b)" for x
  proof -
    obtain d where d: "d < 16" "x = hex_digit d" using hex_byte_digits [OF x] by blast
    then have "\<not> (65 \<le> code x \<and> code x \<le> 90)" "code x \<noteq> 58" by (auto simp: code_hex_digit)
    moreover have "code (upper_byte x) \<noteq> 58"
      using d by (auto simp: upper_byte_def Let_def code_hex_digit)
    ultimately show ?thesis using lower_upper by auto
  qed
  show "ToLower (map upper_byte (hex_byte b)) = hex_byte b"
    unfolding ToLower_def map_map by (rule map_idI) (simp add: *)
  show "CHR '':'' \<notin> set (map upper_byte (hex_byte b))" using * by (auto dest!: sym [of "CHR '':''"])
qed

lemma ReplaceAll_Join:
  "(\<And>x. x \<in> set xs \<Longrightarrow> c \<notin> set x) \<Longrightarrow> ReplaceAll (Join xs [c]) c [] = concat xs"
proof (induction xs)
  case (Cons x xs)
  have "concat (map (\<lambda>y. if y = c then [] else [y]) x) = x" using Cons.prems [of x] by (induction x) auto
  with Cons show ?case
    by (cases "xs = []") (auto simp: Join_Cons ReplaceAll_def replace_bytes_def)
qed (simp add: ReplaceAll_def replace_bytes_def)

lemma fingerprint_upper_colons:
  "ToLower (ReplaceAll (Join (map (\<lambda>b. map upper_byte (hex_byte b)) s) '':'') (CHR '':'') []) = hex_encode s"
proof -
  have "ReplaceAll (Join (map (\<lambda>b. map upper_byte (hex_byte b)) s) '':'') (CHR '':'') [] =
      concat (map (\<lambda>b. map upper_byte (hex_byte b)) s)"
    by (rule ReplaceAll_Join) (use upper_hex_byte(2) in auto)
  moreover have "ToLower (concat xs) = concat (map ToLower xs)" for xs
    by (simp add: ToLower_def [abs_def] map_concat)
  ultimately show ?thesis
    by (simp add: hex_encode_def comp_def upper_hex_byte(1))
qed

section \<open>Properties\<close>

text \<open>
  C21. Agent and central server understand each other: the agent decodes from the body of \<open>POST /run\<close> exactly
  the request that was sent, nested storage configuration included, and the central server decodes from the
  reply to \<open>GET /run/{id}\<close> exactly the status the agent encoded, although empty fields are left out of it.
\<close>

theorem protocol_round_trips:
  assumes "request_ok r" and "status_ok st"
  shows "Decode request_fields zero_request (json_text (request_json r)) = Some r \<and>
         Decode status_fields zero_status (json_text (status_json st) @ [CHR 0x0A]) = Some st"
  using assms Decode_request Decode_status by blast

definition sample_request :: RunRequest where
  "sample_request = \<lparr>rr_DBName = ''blog'', rr_Driver = ''mongo'', rr_Params = ''h||u|p|'',
     rr_Storage = \<lparr>sc_Kind = ''s3'', sc_Label = ''b'', sc_Config = ''{}''\<rparr>, rr_Timezone = ''Asia/Ho_Chi_Minh''\<rparr>"

definition sample_status :: RunStatus where
  "sample_status = \<lparr>rst_Status = ''done'', rst_Success = True, rst_Message = [], rst_Filename = ''f.gz'',
     rst_RemoteRef = ''k'', rst_SizeBytes = 12, rst_StartedAt = [], rst_DurationMS = 0\<rparr>"

lemma sample_messages_ok: "request_ok sample_request" "status_ok sample_status"
  by (simp_all add: request_ok_def status_ok_def sample_request_def sample_status_def valid_utf8_ascii
      int64_def max_int64_def min_int64_def)

lemma protocol_round_trips_witness:
  "Decode request_fields zero_request (json_text (request_json sample_request)) = Some sample_request \<and>
   Decode status_fields zero_status (json_text (status_json sample_status) @ [CHR 0x0A]) = Some sample_status"
  by (rule protocol_round_trips [OF sample_messages_ok])

text \<open>A network on which every server presents one certificate, named by itself.\<close>

definition one_cert_net :: "string list agent_net" where
  "one_cert_net = \<lparr>an_net = noting_net, an_certs = (\<lambda>u w. [''cert'']), an_sha256 = (\<lambda>d. d), an_tls = ''tls''\<rparr>"

text \<open>
  C20. The pin protects the token on \<open>https\<close> and nowhere else. With an \<open>https\<close> endpoint a call ends in an error
  before the request is made, the network untouched, unless the first certificate presented has the pinned
  fingerprint. With an \<open>http\<close> endpoint, which nothing refuses when an agent is registered, the request and the
  token with it go out to whoever answers, whatever the pin.
\<close>

theorem pinned_before_request:
  "(uses_tls (cl_endpoint c @ path) \<and>
      \<not> (\<exists>leaf rest. an_certs A (cl_endpoint c @ path) w = leaf # rest \<and> Fingerprint A leaf = cl_pin c) \<longrightarrow>
    (\<exists>e. client_do A c method path body w = (Inl e, w))) \<and>
   (\<not> uses_tls (cl_endpoint c @ path) \<and> net_bad_url (an_net A) (cl_endpoint c @ path) = None \<longrightarrow>
    (\<exists>req. rq_url req = cl_endpoint c @ path \<and> (''Authorization'', ''Bearer '' @ cl_bearer c) \<in> set (rq_headers req) \<and>
      snd (client_do A c method path body w) = snd (net_do (an_net A) req w)))"
proof (intro conjI impI; elim conjE)
  assume "uses_tls (cl_endpoint c @ path)"
    and "\<not> (\<exists>leaf rest. an_certs A (cl_endpoint c @ path) w = leaf # rest \<and> Fingerprint A leaf = cl_pin c)"
  moreover from this have "VerifyPeerCertificate A (cl_pin c) (an_certs A (cl_endpoint c @ path) w) \<noteq> None"
    by (auto simp: VerifyPeerCertificate_def Let_def split: list.split)
  ultimately show "\<exists>e. client_do A c method path body w = (Inl e, w)"
    by (auto simp: client_do_def Let_def split: option.split)
next
  let ?req = "\<lparr>rq_method = method, rq_url = cl_endpoint c @ path,
    rq_headers = [(''Authorization'', ''Bearer '' @ cl_bearer c)] @
      (if body = None then [] else [(''Content-Type'', ''application/json'')]),
    rq_body = (case body of None \<Rightarrow> [] | Some v \<Rightarrow> json_text v)\<rparr>"
  assume "\<not> uses_tls (cl_endpoint c @ path)" and "net_bad_url (an_net A) (cl_endpoint c @ path) = None"
  then have "snd (client_do A c method path body w) = snd (net_do (an_net A) ?req w)"
    by (simp add: client_do_def Let_def split: prod.split sum.split)
  then show "\<exists>req. rq_url req = cl_endpoint c @ path \<and> (''Authorization'', ''Bearer '' @ cl_bearer c) \<in> set (rq_headers req) \<and>
      snd (client_do A c method path body w) = snd (net_do (an_net A) req w)"
    by (intro exI [of _ ?req]) simp
qed

lemma pinned_before_request_witness:
  "(\<exists>e. client_do one_cert_net (NewClient ''https://a:8443'' ''t0k'' ''00:ff'') ''GET'' ''/health'' None [] = (Inl e, [])) \<and>
   snd (client_do one_cert_net (NewClient ''http://a:8443'' ''t0k'' ''00:ff'') ''GET'' ''/health'' None []) = [''http://a:8443/health'']"
proof -
  let ?s = "NewClient ''https://a:8443'' ''t0k'' ''00:ff''" and ?p = "NewClient ''http://a:8443'' ''t0k'' ''00:ff''"
  have u: "uses_tls (cl_endpoint ?s @ ''/health'')" "\<not> uses_tls (cl_endpoint ?p @ ''/health'')"
    "cl_endpoint ?p @ ''/health'' = ''http://a:8443/health''"
    by code_simp+
  have f: "Fingerprint one_cert_net ''cert'' \<noteq> cl_pin ?s"
    by (simp add: one_cert_net_def Fingerprint_def hex_encode_def hex_byte_def NewClient_def ReplaceAll_def
      replace_bytes_def ToLower_def)
  show ?thesis
    using pinned_before_request [of ?s "''/health''" one_cert_net "[]" "''GET''" None]
      pinned_before_request [of ?p "''/health''" one_cert_net "[]" "''GET''" None] u f
    by (auto simp: one_cert_net_def noting_net_def)
qed

text \<open>
  A fingerprint may be registered the way certificate tools print it, with colons between the bytes and
  upper-case letters: the client pins the same certificate as with the text the agent prints.
\<close>

theorem fingerprint_formats_agree:
  "cl_pin (NewClient endpoint token
     (Join (map (\<lambda>b. map upper_byte (hex_byte b)) (an_sha256 A der)) '':'')) = Fingerprint A der"
  by (simp add: NewClient_def Fingerprint_def fingerprint_upper_colons)

text \<open>
  \<open>RequireToken\<close> lets a request through for the header \<open>Bearer <token>\<close> and, since the prefix is optional, for
  the bare token, for nothing else, and never when no token is set.
\<close>

theorem RequireToken_iff:
  "RequireToken token authorization \<longleftrightarrow>
   token \<noteq> [] \<and> (authorization = ''Bearer '' @ token \<or>
                  authorization = token \<and> \<not> HasPrefix token ''Bearer '')"
proof (cases "HasPrefix authorization ''Bearer ''")
  case True
  then obtain t where "authorization = ''Bearer '' @ t" by (auto simp: HasPrefix_iff)
  then show ?thesis using TrimPrefix_append [of "''Bearer ''" t] by (auto simp: RequireToken_def Let_def)
next
  case False
  then have "authorization \<noteq> ''Bearer '' @ token" by auto
  with False show ?thesis by (auto simp: RequireToken_def TrimPrefix_def Let_def)
qed

end
