(* ===== verification/Scheduler.thy ===== *)
theory Scheduler
  imports Queue Samples
begin

text \<open>
  \<open>cmd/backupdb/scheduler.go\<close>: one tick of the scheduler reads what is due from the registry and, for each
  row, logs a run, pushes a job and marks the schedule as run today. The state is the registry beside the
  queue, both with their own faults; messages on the terminal are left out.
\<close>

section \<open>Registry and queue together\<close>

record 'q node =
  n_reg :: registry
  n_q :: 'q

definition on_reg :: "'a reg_op \<Rightarrow> (go_error, 'a, 'q node) op" where
  "on_reg u n = (case u (n_reg n) of (x, r) \<Rightarrow> (x, n\<lparr>n_reg := r\<rparr>))"

definition on_q :: "('a, 'q) redis_op \<Rightarrow> (go_error, 'a, 'q node) op" where
  "on_q u n = (case u (n_q n) of (x, q) \<Rightarrow> (x, n\<lparr>n_q := q\<rparr>))"

text \<open>The value of \<open>x, err := f()\<close> when the code goes on after an error: the zero value beside it.\<close>

definition or_zero :: "'a \<Rightarrow> 'e + 'a \<Rightarrow> 'a" where
  "or_zero z x = (case x of Inl _ \<Rightarrow> z | Inr y \<Rightarrow> y)"

section \<open>One tick\<close>

definition running_run :: "Database \<Rightarrow> BackupRun" where
  "running_run d =
     \<lparr>br_ID = 0, br_DatabaseID = d_ID d, br_DBName = d_Name d, br_Driver = d_Driver d,
      br_Status = ''running'', br_Message = [], br_DurationMS = 0, br_StartedAt = [], br_CreatedAt = []\<rparr>"

definition job_for :: "Database \<Rightarrow> int \<Rightarrow> Job" where
  "job_for d runID =
     NewBackupJob (d_Name d) (d_Driver d) (d_Host d) (d_Port d) (d_Username d) (d_Password d) (d_AuthDB d)
       (d_StorageTargetID d) (d_AgentID d) runID"

definition enqueueDue :: "'q redis \<Rightarrow> civil \<Rightarrow> (int \<Rightarrow> string \<Rightarrow> unit reg_op) \<Rightarrow> DueJob \<Rightarrow> 'q node \<Rightarrow> 'q node" where
  "enqueueDue R now markRun item n =
     (let d = dj_Database item;
          (res, n1) = on_reg (CreateBackupRun (running_run d)) n;
          job = job_for d (or_zero 0 res)
      in case on_q (Push R job) n1 of
           (Inl e, n2) \<Rightarrow> n2
         | (Inr _, n2) \<Rightarrow>
             snd (on_reg (markRun (dj_ScheduleID item) (format_2006_01_02 now)) n2))"

definition checkAndEnqueue :: "'q redis \<Rightarrow> civil \<Rightarrow> 'q node \<Rightarrow> 'q node" where
  "checkAndEnqueue R now n =
     (let (due, n1) = on_reg (ListDueSchedules now) n;
          n2 = fold (enqueueDue R now MarkScheduleRun) (or_zero [] due) n1;
          (dueShared, n3) = on_reg (ListDueSharedSchedules now) n2
      in fold (enqueueDue R now MarkSharedScheduleRun) (or_zero [] dueShared) n3)"

text \<open>The loop of \<open>runScheduler\<close> over the moments of its ticks, the first one at start.\<close>

definition scheduler_loop :: "'q redis \<Rightarrow> civil list \<Rightarrow> 'q node \<Rightarrow> 'q node" where
  "scheduler_loop R ticks n = fold (checkAndEnqueue R) ticks n"

section \<open>The registry stays well formed\<close>

lemma on_reg_moves: "moves_by reg_step u \<Longrightarrow> reg_step\<^sup>*\<^sup>* (n_reg n) (n_reg (snd (on_reg u n)))"
  by (auto simp: on_reg_def moves_by_def split: prod.split) (metis snd_conv)

lemma on_q_reg [simp]: "n_reg (snd (on_q u n)) = n_reg n"
  by (simp add: on_q_def split: prod.split)

lemma on_reg_q [simp]: "n_q (snd (on_reg u n)) = n_q n"
  by (simp add: on_reg_def split: prod.split)

lemma fold_moves:
  assumes "\<And>x n. reg_step\<^sup>*\<^sup>* (n_reg n) (n_reg (f x n))"
  shows "reg_step\<^sup>*\<^sup>* (n_reg n) (n_reg (fold f xs n))"
  by (induction xs arbitrary: n) (auto intro: rtranclp_trans assms)

section \<open>A tick without faults\<close>

definition calm :: "'q redis \<Rightarrow> 'q node \<Rightarrow> bool" where
  "calm R n = (redis_ok R \<and> redis_up R \<and> no_faults (n_reg n))"

definition jobs :: "'q redis \<Rightarrow> 'q node \<Rightarrow> string list" where
  "jobs R n = rd_list R QueueName (n_q n)"

definition due_jobs :: "civil \<Rightarrow> registry \<Rightarrow> DueJob list" where
  "due_jobs now r =
     e_ord_due (eng r) (due_rows r (format_15_04 now) (format_2006_01_02 now)) @
     e_ord_due (eng r) (due_shared_rows r (format_15_04 now) (format_2006_01_02 now))"

definition job_text :: "Database \<Rightarrow> int \<Rightarrow> string" where
  "job_text d runID = json_text (job_json (job_for d runID))"

text \<open>The texts that rows push when the run log last gave out the id \<open>k\<close>.\<close>

fun pushed :: "int \<Rightarrow> DueJob list \<Rightarrow> string list" where
  "pushed k [] = []"
| "pushed k (item # items) = job_text (dj_Database item) (k + 1) # pushed (k + 1) items"

lemma pushed_append: "pushed k (xs @ ys) = pushed k xs @ pushed (k + int (length xs)) ys"
  by (induction xs arbitrary: k) (simp_all add: add.assoc add.commute)

text \<open>What enqueueing may leave changed is the run log and the marks of the schedules.\<close>

definition same_but_marks :: "registry \<Rightarrow> registry \<Rightarrow> bool" where
  "same_but_marks r r' \<longleftrightarrow>
     eng r' = eng r \<and> databases r' = databases r \<and> shared_schedules r' = shared_schedules r \<and>
     shared_schedule_databases r' = shared_schedule_databases r \<and>
     storage_targets r' = storage_targets r \<and> notify_channels r' = notify_channels r \<and>
     database_notify_channels r' = database_notify_channels r \<and>
     backup_files r' = backup_files r \<and> remote_agents r' = remote_agents r"

lemma same_but_marks_refl: "same_but_marks r r"
  by (simp add: same_but_marks_def)

lemma same_but_marks_trans: "same_but_marks r s \<Longrightarrow> same_but_marks s t \<Longrightarrow> same_but_marks r t"
  by (simp add: same_but_marks_def)

lemma CreateBackupRun_calm:
  assumes "no_faults r"
  shows "CreateBackupRun b r =
    (Inr (t_seq (backup_runs r) + 1),
     r\<lparr>backup_runs := snd (sql_insert set_br_ID (b\<lparr>br_CreatedAt := now_utc r\<rparr>) (backup_runs r))\<rparr>)"
  using assms by (simp add: CreateBackupRun_def split_beta run_tbl.insert_id Let_def)

lemma seq_insert [simp]: "t_seq (snd (sql_insert k row t)) = t_seq t + 1"
  by (simp add: sql_insert_def Let_def)

section \<open>The two sources of due rows\<close>

text \<open>
  Schedules of one database and times of shared schedules are handled alike: \<open>due\<close> lists rows from the
  table \<open>src\<close>, \<open>mark\<close> notes the date in that table and leaves the \<open>other\<close> one alone, and a noted row is
  not due again on that date.
\<close>

locale due_source =
  fixes due :: "registry \<Rightarrow> string \<Rightarrow> string \<Rightarrow> DueJob list"
    and mark :: "int \<Rightarrow> string \<Rightarrow> unit reg_op"
    and marked :: "'x \<Rightarrow> int \<Rightarrow> string \<Rightarrow> bool"
    and src :: "registry \<Rightarrow> 'x"
    and other :: "registry \<Rightarrow> 'y"
  assumes mark_moves: "moves_by reg_step (mark i today)"
    and mark_frame: "no_faults r \<Longrightarrow>
      same_but_marks r (snd (mark i today r)) \<and> backup_runs (snd (mark i today r)) = backup_runs r \<and>
      other (snd (mark i today r)) = other r"
    and mark_marks: "no_faults r \<Longrightarrow> marked (src (snd (mark i today r))) i today"
    and mark_keeps: "no_faults r \<Longrightarrow> marked (src r) j today \<Longrightarrow> marked (src (snd (mark i today r))) j today"
    and mark_due: "no_faults r \<Longrightarrow> set (due (snd (mark i today r)) hhmm today) \<subseteq> set (due r hhmm today)"
    and marked_not_due: "x \<in> set (due r hhmm today) \<Longrightarrow> \<not> marked (src r) (dj_ScheduleID x) today"
    and due_local: "same_but_marks r r' \<Longrightarrow> src r' = src r \<Longrightarrow> due r' = due r"
    and log_frame: "src (r\<lparr>backup_runs := b\<rparr>) = src r" "other (r\<lparr>backup_runs := b\<rparr>) = other r"
begin

lemma enqueue_moves: "reg_step\<^sup>*\<^sup>* (n_reg n) (n_reg (enqueueDue R now mark item n))"
proof -
  let ?d = "dj_Database item"
  obtain res n1 where c: "on_reg (CreateBackupRun (running_run ?d)) n = (res, n1)" by fastforce
  have 1: "reg_step\<^sup>*\<^sup>* (n_reg n) (n_reg n1)"
    using on_reg_moves [OF stmt_moves(30), of n "running_run ?d"] c by simp
  obtain x n2 where p: "on_q (Push R (job_for ?d (or_zero 0 res))) n1 = (x, n2)" by fastforce
  have 2: "n_reg n2 = n_reg n1"
    using on_q_reg [of "Push R (job_for ?d (or_zero 0 res))" n1] p by simp
  have 3: "reg_step\<^sup>*\<^sup>* (n_reg n1)
             (n_reg (snd (on_reg (mark (dj_ScheduleID item) (format_2006_01_02 now)) n2)))"
    using on_reg_moves [OF mark_moves] 2 by metis
  show ?thesis
    using 1 2 rtranclp_trans [OF 1 3] by (simp add: enqueueDue_def c p split: sum.split)
qed

lemma enqueue_ok:
  fixes item :: DueJob and now :: civil
  defines "today \<equiv> format_2006_01_02 now"
  assumes "redis_ok R" and "no_faults (n_reg n)" and "n' = enqueueDue R now mark item n"
    and "fst (Push R (job_for (dj_Database item) (t_seq (backup_runs (n_reg n)) + 1)) (n_q n)) = Inr ()"
  shows "no_faults (n_reg n')"
    and "jobs R n' =
         jobs R n @ [job_text (dj_Database item) (t_seq (backup_runs (n_reg n)) + 1)]"
    and "t_seq (backup_runs (n_reg n')) = t_seq (backup_runs (n_reg n)) + 1"
    and "same_but_marks (n_reg n) (n_reg n')" and "other (n_reg n') = other (n_reg n)"
    and "marked (src (n_reg n')) (dj_ScheduleID item) today"
    and "marked (src (n_reg n)) j today \<Longrightarrow> marked (src (n_reg n')) j today"
    and "set (due (n_reg n') hhmm today) \<subseteq> set (due (n_reg n) hhmm today)"
proof -
  define r where "r = n_reg n"
  define b where "b = snd (sql_insert set_br_ID
    ((running_run (dj_Database item))\<lparr>br_CreatedAt := now_utc r\<rparr>) (backup_runs r))"
  define r1 where "r1 = r\<lparr>backup_runs := b\<rparr>"
  define r2 where "r2 = snd (mark (dj_ScheduleID item) today r1)"
  define k where "k = t_seq (backup_runs r) + 1"
  have nf: "no_faults r" "no_faults r1"
    using assms(3) by (simp_all add: r_def r1_def)
  obtain q' where q: "Push R (job_for (dj_Database item) k) (n_q n) = (Inr (), q')"
    using assms(5) by (simp add: k_def r_def) (metis prod.collapse)
  have n': "n' = n\<lparr>n_reg := r2, n_q := q'\<rparr>"
    using nf q unfolding assms(4)
    by (simp add: enqueueDue_def on_reg_def on_q_def CreateBackupRun_calm or_zero_def split_beta
        Let_def k_def r2_def r1_def b_def today_def flip: r_def)
  have sb: "same_but_marks r r1" by (simp add: same_but_marks_def r1_def)
  have fr: "same_but_marks r1 r2" "backup_runs r2 = b" "other r2 = other r"
    using mark_frame [OF nf(2)] log_frame(2) [where r = r and b = b] by (simp_all add: r2_def) (simp_all add: r1_def)
  from fr(1) nf have "no_faults r2" by (simp add: same_but_marks_def)
  with n' show "no_faults (n_reg n')" by simp
  show "jobs R n' =
         jobs R n @ [job_text (dj_Database item) (t_seq (backup_runs (n_reg n)) + 1)]"
    using Push_list [OF assms(2) q] by (simp add: n' jobs_def job_text_def k_def r_def)
  show "t_seq (backup_runs (n_reg n')) = t_seq (backup_runs (n_reg n)) + 1"
    by (simp add: n' fr(2) b_def r_def)
  show "same_but_marks (n_reg n) (n_reg n')"
    using same_but_marks_trans [OF sb fr(1)] by (simp add: n' r_def)
  show "other (n_reg n') = other (n_reg n)" by (simp add: n' fr(3) r_def)
  show "marked (src (n_reg n')) (dj_ScheduleID item) today"
    using mark_marks [OF nf(2)] by (simp add: n' r2_def)
  show "marked (src (n_reg n')) j today" if "marked (src (n_reg n)) j today"
    using mark_keeps [OF nf(2)] that log_frame(1) [where r = r and b = b] by (simp add: n' r2_def r1_def r_def)
  have "due r1 = due r" by (rule due_local [OF sb]) (simp add: r1_def log_frame)
  with mark_due [OF nf(2)]
  show "set (due (n_reg n') hhmm today) \<subseteq> set (due (n_reg n) hhmm today)"
    by (simp add: n' r2_def flip: r_def)
qed

lemma enqueue_calm:
  "calm R n \<Longrightarrow> redis_ok R \<and> no_faults (n_reg n) \<and> fst (Push R j (n_q n)) = Inr ()"
  by (simp add: calm_def Push_up)

lemma enqueue_all:
  fixes now :: civil
  defines "today \<equiv> format_2006_01_02 now"
  assumes "calm R n" and "n' = fold (enqueueDue R now mark) items n"
  shows "calm R n'"
    and "jobs R n' = jobs R n @ pushed (t_seq (backup_runs (n_reg n))) items"
    and "t_seq (backup_runs (n_reg n')) = t_seq (backup_runs (n_reg n)) + int (length items)"
    and "same_but_marks (n_reg n) (n_reg n')" and "other (n_reg n') = other (n_reg n)"
    and "x \<in> set items \<or> marked (src (n_reg n)) (dj_ScheduleID x) today \<Longrightarrow>
         marked (src (n_reg n')) (dj_ScheduleID x) today"
    and "set (due (n_reg n') hhmm today) \<subseteq> set (due (n_reg n) hhmm today)"
proof -
  have "calm R n' \<and>
    jobs R n' = jobs R n @ pushed (t_seq (backup_runs (n_reg n))) items \<and>
    t_seq (backup_runs (n_reg n')) = t_seq (backup_runs (n_reg n)) + int (length items) \<and>
    same_but_marks (n_reg n) (n_reg n') \<and> other (n_reg n') = other (n_reg n) \<and>
    (\<forall>x. x \<in> set items \<or> marked (src (n_reg n)) (dj_ScheduleID x) today \<longrightarrow>
         marked (src (n_reg n')) (dj_ScheduleID x) today) \<and>
    set (due (n_reg n') hhmm today) \<subseteq> set (due (n_reg n) hhmm today)"
    if "calm R n" "n' = fold (enqueueDue R now mark) items n" for n n' items hhmm
    using that
  proof (induction items arbitrary: n)
    case Nil
    then show ?case by (simp add: same_but_marks_refl)
  next
    case (Cons y ys)
    define m where "m = enqueueDue R now mark y n"
    note c = enqueue_calm [OF Cons.prems(1)]
    note e = enqueue_ok [OF c [THEN conjunct1] c [THEN conjunct2, THEN conjunct1] m_def
        c [THEN conjunct2, THEN conjunct2], folded today_def]
    have cm: "calm R m" using Cons.prems(1) e(1) by (simp add: calm_def)
    have n': "n' = fold (enqueueDue R now mark) ys m" using Cons.prems(2) by (simp add: m_def)
    note IH = Cons.IH [OF cm n']
    show ?case
    proof (intro conjI allI impI)
      show "jobs R n' = jobs R n @ pushed (t_seq (backup_runs (n_reg n))) (y # ys)"
        using IH e(2,3) by simp
      show "same_but_marks (n_reg n) (n_reg n')" using IH e(4) same_but_marks_trans by blast
      show "marked (src (n_reg n')) (dj_ScheduleID x) today"
        if "x \<in> set (y # ys) \<or> marked (src (n_reg n)) (dj_ScheduleID x) today" for x
        using that IH e(6) e(7) by auto
      show "set (due (n_reg n') hhmm today) \<subseteq> set (due (n_reg n) hhmm today)"
        using IH e(8) by blast
    qed (use IH e(3,5) in simp_all)
  qed
  from this [OF assms(2,3)] show "calm R n'"
    and "jobs R n' = jobs R n @ pushed (t_seq (backup_runs (n_reg n))) items"
    and "t_seq (backup_runs (n_reg n')) = t_seq (backup_runs (n_reg n)) + int (length items)"
    and "same_but_marks (n_reg n) (n_reg n')" and "other (n_reg n') = other (n_reg n)"
    and "x \<in> set items \<or> marked (src (n_reg n)) (dj_ScheduleID x) today \<Longrightarrow>
         marked (src (n_reg n')) (dj_ScheduleID x) today"
    and "set (due (n_reg n') hhmm today) \<subseteq> set (due (n_reg n) hhmm today)"
    by blast+
qed

text \<open>After every due row has been enqueued none is due on that date at that minute.\<close>

lemma enqueue_all_none_due:
  fixes now :: civil
  defines "today \<equiv> format_2006_01_02 now"
  assumes "calm R n" and "n' = fold (enqueueDue R now mark) items n"
    and "set items = set (due (n_reg n) hhmm today)"
  shows "due (n_reg n') hhmm today = []"
proof -
  note e = enqueue_all [OF assms(2,3), folded today_def]
  have "x \<notin> set (due (n_reg n') hhmm today)" for x
    using e(6) [of x] e(7) [of hhmm] assms(4) marked_not_due by blast
  then show ?thesis by (metis list.set_intros(1) neq_Nil_conv)
qed

end

definition schedule_marked :: "Schedule table \<Rightarrow> int \<Rightarrow> string \<Rightarrow> bool" where
  "schedule_marked t i date = (\<forall>x \<in> set (t_rows t). s_ID x = i \<longrightarrow> s_LastRunDate x = date)"

definition time_marked :: "SharedScheduleTime table \<Rightarrow> int \<Rightarrow> string \<Rightarrow> bool" where
  "time_marked t i date = (\<forall>x \<in> set (t_rows t). sst_ID x = i \<longrightarrow> sst_LastRunDate x = date)"

lemma boolToInt_1: "boolToInt b = 1 \<longleftrightarrow> b"
  by (simp add: boolToInt_def)

lemma due_rows_iff:
  "x \<in> set (due_rows r hhmm today) \<longleftrightarrow>
   (\<exists>s \<in> set (t_rows (schedules r)). \<exists>d \<in> set (t_rows (databases r)).
      x = \<lparr>dj_ScheduleID = s_ID s, dj_Database = d\<rparr> \<and> d_ID d = s_DatabaseID s \<and>
      s_Enabled s \<and> d_Enabled d \<and> s_TimeOfDay s = hhmm \<and> s_LastRunDate s \<noteq> today)"
  by (auto simp: due_rows_def boolToInt_1 split: if_splits)

lemma due_shared_rows_iff:
  "x \<in> set (due_shared_rows r hhmm today) \<longleftrightarrow>
   (\<exists>t \<in> set (t_rows (shared_schedule_times r)). \<exists>s \<in> set (t_rows (shared_schedules r)).
    \<exists>d \<in> set (t_rows (databases r)).
      x = \<lparr>dj_ScheduleID = sst_ID t, dj_Database = d\<rparr> \<and> ss_ID s = sst_SharedScheduleID t \<and>
      (ss_ID s, d_ID d) \<in> set (shared_schedule_databases r) \<and>
      ss_Enabled s \<and> d_Enabled d \<and> sst_TimeOfDay t = hhmm \<and> sst_LastRunDate t \<noteq> today)"
  unfolding due_shared_rows_def boolToInt_1
  by (intro iffI; clarsimp; (elim bexE conjE)?; metis fst_conv snd_conv prod.collapse)

lemma MarkScheduleRun_calm:
  "no_faults r \<Longrightarrow> MarkScheduleRun i date r =
   (Inr (), r\<lparr>schedules := sql_update (\<lambda>x. s_ID x = i) (\<lambda>x. x\<lparr>s_LastRunDate := date\<rparr>) (schedules r)\<rparr>)"
  by (simp add: MarkScheduleRun_def)

lemma MarkSharedScheduleRun_calm:
  "no_faults r \<Longrightarrow> MarkSharedScheduleRun i date r =
   (Inr (), r\<lparr>shared_schedule_times :=
      sql_update (\<lambda>x. sst_ID x = i) (\<lambda>x. x\<lparr>sst_LastRunDate := date\<rparr>) (shared_schedule_times r)\<rparr>)"
  by (simp add: MarkSharedScheduleRun_def)

lemma MarkScheduleRun_due:
  assumes "no_faults r"
  shows "set (due_rows (snd (MarkScheduleRun i today r)) hhmm today) \<subseteq> set (due_rows r hhmm today)"
proof
  fix x
  assume "x \<in> set (due_rows (snd (MarkScheduleRun i today r)) hhmm today)"
  then obtain s d where "s \<in> set (t_rows (schedules r))" "d \<in> set (t_rows (databases r))" "s_ID s \<noteq> i"
    "x = \<lparr>dj_ScheduleID = s_ID s, dj_Database = d\<rparr>" "d_ID d = s_DatabaseID s" "s_Enabled s"
    "d_Enabled d" "s_TimeOfDay s = hhmm" "s_LastRunDate s \<noteq> today"
    using assms by (auto simp: due_rows_iff MarkScheduleRun_calm split: if_splits)
  then show "x \<in> set (due_rows r hhmm today)" unfolding due_rows_iff by blast
qed

lemma MarkSharedScheduleRun_due:
  assumes "no_faults r"
  shows "set (due_shared_rows (snd (MarkSharedScheduleRun i today r)) hhmm today)
    \<subseteq> set (due_shared_rows r hhmm today)"
proof
  fix x
  assume "x \<in> set (due_shared_rows (snd (MarkSharedScheduleRun i today r)) hhmm today)"
  then obtain t s d where "t \<in> set (t_rows (shared_schedule_times r))"
    "s \<in> set (t_rows (shared_schedules r))" "d \<in> set (t_rows (databases r))" "sst_ID t \<noteq> i"
    "x = \<lparr>dj_ScheduleID = sst_ID t, dj_Database = d\<rparr>" "ss_ID s = sst_SharedScheduleID t"
    "(ss_ID s, d_ID d) \<in> set (shared_schedule_databases r)" "ss_Enabled s" "d_Enabled d"
    "sst_TimeOfDay t = hhmm" "sst_LastRunDate t \<noteq> today"
    using assms by (auto simp: due_shared_rows_iff MarkSharedScheduleRun_calm split: if_splits)
  then show "x \<in> set (due_shared_rows r hhmm today)" unfolding due_shared_rows_iff by blast
qed

interpretation own: due_source due_rows MarkScheduleRun schedule_marked schedules shared_schedule_times
proof
  show "moves_by reg_step (MarkScheduleRun i today)" for i today by (rule moves_intros)
  show "set (due_rows (snd (MarkScheduleRun i today r)) hhmm today) \<subseteq> set (due_rows r hhmm today)"
    if "no_faults r" for r i today hhmm using that by (rule MarkScheduleRun_due)
  show "\<not> schedule_marked (schedules r) (dj_ScheduleID x) today"
    if "x \<in> set (due_rows r hhmm today)" for x r hhmm today
    using that by (auto simp: due_rows_iff schedule_marked_def)
qed (auto simp: MarkScheduleRun_calm same_but_marks_def schedule_marked_def due_rows_def fun_eq_iff)

interpretation shared: due_source due_shared_rows MarkSharedScheduleRun time_marked
  shared_schedule_times schedules
proof
  show "moves_by reg_step (MarkSharedScheduleRun i today)" for i today by (rule moves_intros)
  show "set (due_shared_rows (snd (MarkSharedScheduleRun i today r)) hhmm today)
      \<subseteq> set (due_shared_rows r hhmm today)"
    if "no_faults r" for r i today hhmm using that by (rule MarkSharedScheduleRun_due)
  show "\<not> time_marked (shared_schedule_times r) (dj_ScheduleID x) today"
    if "x \<in> set (due_shared_rows r hhmm today)" for x r hhmm today
    using that by (auto simp: due_shared_rows_iff time_marked_def)
qed (auto simp: MarkSharedScheduleRun_calm same_but_marks_def time_marked_def due_shared_rows_def fun_eq_iff)

section \<open>A whole tick\<close>

lemma checkAndEnqueue_moves: "reg_step\<^sup>*\<^sup>* (n_reg n) (n_reg (checkAndEnqueue R now n))"
proof -
  obtain due n1 where 1: "on_reg (ListDueSchedules now) n = (due, n1)" by fastforce
  define n2 where "n2 = fold (enqueueDue R now MarkScheduleRun) (or_zero [] due) n1"
  obtain dueS n3 where 3: "on_reg (ListDueSharedSchedules now) n2 = (dueS, n3)" by fastforce
  have "reg_step\<^sup>*\<^sup>* (n_reg n) (n_reg n1)"
    using on_reg_moves [of "ListDueSchedules now" n] 1 by (simp add: moves_intros)
  also have "reg_step\<^sup>*\<^sup>* (n_reg n1) (n_reg n2)"
    unfolding n2_def by (intro fold_moves own.enqueue_moves)
  also have "reg_step\<^sup>*\<^sup>* (n_reg n2) (n_reg n3)"
    using on_reg_moves [of "ListDueSharedSchedules now" n2] 3 by (simp add: moves_intros)
  also have "reg_step\<^sup>*\<^sup>* (n_reg n3) (n_reg (fold (enqueueDue R now MarkSharedScheduleRun) (or_zero [] dueS) n3))"
    by (intro fold_moves shared.enqueue_moves)
  finally show ?thesis by (simp add: checkAndEnqueue_def 1 3 flip: n2_def)
qed

lemma on_reg_query: "no_faults (n_reg n) \<Longrightarrow> on_reg (query f) n = (Inr (f (n_reg n)), n)"
  by (simp add: on_reg_def)

lemma checkAndEnqueue_calm:
  assumes "calm R n" and "n' = checkAndEnqueue R now n"
  shows "calm R n'"
    and "jobs R n' = jobs R n @ pushed (t_seq (backup_runs (n_reg n))) (due_jobs now (n_reg n))"
    and "same_but_marks (n_reg n) (n_reg n')"
    and "permuting (e_ord_due (eng (n_reg n))) \<Longrightarrow>
         due_rows (n_reg n') (format_15_04 now) (format_2006_01_02 now) = [] \<and>
         due_shared_rows (n_reg n') (format_15_04 now) (format_2006_01_02 now) = []"
proof -
  define ord where "ord = e_ord_due (eng (n_reg n))"
  define hm where "hm = format_15_04 now"
  define today where "today = format_2006_01_02 now"
  define due1 where "due1 = ord (due_rows (n_reg n) hm today)"
  define n2 where "n2 = fold (enqueueDue R now MarkScheduleRun) due1 n"
  note own = own.enqueue_all [OF assms(1) n2_def, folded today_def]
  define due2 where "due2 = ord (due_shared_rows (n_reg n) hm today)"
  have eng2: "eng (n_reg n2) = eng (n_reg n)" using own(4) by (simp add: same_but_marks_def)
  have same2: "due_shared_rows (n_reg n2) = due_shared_rows (n_reg n)"
    by (rule shared.due_local [OF own(4,5)])
  have no: "no_faults (n_reg n)" "no_faults (n_reg n2)" using assms(1) own(1) by (simp_all add: calm_def)
  have n': "n' = fold (enqueueDue R now MarkSharedScheduleRun) due2 n2"
    unfolding assms(2) checkAndEnqueue_def ListDueSchedules_def ListDueSharedSchedules_def
    using no by (simp add: on_reg_query or_zero_def n2_def due1_def due2_def ord_def hm_def today_def)
      (metis (no_types, lifting) due1_def eng2 hm_def n2_def on_reg_query ord_def prod.case same2 sum.simps(6) today_def)
  note sh = shared.enqueue_all [OF own(1) n', folded today_def]
  show "calm R n'" by (rule sh(1))
  show "same_but_marks (n_reg n) (n_reg n')" using own(4) sh(4) by (rule same_but_marks_trans)
  show "jobs R n' = jobs R n @ pushed (t_seq (backup_runs (n_reg n))) (due_jobs now (n_reg n))"
    using own(2,3) sh(2)
    by (simp add: due_jobs_def pushed_append due1_def due2_def ord_def hm_def today_def)
  show "due_rows (n_reg n') (format_15_04 now) (format_2006_01_02 now) = [] \<and>
        due_shared_rows (n_reg n') (format_15_04 now) (format_2006_01_02 now) = []"
    if p: "permuting (e_ord_due (eng (n_reg n)))"
  proof
    have "due_rows (n_reg n2) hm today = []"
      using own.enqueue_all_none_due [OF assms(1) n2_def, folded today_def] p
      by (simp add: due1_def permuting_set ord_def)
    moreover have "due_rows (n_reg n') = due_rows (n_reg n2)"
      by (rule own.due_local [OF sh(4,5)])
    ultimately show "due_rows (n_reg n') (format_15_04 now) (format_2006_01_02 now) = []"
      by (simp add: hm_def today_def)
    show "due_shared_rows (n_reg n') (format_15_04 now) (format_2006_01_02 now) = []"
      using shared.enqueue_all_none_due [OF own(1) n', folded today_def, of hm] p
      by (simp add: due2_def permuting_set ord_def same2 hm_def today_def)
  qed
qed

lemma checkAndEnqueue_idle:
  assumes "calm R n" and "permuting (e_ord_due (eng (n_reg n)))"
    and "due_rows (n_reg n) (format_15_04 now) (format_2006_01_02 now) = []"
    and "due_shared_rows (n_reg n) (format_15_04 now) (format_2006_01_02 now) = []"
  shows "checkAndEnqueue R now n = n"
proof -
  have "e_ord_due (eng (n_reg n)) [] = []" using permuting_Nil [OF assms(2)] by blast
  with assms show ?thesis
    by (simp add: checkAndEnqueue_def ListDueSchedules_def ListDueSharedSchedules_def calm_def
        on_reg_query or_zero_def)
qed

text \<open>A push that fails: the run row stays, everything else of the registry is as before.\<close>

lemma enqueueDue_push_fails:
  assumes "no_faults (n_reg n)"
    and "rd_rpush R QueueName (job_text (dj_Database item) (t_seq (backup_runs (n_reg n)) + 1)) (n_q n) = (Some m, q')"
  shows "enqueueDue R now mark item n =
    n\<lparr>n_reg := snd (CreateBackupRun (running_run (dj_Database item)) (n_reg n)), n_q := q'\<rparr>"
  using assms
  by (simp add: enqueueDue_def on_reg_def on_q_def CreateBackupRun_calm Push_def job_text_def or_zero_def
      split_beta Let_def)

section \<open>Properties\<close>

definition sample_node :: "string list node" where
  "sample_node = \<lparr>n_reg = sample_registry, n_q = []\<rparr>"

lemma sample_node_calm: "calm calm_redis sample_node"
  by (simp add: calm_def calm_redis_ok sample_node_def sample_tables)

lemma sample_due:
  "due_rows sample_registry ''02:30'' ''2026-03-01'' = [\<lparr>dj_ScheduleID = 1, dj_Database = sample_row1\<rparr>]"
  "due_shared_rows sample_registry ''02:30'' ''2026-03-01'' =
   [\<lparr>dj_ScheduleID = 1, dj_Database = sample_row1\<rparr>, \<lparr>dj_ScheduleID = 1, dj_Database = sample_row2\<rparr>]"
  by (simp_all add: due_rows_def due_shared_rows_def sample_tables sample_row1_def sample_row2_def
      sample_db_def sample_db2_def boolToInt_def)

text \<open>
  C1. Without faults a tick appends to the queue, after the jobs already there, exactly one job per row that
  is due (schedules first, then times of shared schedules), each with the connection details of its
  database and the id of a new run row of its own.
\<close>

theorem tick_pushes_what_is_due:
  assumes "calm R n"
  shows "jobs R (checkAndEnqueue R now n) =
         jobs R n @ pushed (t_seq (backup_runs (n_reg n))) (due_jobs now (n_reg n))"
  using assms by (rule checkAndEnqueue_calm(2) [OF _ refl])

lemma tick_pushes_what_is_due_witness:
  "jobs calm_redis (checkAndEnqueue calm_redis sample_time sample_node) =
   [job_text sample_row1 1, job_text sample_row1 2, job_text sample_row2 3]"
  using tick_pushes_what_is_due [OF sample_node_calm, of sample_time]
  by (simp add: sample_node_def due_jobs_def sample_time_texts sample_due sample_tables plain_engine_def jobs_def calm_redis_def)

text \<open>
  C11. A second tick in the same minute of the same day finds nothing due and changes nothing: no database is
  backed up twice for one schedule.
\<close>

theorem tick_same_minute_is_idle:
  assumes "calm R n" and "engine_ok (eng (n_reg n))"
    and "format_15_04 now' = format_15_04 now" and "format_2006_01_02 now' = format_2006_01_02 now"
  shows "checkAndEnqueue R now' (checkAndEnqueue R now n) = checkAndEnqueue R now n"
proof (rule checkAndEnqueue_idle)
  from assms(2) have p: "permuting (e_ord_due (eng (n_reg n)))" by (simp add: engine_ok_def)
  note c = checkAndEnqueue_calm [OF assms(1) refl, of now]
  show "calm R (checkAndEnqueue R now n)" by (rule c(1))
  show "permuting (e_ord_due (eng (n_reg (checkAndEnqueue R now n))))"
    using c(3) p by (simp add: same_but_marks_def)
  show "due_rows (n_reg (checkAndEnqueue R now n)) (format_15_04 now') (format_2006_01_02 now') = []"
    "due_shared_rows (n_reg (checkAndEnqueue R now n)) (format_15_04 now') (format_2006_01_02 now') = []"
    using c(4) [OF p] by (simp_all add: assms)
qed

lemma tick_same_minute_is_idle_witness:
  "checkAndEnqueue calm_redis (sample_time\<lparr>c_second := 37\<rparr>) (checkAndEnqueue calm_redis sample_time sample_node) =
   checkAndEnqueue calm_redis sample_time sample_node"
  by (rule tick_same_minute_is_idle [OF sample_node_calm])
    (simp_all add: sample_node_def sample_tables plain_engine_ok format_15_04_def format_2006_01_02_def)

text \<open>
  Whatever fails in the database engine or in Redis, and however many ticks pass, the scheduler leaves a
  well-formed registry.
\<close>

theorem scheduler_keeps_registry:
  assumes "reg_inv (n_reg n)"
  shows "reg_inv (n_reg (scheduler_loop R ticks n))"
proof -
  have "reg_step\<^sup>*\<^sup>* (n_reg n) (n_reg (scheduler_loop R ticks n))"
    unfolding scheduler_loop_def by (rule fold_moves) (rule checkAndEnqueue_moves)
  then show ?thesis using assms by (rule reg_sys.steps_inv)
qed

lemma scheduler_keeps_registry_witness:
  "reg_inv (n_reg (scheduler_loop calm_redis [sample_time, sample_time\<lparr>c_minute := 31\<rparr>] sample_node))"
  by (rule scheduler_keeps_registry) (simp add: sample_node_def sample_registry_inv)

text \<open>
  When the push of a due row of a schedule fails, nothing is queued and the schedule stays due for the
  next tick, but a run row with status running has been added that no job will ever finish.
\<close>

theorem push_failure_leaves_due:
  assumes "redis_ok R" and "no_faults (n_reg n)" and "n' = enqueueDue R now MarkScheduleRun item n"
    and "rd_rpush R QueueName (job_text (dj_Database item) (t_seq (backup_runs (n_reg n)) + 1)) (n_q n) = (Some m, q')"
  shows "jobs R n' = jobs R n \<and> due_rows (n_reg n') = due_rows (n_reg n) \<and>
    (\<exists>b. t_rows (backup_runs (n_reg n')) = t_rows (backup_runs (n_reg n)) @ [b] \<and>
         br_Status b = ''running'' \<and> br_DBName b = d_Name (dj_Database item))"
  using assms(2) rpush_ok [OF assms(1,4)] unfolding assms(3) enqueueDue_push_fails [OF assms(2,4)]
  by (simp add: CreateBackupRun_calm due_rows_def fun_eq_iff run_tbl.insert_rows
      running_run_def set_br_ID_def jobs_def)

definition failing_node :: "list_state node" where
  "failing_node = \<lparr>n_reg = sample_registry,
     n_q = \<lparr>ls_list = [], ls_faults = [Some ''connection refused'']\<rparr>\<rparr>"

definition sample_due_row :: "Database \<Rightarrow> DueJob" where
  "sample_due_row d = \<lparr>dj_ScheduleID = 1, dj_Database = d\<rparr>"

lemma push_failure_leaves_due_witness:
  "let n' = enqueueDue list_redis sample_time MarkScheduleRun (sample_due_row sample_row1) failing_node
   in jobs list_redis n' = [] \<and>
      due_rows (n_reg n') ''02:30'' ''2026-03-01'' = [sample_due_row sample_row1] \<and>
      (\<exists>b. t_rows (backup_runs (n_reg n')) = [b] \<and> br_Status b = ''running'' \<and> br_DBName b = ''shop'')"
  using push_failure_leaves_due [OF list_redis_ok _ refl, of failing_node "sample_due_row sample_row1"
      "''connection refused''" "\<lparr>ls_list = [], ls_faults = []\<rparr>" sample_time]
  by (simp add: Let_def failing_node_def sample_tables sample_due sample_due_row_def jobs_def list_redis_def)
    (simp add: sample_row1_def sample_db_def)

text \<open>
  Two databases of one shared schedule that are due together, where the push for the first fails and the
  push for the second succeeds: the time is marked, so the first is not due again that day although no job
  for it was queued.
\<close>

theorem shared_push_failure_is_not_retried:
  assumes "redis_ok R" and "no_faults (n_reg n)" and "dj_ScheduleID a = dj_ScheduleID b"
    and "rd_rpush R QueueName (job_text (dj_Database a) (t_seq (backup_runs (n_reg n)) + 1)) (n_q n) = (Some m, q1)"
    and "fst (rd_rpush R QueueName (job_text (dj_Database b) (t_seq (backup_runs (n_reg n)) + 2)) q1) = None"
    and "n' = fold (enqueueDue R now MarkSharedScheduleRun) [a, b] n"
  shows "jobs R n' = jobs R n @ [job_text (dj_Database b) (t_seq (backup_runs (n_reg n)) + 2)] \<and>
    a \<notin> set (due_shared_rows (n_reg n') hhmm (format_2006_01_02 now))"
proof -
  define k where "k = enqueueDue R now MarkSharedScheduleRun a n"
  have k: "k = n\<lparr>n_reg := snd (CreateBackupRun (running_run (dj_Database a)) (n_reg n)), n_q := q1\<rparr>"
    unfolding k_def using assms(2,4) by (rule enqueueDue_push_fails)
  have kr: "no_faults (n_reg k)" "t_seq (backup_runs (n_reg k)) + 1 = t_seq (backup_runs (n_reg n)) + 2"
    using assms(2) by (simp_all add: k CreateBackupRun_calm)
  have kq: "n_q k = q1" by (simp add: k)
  have p: "fst (Push R (job_for (dj_Database b) (t_seq (backup_runs (n_reg k)) + 1)) (n_q k)) = Inr ()"
    using assms(5) unfolding kr(2) kq by (auto simp: Push_def job_text_def split: prod.split option.split)
  note e = shared.enqueue_ok [OF assms(1) kr(1) refl p, where now = now]
  have n': "n' = enqueueDue R now MarkSharedScheduleRun b k" using assms(6) by (simp add: k_def)
  from e(6) assms(3) have "time_marked (shared_schedule_times (n_reg n')) (dj_ScheduleID a) (format_2006_01_02 now)"
    by (simp add: n')
  then have "a \<notin> set (due_shared_rows (n_reg n') hhmm (format_2006_01_02 now))"
    using shared.marked_not_due by blast
  moreover have "jobs R k = jobs R n" using rpush_ok [OF assms(1,4)] by (simp add: jobs_def k)
  then have "jobs R n' = jobs R n @ [job_text (dj_Database b) (t_seq (backup_runs (n_reg n)) + 2)]"
    using e(2) kr(2) by (simp add: n')
  ultimately show ?thesis by blast
qed

lemma shared_push_failure_is_not_retried_witness:
  "let a = sample_due_row sample_row1; b = sample_due_row sample_row2;
       n' = fold (enqueueDue list_redis sample_time MarkSharedScheduleRun) [a, b] failing_node
   in a \<in> set (due_shared_rows (n_reg failing_node) ''02:30'' ''2026-03-01'') \<and>
      jobs list_redis n' = [job_text sample_row2 2] \<and>
      a \<notin> set (due_shared_rows (n_reg n') ''02:30'' ''2026-03-01'')"
  using shared_push_failure_is_not_retried [OF list_redis_ok _ _ _ _ refl, of failing_node
      "sample_due_row sample_row1" "sample_due_row sample_row2" "''connection refused''"
      "\<lparr>ls_list = [], ls_faults = []\<rparr>" sample_time "''02:30''"]
  by (simp add: Let_def failing_node_def sample_tables sample_time_texts sample_due sample_due_row_def
      list_redis_def jobs_def)

end
