(* ===== verification/Web.thy ===== *)
theory Web
  imports Pages Url GoPath GoogleAuth AgentProto Scheduler
begin

text \<open>
  \<open>internal/admin\<close>, the frame of the server: requests as \<open>net/http\<close> delivers them, responses as the calls a
  handler makes, the sessions of \<open>session.go\<close>, the gate in front of every route, login and logout.
\<close>

section \<open>Requests and responses\<close>

text \<open>
  \<open>hr_Path\<close> is \<open>r.URL.EscapedPath()\<close>, whose unescaping is \<open>r.URL.Path\<close> for every request \<open>net/http\<close> delivers;
  \<open>hr_Body\<close> is the body of a form post, if there is one. Clock and randomness are read once per request.
\<close>

record request =
  hr_Method :: string
  hr_Path :: string
  hr_RawQuery :: string
  hr_ForceQuery :: bool
  hr_Body :: "string option"
  hr_Cookies :: pairs
  hr_TLS :: bool
  hr_now :: int          \<comment> \<open>in nanoseconds\<close>
  hr_random :: string    \<comment> \<open>32 bytes\<close>

definition delivered :: "request \<Rightarrow> bool" where
  "delivered r \<longleftrightarrow> HasPrefix (hr_Path r) ''/'' \<and> is_ok (PathUnescape (hr_Path r))"

definition url_path :: "request \<Rightarrow> string" where
  "url_path r = (case PathUnescape (hr_Path r) of Inl e \<Rightarrow> [] | Inr p \<Rightarrow> p)"

definition RequestURI :: "request \<Rightarrow> string" where
  "RequestURI r = hr_Path r @ (if hr_ForceQuery r \<or> hr_RawQuery r \<noteq> [] then CHR ''?'' # hr_RawQuery r else [])"

text \<open>\<open>r.URL.Query()\<close> drops what it cannot read; \<open>r.ParseForm\<close> reports it, and puts the body first.\<close>

definition URL_Query :: "request \<Rightarrow> pairs" where
  "URL_Query r = fst (ParseQuery (hr_RawQuery r))"

definition ParseForm :: "request \<Rightarrow> go_error + pairs" where
  "ParseForm r =
     (let (post, e1) = (if hr_Method r \<in> {''POST'', ''PUT'', ''PATCH''}
                        then (case hr_Body r of None \<Rightarrow> ([], None) | Some b \<Rightarrow> ParseQuery b) else ([], None));
          (query, e2) = ParseQuery (hr_RawQuery r)
      in case (e1, e2) of (Some e, _) \<Rightarrow> Inl e | (None, Some e) \<Rightarrow> Inl e | (None, None) \<Rightarrow> Inr (post @ query))"

datatype cookie = SessionCookie (ck_token: string) (ck_secure: bool) (ck_expires: int) | ExpiredCookie

datatype response =
    Page page
  | RedirectTo int string
  | Moved string string                \<comment> \<open>permanently, to this path with this query\<close>
  | Static string                      \<comment> \<open>the file server's answer for this path\<close>
  | HttpError int string
  | NotFound
  | Status int
  | Attachment string string string    \<comment> \<open>content type, file name, content\<close>
  | WithCookie cookie response
  | Aborted                            \<comment> \<open>the handler panicked, \<open>net/http\<close> closes the connection\<close>

section \<open>Sessions\<close>

type_synonym sessions = "string \<rightharpoonup> int"   \<comment> \<open>the moment a session ends\<close>

definition sessionTTL :: int where
  "sessionTTL = 12 * 60 * 60 * 1000000000"

definition session_create :: "int \<Rightarrow> string \<Rightarrow> sessions \<Rightarrow> string \<times> sessions" where
  "session_create now random m = (let token = hex_encode random in (token, m(token \<mapsto> now + sessionTTL)))"

definition session_valid :: "int \<Rightarrow> string \<Rightarrow> sessions \<Rightarrow> bool \<times> sessions" where
  "session_valid now token m =
     (if token = [] then (False, m)
      else (case m token of
              None \<Rightarrow> (False, m)
            | Some exp \<Rightarrow> if exp < now then (False, m(token := None)) else (True, m)))"

definition session_delete :: "string \<Rightarrow> sessions \<Rightarrow> sessions" where
  "session_delete token m = m(token := None)"

section \<open>The server\<close>

record ('d, 'n, 'q) server =
  sv_tx :: err_texts
  sv_cloud :: "'d cloud"
  sv_google :: "'d google"
  sv_agents :: "'n agent_net"
  sv_redis :: "'q redis"
  sv_zones :: "string \<Rightarrow> (int \<Rightarrow> int) option"   \<comment> \<open>\<open>time.LoadLocation\<close>: seconds from UTC at a moment\<close>
  sv_username :: string
  sv_password :: string
  sv_credentials :: string
  sv_timezone :: string
  sv_cfg :: Config

text \<open>What a request may change: registry and storage services, the network, the queue, the sessions.\<close>

record ('d, 'n, 'q) site =
  si_ds :: "'d drive_state"
  si_net :: 'n
  si_q :: 'q
  si_sessions :: sessions

type_synonym ('d, 'n, 'q) handler = "('d, 'n, 'q) site \<Rightarrow> response \<times> ('d, 'n, 'q) site"

abbreviation si_reg :: "('d, 'n, 'q) site \<Rightarrow> registry" where
  "si_reg s \<equiv> ds_reg (si_ds s)"

definition on_db :: "'a reg_op \<Rightarrow> (go_error, 'a, ('d, 'n, 'q) site) op" where
  "on_db u s = (case u (si_reg s) of (x, r) \<Rightarrow> (x, s\<lparr>si_ds := (si_ds s)\<lparr>ds_reg := r\<rparr>\<rparr>))"

definition on_services :: "(go_error, 'a, 'd drive_state) op \<Rightarrow> (go_error, 'a, ('d, 'n, 'q) site) op" where
  "on_services u s = (case u (si_ds s) of (x, st) \<Rightarrow> (x, s\<lparr>si_ds := st\<rparr>))"

definition on_network :: "(go_error, 'a, 'n) op \<Rightarrow> (go_error, 'a, ('d, 'n, 'q) site) op" where
  "on_network u s = (case u (si_net s) of (x, n) \<Rightarrow> (x, s\<lparr>si_net := n\<rparr>))"

definition on_queue :: "('a, 'q) redis_op \<Rightarrow> (go_error, 'a, ('d, 'n, 'q) site) op" where
  "on_queue u s = (case u (si_q s) of (x, q) \<Rightarrow> (x, s\<lparr>si_q := q\<rparr>))"

text \<open>
  The endings a handler has again and again: an error answered with its text and a status, an id that is no
  number, a row that is not there, a form that cannot be read.
\<close>

definition or_fail :: "('d, 'n, 'q) server \<Rightarrow> int \<Rightarrow> (go_error, 'a, ('d, 'n, 'q) site) op \<Rightarrow>
    ('a \<Rightarrow> ('d, 'n, 'q) handler) \<Rightarrow> ('d, 'n, 'q) handler" where
  "or_fail S status u k s =
     (case u s of (Inl e, s) \<Rightarrow> (HttpError status (Error (sv_tx S) e), s) | (Inr x, s) \<Rightarrow> k x s)"

abbreviation or_500 where "or_500 S u k \<equiv> or_fail S 500 (on_db u) k"

definition or_404 :: "'a option \<Rightarrow> ('a \<Rightarrow> ('d, 'n, 'q) handler) \<Rightarrow> ('d, 'n, 'q) handler" where
  "or_404 x k s = (case x of None \<Rightarrow> (NotFound, s) | Some y \<Rightarrow> k y s)"

definition with_id :: "string \<Rightarrow> (int \<Rightarrow> ('d, 'n, 'q) handler) \<Rightarrow> ('d, 'n, 'q) handler" where
  "with_id v k s = (case ParseInt v of (i, None) \<Rightarrow> k i s | (i, Some e) \<Rightarrow> (HttpError 400 ''invalid id'', s))"

definition with_form :: "('d, 'n, 'q) server \<Rightarrow> request \<Rightarrow> (pairs \<Rightarrow> ('d, 'n, 'q) handler) \<Rightarrow> ('d, 'n, 'q) handler" where
  "with_form S req k s =
     (case ParseForm req of Inl e \<Rightarrow> (HttpError 400 (Error (sv_tx S) e), s) | Inr form \<Rightarrow> k form s)"

abbreviation reply :: "response \<Rightarrow> ('d, 'n, 'q) handler" where
  "reply \<equiv> Pair"

section \<open>Login\<close>

definition sessionCookieName :: string where
  "sessionCookieName = ''backupdb_admin_session''"

definition session_cookie :: "request \<Rightarrow> string option" where
  "session_cookie r = map_option snd (find (\<lambda>p. fst p = sessionCookieName) (hr_Cookies r))"

definition sanitizeNext :: "string \<Rightarrow> string" where
  "sanitizeNext next =
     (if next = [] \<or> next = ''/login'' \<or> HasPrefix next ''//'' \<or> \<not> HasPrefix next ''/'' then [] else next)"

definition redirectToLogin :: "request \<Rightarrow> response" where
  "redirectToLogin r =
     (let next = sanitizeNext (RequestURI r) in
      RedirectTo 302 (''/login'' @ (if next \<noteq> [] then ''?next='' @ QueryEscape next else [])))"

definition check_session :: "request \<Rightarrow> string \<Rightarrow> ('d, 'n, 'q) site \<Rightarrow> bool \<times> ('d, 'n, 'q) site" where
  "check_session r v s =
     (case session_valid (hr_now r) v (si_sessions s) of (ok, m) \<Rightarrow> (ok, s\<lparr>si_sessions := m\<rparr>))"

definition disabled :: "('d, 'n, 'q) server \<Rightarrow> bool" where
  "disabled S \<longleftrightarrow> sv_username S = [] \<or> sv_password S = []"

definition open_path :: "string \<Rightarrow> bool" where
  "open_path p \<longleftrightarrow> p = ''/login'' \<or> p = ''/logout'' \<or> HasPrefix p ''/static/''"

definition requireAuth ::
  "('d, 'n, 'q) server \<Rightarrow> (request \<Rightarrow> ('d, 'n, 'q) handler) \<Rightarrow> request \<Rightarrow> ('d, 'n, 'q) handler" where
  "requireAuth S next r s =
     (if disabled S then (NotFound, s)
      else if open_path (url_path r) then next r s
      else (case session_cookie r of
              None \<Rightarrow> (redirectToLogin r, s)
            | Some v \<Rightarrow>
                (case check_session r v s of (ok, s) \<Rightarrow> if ok then next r s else (redirectToLogin r, s))))"

definition or_home :: "string \<Rightarrow> string" where
  "or_home next = (if next = [] then ''/'' else next)"

definition handleLoginForm :: "('d, 'n, 'q) server \<Rightarrow> request \<Rightarrow> ('d, 'n, 'q) handler" where
  "handleLoginForm S r s =
     (if disabled S then (NotFound, s)
      else
        (let next = sanitizeNext (get_value (URL_Query r) ''next'');
             (ok, s) = (case session_cookie r of None \<Rightarrow> (False, s) | Some v \<Rightarrow> check_session r v s)
         in if ok then (RedirectTo 303 (or_home next), s)
            else (Page (login_html \<lparr>lp_Next = next, lp_Error = [],
                    lp_LoggedOut = get_value (URL_Query r) ''logged_out'' = ''1''\<rparr>), s)))"

definition handleLoginSubmit :: "('d, 'n, 'q) server \<Rightarrow> request \<Rightarrow> ('d, 'n, 'q) handler" where
  "handleLoginSubmit S r =
     (if disabled S then reply NotFound
      else with_form S r (\<lambda>form s.
        let next = sanitizeNext (get_value form ''next'');
            userOK = (get_value form ''username'' = sv_username S);
            passOK = (get_value form ''password'' = sv_password S)
        in if \<not> userOK \<or> \<not> passOK
           then (Page (login_html \<lparr>lp_Next = next, lp_Error = text_wrong_login, lp_LoggedOut = False\<rparr>), s)
           else
             (let (token, m) = session_create (hr_now r) (hr_random r) (si_sessions s) in
              (WithCookie (SessionCookie token (hr_TLS r) (hr_now r + sessionTTL)) (RedirectTo 303 (or_home next)),
               s\<lparr>si_sessions := m\<rparr>))))"

definition handleLogout :: "('d, 'n, 'q) server \<Rightarrow> request \<Rightarrow> ('d, 'n, 'q) handler" where
  "handleLogout S r s =
     (WithCookie ExpiredCookie (RedirectTo 302 ''/login?logged_out=1''),
      (case session_cookie r of
         None \<Rightarrow> s | Some v \<Rightarrow> s\<lparr>si_sessions := session_delete v (si_sessions s)\<rparr>))"

section \<open>Every handler moves the registry by its statements\<close>

named_theorems handler_moves \<open>handlers that move the registry by steps\<close>

definition keeps_steps :: "('d, 'n, 'q) handler \<Rightarrow> bool" where
  "keeps_steps h \<longleftrightarrow> (\<forall>s. reg_step\<^sup>*\<^sup>* (si_reg s) (si_reg (snd (h s))))"

definition op_steps :: "(go_error, 'a, ('d, 'n, 'q) site) op \<Rightarrow> bool" where
  "op_steps u \<longleftrightarrow> (\<forall>s. reg_step\<^sup>*\<^sup>* (si_reg s) (si_reg (snd (u s))))"

lemma on_db_steps [handler_moves]: "moves_by reg_step u \<Longrightarrow> op_steps (on_db u)"
  by (simp add: op_steps_def on_db_def moves_by_def split_beta)

lemma on_network_steps [handler_moves]: "op_steps (on_network u)"
  by (simp add: op_steps_def on_network_def split_beta)

lemma on_queue_steps [handler_moves]: "op_steps (on_queue u)"
  by (simp add: op_steps_def on_queue_def split_beta)

lemma on_services_steps [handler_moves]: "moves_by (ds_rel reg_step) u \<Longrightarrow> op_steps (on_services u)"
  unfolding op_steps_def on_services_def
  by (auto simp: split_beta intro: ds_movesD [OF _ prod.collapse [symmetric]])

lemma keeps_reply [handler_moves]: "keeps_steps (reply x)"
  by (simp add: keeps_steps_def)

lemma keeps_or_fail [handler_moves]:
  assumes "op_steps u" and "\<And>x. keeps_steps (k x)"
  shows "keeps_steps (or_fail S status u k)"
  unfolding keeps_steps_def
proof
  fix s
  obtain x t where u: "u s = (x, t)" by fastforce
  with assms(1) have st: "reg_step\<^sup>*\<^sup>* (si_reg s) (si_reg t)" by (metis op_steps_def snd_conv)
  show "reg_step\<^sup>*\<^sup>* (si_reg s) (si_reg (snd (or_fail S status u k s)))"
  proof (cases x)
    case (Inl e)
    with u st show ?thesis by (simp add: or_fail_def)
  next
    case (Inr y)
    from assms(2) have "reg_step\<^sup>*\<^sup>* (si_reg t) (si_reg (snd (k y t)))" by (simp add: keeps_steps_def)
    with u st Inr show ?thesis by (simp add: or_fail_def)
  qed
qed

lemma keeps_or_404 [handler_moves]: "(\<And>x. keeps_steps (k x)) \<Longrightarrow> keeps_steps (or_404 y k)"
  by (cases y) (simp_all add: keeps_steps_def or_404_def)

lemma keeps_with_id [handler_moves]: "(\<And>i. keeps_steps (k i)) \<Longrightarrow> keeps_steps (with_id v k)"
  by (simp add: keeps_steps_def with_id_def split: prod.split option.split)

lemma keeps_with_form [handler_moves]: "(\<And>f. keeps_steps (k f)) \<Longrightarrow> keeps_steps (with_form S req k)"
  by (simp add: keeps_steps_def with_form_def split: sum.split)

lemma keeps_if [handler_moves]:
  "keeps_steps h \<Longrightarrow> keeps_steps h' \<Longrightarrow> keeps_steps (if b then h else h')"
  by simp

lemma keeps_check_session: "si_reg (snd (check_session r v s)) = si_reg s"
  by (simp add: check_session_def split_beta)

lemma keeps_login [handler_moves]:
  "keeps_steps (handleLoginForm S r)" "keeps_steps (handleLoginSubmit S r)" "keeps_steps (handleLogout S r)"
  by (auto simp: keeps_steps_def handleLoginForm_def handleLoginSubmit_def handleLogout_def with_form_def Let_def
      keeps_check_session split_beta split: option.split sum.split)

end
