(* ===== verification/AdminDb.thy ===== *)
theory AdminDb
  imports Web
begin

text \<open>
  \<open>internal/admin/server.go\<close>, the pages of databases and of their schedules. A handler gets the value of
  \<open>{id}\<close> as its argument.
\<close>

section \<open>Cards and views\<close>

definition own_times_card :: "('d, 'n, 'q) server \<Rightarrow> int \<Rightarrow> Schedule list \<Rightarrow> scheduleTimesCard" where
  "own_times_card S i rows =
     \<lparr>card_Title = text_own_title @ sv_timezone S @ '')'', card_Hint = text_own_hint, card_Times = OwnTimes rows,
      card_EmptyMsg = text_own_empty, card_AddAction = ''/databases/'' @ itoa i @ ''/schedules'',
      card_DeletePrefix = ''/schedules/''\<rparr>"

text \<open>\<open>agentLabels\<close> maps the id of an agent to its label, and an id it does not have to the empty text.\<close>

definition agent_label :: "RemoteAgent list \<Rightarrow> int \<Rightarrow> string" where
  "agent_label agents i =
     (if i = 0 then text_this_server
      else (case map_of (rev (map (\<lambda>a. (ra_ID a, ra_Label a)) agents)) i of
              None \<Rightarrow> text_agent_gone
            | Some l \<Rightarrow> if l = [] then text_agent_gone else l))"

definition list_view :: "RemoteAgent list \<Rightarrow> (int \<Rightarrow> int list) \<Rightarrow> int set \<Rightarrow> Database \<Rightarrow> listDatabaseView" where
  "list_view agents channelIDs scheduled d =
     \<lparr>lv_Database = d, lv_AgentLabel = agent_label agents (d_AgentID d),
      lv_NotifyChannelIDs = channelIDs (d_ID d), lv_HasSchedule = (d_ID d \<in> scheduled)\<rparr>"

section \<open>Forms\<close>

definition zero_database :: Database where
  "zero_database =
     \<lparr>d_ID = 0, d_Name = [], d_Driver = [], d_Host = [], d_Port = [], d_Username = [], d_Password = [],
      d_AuthDB = [], d_StorageTargetID = 0, d_AgentID = 0, d_Enabled = False, d_CreatedAt = [], d_UpdatedAt = []\<rparr>"

text \<open>The ids among the values of a form field; what is no number is passed over.\<close>

definition form_ids :: "pairs \<Rightarrow> string \<Rightarrow> int list" where
  "form_ids form k = [fst (ParseInt v). v \<leftarrow> get_values form k, snd (ParseInt v) = None]"

definition database_of_form :: "pairs \<Rightarrow> Database" where
  "database_of_form form =
     \<lparr>d_ID = 0, d_Name = get_value form ''name'', d_Driver = get_value form ''driver'',
      d_Host = get_value form ''host'', d_Port = get_value form ''port'',
      d_Username = get_value form ''username'', d_Password = get_value form ''password'',
      d_AuthDB = get_value form ''auth_db'',
      d_StorageTargetID = fst (ParseInt (get_value form ''storage_target_id'')),
      d_AgentID = fst (ParseInt (get_value form ''agent_id'')),
      d_Enabled = (get_value form ''enabled'' = ''on''), d_CreatedAt = [], d_UpdatedAt = []\<rparr>"

definition parseForm :: "request \<Rightarrow> go_error + (Database \<times> int list)" where
  "parseForm r =
     (case ParseForm r of
        Inl e \<Rightarrow> Inl e
      | Inr form \<Rightarrow> Inr (database_of_form form, form_ids form ''notify_channel_ids''))"

text \<open>A decoded array of numbers; \<open>null\<close> is no array and the number zero.\<close>

fun json_ints :: "json list \<Rightarrow> int list \<times> bool" where
  "json_ints [] = ([], True)"
| "json_ints (v # vs) =
     (case (set_int64 (\<lambda>i _. i) v 0, json_ints vs) of ((i, ok), is, oks) \<Rightarrow> (i # is, ok \<and> oks))"

definition set_int64s :: "(int list \<Rightarrow> 'a \<Rightarrow> 'a) \<Rightarrow> json \<Rightarrow> 'a \<Rightarrow> 'a \<times> bool" where
  "set_int64s upd v x =
     (case v of
        JNull \<Rightarrow> (upd [] x, True)
      | JArr vs \<Rightarrow> (case json_ints vs of (is, ok) \<Rightarrow> (upd is x, ok))
      | _ \<Rightarrow> (x, False))"

text \<open>\<open>duplicatePayload\<close>: the fields of a database and the ids of its channels.\<close>

record duplicatePayload =
  dp_Database :: Database
  dp_NotifyChannelIDs :: "int list"

definition on_dp :: "(Database \<Rightarrow> Database) \<Rightarrow> duplicatePayload \<Rightarrow> duplicatePayload" where
  "on_dp f p = p\<lparr>dp_Database := f (dp_Database p)\<rparr>"

definition payload_fields :: "duplicatePayload field list" where
  "payload_fields =
     [(''name'', set_string (\<lambda>x. on_dp (d_Name_update (\<lambda>_. x)))),
      (''driver'', set_string (\<lambda>x. on_dp (d_Driver_update (\<lambda>_. x)))),
      (''host'', set_string (\<lambda>x. on_dp (d_Host_update (\<lambda>_. x)))),
      (''port'', set_string (\<lambda>x. on_dp (d_Port_update (\<lambda>_. x)))),
      (''username'', set_string (\<lambda>x. on_dp (d_Username_update (\<lambda>_. x)))),
      (''password'', set_string (\<lambda>x. on_dp (d_Password_update (\<lambda>_. x)))),
      (''auth_db'', set_string (\<lambda>x. on_dp (d_AuthDB_update (\<lambda>_. x)))),
      (''storage_target_id'', set_int64 (\<lambda>x. on_dp (d_StorageTargetID_update (\<lambda>_. x)))),
      (''agent_id'', set_int64 (\<lambda>x. on_dp (d_AgentID_update (\<lambda>_. x)))),
      (''notify_channel_ids'', set_int64s (\<lambda>x p. p\<lparr>dp_NotifyChannelIDs := x\<rparr>)),
      (''enabled'', set_bool (\<lambda>x. on_dp (d_Enabled_update (\<lambda>_. x))))]"

definition zero_payload :: duplicatePayload where
  "zero_payload = \<lparr>dp_Database = zero_database, dp_NotifyChannelIDs = []\<rparr>"

definition prefill :: "string \<Rightarrow> formData \<Rightarrow> formData" where
  "prefill raw form =
     (if raw = [] then form
      else (case Unmarshal payload_fields zero_payload raw of
              None \<Rightarrow> form
            | Some p \<Rightarrow> form\<lparr>fd_Database := dp_Database p, fd_SelectedChannels := set (dp_NotifyChannelIDs p)\<rparr>))"

section \<open>Databases\<close>

definition handleList :: "('d, 'n, 'q) server \<Rightarrow> ('d, 'n, 'q) handler" where
  "handleList S =
     or_500 S reg_List (\<lambda>dbs.
     or_500 S ListRemoteAgents (\<lambda>agents.
     or_500 S NotifyChannelIDsByDatabase (\<lambda>channelIDs.
     or_500 S DatabaseIDsWithSchedule (\<lambda>scheduled.
     reply (Page (databases_html (map (list_view agents channelIDs scheduled) dbs)))))))"

definition handleNewForm :: "('d, 'n, 'q) server \<Rightarrow> request \<Rightarrow> ('d, 'n, 'q) handler" where
  "handleNewForm S r =
     or_500 S ListStorageTargets (\<lambda>targets.
     or_500 S ListRemoteAgents (\<lambda>agents.
     or_500 S ListNotifyChannels (\<lambda>channels.
     reply (Page (database_form_html (prefill (get_value (URL_Query r) ''data'')
       \<lparr>fd_Action = ''/new'', fd_Editing = False,
        fd_Database = zero_database\<lparr>d_Driver := ''mysql'', d_Enabled := True\<rparr>, fd_StorageTargets = targets,
        fd_RemoteAgents = agents, fd_NotifyChannels = channels, fd_SelectedChannels = {},
        fd_Timezone = sv_timezone S, fd_TimesCard = no_card\<rparr>))))))"

definition handleCreate :: "('d, 'n, 'q) server \<Rightarrow> request \<Rightarrow> ('d, 'n, 'q) handler" where
  "handleCreate S r =
     or_fail S 400 (Pair (parseForm r)) (\<lambda>(d, channelIDs).
     or_500 S (reg_Create d) (\<lambda>i.
     or_500 S (SetDatabaseNotifyChannels i channelIDs) (\<lambda>_.
     reply (RedirectTo 303 ''/''))))"

definition handleEditForm :: "('d, 'n, 'q) server \<Rightarrow> string \<Rightarrow> ('d, 'n, 'q) handler" where
  "handleEditForm S v =
     with_id v (\<lambda>i.
     or_500 S (reg_Get i) (\<lambda>x. or_404 x (\<lambda>d.
     or_500 S (ListSchedulesByDatabase i) (\<lambda>rows.
     or_500 S ListStorageTargets (\<lambda>targets.
     or_500 S ListRemoteAgents (\<lambda>agents.
     or_500 S ListNotifyChannels (\<lambda>channels.
     or_500 S (ListNotifyChannelsForDatabase i) (\<lambda>assigned.
     reply (Page (database_form_html
       \<lparr>fd_Action = ''/edit/'' @ v, fd_Editing = True, fd_Database = d, fd_StorageTargets = targets,
        fd_RemoteAgents = agents, fd_NotifyChannels = channels, fd_SelectedChannels = nc_ID ` set assigned,
        fd_Timezone = sv_timezone S, fd_TimesCard = own_times_card S i rows\<rparr>))))))))))"

definition handleUpdate :: "('d, 'n, 'q) server \<Rightarrow> request \<Rightarrow> string \<Rightarrow> ('d, 'n, 'q) handler" where
  "handleUpdate S r v =
     with_id v (\<lambda>i.
     or_fail S 400 (Pair (parseForm r)) (\<lambda>(d, channelIDs).
     or_500 S (reg_Update (d\<lparr>d_ID := i\<rparr>)) (\<lambda>_.
     or_500 S (SetDatabaseNotifyChannels i channelIDs) (\<lambda>_.
     reply (RedirectTo 303 ''/'')))))"

definition handleDelete :: "('d, 'n, 'q) server \<Rightarrow> string \<Rightarrow> ('d, 'n, 'q) handler" where
  "handleDelete S v = with_id v (\<lambda>i. or_500 S (reg_Delete i) (\<lambda>_. reply (RedirectTo 303 ''/'')))"

definition handleToggle :: "('d, 'n, 'q) server \<Rightarrow> string \<Rightarrow> ('d, 'n, 'q) handler" where
  "handleToggle S v =
     with_id v (\<lambda>i.
     or_500 S (reg_Get i) (\<lambda>x. or_404 x (\<lambda>d.
     or_500 S (SetEnabled i (\<not> d_Enabled d)) (\<lambda>_.
     reply (RedirectTo 303 ''/'')))))"

text \<open>A run row that cannot be created leaves the job with run 0.\<close>

definition handleBackupNow :: "('d, 'n, 'q) server \<Rightarrow> string \<Rightarrow> ('d, 'n, 'q) handler" where
  "handleBackupNow S v =
     with_id v (\<lambda>i.
     or_500 S (reg_Get i) (\<lambda>x. or_404 x (\<lambda>d s.
     (let (res, s) = on_db (CreateBackupRun (running_run d)) s in
      (case on_queue (Push (sv_redis S) (job_for d (or_zero 0 res))) s of
         (Inl e, s) \<Rightarrow> (HttpError 500 (''enqueue backup: '' @ Error (sv_tx S) e), s)
       | (Inr _, s) \<Rightarrow> (RedirectTo 303 ''/'', s))))))"

section \<open>Schedules of a database\<close>

definition with_time :: "pairs \<Rightarrow> (string \<Rightarrow> ('d, 'n, 'q) handler) \<Rightarrow> ('d, 'n, 'q) handler" where
  "with_time form k s =
     (let timeOfDay = get_value form ''time_of_day'' in
      case Parse_15_04 timeOfDay of
        None \<Rightarrow> (HttpError 400 ''invalid time, expected HH:MM'', s)
      | Some _ \<Rightarrow> k timeOfDay s)"

definition handleAddSchedule :: "('d, 'n, 'q) server \<Rightarrow> request \<Rightarrow> string \<Rightarrow> ('d, 'n, 'q) handler" where
  "handleAddSchedule S r v =
     with_id v (\<lambda>i. with_form S r (\<lambda>form. with_time form (\<lambda>timeOfDay.
     or_500 S (CreateSchedule i timeOfDay) (\<lambda>_.
     reply (RedirectTo 303 (''/edit/'' @ itoa i))))))"

definition handleDeleteSchedule :: "('d, 'n, 'q) server \<Rightarrow> string \<Rightarrow> ('d, 'n, 'q) handler" where
  "handleDeleteSchedule S v =
     with_id v (\<lambda>i.
     or_500 S (GetSchedule i) (\<lambda>x. or_404 x (\<lambda>sched.
     or_500 S (DeleteSchedule i) (\<lambda>_.
     reply (RedirectTo 303 (''/edit/'' @ itoa (s_DatabaseID sched)))))))"

section \<open>Moves\<close>

lemma keeps_pure [handler_moves]: "op_steps (Pair x)"
  by (simp add: op_steps_def)

lemma keeps_case_prod [handler_moves]: "(\<And>a b. keeps_steps (k a b)) \<Longrightarrow> keeps_steps (case p of (a, b) \<Rightarrow> k a b)"
  by (simp add: split_beta)

lemma keeps_with_time [handler_moves]: "(\<And>t. keeps_steps (k t)) \<Longrightarrow> keeps_steps (with_time form k)"
  by (simp add: keeps_steps_def with_time_def Let_def split: option.split)

lemma keeps_push [handler_moves]:
  fixes R :: "'q redis" and h :: response
  shows "keeps_steps (\<lambda>s :: ('d, 'n, 'q) site. let (res, s) = on_db (CreateBackupRun b) s in
      (case on_queue (Push R (f res)) s of
         (Inl e, s) \<Rightarrow> (g e, s) | (Inr _, s) \<Rightarrow> (h, s)))"
proof -
  have "moves_by reg_step (CreateBackupRun b)" by (rule moves_intros)
  then have m: "op_steps (on_db (CreateBackupRun b) :: (go_error, int, ('d, 'n, 'q) site) op)"
    by (rule on_db_steps)
  show ?thesis
    unfolding keeps_steps_def
  proof
    fix s :: "('d, 'n, 'q) site"
    obtain res t where u: "on_db (CreateBackupRun b) s = (res, t)" by fastforce
    with m have "reg_step\<^sup>*\<^sup>* (si_reg s) (si_reg t)" by (metis op_steps_def snd_conv)
    then show "reg_step\<^sup>*\<^sup>* (si_reg s) (si_reg (snd (let (res, s) = on_db (CreateBackupRun b) s in
      (case on_queue (Push R (f res)) s of (Inl e, s) \<Rightarrow> (g e, s) | (Inr _, s) \<Rightarrow> (h, s)))))"
      by (simp add: u on_queue_def split: prod.split sum.split)
  qed
qed

lemma keeps_databases [handler_moves]:
  "keeps_steps (handleList S)" "keeps_steps (handleNewForm S r)" "keeps_steps (handleCreate S r)"
  "keeps_steps (handleEditForm S v)" "keeps_steps (handleUpdate S r v)" "keeps_steps (handleDelete S v)"
  "keeps_steps (handleToggle S v)" "keeps_steps (handleBackupNow S v)" "keeps_steps (handleAddSchedule S r v)"
  "keeps_steps (handleDeleteSchedule S v)"
  unfolding handleList_def handleNewForm_def handleCreate_def handleEditForm_def handleUpdate_def handleDelete_def
    handleToggle_def handleBackupNow_def handleAddSchedule_def handleDeleteSchedule_def
  by (intro handler_moves moves_intros)+

end
