(* ===== verification/AdminShared.thy ===== *)
theory AdminShared
  imports AdminDb
begin

text \<open>
  \<open>internal/admin/server.go\<close>, the pages of shared schedules.
\<close>

section \<open>The form\<close>

definition sharedScheduleTimesCard ::
  "('d, 'n, 'q) server \<Rightarrow> int \<Rightarrow> SharedScheduleTime list \<Rightarrow> scheduleTimesCard" where
  "sharedScheduleTimesCard S i rows =
     \<lparr>card_Title = text_group_title @ sv_timezone S @ '')'', card_Hint = text_group_hint,
      card_Times = GroupTimes rows, card_EmptyMsg = text_group_empty,
      card_AddAction = ''/shared-schedules/'' @ itoa i @ ''/times'',
      card_DeletePrefix = ''/shared-schedule-times/''\<rparr>"

definition renderSharedScheduleError ::
  "('d, 'n, 'q) server \<Rightarrow> bool \<Rightarrow> string \<Rightarrow> int \<Rightarrow> SharedScheduleTime list \<Rightarrow> string \<Rightarrow> int list \<Rightarrow> string \<Rightarrow>
   ('d, 'n, 'q) handler" where
  "renderSharedScheduleError S editing act i rows name databaseIDs errMsg =
     or_500 S reg_List (\<lambda>dbs.
     reply (Page (shared_schedule_form_html
       \<lparr>sd_Editing = editing, sd_Action = act, sd_Name = name, sd_Databases = dbs,
        sd_Selected = set databaseIDs, sd_Timezone = sv_timezone S,
        sd_TimesCard = (if editing then sharedScheduleTimesCard S i rows else no_card), sd_Error = errMsg\<rparr>)))"

definition parseSharedScheduleForm :: "request \<Rightarrow> go_error + (string \<times> int list)" where
  "parseSharedScheduleForm r =
     (case ParseForm r of
        Inl e \<Rightarrow> Inl e
      | Inr form \<Rightarrow> Inr (get_value form ''name'', form_ids form ''database_ids''))"

text \<open>An operation whose error is shown in the form it came from, not as a page of its own.\<close>

definition or_again :: "('d, 'n, 'q) server \<Rightarrow> (go_error, 'a, ('d, 'n, 'q) site) op \<Rightarrow> (string \<Rightarrow> ('d, 'n, 'q) handler) \<Rightarrow>
    ('a \<Rightarrow> ('d, 'n, 'q) handler) \<Rightarrow> ('d, 'n, 'q) handler" where
  "or_again S u again k s =
     (case u s of (Inl e, s) \<Rightarrow> again (Error (sv_tx S) e) s | (Inr x, s) \<Rightarrow> k x s)"

section \<open>Handlers\<close>

definition handleSharedScheduleList :: "('d, 'n, 'q) server \<Rightarrow> ('d, 'n, 'q) handler" where
  "handleSharedScheduleList S =
     or_500 S ListSharedSchedules (\<lambda>rows. reply (Page (shared_schedules_html rows)))"

definition handleSharedScheduleNewForm :: "('d, 'n, 'q) server \<Rightarrow> ('d, 'n, 'q) handler" where
  "handleSharedScheduleNewForm S =
     or_500 S reg_List (\<lambda>dbs.
     reply (Page (shared_schedule_form_html
       \<lparr>sd_Editing = False, sd_Action = ''/shared-schedules'', sd_Name = [], sd_Databases = dbs,
        sd_Selected = {}, sd_Timezone = sv_timezone S, sd_TimesCard = no_card, sd_Error = []\<rparr>)))"

definition handleSharedScheduleEditForm :: "('d, 'n, 'q) server \<Rightarrow> string \<Rightarrow> ('d, 'n, 'q) handler" where
  "handleSharedScheduleEditForm S v =
     with_id v (\<lambda>i.
     or_500 S (GetSharedSchedule i) (\<lambda>x. or_404 x (\<lambda>sched.
     or_500 S reg_List (\<lambda>dbs.
     reply (Page (shared_schedule_form_html
       \<lparr>sd_Editing = True, sd_Action = ''/shared-schedules/'' @ itoa i, sd_Name = ss_Name sched,
        sd_Databases = dbs, sd_Selected = d_ID ` set (ss_Databases sched), sd_Timezone = sv_timezone S,
        sd_TimesCard = sharedScheduleTimesCard S i (ss_Times sched), sd_Error = []\<rparr>))))))"

definition handleSharedScheduleCreate :: "('d, 'n, 'q) server \<Rightarrow> request \<Rightarrow> ('d, 'n, 'q) handler" where
  "handleSharedScheduleCreate S r =
     or_fail S 400 (Pair (parseSharedScheduleForm r)) (\<lambda>(name, databaseIDs).
     (let again = renderSharedScheduleError S False ''/shared-schedules'' 0 [] name databaseIDs in
      if databaseIDs = [] then again text_choose_database
      else or_again S (on_db (CreateSharedSchedule name databaseIDs)) again (\<lambda>i.
        reply (RedirectTo 303 (''/shared-schedules/'' @ itoa i @ ''/edit'')))))"

definition handleSharedScheduleUpdate :: "('d, 'n, 'q) server \<Rightarrow> request \<Rightarrow> string \<Rightarrow> ('d, 'n, 'q) handler" where
  "handleSharedScheduleUpdate S r v =
     with_id v (\<lambda>i.
     or_500 S (GetSharedSchedule i) (\<lambda>x. or_404 x (\<lambda>existing.
     or_fail S 400 (Pair (parseSharedScheduleForm r)) (\<lambda>(name, databaseIDs).
     (let again = renderSharedScheduleError S True (''/shared-schedules/'' @ itoa i) i (ss_Times existing) name databaseIDs in
      if databaseIDs = [] then again text_choose_database
      else or_again S (on_db (UpdateSharedSchedule i name databaseIDs)) again (\<lambda>_.
        reply (RedirectTo 303 ''/shared-schedules'')))))))"

definition handleAddSharedScheduleTime :: "('d, 'n, 'q) server \<Rightarrow> request \<Rightarrow> string \<Rightarrow> ('d, 'n, 'q) handler" where
  "handleAddSharedScheduleTime S r v =
     with_id v (\<lambda>i. with_form S r (\<lambda>form. with_time form (\<lambda>timeOfDay.
     or_500 S (CreateSharedScheduleTime i timeOfDay) (\<lambda>_.
     reply (RedirectTo 303 (''/shared-schedules/'' @ itoa i @ ''/edit''))))))"

definition handleDeleteSharedScheduleTime :: "('d, 'n, 'q) server \<Rightarrow> string \<Rightarrow> ('d, 'n, 'q) handler" where
  "handleDeleteSharedScheduleTime S v =
     with_id v (\<lambda>i.
     or_500 S (GetSharedScheduleTime i) (\<lambda>x. or_404 x (\<lambda>t.
     or_500 S (DeleteSharedScheduleTime i) (\<lambda>_.
     reply (RedirectTo 303 (''/shared-schedules/'' @ itoa (sst_SharedScheduleID t) @ ''/edit''))))))"

definition handleSharedScheduleToggle :: "('d, 'n, 'q) server \<Rightarrow> string \<Rightarrow> ('d, 'n, 'q) handler" where
  "handleSharedScheduleToggle S v =
     with_id v (\<lambda>i.
     or_500 S (GetSharedSchedule i) (\<lambda>x. or_404 x (\<lambda>sched.
     or_500 S (SetSharedScheduleEnabled i (\<not> ss_Enabled sched)) (\<lambda>_.
     reply (RedirectTo 303 ''/shared-schedules'')))))"

definition handleSharedScheduleDelete :: "('d, 'n, 'q) server \<Rightarrow> string \<Rightarrow> ('d, 'n, 'q) handler" where
  "handleSharedScheduleDelete S v =
     with_id v (\<lambda>i. or_500 S (DeleteSharedSchedule i) (\<lambda>_. reply (RedirectTo 303 ''/shared-schedules'')))"

section \<open>Moves\<close>

lemma keeps_or_again [handler_moves]:
  assumes "op_steps u" and "\<And>m. keeps_steps (again m)" and "\<And>x. keeps_steps (k x)"
  shows "keeps_steps (or_again S u again k)"
  unfolding keeps_steps_def
proof
  fix s
  obtain x t where u: "u s = (x, t)" by fastforce
  with assms(1) have st: "reg_step\<^sup>*\<^sup>* (si_reg s) (si_reg t)" by (metis op_steps_def snd_conv)
  have "reg_step\<^sup>*\<^sup>* (si_reg t) (si_reg (snd (again m t)))" "reg_step\<^sup>*\<^sup>* (si_reg t) (si_reg (snd (k y t)))" for m y
    using assms(2,3) by (simp_all add: keeps_steps_def)
  with u st show "reg_step\<^sup>*\<^sup>* (si_reg s) (si_reg (snd (or_again S u again k s)))"
    by (cases x) (auto simp: or_again_def intro: rtranclp_trans)
qed

lemma keeps_shared_error [handler_moves]:
  "keeps_steps (renderSharedScheduleError S editing act i rows name databaseIDs errMsg)"
  unfolding renderSharedScheduleError_def by (intro handler_moves moves_intros)

lemma keeps_shared [handler_moves]:
  "keeps_steps (handleSharedScheduleList S)" "keeps_steps (handleSharedScheduleNewForm S)"
  "keeps_steps (handleSharedScheduleEditForm S v)" "keeps_steps (handleSharedScheduleCreate S r)"
  "keeps_steps (handleSharedScheduleUpdate S r v)" "keeps_steps (handleAddSharedScheduleTime S r v)"
  "keeps_steps (handleDeleteSharedScheduleTime S v)" "keeps_steps (handleSharedScheduleToggle S v)"
  "keeps_steps (handleSharedScheduleDelete S v)"
  unfolding handleSharedScheduleList_def handleSharedScheduleNewForm_def handleSharedScheduleEditForm_def
    handleSharedScheduleCreate_def handleSharedScheduleUpdate_def handleAddSharedScheduleTime_def
    handleDeleteSharedScheduleTime_def handleSharedScheduleToggle_def handleSharedScheduleDelete_def Let_def
  by (intro handler_moves moves_intros)+

end
