(* ===== verification/AdminStorage.thy ===== *)
theory AdminStorage
  imports AdminShared
begin

text \<open>
  \<open>internal/admin/server.go\<close>, the pages of storage destinations, notification channels and remote agents. The
  branches on an error of \<open>json.Marshal\<close> are left out: a struct of strings and bools has a JSON text, always.
\<close>

section \<open>Google Drive\<close>

definition zero_target :: StorageTarget where
  "zero_target = \<lparr>st_ID = 0, st_Kind = [], st_Label = [], st_Config = [], st_CreatedAt = [], st_UpdatedAt = []\<rparr>"

definition auth_url :: "('d, 'n, 'q) server \<Rightarrow> string" where
  "auth_url S = or_zero [] (AuthURL (sv_cloud S) (sv_google S) (sv_credentials S))"

definition google_form :: "googleFormData \<Rightarrow> ('d, 'n, 'q) handler" where
  "google_form form = reply (Page (storage_google_html form))"

definition handleStorageGoogleNewForm :: "('d, 'n, 'q) server \<Rightarrow> ('d, 'n, 'q) handler" where
  "handleStorageGoogleNewForm S =
     google_form \<lparr>gd_Editing = False, gd_Action = ''/storage/google'', gd_Target = zero_target,
       gd_AuthURL = auth_url S, gd_Error = []\<rparr>"

text \<open>The row of an id, if it is of the kind whose page it is.\<close>

definition of_kind :: "string \<Rightarrow> StorageTarget option \<Rightarrow> StorageTarget option" where
  "of_kind kind x = (case x of None \<Rightarrow> None | Some t \<Rightarrow> if st_Kind t = kind then Some t else None)"

definition handleStorageGoogleEditForm :: "('d, 'n, 'q) server \<Rightarrow> string \<Rightarrow> ('d, 'n, 'q) handler" where
  "handleStorageGoogleEditForm S v =
     with_id v (\<lambda>i.
     or_500 S (GetStorageTarget i) (\<lambda>x. or_404 (of_kind ''gdrive'' x) (\<lambda>target.
     google_form \<lparr>gd_Editing = True, gd_Action = ''/storage/google/'' @ itoa i, gd_Target = target,
       gd_AuthURL = auth_url S, gd_Error = []\<rparr>)))"

text \<open>
  Both forms exchange the code for a token and put token and address into the configuration; the address
  stays empty if it cannot be read.
\<close>

definition connect_google :: "('d, 'n, 'q) server \<Rightarrow> string \<Rightarrow> (go_error, string, ('d, 'n, 'q) site) op" where
  "connect_google S vcode s =
     (case on_services (Exchange (sv_cloud S) (sv_google S) (sv_credentials S) vcode) s of
        (Inl e, s) \<Rightarrow> (Inl e, s)
      | (Inr tok, s) \<Rightarrow>
          (case on_services (FetchEmail (sv_google S) tok) s of
             (email, s) \<Rightarrow>
               (Inr (json_text (gdrive_json \<lparr>gc_Token = cl_token_json (sv_cloud S) tok, gc_Email = or_zero [] email\<rparr>)), s)))"

definition handleStorageAddGoogle :: "('d, 'n, 'q) server \<Rightarrow> request \<Rightarrow> ('d, 'n, 'q) handler" where
  "handleStorageAddGoogle S r =
     with_form S r (\<lambda>form.
     (let label = TrimSpace (get_value form ''label'');
          vcode = TrimSpace (get_value form ''code'');
          again = (\<lambda>m. google_form \<lparr>gd_Editing = False, gd_Action = ''/storage/google'',
            gd_Target = zero_target\<lparr>st_Label := label\<rparr>, gd_AuthURL = auth_url S, gd_Error = m\<rparr>)
      in if label = [] \<or> vcode = [] then again text_enter_label_code
         else
           or_again S (connect_google S vcode) again (\<lambda>cfg.
           or_again S (on_db (CreateStorageTarget ''gdrive'' label cfg)) again (\<lambda>_.
           reply (RedirectTo 303 ''/storage'')))))"

definition handleStorageUpdateGoogle :: "('d, 'n, 'q) server \<Rightarrow> request \<Rightarrow> string \<Rightarrow> ('d, 'n, 'q) handler" where
  "handleStorageUpdateGoogle S r v =
     with_id v (\<lambda>i.
     or_500 S (GetStorageTarget i) (\<lambda>x. or_404 (of_kind ''gdrive'' x) (\<lambda>target.
     with_form S r (\<lambda>form.
     (let label = TrimSpace (get_value form ''label'');
          vcode = TrimSpace (get_value form ''code'');
          again = (\<lambda>t m. google_form \<lparr>gd_Editing = True, gd_Action = ''/storage/google/'' @ itoa i,
            gd_Target = t, gd_AuthURL = auth_url S, gd_Error = m\<rparr>);
          renamed = target\<lparr>st_Label := label\<rparr>
      in if label = [] then again target text_enter_label
         else
           or_again S (on_db (UpdateStorageTargetLabel i label)) (again target) (\<lambda>_.
           if vcode = [] then reply (RedirectTo 303 ''/storage'')
           else
             or_again S (connect_google S vcode) (again renamed) (\<lambda>cfg.
             or_again S (on_db (UpdateStorageTargetConfig i cfg)) (again renamed) (\<lambda>_.
             reply (RedirectTo 303 ''/storage''))))))))) "

section \<open>S3\<close>

definition s3_form :: "s3FormData \<Rightarrow> ('d, 'n, 'q) handler" where
  "s3_form form = reply (Page (storage_s3_html form))"

definition handleStorageS3NewForm :: "('d, 'n, 'q) handler" where
  "handleStorageS3NewForm =
     s3_form \<lparr>s3d_Editing = False, s3d_Action = ''/storage/s3'', s3d_Target = zero_target, s3d_Config = zero_s3,
       s3d_Error = []\<rparr>"

definition handleStorageS3EditForm :: "('d, 'n, 'q) server \<Rightarrow> string \<Rightarrow> ('d, 'n, 'q) handler" where
  "handleStorageS3EditForm S v =
     with_id v (\<lambda>i.
     or_500 S (GetStorageTarget i) (\<lambda>x. or_404 (of_kind ''s3'' x) (\<lambda>target.
     (case Unmarshal s3_fields zero_s3 (st_Config target) of
        None \<Rightarrow> reply (HttpError 500 (Error (sv_tx S) (JsonError (st_Config target))))
      | Some cfg \<Rightarrow>
          s3_form \<lparr>s3d_Editing = True, s3d_Action = ''/storage/s3/'' @ itoa i, s3d_Target = target,
            s3d_Config = cfg, s3d_Error = []\<rparr>))))"

definition s3_of_form :: "pairs \<Rightarrow> S3Config" where
  "s3_of_form form =
     (let f = (\<lambda>k. TrimSpace (get_value form k)) in
      \<lparr>s3_Endpoint = f ''endpoint'', s3_Region = f ''region'', s3_Bucket = f ''bucket'',
       s3_AccessKey = f ''access_key'', s3_SecretKey = f ''secret_key'',
       s3_UseSSL = (get_value form ''use_ssl'' = ''on''), s3_Prefix = f ''prefix''\<rparr>)"

definition parseS3Form :: "request \<Rightarrow> go_error + (string \<times> S3Config)" where
  "parseS3Form r =
     (case ParseForm r of
        Inl e \<Rightarrow> Inl e | Inr form \<Rightarrow> Inr (TrimSpace (get_value form ''label''), s3_of_form form))"

definition handleStorageAddS3 :: "('d, 'n, 'q) server \<Rightarrow> request \<Rightarrow> ('d, 'n, 'q) handler" where
  "handleStorageAddS3 S r =
     or_fail S 400 (Pair (parseS3Form r)) (\<lambda>(label, cfg).
     (let again = (\<lambda>m. s3_form \<lparr>s3d_Editing = False, s3d_Action = ''/storage/s3'',
            s3d_Target = zero_target\<lparr>st_Label := label\<rparr>, s3d_Config = cfg, s3d_Error = m\<rparr>)
      in if label = [] then again text_enter_s3_label
         else
           or_again S (on_db (CreateStorageTarget ''s3'' label (json_text (s3_json cfg)))) again (\<lambda>_.
           reply (RedirectTo 303 ''/storage''))))"

definition handleStorageUpdateS3 :: "('d, 'n, 'q) server \<Rightarrow> request \<Rightarrow> string \<Rightarrow> ('d, 'n, 'q) handler" where
  "handleStorageUpdateS3 S r v =
     with_id v (\<lambda>i.
     or_500 S (GetStorageTarget i) (\<lambda>x. or_404 (of_kind ''s3'' x) (\<lambda>target.
     or_fail S 400 (Pair (parseS3Form r)) (\<lambda>(label, cfg).
     (let again = (\<lambda>t m. s3_form \<lparr>s3d_Editing = True, s3d_Action = ''/storage/s3/'' @ itoa i,
            s3d_Target = t, s3d_Config = cfg, s3d_Error = m\<rparr>)
      in if label = [] then again target text_enter_label
         else
           or_again S (on_db (UpdateStorageTargetLabelConfig i label (json_text (s3_json cfg))))
             (again (target\<lparr>st_Label := label\<rparr>)) (\<lambda>_.
           reply (RedirectTo 303 ''/storage'')))))))"

definition handleStorageDelete :: "('d, 'n, 'q) server \<Rightarrow> string \<Rightarrow> ('d, 'n, 'q) handler" where
  "handleStorageDelete S v =
     with_id v (\<lambda>i. or_500 S (DeleteStorageTarget i) (\<lambda>_. reply (RedirectTo 303 ''/storage'')))"

section \<open>Notification channels\<close>

definition zero_channel :: NotifyChannel where
  "zero_channel = \<lparr>nc_ID = 0, nc_Kind = [], nc_Label = [], nc_Config = [], nc_CreatedAt = [], nc_UpdatedAt = []\<rparr>"

definition zero_telegram :: telegramConfig where
  "zero_telegram = \<lparr>tc_BotToken = [], tc_ChatID = []\<rparr>"

definition telegram_form :: "telegramFormData \<Rightarrow> ('d, 'n, 'q) handler" where
  "telegram_form form = reply (Page (notify_telegram_html form))"

definition telegram_of :: "NotifyChannel option \<Rightarrow> NotifyChannel option" where
  "telegram_of x = (case x of None \<Rightarrow> None | Some c \<Rightarrow> if nc_Kind c = ''telegram'' then Some c else None)"

definition handleNotifyList :: "('d, 'n, 'q) server \<Rightarrow> ('d, 'n, 'q) handler" where
  "handleNotifyList S =
     or_500 S ListNotifyChannels (\<lambda>channels. reply (Page (notify_channels_html channels)))"

definition handleNotifyTelegramNewForm :: "('d, 'n, 'q) handler" where
  "handleNotifyTelegramNewForm =
     telegram_form \<lparr>td_Editing = False, td_Action = ''/notify/telegram'', td_Channel = zero_channel,
       td_Config = zero_telegram, td_Error = []\<rparr>"

definition handleNotifyTelegramEditForm :: "('d, 'n, 'q) server \<Rightarrow> string \<Rightarrow> ('d, 'n, 'q) handler" where
  "handleNotifyTelegramEditForm S v =
     with_id v (\<lambda>i.
     or_500 S (GetNotifyChannel i) (\<lambda>x. or_404 (telegram_of x) (\<lambda>channel.
     (case Unmarshal telegram_fields zero_telegram (nc_Config channel) of
        None \<Rightarrow> reply (HttpError 500 (Error (sv_tx S) (JsonError (nc_Config channel))))
      | Some cfg \<Rightarrow>
          telegram_form \<lparr>td_Editing = True, td_Action = ''/notify/telegram/'' @ itoa i, td_Channel = channel,
            td_Config = cfg, td_Error = []\<rparr>))))"

definition parseTelegramForm :: "request \<Rightarrow> go_error + (string \<times> telegramConfig)" where
  "parseTelegramForm r =
     (case ParseForm r of
        Inl e \<Rightarrow> Inl e
      | Inr form \<Rightarrow>
          Inr (TrimSpace (get_value form ''label''),
            \<lparr>tc_BotToken = TrimSpace (get_value form ''bot_token''),
             tc_ChatID = TrimSpace (get_value form ''chat_id'')\<rparr>))"

definition telegram_incomplete :: "string \<Rightarrow> telegramConfig \<Rightarrow> bool" where
  "telegram_incomplete label cfg \<longleftrightarrow> label = [] \<or> tc_BotToken cfg = [] \<or> tc_ChatID cfg = []"

definition handleNotifyAddTelegram :: "('d, 'n, 'q) server \<Rightarrow> request \<Rightarrow> ('d, 'n, 'q) handler" where
  "handleNotifyAddTelegram S r =
     or_fail S 400 (Pair (parseTelegramForm r)) (\<lambda>(label, cfg).
     (let again = (\<lambda>m. telegram_form \<lparr>td_Editing = False, td_Action = ''/notify/telegram'',
            td_Channel = zero_channel\<lparr>nc_Label := label\<rparr>, td_Config = cfg, td_Error = m\<rparr>)
      in if telegram_incomplete label cfg then again text_enter_telegram
         else
           or_again S (on_db (CreateNotifyChannel ''telegram'' label (json_text (telegram_json cfg)))) again (\<lambda>_.
           reply (RedirectTo 303 ''/notify''))))"

definition handleNotifyUpdateTelegram :: "('d, 'n, 'q) server \<Rightarrow> request \<Rightarrow> string \<Rightarrow> ('d, 'n, 'q) handler" where
  "handleNotifyUpdateTelegram S r v =
     with_id v (\<lambda>i.
     or_500 S (GetNotifyChannel i) (\<lambda>x. or_404 (telegram_of x) (\<lambda>channel.
     or_fail S 400 (Pair (parseTelegramForm r)) (\<lambda>(label, cfg).
     (let again = (\<lambda>c m. telegram_form \<lparr>td_Editing = True, td_Action = ''/notify/telegram/'' @ itoa i,
            td_Channel = c, td_Config = cfg, td_Error = m\<rparr>)
      in if telegram_incomplete label cfg then again channel text_enter_telegram
         else
           or_again S (on_db (UpdateNotifyChannel i label (json_text (telegram_json cfg))))
             (again (channel\<lparr>nc_Label := label\<rparr>)) (\<lambda>_.
           reply (RedirectTo 303 ''/notify'')))))))"

definition handleNotifyDelete :: "('d, 'n, 'q) server \<Rightarrow> string \<Rightarrow> ('d, 'n, 'q) handler" where
  "handleNotifyDelete S v =
     with_id v (\<lambda>i. or_500 S (DeleteNotifyChannel i) (\<lambda>_. reply (RedirectTo 303 ''/notify'')))"

section \<open>Remote agents\<close>

definition agent_form :: "agentFormData \<Rightarrow> ('d, 'n, 'q) handler" where
  "agent_form form = reply (Page (agent_form_html form))"

definition zero_agent :: RemoteAgent where
  "zero_agent = \<lparr>ra_ID = 0, ra_Label = [], ra_Endpoint = [], ra_Token = [], ra_CertFingerprint = [],
     ra_CreatedAt = [], ra_UpdatedAt = []\<rparr>"

definition handleAgentList :: "('d, 'n, 'q) server \<Rightarrow> ('d, 'n, 'q) handler" where
  "handleAgentList S = or_500 S ListRemoteAgents (\<lambda>agents. reply (Page (agents_html agents)))"

definition handleAgentNewForm :: "('d, 'n, 'q) handler" where
  "handleAgentNewForm =
     agent_form \<lparr>ad_Editing = False, ad_Action = ''/agents'', ad_Agent = zero_agent, ad_Error = []\<rparr>"

definition handleAgentEditForm :: "('d, 'n, 'q) server \<Rightarrow> string \<Rightarrow> ('d, 'n, 'q) handler" where
  "handleAgentEditForm S v =
     with_id v (\<lambda>i.
     or_500 S (GetRemoteAgent i) (\<lambda>x. or_404 x (\<lambda>agent.
     agent_form \<lparr>ad_Editing = True, ad_Action = ''/agents/'' @ itoa i, ad_Agent = agent, ad_Error = []\<rparr>)))"

definition parseAgentForm :: "request \<Rightarrow> go_error + RemoteAgent" where
  "parseAgentForm r =
     (case ParseForm r of
        Inl e \<Rightarrow> Inl e
      | Inr form \<Rightarrow>
          (let f = (\<lambda>k. TrimSpace (get_value form k)) in
           Inr (zero_agent\<lparr>ra_Label := f ''label'', ra_Endpoint := f ''endpoint'', ra_Token := f ''token'',
             ra_CertFingerprint := f ''cert_fingerprint''\<rparr>)))"

definition agent_incomplete :: "RemoteAgent \<Rightarrow> bool" where
  "agent_incomplete a \<longleftrightarrow> ra_Label a = [] \<or> ra_Endpoint a = [] \<or> ra_Token a = [] \<or> ra_CertFingerprint a = []"

definition handleAgentCreate :: "('d, 'n, 'q) server \<Rightarrow> request \<Rightarrow> ('d, 'n, 'q) handler" where
  "handleAgentCreate S r =
     or_fail S 400 (Pair (parseAgentForm r)) (\<lambda>agent.
     (let again = (\<lambda>m. agent_form \<lparr>ad_Editing = False, ad_Action = ''/agents'', ad_Agent = agent, ad_Error = m\<rparr>)
      in if agent_incomplete agent then again text_enter_agent
         else
           or_again S (on_db (CreateRemoteAgent agent)) again (\<lambda>_.
           reply (RedirectTo 303 ''/agents''))))"

definition handleAgentUpdate :: "('d, 'n, 'q) server \<Rightarrow> request \<Rightarrow> string \<Rightarrow> ('d, 'n, 'q) handler" where
  "handleAgentUpdate S r v =
     with_id v (\<lambda>i.
     or_500 S (GetRemoteAgent i) (\<lambda>x. or_404 x (\<lambda>existing.
     or_fail S 400 (Pair (parseAgentForm r)) (\<lambda>agent.
     (let agent = agent\<lparr>ra_ID := i\<rparr>;
          again = (\<lambda>m. agent_form \<lparr>ad_Editing = True, ad_Action = ''/agents/'' @ itoa i, ad_Agent = agent,
            ad_Error = m\<rparr>)
      in if agent_incomplete agent then again text_enter_agent
         else
           or_again S (on_db (UpdateRemoteAgent agent)) again (\<lambda>_.
           reply (RedirectTo 303 ''/agents'')))))))"

definition handleAgentDelete :: "('d, 'n, 'q) server \<Rightarrow> string \<Rightarrow> ('d, 'n, 'q) handler" where
  "handleAgentDelete S v =
     with_id v (\<lambda>i. or_500 S (DeleteRemoteAgent i) (\<lambda>_. reply (RedirectTo 303 ''/agents'')))"

text \<open>The timeout of ten seconds is part of what the network answers.\<close>

definition handleAgentCheck :: "('d, 'n, 'q) server \<Rightarrow> string \<Rightarrow> ('d, 'n, 'q) handler" where
  "handleAgentCheck S v =
     with_id v (\<lambda>i.
     or_500 S (GetRemoteAgent i) (\<lambda>x. or_404 x (\<lambda>agent.
     or_fail S 502
       (on_network (client_Health (sv_agents S)
          (NewClient (ra_Endpoint agent) (ra_Token agent) (ra_CertFingerprint agent)))) (\<lambda>_.
     reply (Status 200)))))"

section \<open>Moves\<close>

lemma keeps_case_option [handler_moves]:
  "keeps_steps h \<Longrightarrow> (\<And>x. keeps_steps (k x)) \<Longrightarrow> keeps_steps (case y of None \<Rightarrow> h | Some x \<Rightarrow> k x)"
  by (cases y) simp_all

lemma keeps_forms [handler_moves]:
  "keeps_steps (google_form g)" "keeps_steps (s3_form x)" "keeps_steps (telegram_form t)" "keeps_steps (agent_form a)"
  by (simp_all add: google_form_def s3_form_def telegram_form_def agent_form_def keeps_reply)

lemma connect_google_steps [handler_moves]:
  fixes S :: "('d, 'n, 'q) server"
  shows "op_steps (connect_google S vcode)"
  unfolding op_steps_def
proof
  fix s :: "('d, 'n, 'q) site"
  obtain x t where x: "on_services (Exchange (sv_cloud S) (sv_google S) (sv_credentials S) vcode) s = (x, t)"
    by fastforce
  with on_services_steps [OF Exchange_moves] have st: "reg_step\<^sup>*\<^sup>* (si_reg s) (si_reg t)"
    by (metis op_steps_def snd_conv)
  have "reg_step\<^sup>*\<^sup>* (si_reg t) (si_reg (snd (on_services (FetchEmail (sv_google S) tok) t)))" for tok
    using on_services_steps [OF FetchEmail_moves] unfolding op_steps_def by blast
  with x st show "reg_step\<^sup>*\<^sup>* (si_reg s) (si_reg (snd (connect_google S vcode s)))"
    by (auto simp: connect_google_def split_beta split: sum.split intro: rtranclp_trans)
qed

lemmas google_handlers =
  handleStorageGoogleNewForm_def handleStorageGoogleEditForm_def handleStorageAddGoogle_def
  handleStorageUpdateGoogle_def

lemmas s3_handlers =
  handleStorageS3NewForm_def handleStorageS3EditForm_def handleStorageAddS3_def handleStorageUpdateS3_def
  handleStorageDelete_def

lemmas notify_handlers =
  handleNotifyList_def handleNotifyTelegramNewForm_def handleNotifyTelegramEditForm_def
  handleNotifyAddTelegram_def handleNotifyUpdateTelegram_def handleNotifyDelete_def

lemmas agent_handlers =
  handleAgentList_def handleAgentNewForm_def handleAgentEditForm_def handleAgentCreate_def
  handleAgentUpdate_def handleAgentDelete_def handleAgentCheck_def

lemma keeps_google [handler_moves]:
  "keeps_steps (handleStorageGoogleNewForm S)" "keeps_steps (handleStorageGoogleEditForm S v)"
  "keeps_steps (handleStorageAddGoogle S r)" "keeps_steps (handleStorageUpdateGoogle S r v)"
  unfolding google_handlers Let_def by (intro handler_moves moves_intros)+

lemma keeps_s3 [handler_moves]:
  "keeps_steps handleStorageS3NewForm" "keeps_steps (handleStorageS3EditForm S v)"
  "keeps_steps (handleStorageAddS3 S r)" "keeps_steps (handleStorageUpdateS3 S r v)"
  "keeps_steps (handleStorageDelete S v)"
  unfolding s3_handlers Let_def by (intro handler_moves moves_intros)+

lemma keeps_notify [handler_moves]:
  "keeps_steps (handleNotifyList S)" "keeps_steps handleNotifyTelegramNewForm"
  "keeps_steps (handleNotifyTelegramEditForm S v)" "keeps_steps (handleNotifyAddTelegram S r)"
  "keeps_steps (handleNotifyUpdateTelegram S r v)" "keeps_steps (handleNotifyDelete S v)"
  unfolding notify_handlers Let_def by (intro handler_moves moves_intros)+

lemma keeps_agents [handler_moves]:
  "keeps_steps (handleAgentList S)" "keeps_steps handleAgentNewForm" "keeps_steps (handleAgentEditForm S v)"
  "keeps_steps (handleAgentCreate S r)" "keeps_steps (handleAgentUpdate S r v)"
  "keeps_steps (handleAgentDelete S v)" "keeps_steps (handleAgentCheck S v)"
  unfolding agent_handlers Let_def by (intro handler_moves moves_intros)+

end
