(* ===== verification/Rfc3339.thy ===== *)
theory Rfc3339
  imports GoTime "HOL-Library.Monad_Syntax"
begin

text \<open>
  \<open>time.Parse(time.RFC3339, s)\<close> as the moment it names, in seconds since the epoch, and the calendar in
  which \<open>Format\<close> shows a moment. A fraction of a second is read and has no influence on what is shown.
\<close>

section \<open>The calendar\<close>

text \<open>Days since 1970-01-01 in the proleptic Gregorian calendar, the year counted from March.\<close>

definition days_of :: "int \<Rightarrow> int \<Rightarrow> int \<Rightarrow> int" where
  "days_of y m d =
     (let y = (if m \<le> 2 then y - 1 else y);
          yoe = y mod 400;
          doy = (153 * (if 2 < m then m - 3 else m + 9) + 2) div 5 + d - 1
      in (y div 400) * 146097 + yoe * 365 + yoe div 4 - yoe div 100 + doy - 719468)"

definition date_of :: "int \<Rightarrow> int \<times> int \<times> int" where
  "date_of days =
     (let z = days + 719468; doe = z mod 146097;
          yoe = (doe - doe div 1460 + doe div 36524 - doe div 146096) div 365;
          doy = doe - (365 * yoe + yoe div 4 - yoe div 100);
          mp = (5 * doy + 2) div 153;
          m = (if mp < 10 then mp + 3 else mp - 9)
      in (yoe + (z div 146097) * 400 + (if m \<le> 2 then 1 else 0), m, doy - (153 * mp + 2) div 5 + 1))"

definition civil_at :: "int \<Rightarrow> civil" where
  "civil_at u =
     (let (y, m, d) = date_of (u div 86400); s = u mod 86400 in
      \<lparr>c_year = nat y, c_month = nat m, c_day = nat d, c_hour = nat (s div 3600),
       c_minute = nat (s div 60 mod 60), c_second = nat (s mod 60)\<rparr>)"

text \<open>\<open>time.LoadLocation\<close> gives the seconds from UTC at a moment, and \<open>Time.In\<close> shows a moment there.\<close>

type_synonym zones = "string \<Rightarrow> string + (int \<Rightarrow> int)"

definition in_zone :: "(int \<Rightarrow> int) \<Rightarrow> int \<Rightarrow> civil" where
  "in_zone off t = civil_at (t + off t)"

definition leap :: "nat \<Rightarrow> bool" where
  "leap y \<longleftrightarrow> y mod 4 = 0 \<and> (y mod 100 \<noteq> 0 \<or> y mod 400 = 0)"

definition days_in :: "nat \<Rightarrow> nat \<Rightarrow> nat" where
  "days_in m y =
     (if m = 2 then (if leap y then 29 else 28) else if m \<in> {4, 6, 9, 11} then 30 else 31)"

section \<open>Parsing\<close>

definition lit :: "char \<Rightarrow> string \<Rightarrow> string option" where
  "lit c s = (case s of [] \<Rightarrow> None | x # t \<Rightarrow> if x = c then Some t else None)"

definition require :: "bool \<Rightarrow> unit option" where
  "require b = (if b then Some () else None)"

definition year4 :: "string \<Rightarrow> (nat \<times> string) option" where
  "year4 s =
     (if 4 \<le> length s \<and> list_all is_digit (take 4 s)
      then Some (foldl (\<lambda>n c. 10 * n + digit_val c) 0 (take 4 s), drop 4 s) else None)"

text \<open>A fraction may follow the seconds though the layout has none, behind a point or a comma.\<close>

definition skip_fraction :: "string \<Rightarrow> string" where
  "skip_fraction s =
     (case s of
        p # d # t \<Rightarrow> if (p = CHR ''.'' \<or> p = CHR '','') \<and> is_digit d then dropWhile is_digit t else s
      | _ \<Rightarrow> s)"

definition zone_offset :: "string \<Rightarrow> (int \<times> string) option" where
  "zone_offset s =
     (if HasPrefix s ''Z'' then Some (0, tl s)
      else do {
        require (6 \<le> length s \<and> s ! 3 = CHR '':'');
        (h, _) \<leftarrow> getnum (take 2 (drop 1 s)) True;
        (m, _) \<leftarrow> getnum (take 2 (drop 4 s)) True;
        require (h \<le> 24 \<and> m \<le> 60);
        require (s ! 0 = CHR ''+'' \<or> s ! 0 = CHR ''-'');
        Some ((if s ! 0 = CHR ''-'' then - 1 else 1) * (int h * 3600 + int m * 60), drop 6 s)
      })"

definition Parse_RFC3339 :: "string \<Rightarrow> int option" where
  "Parse_RFC3339 s = do {
     (y, s) \<leftarrow> year4 s; s \<leftarrow> lit (CHR ''-'') s;
     (mo, s) \<leftarrow> getnum s True; require (1 \<le> mo \<and> mo \<le> 12); s \<leftarrow> lit (CHR ''-'') s;
     (d, s) \<leftarrow> getnum s True; s \<leftarrow> lit (CHR ''T'') s;
     (h, s) \<leftarrow> getnum s False; require (h < 24); s \<leftarrow> lit (CHR '':'') s;
     (mi, s) \<leftarrow> getnum s True; require (mi < 60); s \<leftarrow> lit (CHR '':'') s;
     (sec, s) \<leftarrow> getnum s True; require (sec < 60);
     (off, s) \<leftarrow> zone_offset (skip_fraction s);
     require (s = [] \<and> 1 \<le> d \<and> d \<le> days_in mo y);
     Some (days_of (int y) (int mo) (int d) * 86400 + int h * 3600 + int mi * 60 + int sec - off)
   }"

end
