(* ===== verification/AdminLogs.thy ===== *)
theory AdminLogs
  imports AdminStorage Rfc3339
begin

text \<open>
  \<open>internal/admin/server.go\<close>, the pages of the run log, of the files of a database and of the destinations,
  and the download of a file.
\<close>

section \<open>Timestamps\<close>

definition formatTimestamp :: "('d, 'n, 'q) server \<Rightarrow> string \<Rightarrow> string" where
  "formatTimestamp S raw =
     (case Parse_RFC3339 raw of
        None \<Rightarrow> raw
      | Some u \<Rightarrow>
          (let off = (case sv_zones S (sv_timezone S) of None \<Rightarrow> (\<lambda>_. 0) | Some f \<Rightarrow> f) in
           format_datetime (civil_at (u + off u))))"

definition handleStorageList :: "('d, 'n, 'q) server \<Rightarrow> ('d, 'n, 'q) handler" where
  "handleStorageList S =
     or_500 S ListStorageTargets (\<lambda>targets.
     reply (Page (storage_html
       (map (\<lambda>t. \<lparr>tv_StorageTarget = t, tv_CreatedAtDisplay = formatTimestamp S (st_CreatedAt t)\<rparr>) targets))))"

section \<open>The log\<close>

definition status_filter :: "request \<Rightarrow> string" where
  "status_filter r = (let status = get_value (URL_Query r) ''status'' in if status = ''error'' then status else [])"

definition log_query :: "request \<Rightarrow> string" where
  "log_query r = TrimSpace (get_value (URL_Query r) ''q'')"

definition logs_url :: "pairs \<Rightarrow> string" where
  "logs_url params = (if params = [] then ''/logs'' else ''/logs?'' @ Encode params)"

definition filter_params :: "string \<Rightarrow> string \<Rightarrow> pairs" where
  "filter_params status q =
     (if status = [] then [] else [(''status'', status)]) @ (if q = [] then [] else [(''q'', q)])"

definition toggle_params :: "string \<Rightarrow> string \<Rightarrow> pairs" where
  "toggle_params status q =
     (if q = [] then [] else [(''q'', q)]) @ (if status = ''error'' then [] else [(''status'', ''error'')])"

definition run_view :: "BackupRun \<Rightarrow> logRunView" where
  "run_view b = \<lparr>rv_BackupRun = b, rv_Duration = run_duration (br_DurationMS b)\<rparr>"

definition handleLogs :: "('d, 'n, 'q) server \<Rightarrow> request \<Rightarrow> ('d, 'n, 'q) handler" where
  "handleLogs S r =
     (let status = status_filter r; q = log_query r; limit = c_LogListLimit (sv_cfg S) in
      or_500 S (CountBackupRuns status q) (\<lambda>rows.
      let pagination = newPagination (fst (Atoi (get_value (URL_Query r) ''page''))) rows limit
            (logs_url (filter_params status q)) in
      or_500 S (ListBackupRuns limit (Offset pagination limit) status q) (\<lambda>runs.
      reply (Page (logs_html
        \<lparr>ld_Runs = map run_view runs, ld_Pagination = pagination, ld_Status = status, ld_Query = q,
         ld_ToggleStatusURL = logs_url (toggle_params status q)\<rparr>)))))"

definition handleLogsClear :: "('d, 'n, 'q) server \<Rightarrow> ('d, 'n, 'q) handler" where
  "handleLogsClear S = or_500 S DeleteAllBackupRuns (\<lambda>_. reply (RedirectTo 303 ''/logs''))"

section \<open>Files\<close>

definition fileListLimit :: int where
  "fileListLimit = 200"

definition file_view :: "('d, 'n, 'q) server \<Rightarrow> BackupFile \<Rightarrow> backupFileView option" where
  "file_view S f =
     (case humanSize (bf_SizeBytes f) of
        None \<Rightarrow> None
      | Some disp \<Rightarrow> Some \<lparr>fv_BackupFile = f, fv_SizeDisplay = disp,
          fv_CreatedAtDisplay = formatTimestamp S (bf_CreatedAt f)\<rparr>)"

definition handleDatabaseFiles :: "('d, 'n, 'q) server \<Rightarrow> string \<Rightarrow> ('d, 'n, 'q) handler" where
  "handleDatabaseFiles S v =
     with_id v (\<lambda>i.
     or_500 S (reg_Get i) (\<lambda>x. or_404 x (\<lambda>d.
     or_500 S (ListBackupFilesByDatabase i fileListLimit) (\<lambda>files.
     (case those (map (file_view S) files) of
        None \<Rightarrow> reply Aborted
      | Some views \<Rightarrow> reply (Page (database_files_html d views fileListLimit)))))))"

definition answer_download :: "('d, 'n, 'q) server \<Rightarrow> BackupFile \<Rightarrow> download \<Rightarrow> response" where
  "answer_download S f x =
     (case x of
        Redirect u \<Rightarrow> if u \<noteq> [] then RedirectTo 302 u else Aborted
      | Content body contentType \<Rightarrow>
          Attachment contentType (''attachment; filename='' @ quote (sv_tx S) (bf_Filename f)) body)"

definition handleDatabaseFileDownload :: "('d, 'n, 'q) server \<Rightarrow> string \<Rightarrow> ('d, 'n, 'q) handler" where
  "handleDatabaseFileDownload S v s =
     (case ParseInt v of
        (i, Some e) \<Rightarrow> (HttpError 400 ''invalid file id'', s)
      | (i, None) \<Rightarrow>
          or_500 S (GetBackupFile i) (\<lambda>x. or_404 x (\<lambda>f.
          or_500 S (GetStorageTarget (bf_StorageTargetID f)) (\<lambda>y.
          (case y of
             None \<Rightarrow> reply (HttpError 410 text_target_gone)
           | Some target \<Rightarrow>
               or_fail S 500 (on_services (storage_Build (sv_cloud S) (sv_cfg S) target)) (\<lambda>provider.
               or_fail S 502 (on_services (provider_Download (sv_cloud S) provider (bf_RemoteRef f))) (\<lambda>content.
               reply (answer_download S f content))))))) s)"

section \<open>Moves\<close>

lemma keeps_logs [handler_moves]:
  "keeps_steps (handleStorageList S)" "keeps_steps (handleLogs S r)" "keeps_steps (handleLogsClear S)"
  "keeps_steps (handleDatabaseFiles S v)"
  unfolding handleStorageList_def handleLogs_def handleLogsClear_def handleDatabaseFiles_def Let_def
  by (intro handler_moves moves_intros)+

lemma keeps_download [handler_moves]: "keeps_steps (handleDatabaseFileDownload S v)"
proof -
  have "keeps_steps (or_500 S (GetBackupFile i) (\<lambda>x. or_404 x (\<lambda>f.
          or_500 S (GetStorageTarget (bf_StorageTargetID f)) (\<lambda>y.
          (case y of
             None \<Rightarrow> reply (HttpError 410 text_target_gone)
           | Some target \<Rightarrow>
               or_fail S 500 (on_services (storage_Build (sv_cloud S) (sv_cfg S) target)) (\<lambda>provider.
               or_fail S 502 (on_services (provider_Download (sv_cloud S) provider (bf_RemoteRef f))) (\<lambda>content.
               reply (answer_download S f content))))))))" for i
    by (intro handler_moves moves_intros reg_requests.storage_Build_moves reg_requests.provider_Download_moves)
  then show ?thesis
    by (simp add: keeps_steps_def handleDatabaseFileDownload_def split: prod.split option.split)
qed

end
