(* ===== verification/Mux.thy ===== *)
theory Mux
  imports Web
begin

text \<open>
  The way \<open>net/http\<close>'s \<open>ServeMux\<close> picks the handler of a request, for the web interface and for the agent.
\<close>

section \<open>Patterns\<close>

text \<open>
  \<open>{id}\<close> is \<open>Wild\<close>, the slash that ends \<open>/static/\<close> is \<open>Multi\<close>, and \<open>{$}\<close> stands for the slash that ends the
  path, which the mux keeps as a segment of its own.
\<close>

datatype pat = Lit string | Wild | Multi

fun path_match :: "pat list \<Rightarrow> string list \<Rightarrow> string list option" where
  "path_match [] [] = Some []"
| "path_match (Lit l # ps) (s # ss) = (if s = l then path_match ps ss else None)"
| "path_match (Wild # ps) (s # ss) = (if s = ''/'' then None else map_option (Cons s) (path_match ps ss))"
| "path_match (Multi # ps) (s # ss) = Some []"
| "path_match [] (s # ss) = None"
| "path_match (p # ps) [] = None"

definition path_elem :: "string \<Rightarrow> string" where
  "path_elem e = (case PathUnescape e of Inl _ \<Rightarrow> e | Inr u \<Rightarrow> u)"

definition path_elems :: "string \<Rightarrow> string list" where
  "path_elems p =
     (let es = Split (CHR ''/'') (tl p) in
      map path_elem (butlast es) @ [if last es = [] then ''/'' else path_elem (last es)])"

definition cleanPath :: "string \<Rightarrow> string" where
  "cleanPath p =
     (if p = [] then ''/''
      else
        (let p = (if HasPrefix p ''/'' then p else CHR ''/'' # p); np = Clean p in
         if last p = CHR ''/'' \<and> np \<noteq> ''/'' then np @ ''/'' else np))"

section \<open>The mux\<close>

type_synonym 'h mux_route = "string \<times> pat list \<times> (string list \<Rightarrow> 'h)"

definition route_method :: "string \<Rightarrow> string" where
  "route_method m = (if m = ''HEAD'' then ''GET'' else m)"

text \<open>The first route that matches: that there is at most one is a property of the routes.\<close>

definition pick :: "'h mux_route list \<Rightarrow> string \<Rightarrow> string list \<Rightarrow> (pat list \<times> 'h) option" where
  "pick rs m es =
     (case find (\<lambda>(m', ps, h). m' = m \<and> path_match ps es \<noteq> None) rs of
        None \<Rightarrow> None
      | Some (_, ps, h) \<Rightarrow> Some (ps, h (the (path_match ps es))))"

definition ends_in_slash :: "string \<Rightarrow> bool" where
  "ends_in_slash p \<longleftrightarrow> p \<noteq> [] \<and> last p = CHR ''/''"

definition other_methods :: "'h mux_route list \<Rightarrow> string \<Rightarrow> bool" where
  "other_methods rs p =
     list_ex (\<lambda>(m, ps, h). path_match ps (path_elems p) \<noteq> None \<or>
       (\<not> ends_in_slash p \<and> path_match ps (path_elems (p @ ''/'')) \<noteq> None)) rs"

text \<open>A path that lacks the slash of the route it would match exactly is redirected to the path with it.\<close>

definition slash_missing :: "'h mux_route list \<Rightarrow> string \<Rightarrow> string \<Rightarrow> bool" where
  "slash_missing rs m p =
     (\<not> ends_in_slash p \<and>
      (case pick rs m (path_elems (p @ ''/'')) of
         None \<Rightarrow> False | Some (ps, _) \<Rightarrow> length ps = length (path_elems (p @ ''/''))))"

text \<open>What the mux makes of a request.\<close>

datatype 'h routed = Served 'h | RedirectPath string string | BadMethod | NoRoute

definition dispatch_to :: "'h mux_route list \<Rightarrow> request \<Rightarrow> 'h routed" where
  "dispatch_to rs r =
     (let m = route_method (hr_Method r);
          p = (if m = ''CONNECT'' then hr_Path r else cleanPath (hr_Path r))
      in case pick rs m (path_elems p) of
           None \<Rightarrow>
             if slash_missing rs m p then RedirectPath (cleanPath (url_path r) @ ''/'') (hr_RawQuery r)
             else if p \<noteq> hr_Path r then RedirectPath p (hr_RawQuery r)
             else if other_methods rs p then BadMethod
             else NoRoute
         | Some (_, h) \<Rightarrow> if p \<noteq> hr_Path r then RedirectPath p (hr_RawQuery r) else Served h)"

section \<open>Elements of a path\<close>

lemma path_elems_slash:
  assumes "CHR ''/'' \<notin> set a"
  shows "path_elems (CHR ''/'' # a @ CHR ''/'' # b) = path_elem a # path_elems (CHR ''/'' # b)"
  using assms by (simp add: path_elems_def Split_append Let_def)

lemma path_elems_one:
  assumes "CHR ''/'' \<notin> set a"
  shows "path_elems (CHR ''/'' # a) = [if a = [] then ''/'' else path_elem a]"
  using assms by (simp add: path_elems_def Split_no_sep)

lemma path_elems_ne: "path_elems p \<noteq> []"
  by (simp add: path_elems_def Let_def)

end
