(* ===== verification/AdminServer.thy ===== *)
theory AdminServer
  imports AdminLogs Mux
begin

text \<open>
  \<open>Server.Handler\<close>: the routes of the web interface and the gate in front of them.
\<close>

section \<open>The routes\<close>

definition routes :: "('d, 'n, 'q) server \<Rightarrow> request \<Rightarrow> ('d, 'n, 'q) handler mux_route list" where
  "routes S r =
    [(''GET'', [Lit ''static'', Multi], \<lambda>a. reply (Static (drop 8 (url_path r)))),
     (''GET'', [Lit ''login''], \<lambda>a. handleLoginForm S r),
     (''POST'', [Lit ''login''], \<lambda>a. handleLoginSubmit S r),
     (''GET'', [Lit ''logout''], \<lambda>a. handleLogout S r),
     (''GET'', [Lit ''/''], \<lambda>a. handleList S),
     (''GET'', [Lit ''new''], \<lambda>a. handleNewForm S r),
     (''POST'', [Lit ''new''], \<lambda>a. handleCreate S r),
     (''GET'', [Lit ''edit'', Wild], \<lambda>a. handleEditForm S (a ! 0)),
     (''POST'', [Lit ''edit'', Wild], \<lambda>a. handleUpdate S r (a ! 0)),
     (''POST'', [Lit ''delete'', Wild], \<lambda>a. handleDelete S (a ! 0)),
     (''POST'', [Lit ''toggle'', Wild], \<lambda>a. handleToggle S (a ! 0)),
     (''POST'', [Lit ''backup-now'', Wild], \<lambda>a. handleBackupNow S (a ! 0)),
     (''POST'', [Lit ''databases'', Wild, Lit ''schedules''], \<lambda>a. handleAddSchedule S r (a ! 0)),
     (''POST'', [Lit ''schedules'', Wild, Lit ''delete''], \<lambda>a. handleDeleteSchedule S (a ! 0)),
     (''GET'', [Lit ''shared-schedules''], \<lambda>a. handleSharedScheduleList S),
     (''GET'', [Lit ''shared-schedules'', Lit ''new''], \<lambda>a. handleSharedScheduleNewForm S),
     (''POST'', [Lit ''shared-schedules''], \<lambda>a. handleSharedScheduleCreate S r),
     (''GET'', [Lit ''shared-schedules'', Wild, Lit ''edit''], \<lambda>a. handleSharedScheduleEditForm S (a ! 0)),
     (''POST'', [Lit ''shared-schedules'', Wild], \<lambda>a. handleSharedScheduleUpdate S r (a ! 0)),
     (''POST'', [Lit ''shared-schedules'', Wild, Lit ''toggle''], \<lambda>a. handleSharedScheduleToggle S (a ! 0)),
     (''POST'', [Lit ''shared-schedules'', Wild, Lit ''delete''], \<lambda>a. handleSharedScheduleDelete S (a ! 0)),
     (''POST'', [Lit ''shared-schedules'', Wild, Lit ''times''], \<lambda>a. handleAddSharedScheduleTime S r (a ! 0)),
     (''POST'', [Lit ''shared-schedule-times'', Wild, Lit ''delete''],
        \<lambda>a. handleDeleteSharedScheduleTime S (a ! 0)),
     (''GET'', [Lit ''storage''], \<lambda>a. handleStorageList S),
     (''GET'', [Lit ''storage'', Lit ''google'', Lit ''new''], \<lambda>a. handleStorageGoogleNewForm S),
     (''POST'', [Lit ''storage'', Lit ''google''], \<lambda>a. handleStorageAddGoogle S r),
     (''GET'', [Lit ''storage'', Lit ''google'', Wild, Lit ''edit''], \<lambda>a. handleStorageGoogleEditForm S (a ! 0)),
     (''POST'', [Lit ''storage'', Lit ''google'', Wild], \<lambda>a. handleStorageUpdateGoogle S r (a ! 0)),
     (''POST'', [Lit ''storage'', Lit ''google'', Wild, Lit ''delete''], \<lambda>a. handleStorageDelete S (a ! 0)),
     (''GET'', [Lit ''storage'', Lit ''s3'', Lit ''new''], \<lambda>a. handleStorageS3NewForm),
     (''POST'', [Lit ''storage'', Lit ''s3''], \<lambda>a. handleStorageAddS3 S r),
     (''GET'', [Lit ''storage'', Lit ''s3'', Wild, Lit ''edit''], \<lambda>a. handleStorageS3EditForm S (a ! 0)),
     (''POST'', [Lit ''storage'', Lit ''s3'', Wild], \<lambda>a. handleStorageUpdateS3 S r (a ! 0)),
     (''POST'', [Lit ''storage'', Lit ''s3'', Wild, Lit ''delete''], \<lambda>a. handleStorageDelete S (a ! 0)),
     (''GET'', [Lit ''notify''], \<lambda>a. handleNotifyList S),
     (''GET'', [Lit ''notify'', Lit ''telegram'', Lit ''new''], \<lambda>a. handleNotifyTelegramNewForm),
     (''POST'', [Lit ''notify'', Lit ''telegram''], \<lambda>a. handleNotifyAddTelegram S r),
     (''GET'', [Lit ''notify'', Lit ''telegram'', Wild, Lit ''edit''], \<lambda>a. handleNotifyTelegramEditForm S (a ! 0)),
     (''POST'', [Lit ''notify'', Lit ''telegram'', Wild], \<lambda>a. handleNotifyUpdateTelegram S r (a ! 0)),
     (''POST'', [Lit ''notify-channels'', Wild, Lit ''delete''], \<lambda>a. handleNotifyDelete S (a ! 0)),
     (''GET'', [Lit ''logs''], \<lambda>a. handleLogs S r),
     (''POST'', [Lit ''logs'', Lit ''clear''], \<lambda>a. handleLogsClear S),
     (''GET'', [Lit ''agents''], \<lambda>a. handleAgentList S),
     (''GET'', [Lit ''agents'', Lit ''new''], \<lambda>a. handleAgentNewForm),
     (''POST'', [Lit ''agents''], \<lambda>a. handleAgentCreate S r),
     (''GET'', [Lit ''agents'', Wild, Lit ''edit''], \<lambda>a. handleAgentEditForm S (a ! 0)),
     (''POST'', [Lit ''agents'', Wild], \<lambda>a. handleAgentUpdate S r (a ! 0)),
     (''POST'', [Lit ''agents'', Wild, Lit ''delete''], \<lambda>a. handleAgentDelete S (a ! 0)),
     (''POST'', [Lit ''agents'', Wild, Lit ''check''], \<lambda>a. handleAgentCheck S (a ! 0)),
     (''GET'', [Lit ''databases'', Wild, Lit ''files''], \<lambda>a. handleDatabaseFiles S (a ! 0)),
     (''GET'', [Lit ''databases'', Wild, Lit ''files'', Wild, Lit ''download''],
        \<lambda>a. handleDatabaseFileDownload S (a ! 1))]"

section \<open>The handler\<close>

definition ServeHTTP :: "('d, 'n, 'q) server \<Rightarrow> request \<Rightarrow> ('d, 'n, 'q) handler" where
  "ServeHTTP S r s =
     (case dispatch_to (routes S r) r of
        Served h \<Rightarrow> h s
      | RedirectPath p q \<Rightarrow> (Moved p q, s)
      | BadMethod \<Rightarrow> (HttpError 405 ''Method Not Allowed'', s)
      | NoRoute \<Rightarrow> (NotFound, s))"

definition Handler :: "('d, 'n, 'q) server \<Rightarrow> request \<Rightarrow> ('d, 'n, 'q) handler" where
  "Handler S = requireAuth S (ServeHTTP S)"

section \<open>Moves\<close>

lemma routes_keep: "(m, ps, h) \<in> set (routes S r) \<Longrightarrow> keeps_steps (h a)"
  unfolding routes_def
  by (simp only: list.set insert_iff empty_iff prod.inject) (elim disjE conjE; (simp only:; intro handler_moves)?)

end
