(* ===== verification/AdminGate.thy ===== *)
theory AdminGate
  imports AdminServer
begin

text \<open>
  Properties of the frame of the web interface: its gate, its sessions, its login and its routes.
\<close>

section \<open>The gate\<close>

text \<open>A session that lets a request in, and the answers a stranger can get.\<close>

definition has_session :: "request \<Rightarrow> sessions \<Rightarrow> bool" where
  "has_session r m = (case session_cookie r of None \<Rightarrow> False | Some v \<Rightarrow> fst (session_valid (hr_now r) v m))"

fun public :: "response \<Rightarrow> bool" where
  "public (Page p) = (\<exists>d. p = login_html d)"
| "public (RedirectTo c u) = HasPrefix u ''/''"
| "public (Attachment t n c) = False"
| "public (WithCookie c x) = public x"
| "public x = True"

definition same_but_sessions :: "('d, 'n, 'q) site \<Rightarrow> ('d, 'n, 'q) site \<Rightarrow> bool" where
  "same_but_sessions s t \<longleftrightarrow> si_ds t = si_ds s \<and> si_net t = si_net s \<and> si_q t = si_q s"

definition harmless :: "('d, 'n, 'q) handler \<Rightarrow> bool" where
  "harmless h \<longleftrightarrow> (\<forall>s. public (fst (h s)) \<and> same_but_sessions s (snd (h s)))"

lemma check_session_fields [simp]:
  "si_ds (snd (check_session r v s)) = si_ds s" "si_net (snd (check_session r v s)) = si_net s"
  "si_q (snd (check_session r v s)) = si_q s"
  by (simp_all add: check_session_def split_beta)

lemma home_is_here [simp]: "HasPrefix (or_home (sanitizeNext x)) ''/''"
  by (simp add: or_home_def sanitizeNext_def)

lemma form_harmless: "harmless (handleLoginForm S r)"
  by (simp add: harmless_def handleLoginForm_def same_but_sessions_def split_beta Let_def split: option.split)

lemma submit_harmless: "harmless (handleLoginSubmit S r)"
  by (simp add: harmless_def handleLoginSubmit_def with_form_def same_but_sessions_def split_beta Let_def
      split: sum.split)

lemma logout_harmless: "harmless (handleLogout S r)"
  by (simp add: harmless_def handleLogout_def same_but_sessions_def split: option.split)

lemma static_harmless: "harmless (reply (Static p))"
  by (simp add: harmless_def same_but_sessions_def)

lemmas login_harmless = form_harmless submit_harmless logout_harmless static_harmless

text \<open>What an open path can match: a slash in an element comes only from an escape of it.\<close>

lemma prefix_separator:
  assumes "x @ c # y = w @ c # t" and "c \<notin> set w"
  shows "x = w \<or> (\<exists>v. x = w @ c # v)"
proof -
  from assms(1) obtain us where "x = w @ us \<and> us @ c # y = c # t \<or> x @ us = w \<and> c # y = us @ c # t"
    by (auto simp: append_eq_append_conv2)
  then show ?thesis
  proof
    assume "x = w @ us \<and> us @ c # y = c # t"
    then show ?thesis by (cases us) auto
  next
    assume "x @ us = w \<and> c # y = us @ c # t"
    with assms(2) show ?thesis by (cases us) auto
  qed
qed

lemma static_prefix:
  assumes "HasPrefix (x @ CHR ''/'' # y) ''static/''"
  shows "x = ''static'' \<or> HasPrefix x ''static/''"
proof -
  from assms obtain t where "x @ CHR ''/'' # y = ''static'' @ CHR ''/'' # t" by (auto simp: HasPrefix_iff)
  from prefix_separator [OF this] show ?thesis by (auto simp: HasPrefix_iff)
qed

lemma open_elems:
  assumes "delivered r" and "open_path (url_path r)"
  shows "path_elems (hr_Path r) \<in> {[''login''], [''logout'']} \<or>
    (\<exists>e es. path_elems (hr_Path r) = e # es \<and> (e = ''static'' \<or> HasPrefix e ''static/''))"
proof -
  from assms(1) obtain q where q: "hr_Path r = CHR ''/'' # q"
    by (auto simp: delivered_def HasPrefix_iff)
  with assms(1) obtain u where u: "PathUnescape q = Inr u" "url_path r = CHR ''/'' # u"
    by (auto simp: delivered_def url_path_def is_ok_def split: sum.splits)
  with assms(2) have o: "u = ''login'' \<or> u = ''logout'' \<or> HasPrefix u ''static/''"
    by (simp add: open_path_def)
  show ?thesis
  proof (cases "CHR ''/'' \<in> set q")
    case False
    with q have "path_elems (hr_Path r) = [if q = [] then ''/'' else path_elem q]" by (simp add: path_elems_one)
    moreover have "q \<noteq> []" using u(1) o by auto
    ultimately show ?thesis using u(1) o by (auto simp: path_elem_def)
  next
    case True
    then obtain a b where ab: "q = a @ CHR ''/'' # b" "CHR ''/'' \<notin> set a" by (metis split_list_first)
    with u(1) obtain ua ub where ua: "PathUnescape a = Inr ua" "u = ua @ CHR ''/'' # ub"
      by (metis unescape_slash)
    then have "CHR ''/'' \<in> set u" by simp
    with o have "HasPrefix u ''static/''" by auto
    with ua(2) have "ua = ''static'' \<or> HasPrefix ua ''static/''" by (simp add: static_prefix)
    moreover have "path_elems (hr_Path r) = ua # path_elems (CHR ''/'' # b)"
      using q ab ua(1) by (simp add: path_elems_slash path_elem_def)
    ultimately show ?thesis by blast
  qed
qed

lemma pick_Some:
  assumes "pick rs m es = Some (ps, h)"
  shows "\<exists>h' a. (m, ps, h') \<in> set rs \<and> path_match ps es = Some a \<and> h = h' a"
proof -
  from assms obtain m' h' where f: "find (\<lambda>(m', ps, h). m' = m \<and> path_match ps es \<noteq> None) rs = Some (m', ps, h')"
    and h: "h = h' (the (path_match ps es))"
    by (auto simp: pick_def split: option.splits)
  from find_Some_mem [OF f] h show ?thesis by auto
qed

lemma only_open_routes:
  assumes "es \<in> {[''login''], [''logout'']} \<or> (\<exists>e es'. es = e # es' \<and> (e = ''static'' \<or> HasPrefix e ''static/''))"
  shows "list_all (\<lambda>(m, ps, h). path_match ps es = None) (drop 4 (routes S r))"
proof -
  from assms consider "es = [''login'']" | "es = [''logout'']" | es' where "es = ''static'' # es'"
    | t es' where "es = (''static/'' @ t) # es'"
    by (auto simp: HasPrefix_iff)
  then show ?thesis by cases (simp_all add: routes_def)
qed

lemma pick_open:
  assumes "pick (routes S r) m es = Some (ps, h)"
    and "es \<in> {[''login''], [''logout'']} \<or> (\<exists>e es'. es = e # es' \<and> (e = ''static'' \<or> HasPrefix e ''static/''))"
  shows "harmless h"
proof -
  from pick_Some [OF assms(1)] obtain h' a where
    h: "(m, ps, h') \<in> set (routes S r)" "path_match ps es = Some a" "h = h' a" by blast
  have "\<forall>x \<in> set (drop 4 (routes S r)). case x of (m, ps, h) \<Rightarrow> path_match ps es = None"
    using only_open_routes [OF assms(2), of S r] by (simp add: list_all_iff)
  with h(2) have "(m, ps, h') \<notin> set (drop 4 (routes S r))" by fastforce
  with h(1) have "(m, ps, h') \<in> set (take 4 (routes S r))"
    by (metis Un_iff append_take_drop_id set_append)
  with h(3) show ?thesis by (auto simp: routes_def login_harmless)
qed

lemma ServeHTTP_open:
  assumes "delivered r" and "open_path (url_path r)"
  shows "harmless (ServeHTTP S r)"
proof -
  have out: "public (Moved x y)" "public (HttpError i x)" "public NotFound" "same_but_sessions s s" for x y i s
    by (simp_all add: same_but_sessions_def)
  show ?thesis
    unfolding harmless_def
  proof
    fix s
    let ?m = "route_method (hr_Method r)"
    let ?p = "if ?m = ''CONNECT'' then hr_Path r else cleanPath (hr_Path r)"
    show "public (fst (ServeHTTP S r s)) \<and> same_but_sessions s (snd (ServeHTTP S r s))"
    proof (cases "?p = hr_Path r \<and> pick (routes S r) ?m (path_elems ?p) \<noteq> None")
      case True
      then obtain ps h where p: "pick (routes S r) ?m (path_elems (hr_Path r)) = Some (ps, h)" by auto
      have "harmless h" by (rule pick_open [OF p open_elems [OF assms]])
      with True p show ?thesis by (simp add: ServeHTTP_def dispatch_to_def harmless_def Let_def split: if_splits)
    next
      case False
      then show ?thesis by (auto simp: ServeHTTP_def dispatch_to_def out Let_def split: option.split)
    qed
  qed
qed

text \<open>
  C8. The gate is shut: whoever has no valid session, whatever the request, gets no page but the login form, no
  file but the static ones and no redirect but to a path, and changes nothing but the sessions: not the
  registry, not the queue, not a storage service, and no agent is asked.
\<close>

theorem gate_is_shut:
  assumes "delivered r" and "\<not> has_session r (si_sessions s)" and "Handler S r s = (x, s')"
  shows "public x \<and> same_but_sessions s s'"
proof -
  have out: "public (redirectToLogin r)" "same_but_sessions s s"
    by (simp_all add: redirectToLogin_def same_but_sessions_def Let_def)
  consider "disabled S" | "\<not> disabled S" "open_path (url_path r)" | "\<not> disabled S" "\<not> open_path (url_path r)" by blast
  then have "public (fst (Handler S r s)) \<and> same_but_sessions s (snd (Handler S r s))"
  proof cases
    case 1
    then show ?thesis by (simp add: Handler_def requireAuth_def out)
  next
    case 2
    with ServeHTTP_open [OF assms(1) 2(2), of S] show ?thesis by (simp add: Handler_def requireAuth_def harmless_def)
  next
    case 3
    show ?thesis
    proof (cases "session_cookie r")
      case None
      with 3 show ?thesis by (simp add: Handler_def requireAuth_def out)
    next
      case (Some v)
      with assms(2) have "\<not> fst (check_session r v s)"
        by (simp add: has_session_def check_session_def split_beta)
      moreover have "same_but_sessions s (snd (check_session r v s))" by (simp add: same_but_sessions_def)
      ultimately show ?thesis using 3 Some by (simp add: Handler_def requireAuth_def out split_beta)
    qed
  qed
  with assms(3) show ?thesis by simp
qed

end
