(* ===== verification/Agent.thy ===== *)
theory Agent
  imports AgentProto Storage
begin

text \<open>
  \<open>cmd/backupdb/agent.go\<close>: a backup job on the agent's machine, the store of jobs with its queue and single
  worker, and the three HTTP handlers.
\<close>

section \<open>Working on a machine\<close>

text \<open>The files of the machine, beside what a storage request sees.\<close>

record 'd machine =
  m_files :: files
  m_ds :: "'d drive_state"

definition on_files :: "(go_error, 'a, files) op \<Rightarrow> (go_error, 'a, 'd machine) op" where
  "on_files u m = (case u (m_files m) of (x, fs) \<Rightarrow> (x, m\<lparr>m_files := fs\<rparr>))"

definition on_mds :: "(go_error, 'a, 'd drive_state) op \<Rightarrow> (go_error, 'a, 'd machine) op" where
  "on_mds u m = (case u (m_ds m) of (x, st) \<Rightarrow> (x, m\<lparr>m_ds := st\<rparr>))"

definition os_Remove :: "string \<Rightarrow> 'd machine \<Rightarrow> 'd machine" where
  "os_Remove p m = m\<lparr>m_files := (m_files m)(p := None)\<rparr>"

text \<open>The name of a dump file, the same on the agent and in the consumer.\<close>

definition backup_filename :: "string \<Rightarrow> string \<Rightarrow> string \<Rightarrow> string \<Rightarrow> string" where
  "backup_filename dbname date stamp ext =
     dbname @ ''_'' @ date @ ''_'' @ stamp @ ''.'' @ ext @ ''.gz''"

section \<open>One backup job\<close>

definition buildAgentProvider ::
  "'d cloud \<Rightarrow> Config \<Rightarrow> StorageConfig \<Rightarrow> (go_error, Provider, 'd drive_state) op" where
  "buildAgentProvider C cfg sc st =
     (if sc_Kind sc = ''gdrive'' then
        (case Unmarshal gdrive_fields zero_gdrive (sc_Config sc) of
           None \<Rightarrow> (Inl (Wrap ''parse google account config'' (JsonError (sc_Config sc))), st)
         | Some gc \<Rightarrow>
             (case gdrive_New C (c_GoogleCredentialsFile cfg) (DiscardTokenStore (gc_Token gc)) (c_ProjectName cfg) st of
                (Inl e, st) \<Rightarrow> (Inl e, st)
              | (Inr c, st) \<Rightarrow> (Inr (DriveProvider c), st)))
      else if sc_Kind sc = ''s3'' then
        (case Unmarshal s3_fields zero_s3 (sc_Config sc) of
           None \<Rightarrow> (Inl (Wrap ''parse s3 config'' (JsonError (sc_Config sc))), st)
         | Some s3c \<Rightarrow>
             (case s3_New C s3c of Inl e \<Rightarrow> (Inl e, st) | Inr c \<Rightarrow> (Inr (S3Provider c), st)))
      else (Inl (UnknownStorageKind (sc_Kind sc)), st))"

record backupResult =
  bres_Filename :: string
  bres_RemoteRef :: string
  bres_SizeBytes :: int

text \<open>The clock is read once for the date and once for the stamp of the file name.\<close>

definition runBackupJob ::
  "'d cloud \<Rightarrow> host \<Rightarrow> Config \<Rightarrow> civil \<Rightarrow> civil \<Rightarrow> RunRequest \<Rightarrow> (go_error, backupResult, 'd machine) op" where
  "runBackupJob C H cfg now_date now_stamp req m =
     (let params = ParseParams (rr_Params req) in
      case Extension (rr_Driver req) of
        Inl e \<Rightarrow> (Inl e, m)
      | Inr ext \<Rightarrow>
          (let date = format_060102 now_date;
               stamp = format_15h04 now_stamp;
               filename = backup_filename (rr_DBName req) date stamp ext;
               outPath = path_Join [c_TmpDir cfg, filename]
           in case on_files (run_dump H (rr_Driver req) (rr_DBName req) params outPath) m of
                (Inl e, m) \<Rightarrow> (Inl (Wrap ''dump failed'' e), m)
              | (Inr _, m) \<Rightarrow>
             (case on_mds (buildAgentProvider C cfg (rr_Storage req)) m of
                (Inl e, m) \<Rightarrow> (Inl (Wrap ''init storage destination'' e), m)
              | (Inr provider, m) \<Rightarrow>
             (case on_mds (provider_Upload C provider (m_files m) (rr_DBName req) date filename outPath) m of
                (Inl e, m) \<Rightarrow> (Inl (Wrap ''upload failed'' e), m)
              | (Inr (remoteRef, sizeBytes), m) \<Rightarrow>
                  (Inr \<lparr>bres_Filename = filename, bres_RemoteRef = remoteRef, bres_SizeBytes = sizeBytes\<rparr>,
                   os_Remove outPath m)))))"

section \<open>The job store\<close>

record queuedJob =
  qj_id :: string
  qj_req :: RunRequest

record jobEntry =
  je_done :: bool
  je_completedAt :: int     \<comment> \<open>in seconds\<close>
  je_status :: RunStatus

definition fresh_entry :: jobEntry where
  "fresh_entry = \<lparr>je_done = False, je_completedAt = 0, je_status = zero_status\<rparr>"

definition queueCapacity :: nat where
  "queueCapacity = 256"

text \<open>
  The map of jobs and the channel; beside them, where the goroutines are: the requests that have their entry
  but have not yet reached the channel, the job the worker is running, and whether the worker has returned
  because the process is shutting down.
\<close>

record jobStore =
  js_jobs :: "string \<rightharpoonup> jobEntry"
  js_queue :: "queuedJob list"
  js_accepting :: "queuedJob list"
  js_running :: "queuedJob option"
  js_stopped :: bool

definition newJobStore :: jobStore where
  "newJobStore = \<lparr>js_jobs = Map.empty, js_queue = [], js_accepting = [], js_running = None, js_stopped = False\<rparr>"

definition sweepLocked :: "int \<Rightarrow> (string \<rightharpoonup> jobEntry) \<Rightarrow> (string \<rightharpoonup> jobEntry)" where
  "sweepLocked now m = (\<lambda>i. case m i of
     None \<Rightarrow> None
   | Some e \<Rightarrow> if je_done e \<and> je_completedAt e < now - 24 * 60 * 60 then None else Some e)"

text \<open>
  \<open>handleRun\<close> in its two halves: under the lock the entry is made and old ones are swept; then the job goes
  to the channel if there is room, and otherwise its entry is taken back. \<open>newJobID\<close> is the argument \<open>jobID\<close>.
\<close>

definition accept_job :: "int \<Rightarrow> string \<Rightarrow> RunRequest \<Rightarrow> jobStore \<Rightarrow> jobStore" where
  "accept_job now jobID req s =
     s\<lparr>js_jobs := sweepLocked now ((js_jobs s)(jobID \<mapsto> fresh_entry)),
       js_accepting := js_accepting s @ [\<lparr>qj_id = jobID, qj_req = req\<rparr>]\<rparr>"

text \<open>The request at position \<open>i\<close> among those on their way tries to send; the result tells if it could.\<close>

definition send_job :: "nat \<Rightarrow> jobStore \<Rightarrow> bool \<times> jobStore" where
  "send_job i s =
     (let j = js_accepting s ! i;
          rest = take i (js_accepting s) @ drop (Suc i) (js_accepting s)
      in if length (js_queue s) < queueCapacity
         then (True, s\<lparr>js_queue := js_queue s @ [j], js_accepting := rest\<rparr>)
         else (False, s\<lparr>js_jobs := (js_jobs s)(qj_id j := None), js_accepting := rest\<rparr>))"

datatype reply = Reply int string

text \<open>\<open>http.Error\<close> ends its text with a newline.\<close>

definition http_Error :: "string \<Rightarrow> int \<Rightarrow> reply" where
  "http_Error msg status = Reply status (msg @ [CHR 0x0A])"

text \<open>The whole handler when nothing comes between its halves.\<close>

definition handleRun :: "err_texts \<Rightarrow> int \<Rightarrow> string \<Rightarrow> string \<Rightarrow> jobStore \<Rightarrow> reply \<times> jobStore" where
  "handleRun tx now jobID body s =
     (case Decode request_fields zero_request body of
        None \<Rightarrow> (http_Error (''bad request: '' @ Error tx (JsonError body)) 400, s)
      | Some req \<Rightarrow>
          (let s = accept_job now jobID req s in
           case send_job (length (js_accepting s) - 1) s of
             (False, s) \<Rightarrow>
               (http_Error ''agent is overloaded (too many queued jobs), try again later'' 503, s)
           | (True, s) \<Rightarrow> (Reply 202 (json_text (accepted_json jobID) @ [CHR 0x0A]), s)))"

definition job_status :: "jobEntry \<Rightarrow> RunStatus" where
  "job_status e = (if je_done e then je_status e else (je_status e)\<lparr>rst_Status := ''pending''\<rparr>)"

definition handleStatus :: "string \<Rightarrow> jobStore \<Rightarrow> reply" where
  "handleStatus jobID s =
     (case js_jobs s jobID of
        None \<Rightarrow> http_Error ''404 page not found'' 404
      | Some e \<Rightarrow> Reply 200 (json_text (status_json (job_status e)) @ [CHR 0x0A]))"

text \<open>The worker: it takes the oldest job of the channel, and when the job is over it writes the result.\<close>

definition take_job :: "jobStore \<Rightarrow> jobStore" where
  "take_job s =
     (case js_queue s of
        [] \<Rightarrow> s
      | j # js \<Rightarrow> s\<lparr>js_queue := js, js_running := Some j\<rparr>)"

definition run_status :: "err_texts \<Rightarrow> civil \<Rightarrow> int \<Rightarrow> go_error + backupResult \<Rightarrow> RunStatus" where
  "run_status tx start durationMS result =
     (let status = zero_status\<lparr>rst_Status := ''done'', rst_StartedAt := format_datetime start,
                               rst_DurationMS := durationMS\<rparr>
      in case result of
           Inl e \<Rightarrow> status\<lparr>rst_Success := False, rst_Message := Error tx e\<rparr>
         | Inr r \<Rightarrow> status\<lparr>rst_Success := True, rst_Filename := bres_Filename r,
                          rst_RemoteRef := bres_RemoteRef r, rst_SizeBytes := bres_SizeBytes r\<rparr>)"

definition finish_job :: "int \<Rightarrow> RunStatus \<Rightarrow> jobStore \<Rightarrow> jobStore" where
  "finish_job now status s =
     (case js_running s of
        None \<Rightarrow> s
      | Some j \<Rightarrow>
          s\<lparr>js_jobs := (case js_jobs s (qj_id j) of
              None \<Rightarrow> js_jobs s
            | Some e \<Rightarrow> (js_jobs s)(qj_id j \<mapsto> e\<lparr>je_done := True, je_completedAt := now, je_status := status\<rparr>)),
            js_running := None\<rparr>)"

section \<open>Steps of the agent\<close>

text \<open>
  Any interleaving of handlers and worker. The ids come from 12 random bytes; a step takes one that no
  entry has. Status requests change nothing and are no steps.
\<close>

datatype event = Accepted string | Sent string | Refused string | Started string | Finished string | Stopped

inductive agent_event :: "jobStore \<Rightarrow> event \<Rightarrow> jobStore \<Rightarrow> bool" where
  ev_accept: "jobID \<notin> dom (js_jobs s) \<Longrightarrow> agent_event s (Accepted jobID) (accept_job now jobID req s)"
| ev_send: "i < length (js_accepting s) \<Longrightarrow> send_job i s = (True, t) \<Longrightarrow>
    agent_event s (Sent (qj_id (js_accepting s ! i))) t"
| ev_refuse: "i < length (js_accepting s) \<Longrightarrow> send_job i s = (False, t) \<Longrightarrow>
    agent_event s (Refused (qj_id (js_accepting s ! i))) t"
| ev_start: "js_running s = None \<Longrightarrow> \<not> js_stopped s \<Longrightarrow> js_queue s = j # js \<Longrightarrow>
    agent_event s (Started (qj_id j)) (take_job s)"
| ev_finish: "js_running s = Some j \<Longrightarrow> rst_Status status = ''done'' \<Longrightarrow>
    agent_event s (Finished (qj_id j)) (finish_job now status s)"
| ev_stop: "js_running s = None \<Longrightarrow> agent_event s Stopped (s\<lparr>js_stopped := True\<rparr>)"

definition agent_step :: "jobStore \<Rightarrow> jobStore \<Rightarrow> bool" where
  "agent_step s t \<longleftrightarrow> (\<exists>e. agent_event s e t)"

inductive agent_trace :: "jobStore \<Rightarrow> event list \<Rightarrow> jobStore \<Rightarrow> bool" where
  trace_nil: "agent_trace s [] s"
| trace_snoc: "agent_trace s es t \<Longrightarrow> agent_event t e u \<Longrightarrow> agent_trace s (es @ [e]) u"

inductive_cases agent_eventE: "agent_event s e t"

section \<open>The invariant of the store\<close>

definition live :: "jobStore \<Rightarrow> queuedJob list" where
  "live s = js_accepting s @ js_queue s @ (case js_running s of None \<Rightarrow> [] | Some j \<Rightarrow> [j])"

text \<open>
  The jobs on their way, waiting and running are different ones, and they are exactly the jobs whose entry
  is not done; a done entry holds a final status; the channel is never over its capacity.
\<close>

definition store_inv :: "jobStore \<Rightarrow> bool" where
  "store_inv s \<longleftrightarrow>
     distinct (map qj_id (live s)) \<and>
     qj_id ` set (live s) = {i. \<exists>e. js_jobs s i = Some e \<and> \<not> je_done e} \<and>
     (\<forall>i e. js_jobs s i = Some e \<longrightarrow> je_done e \<longrightarrow> rst_Status (je_status e) = ''done'') \<and>
     length (js_queue s) \<le> queueCapacity"

lemma sweepLocked_Some:
  "sweepLocked now m i = Some e \<longleftrightarrow> m i = Some e \<and> \<not> (je_done e \<and> je_completedAt e < now - 24 * 60 * 60)"
  by (auto simp: sweepLocked_def split: option.split)

lemma store_inv_new: "store_inv newJobStore"
  by (simp add: store_inv_def live_def newJobStore_def)

lemma undone_sweep:
  "{i. \<exists>e. sweepLocked now m i = Some e \<and> \<not> je_done e} = {i. \<exists>e. m i = Some e \<and> \<not> je_done e}"
  by (auto simp: sweepLocked_Some)

lemma accept_job_inv:
  assumes "store_inv s" and "jobID \<notin> dom (js_jobs s)"
  shows "store_inv (accept_job now jobID req s)"
proof -
  let ?t = "accept_job now jobID req s"
  let ?und = "\<lambda>m. {i. \<exists>e. m i = Some e \<and> \<not> je_done e}"
  have live: "mset (live ?t) = add_mset \<lparr>qj_id = jobID, qj_req = req\<rparr> (mset (live s))"
    by (simp add: live_def accept_job_def split: option.split)
  have und: "?und (js_jobs ?t) = insert jobID (?und (js_jobs s))"
    using assms(2) by (auto simp: accept_job_def undone_sweep fresh_entry_def)
  have fresh: "jobID \<notin> qj_id ` set (live s)"
    using assms by (auto simp: store_inv_def dom_def)
  have "mset (map qj_id (live ?t)) = mset (jobID # map qj_id (live s))" by (simp add: live)
  then have "distinct (map qj_id (live ?t)) = distinct (jobID # map qj_id (live s))"
    by (rule mset_eq_imp_distinct_iff)
  moreover have "set (live ?t) = insert \<lparr>qj_id = jobID, qj_req = req\<rparr> (set (live s))"
    using live by (metis set_mset_add_mset_insert set_mset_mset)
  ultimately show ?thesis
    using assms(1) und fresh
    by (auto simp: store_inv_def) (auto simp: accept_job_def sweepLocked_Some fresh_entry_def split: if_splits)
qed

lemma send_job_live:
  assumes "i < length (js_accepting s)" and "send_job i s = (ok, t)"
  obtains xs j ys where "js_accepting s = xs @ j # ys" "j = js_accepting s ! i" "js_accepting t = xs @ ys"
    "js_running t = js_running s" "js_stopped t = js_stopped s"
    "js_queue t = (if ok then js_queue s @ [j] else js_queue s)"
    "js_jobs t = (if ok then js_jobs s else (js_jobs s)(qj_id j := None))"
    "ok \<longleftrightarrow> length (js_queue s) < queueCapacity"
proof
  show "js_accepting s = take i (js_accepting s) @ js_accepting s ! i # drop (Suc i) (js_accepting s)"
    using assms(1) by (rule id_take_nth_drop)
qed (use assms(2) in \<open>auto simp: send_job_def Let_def split: if_splits\<close>)

abbreviation undone :: "(string \<rightharpoonup> jobEntry) \<Rightarrow> string set" where
  "undone m \<equiv> {i. \<exists>e. m i = Some e \<and> \<not> je_done e}"

lemma store_inv_moved:
  assumes "store_inv s" and "mset (live t) = mset (live s)" and "js_jobs t = js_jobs s"
    and "length (js_queue t) \<le> queueCapacity"
  shows "store_inv t"
proof -
  have "set (live t) = set (live s)" using assms(2) by (rule mset_eq_setD)
  moreover have "distinct (map qj_id (live t)) = distinct (map qj_id (live s))"
    using assms(2) by (metis mset_map mset_eq_imp_distinct_iff)
  ultimately show ?thesis using assms(1,3,4) by (simp add: store_inv_def)
qed

lemma store_inv_removed:
  assumes "store_inv s" and "mset (live s) = add_mset j (mset (live t))"
    and "undone (js_jobs t) = undone (js_jobs s) - {qj_id j}"
    and "\<And>i e. js_jobs t i = Some e \<Longrightarrow> je_done e \<Longrightarrow> rst_Status (je_status e) = ''done''"
    and "length (js_queue t) \<le> queueCapacity"
  shows "store_inv t"
proof -
  have "mset (map qj_id (live s)) = mset (qj_id j # map qj_id (live t))" by (simp add: assms(2))
  then have "distinct (qj_id j # map qj_id (live t))"
    using assms(1) mset_eq_imp_distinct_iff unfolding store_inv_def by blast
  moreover have "set (live s) = insert j (set (live t))"
    using assms(2) by (metis set_mset_add_mset_insert set_mset_mset)
  then have "insert (qj_id j) (qj_id ` set (live t)) = undone (js_jobs s)"
    using assms(1) by (simp add: store_inv_def)
  moreover from calculation(1) have "qj_id j \<notin> qj_id ` set (live t)" by simp
  ultimately have "distinct (map qj_id (live t))" "qj_id ` set (live t) = undone (js_jobs t)"
    unfolding assms(3) by (simp_all only: distinct.simps list.map) (metis Diff_insert_absorb)
  with assms(4,5) show ?thesis by (simp add: store_inv_def)
qed

lemma send_job_inv:
  assumes "store_inv s" and "i < length (js_accepting s)" and "send_job i s = (ok, t)"
  shows "store_inv t"
proof -
  obtain xs j ys where *: "js_accepting s = xs @ j # ys" "js_accepting t = xs @ ys"
    "js_running t = js_running s" "js_queue t = (if ok then js_queue s @ [j] else js_queue s)"
    "js_jobs t = (if ok then js_jobs s else (js_jobs s)(qj_id j := None))"
    "ok \<longleftrightarrow> length (js_queue s) < queueCapacity"
    using send_job_live [OF assms(2,3)] by metis
  show ?thesis
  proof (cases ok)
    case True
    with * show ?thesis by (intro store_inv_moved [OF assms(1)]) (simp_all add: live_def)
  next
    case False
    have "undone ((js_jobs s)(qj_id j := None)) = undone (js_jobs s) - {qj_id j}" by auto
    with False * assms(1) show ?thesis
      by (intro store_inv_removed [OF assms(1)]) (auto simp: live_def store_inv_def split: if_splits)
  qed
qed

lemma take_job_inv:
  assumes "store_inv s" and "js_running s = None"
  shows "store_inv (take_job s)"
proof (cases "js_queue s")
  case Nil
  then show ?thesis using assms(1) by (simp add: take_job_def)
next
  case (Cons j js)
  then show ?thesis using assms
    by (intro store_inv_moved [OF assms(1)]) (simp_all add: take_job_def live_def store_inv_def)
qed

lemma finish_job_inv:
  assumes "store_inv s" and "js_running s = Some j" and "rst_Status status = ''done''"
  shows "store_inv (finish_job now status s)"
proof -
  have "qj_id j \<in> undone (js_jobs s)"
  proof -
    have "j \<in> set (live s)" using assms(2) by (simp add: live_def)
    then show ?thesis using assms(1) unfolding store_inv_def by blast
  qed
  then obtain e where e: "js_jobs s (qj_id j) = Some e" by auto
  let ?e = "e\<lparr>je_done := True, je_completedAt := now, je_status := status\<rparr>"
  have t: "finish_job now status s = s\<lparr>js_jobs := (js_jobs s)(qj_id j \<mapsto> ?e), js_running := None\<rparr>"
    using assms(2) e by (simp add: finish_job_def)
  have "undone ((js_jobs s)(qj_id j \<mapsto> ?e)) = undone (js_jobs s) - {qj_id j}" by auto
  then show ?thesis unfolding t
    using assms by (intro store_inv_removed [OF assms(1)]) (auto simp: live_def store_inv_def split: if_splits)
qed

lemma agent_step_inv:
  assumes "store_inv s" and "agent_step s t"
  shows "store_inv t"
proof -
  obtain e where "agent_event s e t" using assms(2) by (auto simp: agent_step_def)
  then show ?thesis using assms(1)
  proof cases
    case (ev_stop)
    then show ?thesis using assms(1) by (simp add: store_inv_def live_def)
  next
    case (ev_send i)
    from send_job_inv [OF assms(1) ev_send(2,3)] show ?thesis .
  next
    case (ev_refuse i)
    from send_job_inv [OF assms(1) ev_refuse(2,3)] show ?thesis .
  qed (simp_all add: accept_job_inv take_job_inv finish_job_inv)
qed

interpretation agent_sys: step_invariant agent_step store_inv
  by unfold_locales (rule agent_step_inv)

section \<open>Order of the jobs\<close>

definition sent :: "event list \<Rightarrow> string list" where
  "sent es = [i. Sent i \<leftarrow> es]"

definition started :: "event list \<Rightarrow> string list" where
  "started es = [i. Started i \<leftarrow> es]"

definition finished :: "event list \<Rightarrow> string list" where
  "finished es = [i. Finished i \<leftarrow> es]"

lemma event_append [simp]:
  "sent (es @ fs) = sent es @ sent fs" "started (es @ fs) = started es @ started fs"
  "finished (es @ fs) = finished es @ finished fs"
  by (simp_all add: sent_def started_def finished_def)

lemma event_single [simp]:
  "sent [Sent i] = [i]" "sent [Accepted i] = []" "sent [Refused i] = []" "sent [Started i] = []"
  "sent [Finished i] = []" "sent [Stopped] = []"
  "started [Started i] = [i]" "started [Accepted i] = []" "started [Refused i] = []" "started [Sent i] = []"
  "started [Finished i] = []" "started [Stopped] = []"
  "finished [Finished i] = [i]" "finished [Accepted i] = []" "finished [Refused i] = []" "finished [Sent i] = []"
  "finished [Started i] = []" "finished [Stopped] = []"
  "sent [] = []" "started [] = []" "finished [] = []"
  by (simp_all add: sent_def started_def finished_def)

definition running_ids :: "jobStore \<Rightarrow> string list" where
  "running_ids s = (case js_running s of None \<Rightarrow> [] | Some j \<Rightarrow> [qj_id j])"

lemma trace_order:
  assumes "agent_trace newJobStore es s"
  shows "sent es = started es @ map qj_id (js_queue s) \<and> started es = finished es @ running_ids s"
  using assms
proof (induction newJobStore es s rule: agent_trace.induct)
  case trace_nil
  show ?case by (simp add: newJobStore_def running_ids_def)
next
  case (trace_snoc es t e u)
  from trace_snoc.hyps(3) show ?case
  proof cases
    case (ev_send i)
    from send_job_live [OF ev_send(2,3)] trace_snoc.hyps(2) ev_send(1) show ?thesis
      by (metis (no_types, lifting) append.assoc append_Nil2 event_append event_single(1,10) list.simps(8,9) map_append
          running_ids_def event_single(16))
  next
    case (ev_refuse i)
    from send_job_live [OF ev_refuse(2,3)] trace_snoc.hyps(2) ev_refuse(1) show ?thesis
      by (metis (no_types, lifting) append_Nil2 event_append event_single(3,9,15) running_ids_def)
  qed (use trace_snoc.hyps(2) in \<open>auto simp: accept_job_def take_job_def finish_job_def running_ids_def
         split: option.splits\<close>)
qed

lemma trace_steps: "agent_trace s es t \<Longrightarrow> agent_step\<^sup>*\<^sup>* s t"
  by (induction rule: agent_trace.induct) (auto simp: agent_step_def intro: rtranclp.rtrancl_into_rtrancl)

section \<open>A job from dump to upload\<close>

lemma on_files_eq: "on_files u m = (fst (u (m_files m)), m\<lparr>m_files := snd (u (m_files m))\<rparr>)"
  by (simp add: on_files_def split_beta)

lemma on_mds_eq: "on_mds u m = (fst (u (m_ds m)), m\<lparr>m_ds := snd (u (m_ds m))\<rparr>)"
  by (simp add: on_mds_def split_beta)

lemma on_mds_files: "on_mds u m = (x, m') \<Longrightarrow> m_files m' = m_files m"
  by (auto simp: on_mds_eq)

text \<open>The store an agent keeps its token in has no registry behind it.\<close>

lemma runBackupJob_success:
  assumes "runBackupJob C H cfg t1 t2 req m = (Inr res, m')"
  obtains ext out c provider st where
    "Extension (rr_Driver req) = Inr ext"
    "bres_Filename res = backup_filename (rr_DBName req) (format_060102 t1) (format_15h04 t2) ext"
    "out = path_Join [c_TmpDir cfg, bres_Filename res]"
    "run_dump H (rr_Driver req) (rr_DBName req) (ParseParams (rr_Params req)) out (m_files m) =
       (Inr (), (m_files m)(out \<mapsto> c))"
    "buildAgentProvider C cfg (rr_Storage req) (m_ds m) = (Inr provider, st)"
    "provider_Upload C provider ((m_files m)(out \<mapsto> c)) (rr_DBName req) (format_060102 t1)
       (bres_Filename res) out st = (Inr (bres_RemoteRef res, bres_SizeBytes res), m_ds m')"
    "m_files m' = (m_files m)(out := None)"
proof -
  from assms obtain ext where e: "Extension (rr_Driver req) = Inr ext"
    by (auto simp: runBackupJob_def Let_def split: sum.splits)
  define fn where "fn = backup_filename (rr_DBName req) (format_060102 t1) (format_15h04 t2) ext"
  define out where "out = path_Join [c_TmpDir cfg, fn]"
  define du where "du = run_dump H (rr_Driver req) (rr_DBName req) (ParseParams (rr_Params req)) out"
  obtain fs where d: "du (m_files m) = (Inr (), fs)"
    using assms e by (auto simp: runBackupJob_def Let_def on_files_def fn_def [symmetric] out_def [symmetric]
        du_def [symmetric] split: sum.splits prod.splits)
  then obtain c where c: "fs = (m_files m)(out \<mapsto> c)"
    using run_dump_writes [OF e] unfolding du_def by blast
  obtain p st where b: "buildAgentProvider C cfg (rr_Storage req) (m_ds m) = (Inr p, st)"
    using assms e d by (auto simp: runBackupJob_def Let_def on_files_def on_mds_def fn_def [symmetric]
        out_def [symmetric] du_def [symmetric] split: sum.splits prod.splits)
  obtain ref n st' where u: "provider_Upload C p fs (rr_DBName req) (format_060102 t1) fn out st = (Inr (ref, n), st')"
    and r: "res = \<lparr>bres_Filename = fn, bres_RemoteRef = ref, bres_SizeBytes = n\<rparr>"
      "m' = os_Remove out (m\<lparr>m_files := fs, m_ds := st'\<rparr>)"
    using assms e d b by (auto simp: runBackupJob_def Let_def on_files_def on_mds_def fn_def [symmetric]
        out_def [symmetric] du_def [symmetric] split: sum.splits prod.splits)
  show thesis
    by (rule that [of ext out c p st])
      (use e d c b u r in \<open>auto simp: fn_def out_def du_def os_Remove_def\<close>)
qed

section \<open>Properties\<close>

text \<open>
  C9. However requests, the worker and the shutdown interleave, no job is lost or run twice: the jobs whose
  entry is still pending are exactly those on their way to the channel, waiting in it or running, each of
  them once, and the channel never holds more than 256.
\<close>

theorem agent_loses_no_job:
  assumes "agent_trace newJobStore es s"
  shows "distinct (map qj_id (live s)) \<and>
    (\<forall>i. (\<exists>e. js_jobs s i = Some e \<and> \<not> je_done e) = (i \<in> qj_id ` set (live s))) \<and>
    length (js_queue s) \<le> 256"
proof -
  have "store_inv s"
    using trace_steps [OF assms] store_inv_new by (rule agent_sys.steps_inv)
  then show ?thesis by (auto simp: store_inv_def queueCapacity_def)
qed

definition sample_store1 :: jobStore where
  "sample_store1 = snd (send_job 0 (accept_job 0 ''a1'' sample_request newJobStore))"

definition sample_store2 :: jobStore where
  "sample_store2 = take_job (snd (send_job 0 (accept_job 1 ''b2'' sample_request sample_store1)))"

lemmas sample_store_defs =
  sample_store1_def sample_store2_def accept_job_def send_job_def take_job_def newJobStore_def
  sweepLocked_def fresh_entry_def queueCapacity_def Let_def fun_eq_iff

lemma sample_trace:
  "agent_trace newJobStore [Accepted ''a1'', Sent ''a1'', Accepted ''b2'', Sent ''b2'', Started ''a1''] sample_store2"
proof -
  let ?s1 = "accept_job 0 ''a1'' sample_request newJobStore"
  let ?s2 = "accept_job 1 ''b2'' sample_request sample_store1"
  let ?s3 = "snd (send_job 0 ?s2)"
  have "agent_event newJobStore (Accepted ''a1'') ?s1"
    by (rule ev_accept) (simp add: newJobStore_def)
  from trace_snoc [OF trace_nil this] have "agent_trace newJobStore [Accepted ''a1''] ?s1" by simp
  moreover have "agent_event ?s1 (Sent ''a1'') sample_store1"
    using ev_send [of 0 ?s1 sample_store1] by (simp add: sample_store_defs)
  ultimately have "agent_trace newJobStore [Accepted ''a1'', Sent ''a1''] sample_store1"
    using trace_snoc by fastforce
  moreover have "agent_event sample_store1 (Accepted ''b2'') ?s2"
    by (rule ev_accept) (simp add: sample_store_defs dom_def)
  ultimately have "agent_trace newJobStore [Accepted ''a1'', Sent ''a1'', Accepted ''b2''] ?s2"
    using trace_snoc by fastforce
  moreover have "agent_event ?s2 (Sent ''b2'') ?s3"
    using ev_send [of 0 ?s2 ?s3] by (simp add: sample_store_defs)
  ultimately have "agent_trace newJobStore [Accepted ''a1'', Sent ''a1'', Accepted ''b2'', Sent ''b2''] ?s3"
    using trace_snoc by fastforce
  moreover have "agent_event ?s3 (Started ''a1'') sample_store2"
    using ev_start [of ?s3 "\<lparr>qj_id = ''a1'', qj_req = sample_request\<rparr>" "[\<lparr>qj_id = ''b2'', qj_req = sample_request\<rparr>]"]
    by (simp add: sample_store_defs)
  ultimately show ?thesis
    using trace_snoc by fastforce
qed

lemma agent_loses_no_job_witness:
  "map qj_id (live sample_store2) = [''b2'', ''a1''] \<and>
   (\<exists>e. js_jobs sample_store2 ''b2'' = Some e \<and> \<not> je_done e)"
proof -
  have l: "map qj_id (live sample_store2) = [''b2'', ''a1'']" by (simp add: live_def sample_store_defs)
  then have "''b2'' \<in> qj_id ` set (live sample_store2)" by (metis list.set_intros(1) list.set_map)
  with agent_loses_no_job [OF sample_trace] l show ?thesis by blast
qed

text \<open>
  C17. Jobs run one at a time in the order in which they entered the channel: what has been sent is what has
  been started followed by what waits, and all that was started is finished but for the one running.
\<close>

theorem agent_runs_in_order:
  assumes "agent_trace newJobStore es s"
  shows "sent es = started es @ map qj_id (js_queue s) \<and> started es = finished es @ running_ids s"
  using assms by (rule trace_order)

lemma agent_runs_in_order_witness:
  "map qj_id (js_queue sample_store2) = [''b2''] \<and> running_ids sample_store2 = [''a1'']"
  using agent_runs_in_order [OF sample_trace] by (simp add: sent_def started_def finished_def)

text \<open>
  The status an agent reports is true: a job with an entry is reported pending while it is on its way,
  waiting or running, and done otherwise.
\<close>

theorem agent_status_is_true:
  assumes "agent_trace newJobStore es s" and "js_jobs s i = Some e"
  shows "handleStatus i s = Reply 200 (json_text (status_json (job_status e)) @ [CHR 0x0A]) \<and>
    rst_Status (job_status e) = (if i \<in> qj_id ` set (live s) then ''pending'' else ''done'')"
proof -
  have inv: "store_inv s"
    using trace_steps [OF assms(1)] store_inv_new by (rule agent_sys.steps_inv)
  have "je_done e \<longleftrightarrow> i \<notin> qj_id ` set (live s)"
  proof -
    from inv have "qj_id ` set (live s) = undone (js_jobs s)" by (simp add: store_inv_def)
    then show ?thesis using assms(2) by auto
  qed
  with inv assms(2) show ?thesis
    by (auto simp: handleStatus_def job_status_def store_inv_def)
qed

lemma agent_status_is_true_witness:
  "\<exists>e. js_jobs sample_store2 ''a1'' = Some e \<and> rst_Status (job_status e) = ''pending''"
proof -
  have e: "js_jobs sample_store2 ''a1'' = Some fresh_entry" by (simp add: sample_store_defs)
  have l: "map qj_id (live sample_store2) = [''b2'', ''a1'']" by (simp add: live_def sample_store_defs)
  then have "''a1'' \<in> qj_id ` set (live sample_store2)" by (metis list.set_intros list.set_map)
  with agent_status_is_true [OF sample_trace e] e show ?thesis by auto
qed

text \<open>
  Dispatch works end to end: when the channel has room, the body the central server posts is answered with
  202 and a body from which the server decodes the id of the job, and the job at the end of the channel
  carries the request as it was sent.
\<close>

theorem dispatch_is_queued:
  assumes "request_ok req" and "valid_utf8 jobID" and "length (js_queue s) < 256"
    and "handleRun tx now jobID (json_text (request_json req)) s = (Reply st body, s')"
  shows "st = 202 \<and> Decode accepted_fields [] body = Some jobID \<and>
    js_queue s' = js_queue s @ [\<lparr>qj_id = jobID, qj_req = req\<rparr>]"
proof -
  have "st = 202" "body = json_text (accepted_json jobID) @ [CHR 0x0A]"
    "js_queue s' = js_queue s @ [\<lparr>qj_id = jobID, qj_req = req\<rparr>]"
    using assms(3,4) Decode_request [OF assms(1)]
    by (auto simp: handleRun_def send_job_def accept_job_def queueCapacity_def nth_append)
  moreover have "Decode accepted_fields [] (json_text (accepted_json jobID) @ [CHR 0x0A]) = Some jobID"
    using assms(2) unfolding accepted_json_def
    by (subst Decode_text) (simp_all add: valid_utf8_ascii find_field_def accepted_fields_def store_simps)
  ultimately show ?thesis by simp
qed

lemma dispatch_is_queued_witness:
  "\<forall>tx. \<exists>body s'. handleRun tx 0 ''c3'' (json_text (request_json sample_request)) sample_store2 = (Reply 202 body, s') \<and>
     Decode accepted_fields [] body = Some ''c3''"
proof
  fix tx
  obtain st body s' where h:
    "handleRun tx 0 ''c3'' (json_text (request_json sample_request)) sample_store2 = (Reply st body, s')"
    by (metis prod.exhaust reply.exhaust)
  have "length (js_queue sample_store2) < 256" by (simp add: sample_store_defs)
  with dispatch_is_queued [OF sample_messages_ok(1) _ _ h] h show "\<exists>body s'. handleRun tx 0 ''c3'' (json_text (request_json sample_request)) sample_store2 = (Reply 202 body, s') \<and>
     Decode accepted_fields [] body = Some ''c3''"
    by (simp add: valid_utf8_ascii)
qed

text \<open>
  C18. What the agent uploads is the dump: when a job succeeds, its tool had written the file of that name, the
  provider, built from the destination that came with the request, was handed the content of that file, the result carries the provider's answer, and the local copy
  is gone while every other file is as before.
\<close>

theorem agent_uploads_the_dump:
  assumes "runBackupJob C H cfg t1 t2 req m = (Inr res, m')"
  shows "\<exists>ext out c provider st.
    bres_Filename res = backup_filename (rr_DBName req) (format_060102 t1) (format_15h04 t2) ext \<and>
    out = path_Join [c_TmpDir cfg, bres_Filename res] \<and>
    run_dump H (rr_Driver req) (rr_DBName req) (ParseParams (rr_Params req)) out (m_files m) =
      (Inr (), (m_files m)(out \<mapsto> c)) \<and>
    buildAgentProvider C cfg (rr_Storage req) (m_ds m) = (Inr provider, st) \<and>
    provider_Upload C provider ((m_files m)(out \<mapsto> c)) (rr_DBName req) (format_060102 t1)
      (bres_Filename res) out st = (Inr (bres_RemoteRef res, bres_SizeBytes res), m_ds m') \<and>
    m_files m' = (m_files m)(out := None)"
  using runBackupJob_success [OF assms] by (metis (no_types, lifting))

definition sample_s3_request :: RunRequest where
  "sample_s3_request = sample_request\<lparr>rr_Storage :=
     \<lparr>sc_Kind = ''s3'', sc_Label = ''b'', sc_Config = json_text (s3_json zero_s3)\<rparr>\<rparr>"

definition sample_machine :: "(string \<times> string) list machine" where
  "sample_machine = \<lparr>m_files = Map.empty,
     m_ds = \<lparr>ds_reg = empty_registry (plain_engine []), ds_cloud = [], ds_last = []\<rparr>\<rparr>"

lemma sample_s3_config: "Unmarshal s3_fields zero_s3 (json_text (s3_json zero_s3)) = Some zero_s3"
  by (rule Unmarshal_s3) (simp add: zero_s3_def)

lemma agent_uploads_the_dump_witness:
  "\<exists>res m'. runBackupJob sample_cloud sample_host (Load Map.empty) sample_time sample_time sample_s3_request
     sample_machine = (Inr res, m') \<and> m_files m' = Map.empty \<and> bres_SizeBytes res = 9"
proof -
  let ?r = "runBackupJob sample_cloud sample_host (Load Map.empty) sample_time sample_time sample_s3_request
     sample_machine"
  obtain res m' where r: "?r = (Inr res, m')" and n: "bres_SizeBytes res = 9"
    by (simp add: runBackupJob_def Extension_def sample_s3_request_def sample_request_def Let_def on_files_eq
        on_mds_eq run_dump_def Mongo_def runToFile_def sample_host_def buildAgentProvider_def sample_s3_config
        s3_New_def sample_cloud_def provider_Upload_def s3_Upload_def)
  from agent_uploads_the_dump [OF r] have "m_files m' = Map.empty"
    by (auto simp: sample_machine_def)
  with r n show ?thesis by blast
qed

end
