(* ===== verification/Consumer.thy ===== *)
theory Consumer
  imports Agent Scheduler "HOL-Library.Signed_Division"
begin

text \<open>
  \<open>cmd/backupdb/consumer.go\<close>: a job taken from the queue is dumped and uploaded here or handed to an agent
  and polled for, its run is recorded, and the channels of its database are told. The world of a job is the
  machine (with the registry and the storage services in it) beside the network.
\<close>

section \<open>The world of a job\<close>

record ('d, 'n) world =
  w_m :: "'d machine"
  w_net :: 'n

abbreviation w_reg :: "('d, 'n) world \<Rightarrow> registry" where
  "w_reg w \<equiv> ds_reg (m_ds (w_m w))"

definition set_reg :: "registry \<Rightarrow> ('d, 'n) world \<Rightarrow> ('d, 'n) world" where
  "set_reg r w = w\<lparr>w_m := (w_m w)\<lparr>m_ds := (m_ds (w_m w))\<lparr>ds_reg := r\<rparr>\<rparr>\<rparr>"

definition on_wreg :: "'a reg_op \<Rightarrow> (go_error, 'a, ('d, 'n) world) op" where
  "on_wreg u w = (case u (w_reg w) of (x, r) \<Rightarrow> (x, set_reg r w))"

definition on_machine :: "(go_error, 'a, 'd machine) op \<Rightarrow> (go_error, 'a, ('d, 'n) world) op" where
  "on_machine u w = (case u (w_m w) of (x, m) \<Rightarrow> (x, w\<lparr>w_m := m\<rparr>))"

text \<open>What does not change while jobs are processed.\<close>

record ('d, 'n) setting =
  v_tx :: err_texts
  v_cloud :: "'d cloud"
  v_host :: host
  v_agents :: "'n agent_net"
  v_cfg :: Config
  v_zone :: string

section \<open>The context\<close>

text \<open>
  \<open>runConsumer\<close> makes one context with \<open>signal.NotifyContext\<close>, and every call of a job that takes it fails once
  SIGTERM or SIGINT has come. The calls of one job in their order are its stages: the start is marked; the dump is
  made, or the agent looked up; the destination is looked up; the file is uploaded, or the job handed to the agent;
  the database is looked up again; the run is recorded; the file is listed; the channels are told.
\<close>

datatype job_stage = Marking | Preparing | Locating | Transferring | Resolving | Recording | Filing | Announcing

fun stage_number :: "job_stage \<Rightarrow> nat" where
  "stage_number Marking = 0"
| "stage_number Preparing = 1"
| "stage_number Locating = 2"
| "stage_number Transferring = 3"
| "stage_number Resolving = 4"
| "stage_number Recording = 5"
| "stage_number Filing = 6"
| "stage_number Announcing = 7"

instantiation job_stage :: linorder
begin

definition less_eq_job_stage :: "job_stage \<Rightarrow> job_stage \<Rightarrow> bool" where
  "less_eq_job_stage a b \<longleftrightarrow> stage_number a \<le> stage_number b"

definition less_job_stage :: "job_stage \<Rightarrow> job_stage \<Rightarrow> bool" where
  "less_job_stage a b \<longleftrightarrow> stage_number a < stage_number b"

instance
proof
  fix a b :: job_stage
  show "a \<le> b \<Longrightarrow> b \<le> a \<Longrightarrow> a = b"
    by (cases a; cases b) (simp_all add: less_eq_job_stage_def)
qed (auto simp: less_eq_job_stage_def less_job_stage_def)

end

text \<open>
  The readings that one job takes: the clock at its start, for the date and for the stamp of the file name, the
  time it took here in milliseconds, and, for a job at an agent, what each pause of the poll loop ended
  with: the time since dispatch in milliseconds, or the signal. Outside the poll loop the signal is
  \<open>t_signal\<close>, the first stage that it comes before.
\<close>

datatype wakeup = Wake int | Cancelled

record readings =
  t_started :: civil
  t_date :: civil
  t_stamp :: civil
  t_elapsed :: int
  t_wakeups :: "wakeup list"
  t_signal :: "job_stage option"

definition ended :: "readings \<Rightarrow> job_stage \<Rightarrow> bool" where
  "ended T stage \<longleftrightarrow> (case t_signal T of None \<Rightarrow> False | Some s \<Rightarrow> s \<le> stage)"

text \<open>No signal comes while the job is worked on.\<close>

definition undisturbed :: "readings \<Rightarrow> bool" where
  "undisturbed T \<longleftrightarrow> t_signal T = None \<and> Cancelled \<notin> set (t_wakeups T)"

lemma not_ended [simp]: "t_signal T = None \<Longrightarrow> \<not> ended T stage"
  by (simp add: ended_def)

lemma ended_mono: "ended T a \<Longrightarrow> a \<le> b \<Longrightarrow> ended T b"
  by (auto simp: ended_def split: option.splits)

text \<open>
  What a call does with a context that is over: a statement is not begun, a command not started, a request not
  sent. The token of a Google account is renewed and stored with \<open>context.Background\<close>, so that goes on.
\<close>

definition on_ctx :: "bool \<Rightarrow> (go_error, 'a, 's) op \<Rightarrow> (go_error, 'a, 's) op" where
  "on_ctx over u s = (if over then (Inl ContextDone, s) else u s)"

definition host_ctx :: "bool \<Rightarrow> host \<Rightarrow> host" where
  "host_ctx over H =
     (if over then H\<lparr>h_exec := (\<lambda>n a e. (h_exec H n a e)\<lparr>pr_start := Some ''context canceled''\<rparr>)\<rparr> else H)"

definition cloud_ctx :: "bool \<Rightarrow> 'd cloud \<Rightarrow> 'd cloud" where
  "cloud_ctx over C =
     (if over then C\<lparr>cl_list := (\<lambda>q d. (Inl ''context canceled'', d)),
         cl_create_folder := (\<lambda>n p d. (Inl ''context canceled'', d)),
         cl_create_file := (\<lambda>n m p c d. (Inl ''context canceled'', d)),
         cl_s3_put := (\<lambda>c k f d. (Inl ''context canceled'', d))\<rparr>
      else C)"

definition agents_ctx :: "bool \<Rightarrow> 'n agent_net \<Rightarrow> 'n agent_net" where
  "agents_ctx over A =
     (if over then A\<lparr>an_net := (an_net A)\<lparr>net_bad_url :=
         (\<lambda>u. case net_bad_url (an_net A) u of None \<Rightarrow> Some ''context canceled'' | Some m \<Rightarrow> Some m)\<rparr>\<rparr>
      else A)"

lemma ctx_on [simp]: "on_ctx False u = u" "host_ctx False H = H" "cloud_ctx False C = C" "agents_ctx False A = A"
  by (simp_all add: on_ctx_def host_ctx_def cloud_ctx_def agents_ctx_def fun_eq_iff)

lemma ctx_over [simp]: "on_ctx True u s = (Inl ContextDone, s)"
  by (simp add: on_ctx_def)

lemma on_ctx_moves: "moves_by S u \<Longrightarrow> moves_by S (on_ctx over u)"
  by (cases over) (auto simp: moves_by_def)

text \<open>A call to an agent with a context that is over fails without a connection.\<close>

lemma agents_ctx_over: "\<exists>m. client_do (agents_ctx True A) c method path body w = (Inl m, w)"
  by (auto simp: client_do_def agents_ctx_def Let_def split: option.split)

section \<open>Dump and upload\<close>

record uploadResult =
  ur_Filename :: string
  ur_RemoteRef :: string
  ur_SizeBytes :: int
  ur_StorageTargetID :: int
  ur_StartedAt :: string
  ur_DurationMS :: int

text \<open>The Go result is a pair of a pointer and an error, and both may be set.\<close>

type_synonym upload_outcome = "uploadResult option \<times> go_error option"

definition localBackupAndUpload ::
  "('d, 'n) setting \<Rightarrow> readings \<Rightarrow> Job \<Rightarrow> 'd machine \<Rightarrow> upload_outcome \<times> 'd machine" where
  "localBackupAndUpload V T job m =
     (let C = v_cloud V; cfg = v_cfg V; params = ParseParams (j_Params job) in
      case Extension (j_Driver job) of
        Inl e \<Rightarrow> ((None, Some e), m)
      | Inr ext \<Rightarrow>
     (let date = format_060102 (t_date T);
          stamp = format_15h04 (t_stamp T);
          filename = backup_filename (j_DBName job) date stamp ext;
          outPath = path_Join [c_TmpDir cfg, filename]
      in case on_files (run_dump (host_ctx (ended T Preparing) (v_host V)) (j_Driver job) (j_DBName job) params outPath) m of
        (Inl e, m) \<Rightarrow> ((None, Some (Wrap ''dump failed'' e)), m)
      | (Inr _, m) \<Rightarrow>
     (if j_StorageTargetID job = 0 then ((None, Some NoStorageSelected), m)
      else
     (case on_ctx (ended T Locating) (GetStorageTarget (j_StorageTargetID job)) (ds_reg (m_ds m)) of
        (Inl e, r) \<Rightarrow>
          ((None, Some (LoadStorage (j_StorageTargetID job) e)), m\<lparr>m_ds := (m_ds m)\<lparr>ds_reg := r\<rparr>\<rparr>)
      | (Inr None, r) \<Rightarrow>
          ((None, Some (StorageNotFound (j_StorageTargetID job))), m\<lparr>m_ds := (m_ds m)\<lparr>ds_reg := r\<rparr>\<rparr>)
      | (Inr (Some target), r) \<Rightarrow>
     (case on_mds (storage_Build C cfg target) (m\<lparr>m_ds := (m_ds m)\<lparr>ds_reg := r\<rparr>\<rparr>) of
        (Inl e, m) \<Rightarrow> ((None, Some (Wrap ''init storage destination'' e)), m)
      | (Inr store, m) \<Rightarrow>
     (case on_mds (provider_Upload (cloud_ctx (ended T Transferring) C) store (m_files m) (j_DBName job) date filename outPath) m of
        (Inl e, m) \<Rightarrow> ((None, Some (Wrap ''upload failed'' e)), m)
      | (Inr (remoteRef, sizeBytes), m) \<Rightarrow>
          ((Some \<lparr>ur_Filename = filename, ur_RemoteRef = remoteRef, ur_SizeBytes = sizeBytes,
                   ur_StorageTargetID = j_StorageTargetID job, ur_StartedAt = [], ur_DurationMS = 0\<rparr>, None),
           os_Remove outPath m)))))))"

section \<open>A job at an agent\<close>

definition remoteAgentPollInterval :: int where   \<comment> \<open>in milliseconds\<close>
  "remoteAgentPollInterval = 5 * 1000"

definition remoteAgentMaxWait :: int where
  "remoteAgentMaxWait = 6 * 60 * 60 * 1000"

definition agent_failure :: "RunStatus \<Rightarrow> uploadResult" where
  "agent_failure st =
     \<lparr>ur_Filename = [], ur_RemoteRef = [], ur_SizeBytes = 0, ur_StorageTargetID = 0,
      ur_StartedAt = rst_StartedAt st, ur_DurationMS = rst_DurationMS st\<rparr>"

definition agent_success :: "int \<Rightarrow> RunStatus \<Rightarrow> uploadResult" where
  "agent_success targetID st =
     \<lparr>ur_Filename = rst_Filename st, ur_RemoteRef = rst_RemoteRef st, ur_SizeBytes = rst_SizeBytes st,
      ur_StorageTargetID = targetID, ur_StartedAt = rst_StartedAt st, ur_DurationMS = rst_DurationMS st\<rparr>"

text \<open>The poll loop over its wake-ups; \<open>None\<close> when it has not returned within those given.\<close>

fun poll_loop ::
  "'n agent_net \<Rightarrow> Client \<Rightarrow> string \<Rightarrow> string \<Rightarrow> int \<Rightarrow> wakeup list \<Rightarrow> 'n \<Rightarrow> upload_outcome option \<times> 'n" where
  "poll_loop A c label jobID targetID [] w = (None, w)"
| "poll_loop A c label jobID targetID (Cancelled # ws) w = (Some (None, Some ContextDone), w)"
| "poll_loop A c label jobID targetID (Wake t # ws) w =
     (if remoteAgentMaxWait < t then (Some (None, Some (AgentTimedOut label jobID)), w)
      else
        (case client_Status A c jobID w of
           (Inl e, w) \<Rightarrow> poll_loop A c label jobID targetID ws w
         | (Inr st, w) \<Rightarrow>
             if rst_Status st \<noteq> ''done'' then poll_loop A c label jobID targetID ws w
             else if \<not> rst_Success st
             then (Some (Some (agent_failure st), Some (AgentReported label (rst_Message st))), w)
             else (Some (Some (agent_success targetID st), None), w)))"

definition run_request :: "string \<Rightarrow> Job \<Rightarrow> StorageTarget \<Rightarrow> RunRequest" where
  "run_request zone job target =
     \<lparr>rr_DBName = j_DBName job, rr_Driver = j_Driver job, rr_Params = j_Params job,
      rr_Storage = \<lparr>sc_Kind = st_Kind target, sc_Label = st_Label target, sc_Config = st_Config target\<rparr>,
      rr_Timezone = zone\<rparr>"

definition remoteBackupAndUpload ::
  "('d, 'n) setting \<Rightarrow> readings \<Rightarrow> Job \<Rightarrow> registry \<times> 'n \<Rightarrow> upload_outcome option \<times> registry \<times> 'n" where
  "remoteBackupAndUpload V T job s =
     (case s of (r, w) \<Rightarrow>
      case on_ctx (ended T Preparing) (GetRemoteAgent (j_AgentID job)) r of
        (Inl e, r) \<Rightarrow> (Some (None, Some (LoadAgent (j_AgentID job) e)), r, w)
      | (Inr None, r) \<Rightarrow> (Some (None, Some (AgentNotFound (j_AgentID job))), r, w)
      | (Inr (Some agent), r) \<Rightarrow>
     (if j_StorageTargetID job = 0 then (Some (None, Some NoStorageSelected), r, w)
      else
     (case on_ctx (ended T Locating) (GetStorageTarget (j_StorageTargetID job)) r of
        (Inl e, r) \<Rightarrow> (Some (None, Some (LoadStorage (j_StorageTargetID job) e)), r, w)
      | (Inr None, r) \<Rightarrow> (Some (None, Some (StorageNotFound (j_StorageTargetID job))), r, w)
      | (Inr (Some target), r) \<Rightarrow>
     (let client = NewClient (ra_Endpoint agent) (ra_Token agent) (ra_CertFingerprint agent) in
      case client_Run (agents_ctx (ended T Transferring) (v_agents V)) client (run_request (v_zone V) job target) w of
        (Inl e, w) \<Rightarrow> (Some (None, Some (DispatchToAgent (ra_Label agent) e)), r, w)
      | (Inr jobID, w) \<Rightarrow>
          (case poll_loop (v_agents V) client (ra_Label agent) jobID (j_StorageTargetID job) (t_wakeups T) w of
             (out, w) \<Rightarrow> (out, r, w))))))"

definition backupAndUpload ::
  "('d, 'n) setting \<Rightarrow> readings \<Rightarrow> Job \<Rightarrow> ('d, 'n) world \<Rightarrow> upload_outcome option \<times> ('d, 'n) world" where
  "backupAndUpload V T job w =
     (if j_AgentID job \<noteq> 0 then
        (case remoteBackupAndUpload V T job (w_reg w, w_net w) of
           (out, r, n) \<Rightarrow> (out, (set_reg r w)\<lparr>w_net := n\<rparr>))
      else (case localBackupAndUpload V T job (w_m w) of (out, m) \<Rightarrow> (Some out, w\<lparr>w_m := m\<rparr>)))"

section \<open>Recording and telling\<close>

text \<open>\<open>time.Duration(ms) * time.Millisecond\<close> and \<open>Milliseconds\<close> again, in 64 bits.\<close>

definition milliseconds :: "int \<Rightarrow> int" where
  "milliseconds ms = signed_take_bit 63 (ms * 1000000) sdiv 1000000"

definition finished_run :: "err_texts \<Rightarrow> go_error option \<Rightarrow> string \<times> string" where
  "finished_run tx jobErr =
     (case jobErr of None \<Rightarrow> (''success'', []) | Some e \<Rightarrow> (''error'', Error tx e))"

definition db_id :: "Database option \<Rightarrow> int" where
  "db_id d = (case d of None \<Rightarrow> 0 | Some x \<Rightarrow> d_ID x)"

definition recordBackupRun ::
  "bool \<Rightarrow> err_texts \<Rightarrow> Database option \<Rightarrow> Job \<Rightarrow> string \<Rightarrow> int \<Rightarrow> go_error option \<Rightarrow> registry \<Rightarrow> registry" where
  "recordBackupRun over tx d job startedAt durationMS jobErr r =
     (case finished_run tx jobErr of (status, message) \<Rightarrow>
        if j_RunID job \<noteq> 0
        then snd (on_ctx over (FinishBackupRun (j_RunID job) status message durationMS startedAt) r)
        else snd (on_ctx over (CreateBackupRun
          \<lparr>br_ID = 0, br_DatabaseID = db_id d, br_DBName = j_DBName job, br_Driver = j_Driver job,
           br_Status = status, br_Message = message, br_DurationMS = durationMS, br_StartedAt = startedAt,
           br_CreatedAt = []\<rparr>) r))"

definition recordBackupFile :: "bool \<Rightarrow> Database option \<Rightarrow> Job \<Rightarrow> uploadResult \<Rightarrow> registry \<Rightarrow> registry" where
  "recordBackupFile over d job result r =
     snd (on_ctx over (CreateBackupFile
       \<lparr>bf_ID = 0, bf_DatabaseID = db_id d, bf_DBName = j_DBName job,
        bf_StorageTargetID = ur_StorageTargetID result, bf_Filename = ur_Filename result,
        bf_RemoteRef = ur_RemoteRef result, bf_SizeBytes = ur_SizeBytes result, bf_CreatedAt = []\<rparr>) r)"

text \<open>Only an upload that succeeded is recorded.\<close>

definition record_upload :: "bool \<Rightarrow> Database option \<Rightarrow> Job \<Rightarrow> upload_outcome \<Rightarrow> registry \<Rightarrow> registry" where
  "record_upload over d job outcome r =
     (case outcome of (Some up, None) \<Rightarrow> recordBackupFile over d job up r | _ \<Rightarrow> r)"

text \<open>\<open>dispatch\<close> begins with the statement that lists the channels, and gives up when it fails.\<close>

definition tell_channels ::
  "bool \<Rightarrow> ('d, 'n) setting \<Rightarrow> Database \<Rightarrow> Job \<Rightarrow> go_error option \<Rightarrow> registry \<times> 'n \<Rightarrow> registry \<times> 'n" where
  "tell_channels over V d job jobErr s =
     (if over then s
      else case jobErr of
        Some e \<Rightarrow> DispatchError (an_net (v_agents V)) (v_tx V) (d_ID d) (c_ProjectName (v_cfg V)) (j_DBName job) e s
      | None \<Rightarrow> DispatchSuccess (an_net (v_agents V)) (d_ID d) (c_ProjectName (v_cfg V)) (j_DBName job) (j_Driver job) s)"

text \<open>The start and the duration to record: the agent's own for a job at an agent, if it reported any.\<close>

definition job_times :: "readings \<Rightarrow> Job \<Rightarrow> uploadResult option \<Rightarrow> string \<times> int" where
  "job_times T job result =
     (if j_AgentID job \<noteq> 0 then
        (case result of
           None \<Rightarrow> ([], t_elapsed T)
         | Some res \<Rightarrow> (ur_StartedAt res, milliseconds (ur_DurationMS res)))
      else (format_datetime (t_started T), t_elapsed T))"

text \<open>What follows \<open>backupAndUpload\<close> in \<open>processJob\<close>.\<close>

definition conclude_job ::
  "('d, 'n) setting \<Rightarrow> readings \<Rightarrow> Job \<Rightarrow> upload_outcome \<Rightarrow> registry \<times> 'n \<Rightarrow> registry \<times> 'n" where
  "conclude_job V T job outcome s =
     (case outcome of (result, jobErr) \<Rightarrow>
      case s of (r, n) \<Rightarrow>
        (let (startedAt, durationMS) = job_times T job result;
             (res, r1) = on_ctx (ended T Resolving) (GetByNameAgentDriver (j_DBName job) (j_AgentID job) (j_Driver job)) r;
             d = or_zero None res;
             r2 = recordBackupRun (ended T Recording) (v_tx V) d job startedAt durationMS jobErr r1;
             r3 = record_upload (ended T Filing) d job outcome r2
         in case d of None \<Rightarrow> (r3, n) | Some x \<Rightarrow> tell_channels (ended T Announcing) V x job jobErr (r3, n)))"

text \<open>A local job starts the moment it is taken up, and its run row says so at once.\<close>

definition mark_started :: "readings \<Rightarrow> Job \<Rightarrow> ('d, 'n) world \<Rightarrow> ('d, 'n) world" where
  "mark_started T job w =
     (if j_RunID job \<noteq> 0 \<and> j_AgentID job = 0
      then snd (on_wreg (on_ctx (ended T Marking) (UpdateBackupRunStarted (j_RunID job) (format_datetime (t_started T)))) w)
      else w)"

text \<open>A signal that ended the poll loop is there for all that follows.\<close>

definition after_poll :: "upload_outcome \<Rightarrow> readings \<Rightarrow> readings" where
  "after_poll outcome T =
     (if snd outcome = Some ContextDone
      then T\<lparr>t_signal := Some (case t_signal T of None \<Rightarrow> Resolving | Some s \<Rightarrow> min s Resolving)\<rparr>
      else T)"

text \<open>\<open>None\<close>: the job is still being polled for after the given wake-ups.\<close>

definition processJob ::
  "('d, 'n) setting \<Rightarrow> readings \<Rightarrow> Job \<Rightarrow> ('d, 'n) world \<Rightarrow> ('d, 'n) world option" where
  "processJob V T job w =
     (if j_Cmd job \<noteq> ''backup'' then Some w
      else
        (case backupAndUpload V T job (mark_started T job w) of
           (None, w) \<Rightarrow> None
         | (Some outcome, w) \<Rightarrow>
             (case conclude_job V (after_poll outcome T) job outcome (w_reg w, w_net w) of
                (r, n) \<Rightarrow> Some ((set_reg r w)\<lparr>w_net := n\<rparr>))))"

section \<open>The loop of the consumer\<close>

text \<open>
  One turn of the loop: the job popped is processed here, or, when it goes to an agent, set aside for a
  goroutine of its own (\<open>background\<close>).
\<close>

record ('d, 'n, 'q) consumer =
  k_world :: "('d, 'n) world"
  k_queue :: 'q
  k_background :: "Job list"

definition consume_one ::
  "('d, 'n) setting \<Rightarrow> 'q redis \<Rightarrow> readings \<Rightarrow> ('d, 'n, 'q) consumer \<Rightarrow> ('d, 'n, 'q) consumer" where
  "consume_one V R T k =
     (case Pop R (k_queue k) of
        (Inl e, q) \<Rightarrow> k\<lparr>k_queue := q\<rparr>
      | (Inr None, q) \<Rightarrow> k\<lparr>k_queue := q\<rparr>
      | (Inr (Some job), q) \<Rightarrow>
          (if j_AgentID job \<noteq> 0 then k\<lparr>k_queue := q, k_background := k_background k @ [job]\<rparr>
           else (case processJob V T job (k_world k) of
                   None \<Rightarrow> k\<lparr>k_queue := q\<rparr>
                 | Some w \<Rightarrow> k\<lparr>k_queue := q, k_world := w\<rparr>)))"

section \<open>The registry under a job\<close>

lemma w_reg_set [simp]: "w_reg (set_reg r w) = r"
  by (simp add: set_reg_def)

lemma w_net_set [simp]: "w_net (set_reg r w) = w_net w"
  by (simp add: set_reg_def)

lemma set_reg_set [simp]: "set_reg r (set_reg r' w) = set_reg r w"
  by (simp add: set_reg_def)

text \<open>Whatever relation the requests of a job move the registry by, the job moves it by.\<close>

context storage_requests begin

lemma local_moves: "S\<^sup>*\<^sup>* (ds_reg (m_ds m)) (ds_reg (m_ds (snd (localBackupAndUpload V T job m))))"
proof -
  note defs = localBackupAndUpload_def Let_def on_files_eq on_mds_eq os_Remove_def
  have get: "S\<^sup>*\<^sup>* r (snd (GetStorageTarget i r))" for i r
    using get_target [of i] by (simp add: moves_by_def)
  have build: "S\<^sup>*\<^sup>* (ds_reg st) (ds_reg (snd (storage_Build C cfg target st)))" for C cfg target and st :: "'a drive_state"
    using ds_movesD [OF storage_Build_moves] by (metis prod.collapse)
  have up: "S\<^sup>*\<^sup>* (ds_reg st) (ds_reg (snd (provider_Upload C p fs a b c d st)))" for C p fs a b c d and st :: "'a drive_state"
    using ds_movesD [OF provider_Upload_moves] by (metis prod.collapse)
  let ?r = "ds_reg (m_ds m)"
  obtain y r2 where g: "on_ctx (ended T Locating) (GetStorageTarget (j_StorageTargetID job)) ?r = (y, r2)" by fastforce
  have r: "S\<^sup>*\<^sup>* ?r r2" using moves_byD [OF on_ctx_moves [OF get_target] g] .
  let ?b = "\<lambda>t. storage_Build (v_cloud V) (v_cfg V) t ((m_ds m)\<lparr>ds_reg := r2\<rparr>)"
  have b: "S\<^sup>*\<^sup>* ?r (ds_reg (snd (?b t)))" for t
    using r build [where st = "(m_ds m)\<lparr>ds_reg := r2\<rparr>"] by (auto intro: rtranclp_trans)
  have u: "S\<^sup>*\<^sup>* ?r (ds_reg (snd (provider_Upload C p fs a c d e (snd (?b t)))))" for C p fs a c d e t
    using b up by (rule rtranclp_trans)
  show ?thesis
    by (auto simp: defs g r b u split: sum.split option.split prod.split)
qed

lemma remote_moves:
  assumes "\<And>i. moves_by S (GetRemoteAgent i)"
  shows "S\<^sup>*\<^sup>* r (fst (snd (remoteBackupAndUpload V T job (r, n))))"
proof -
  obtain x r1 where a: "on_ctx (ended T Preparing) (GetRemoteAgent (j_AgentID job)) r = (x, r1)" by fastforce
  obtain y r2 where g: "on_ctx (ended T Locating) (GetStorageTarget (j_StorageTargetID job)) r1 = (y, r2)" by fastforce
  have "S\<^sup>*\<^sup>* r r1" using moves_byD [OF on_ctx_moves [OF assms] a] .
  moreover from this have "S\<^sup>*\<^sup>* r r2" using moves_byD [OF on_ctx_moves [OF get_target] g] by (rule rtranclp_trans)
  ultimately show ?thesis
    by (simp add: remoteBackupAndUpload_def Let_def a g split: sum.split option.split prod.split)
qed

lemma backup_moves:
  assumes "\<And>i. moves_by S (GetRemoteAgent i)"
  shows "S\<^sup>*\<^sup>* (w_reg w) (w_reg (snd (backupAndUpload V T job w)))"
  using remote_moves [OF assms] local_moves
  by (auto simp: backupAndUpload_def split_beta)

end

lemma query_only_targets: "moves_by only_targets (query q)"
proof (rule moves_by_step)
  fix r
  show "only_targets r (snd (query q r))"
    by (auto simp: only_targets_def intro: exI [of _ "storage_targets r"])
qed

lemma backup_calm:
  assumes "no_faults (w_reg w)"
  obtains X where "w_reg (snd (backupAndUpload V T job w)) = (w_reg w)\<lparr>storage_targets := X\<rparr>"
  using calm_requests.backup_moves [of w V T job] query_only_targets assms
  by (auto simp: GetRemoteAgent_def elim: only_targets_steps)

lemma backup_reg_steps: "reg_step\<^sup>*\<^sup>* (w_reg w) (w_reg (snd (backupAndUpload V T job w)))"
  by (rule reg_requests.backup_moves) (rule moves_intros)

lemma mark_started_steps: "reg_step\<^sup>*\<^sup>* (w_reg w) (w_reg (mark_started T job w))"
  by (auto simp: mark_started_def on_wreg_def on_ctx_def split_beta intro: reg_step.intros)

lemma tell_channels_steps: "reg_step\<^sup>*\<^sup>* r (fst (tell_channels over V d job jobErr (r, n)))"
  by (cases jobErr) (simp_all add: tell_channels_def DispatchError_def DispatchSuccess_def dispatch_moves)

lemma recordBackupRun_steps: "reg_step\<^sup>*\<^sup>* r (recordBackupRun over tx d job st ms jobErr r)"
  by (auto simp: recordBackupRun_def on_ctx_def split_beta intro: reg_step.intros)

lemma recordBackupFile_steps: "reg_step\<^sup>*\<^sup>* r (recordBackupFile over d job up r)"
  by (auto simp: recordBackupFile_def on_ctx_def intro: reg_step.intros)

lemma conclude_job_steps: "reg_step\<^sup>*\<^sup>* r (fst (conclude_job V T job outcome (r, n)))"
proof -
  obtain result jobErr where o: "outcome = (result, jobErr)" by fastforce
  obtain st ms where t: "job_times T job result = (st, ms)" by fastforce
  obtain res r1 where g: "on_ctx (ended T Resolving) (GetByNameAgentDriver (j_DBName job) (j_AgentID job) (j_Driver job)) r =
      (res, r1)" by fastforce
  obtain d where d: "or_zero None res = d" by simp
  let ?r2 = "recordBackupRun (ended T Recording) (v_tx V) d job st ms jobErr r1"
  let ?r3 = "record_upload (ended T Filing) d job outcome ?r2"
  have "moves_by reg_step (on_ctx (ended T Resolving) (GetByNameAgentDriver (j_DBName job) (j_AgentID job) (j_Driver job)))"
    by (intro on_ctx_moves moves_intros)
  from moves_byD [OF this g] have "reg_step\<^sup>*\<^sup>* r r1" .
  also have "reg_step\<^sup>*\<^sup>* r1 ?r2" by (rule recordBackupRun_steps)
  also have "reg_step\<^sup>*\<^sup>* ?r2 ?r3"
    by (auto simp: record_upload_def o recordBackupFile_steps split: option.split)
  finally have r3: "reg_step\<^sup>*\<^sup>* r ?r3" .
  have "reg_step\<^sup>*\<^sup>* ?r3 (fst (tell_channels (ended T Announcing) V x job jobErr (?r3, n)))" for x
    by (rule tell_channels_steps)
  with r3 have "reg_step\<^sup>*\<^sup>* r (fst (tell_channels (ended T Announcing) V x job jobErr (?r3, n)))" for x
    by (rule rtranclp_trans)
  with r3 show ?thesis
    by (cases d) (simp_all add: conclude_job_def o t g d Let_def)
qed

lemma processJob_steps:
  assumes "processJob V T job w = Some w'"
  shows "reg_step\<^sup>*\<^sup>* (w_reg w) (w_reg w')"
proof (cases "j_Cmd job = ''backup''")
  case True
  obtain out w2 where b: "backupAndUpload V T job (mark_started T job w) = (out, w2)" by fastforce
  with assms True obtain o1 where o1: "out = Some o1" by (cases out) (auto simp: processJob_def)
  obtain r n where c: "conclude_job V (after_poll o1 T) job o1 (w_reg w2, w_net w2) = (r, n)" by fastforce
  have "w_reg w' = r" using assms True b o1 c by (auto simp: processJob_def)
  moreover note mark_started_steps [of w T job]
  moreover have "reg_step\<^sup>*\<^sup>* (w_reg (mark_started T job w)) (w_reg w2)"
    using backup_reg_steps [of "mark_started T job w" V T job] b by simp
  moreover have "reg_step\<^sup>*\<^sup>* (w_reg w2) r"
    using conclude_job_steps [of "w_reg w2" V "after_poll o1 T" job o1 "w_net w2"] c by simp
  ultimately show ?thesis by (meson rtranclp_trans)
qed (use assms in \<open>simp add: processJob_def\<close>)

section \<open>The poll loop\<close>

text \<open>Each pause takes at least the poll interval.\<close>

fun paced :: "int \<Rightarrow> wakeup list \<Rightarrow> bool" where
  "paced t [] = True"
| "paced t (Cancelled # ws) = True"
| "paced t (Wake u # ws) = (t + remoteAgentPollInterval \<le> u \<and> paced u ws)"

lemma poll_loop_ends:
  assumes "paced t ws" and "remoteAgentMaxWait < t + remoteAgentPollInterval * int (length ws)" and "ws \<noteq> []"
  shows "fst (poll_loop A c label jobID targetID ws n) \<noteq> None"
  using assms
proof (induction A c label jobID targetID ws n arbitrary: t rule: poll_loop.induct)
  case (3 A c label jobID targetID u ws w)
  have ws: "ws \<noteq> []" if "\<not> remoteAgentMaxWait < u" using that 3(3,4) by (cases ws) auto
  have "remoteAgentMaxWait < u + remoteAgentPollInterval * int (length ws)"
    using 3(3,4) by (simp add: remoteAgentPollInterval_def)
  with 3 ws show ?case by (auto split: sum.split prod.split)
qed simp_all

lemma poll_loop_success:
  assumes "poll_loop A c label jobID targetID ws n = (Some (Some up, None), n')"
  shows "\<exists>k st. client_Status A c jobID (((\<lambda>m. snd (client_Status A c jobID m)) ^^ k) n) = (Inr st, n') \<and>
    rst_Status st = ''done'' \<and> rst_Success st \<and> up = agent_success targetID st"
  using assms
proof (induction A c label jobID targetID ws n rule: poll_loop.induct)
  case (3 A c label jobID targetID t ws w)
  let ?f = "\<lambda>m. snd (client_Status A c jobID m)"
  obtain x w1 where x: "client_Status A c jobID w = (x, w1)" by fastforce
  have again: ?case if "\<exists>k st. client_Status A c jobID ((?f ^^ k) w1) = (Inr st, n') \<and>
      rst_Status st = ''done'' \<and> rst_Success st \<and> up = agent_success targetID st"
  proof -
    from that obtain k st where "client_Status A c jobID ((?f ^^ k) w1) = (Inr st, n')"
      "rst_Status st = ''done''" "rst_Success st" "up = agent_success targetID st" by blast
    with x show ?thesis by (intro exI [of _ "Suc k"] exI [of _ st]) (simp add: funpow_Suc_right del: funpow.simps)
  qed
  show ?case
  proof (cases "\<exists>st. x = Inr st \<and> rst_Status st = ''done''")
    case True
    with 3(3) x show ?thesis by (intro exI [of _ 0]) (auto split: if_splits)
  next
    case False
    with 3 x show ?thesis by (intro again) (auto split: sum.splits if_splits)
  qed
qed simp_all

text \<open>The poll loop ends with the error of the context only after a wake-up by the signal.\<close>

lemma poll_loop_not_cancelled:
  assumes "Cancelled \<notin> set ws" and "poll_loop A c label jobID targetID ws n = (Some outcome, n')"
  shows "snd outcome \<noteq> Some ContextDone"
  using assms
  by (induction A c label jobID targetID ws n rule: poll_loop.induct)
    (auto split: sum.splits prod.splits if_splits)

lemma outcome_not_cancelled:
  assumes "undisturbed T" and "backupAndUpload V T job w = (Some outcome, w')"
  shows "snd outcome \<noteq> Some ContextDone"
proof (cases "j_AgentID job = 0")
  case True
  then show ?thesis
    using assms(2) by (auto simp: backupAndUpload_def localBackupAndUpload_def Let_def Extension_def
        split: prod.splits sum.splits option.splits if_splits)
next
  case False
  then show ?thesis
    using assms by (auto simp: backupAndUpload_def remoteBackupAndUpload_def undisturbed_def Let_def
        split: prod.splits sum.splits option.splits if_splits dest: poll_loop_not_cancelled)
qed

lemma after_poll_undisturbed:
  "undisturbed T \<Longrightarrow> backupAndUpload V T job w = (Some outcome, w') \<Longrightarrow> after_poll outcome T = T"
  by (simp add: after_poll_def outcome_not_cancelled)

lemma job_times_after [simp]: "job_times (after_poll outcome T) = job_times T"
  by (auto simp: job_times_def after_poll_def fun_eq_iff split: option.split)

section \<open>Without faults\<close>

lemma GetByNameAgentDriver_calm:
  "no_faults r \<Longrightarrow> GetByNameAgentDriver name agentID driver r =
   (Inr (find (\<lambda>d. d_Name d = name \<and> d_AgentID d = agentID \<and> d_Driver d = driver) (t_rows (databases r))), r)"
  by (simp add: GetByNameAgentDriver_def)

text \<open>The unique index makes the lookup of the database of a job exact.\<close>

lemma GetByNameAgentDriver_exact:
  assumes "no_faults r" and "reg_inv r" and "d \<in> set (t_rows (databases r))"
    and "db_identity d = (name, agentID, driver)"
  shows "GetByNameAgentDriver name agentID driver r = (Inr (Some d), r)"
proof -
  have "distinct (map db_identity (t_rows (databases r)))"
    using assms(2) by (simp add: inv_defs)
  from find_key [OF this assms(3)] show ?thesis
    using assms(1,4) by (simp add: GetByNameAgentDriver_calm db_identity_def)
qed

lemma dispatch_calm: "no_faults r \<Longrightarrow> fst (dispatch N i message (r, n)) = r"
  by (simp add: dispatch_def ListNotifyChannelsForDatabase_calm)

lemma tell_channels_calm: "no_faults r \<Longrightarrow> fst (tell_channels over V d job jobErr (r, n)) = r"
  by (cases jobErr) (simp_all add: tell_channels_def DispatchError_def DispatchSuccess_def dispatch_calm)

definition run_end :: "err_texts \<Rightarrow> string \<Rightarrow> int \<Rightarrow> go_error option \<Rightarrow> BackupRun \<Rightarrow> BackupRun" where
  "run_end tx startedAt ms jobErr b =
     b\<lparr>br_Status := (if jobErr = None then ''success'' else ''error''),
       br_Message := (case jobErr of None \<Rightarrow> [] | Some e \<Rightarrow> Error tx e), br_DurationMS := ms,
       br_StartedAt := (if startedAt = [] then br_StartedAt b else startedAt)\<rparr>"

lemma FinishBackupRun_calm:
  assumes "no_faults r"
  shows "snd (FinishBackupRun i (fst (finished_run tx e)) (snd (finished_run tx e)) ms st r) =
    r\<lparr>backup_runs := sql_update (\<lambda>x. br_ID x = i) (run_end tx st ms e) (backup_runs r)\<rparr>"
proof -
  have f: "(\<lambda>x. x\<lparr>br_Status := fst (finished_run tx e), br_Message := snd (finished_run tx e),
         br_DurationMS := ms\<rparr>) = run_end tx [] ms e"
    "st \<noteq> [] \<Longrightarrow> (\<lambda>x. x\<lparr>br_Status := fst (finished_run tx e), br_Message := snd (finished_run tx e),
         br_DurationMS := ms, br_StartedAt := st\<rparr>) = run_end tx st ms e"
    by (auto simp: run_end_def finished_run_def split: option.split intro!: ext)
  show ?thesis using assms
    by (cases "st = []") (simp_all add: FinishBackupRun_def f cong: if_cong)
qed

lemma recordBackupRun_calm:
  assumes "no_faults r" and "j_RunID job \<noteq> 0"
  shows "recordBackupRun over tx d job st ms e r =
    (if over then r else r\<lparr>backup_runs := sql_update (\<lambda>x. br_ID x = j_RunID job) (run_end tx st ms e) (backup_runs r)\<rparr>)"
  using assms FinishBackupRun_calm [OF assms(1)] by (simp add: recordBackupRun_def on_ctx_def split_beta)

lemma recordBackupRun_same:
  "no_faults r \<Longrightarrow> \<exists>X. recordBackupRun over tx d job st ms e r = r\<lparr>backup_runs := X\<rparr>"
proof (cases over)
  case True
  then show ?thesis by (intro exI [of _ "backup_runs r"]) (simp add: recordBackupRun_def split_beta)
next
  case False
  moreover assume "no_faults r"
  ultimately show ?thesis
    using recordBackupRun_calm [of r job False tx d st ms e]
    by (cases "j_RunID job = 0") (auto simp: recordBackupRun_def CreateBackupRun_def split_beta Let_def)
qed

definition file_row :: "registry \<Rightarrow> int \<Rightarrow> string \<Rightarrow> uploadResult \<Rightarrow> BackupFile" where
  "file_row r databaseID name up =
     \<lparr>bf_ID = t_seq (backup_files r) + 1, bf_DatabaseID = databaseID, bf_DBName = name,
      bf_StorageTargetID = ur_StorageTargetID up, bf_Filename = ur_Filename up,
      bf_RemoteRef = ur_RemoteRef up, bf_SizeBytes = ur_SizeBytes up, bf_CreatedAt = now_utc r\<rparr>"

lemma record_upload_calm:
  assumes "no_faults r"
  shows "\<exists>X. record_upload over d job outcome r = r\<lparr>backup_files := X\<rparr> \<and>
    t_rows X = t_rows (backup_files r) @
      (if over then []
       else case outcome of (Some up, None) \<Rightarrow> [file_row r (db_id d) (j_DBName job) up] | _ \<Rightarrow> [])"
proof (cases "(\<exists>up. outcome = (Some up, None)) \<and> \<not> over")
  case True
  then obtain up where "outcome = (Some up, None)" "\<not> over" by blast
  with assms show ?thesis
    by (intro exI [of _ "snd (sql_insert set_bf_ID ((file_row r (db_id d) (j_DBName job) up)\<lparr>bf_ID := 0\<rparr>) (backup_files r))"])
      (simp add: record_upload_def recordBackupFile_def CreateBackupFile_def split_beta Let_def
        file_tbl.insert_rows set_bf_ID_def file_row_def)
next
  case False
  then show ?thesis
    by (intro exI [of _ "backup_files r"])
      (cases over; auto simp: record_upload_def recordBackupFile_def split: option.splits prod.splits)
qed

text \<open>The registry after the end of a job, and what the network saw.\<close>

lemma conclude_job_calm:
  assumes "no_faults r" and "job_times T job (fst outcome) = (st, ms)"
    and "on_ctx (ended T Resolving) (GetByNameAgentDriver (j_DBName job) (j_AgentID job) (j_Driver job)) r = (res, r)"
    and "d = or_zero None res"
    and r2: "r2 = recordBackupRun (ended T Recording) (v_tx V) d job st ms (snd outcome) r"
  shows "fst (conclude_job V T job outcome (r, n)) = record_upload (ended T Filing) d job outcome r2 \<and>
    snd (conclude_job V T job outcome (r, n)) =
      (case d of None \<Rightarrow> n
       | Some x \<Rightarrow> snd (tell_channels (ended T Announcing) V x job (snd outcome)
           (record_upload (ended T Filing) d job outcome r2, n)))"
proof -
  obtain X where "r2 = r\<lparr>backup_runs := X\<rparr>"
    using recordBackupRun_same [OF assms(1)] unfolding r2 by blast
  then have "no_faults r2" using assms(1) by simp
  then have f: "no_faults (record_upload (ended T Filing) d job outcome r2)"
    using record_upload_calm [of r2 "ended T Filing" d job outcome] by auto
  have t: "job_times T job (fst outcome) = (st, ms)" by (rule assms(2))
  show ?thesis
    using tell_channels_calm [OF f]
    by (cases d; cases outcome)
      (use t in \<open>simp_all add: conclude_job_def assms(3) assms(4) [symmetric] Let_def r2\<close>)
qed

lemma GetByName_ctx:
  "no_faults r \<Longrightarrow> \<exists>res. on_ctx over (GetByNameAgentDriver name agentID driver) r = (res, r)"
  by (cases over) (simp_all add: GetByNameAgentDriver_calm)

end
