(* ===== verification/ConsumerProps.thy ===== *)
theory ConsumerProps
  imports Consumer
begin

text \<open>
  What the consumer promises: every job it takes up ends, its run says how, an upload that succeeded is
  listed and announced, and a job at an agent is only reported as the agent reported it. Also two things it does
  not promise: distinct names for distinct databases, and a clean directory after a failed upload.
\<close>

section \<open>From the start to the end of a job\<close>

abbreviation starts_here :: "Job \<Rightarrow> bool" where
  "starts_here job \<equiv> j_RunID job \<noteq> 0 \<and> j_AgentID job = 0"

lemma mark_started_calm:
  assumes "no_faults (w_reg w)"
  shows "w_reg (mark_started T job w) = (w_reg w)\<lparr>backup_runs :=
      (if starts_here job \<and> \<not> ended T Marking
       then sql_update (\<lambda>x. br_ID x = j_RunID job) (\<lambda>x. x\<lparr>br_StartedAt := format_datetime (t_started T)\<rparr>)
              (backup_runs (w_reg w))
       else backup_runs (w_reg w))\<rparr>"
  using assms by (simp add: mark_started_def on_wreg_def on_ctx_def UpdateBackupRunStarted_def)

lemma processJob_calm:
  assumes "no_faults (w_reg w)" and "j_Cmd job = ''backup''" and "processJob V T job w = Some w'"
  obtains outcome w2 X where
    "backupAndUpload V T job (mark_started T job w) = (Some outcome, w2)"
    "w_reg w2 = (w_reg (mark_started T job w))\<lparr>storage_targets := X\<rparr>"
    "w_reg w' = fst (conclude_job V (after_poll outcome T) job outcome (w_reg w2, w_net w2))"
    "w_net w' = snd (conclude_job V (after_poll outcome T) job outcome (w_reg w2, w_net w2))"
proof -
  obtain out w2 where b: "backupAndUpload V T job (mark_started T job w) = (out, w2)" by fastforce
  with assms(2,3) obtain o1 where o1: "out = Some o1" by (cases out) (auto simp: processJob_def)
  have "no_faults (w_reg (mark_started T job w))"
    using assms(1) by (simp add: mark_started_calm)
  from backup_calm [OF this, of V T job] b
  obtain X where X: "w_reg w2 = (w_reg (mark_started T job w))\<lparr>storage_targets := X\<rparr>" by auto
  show thesis
    by (rule that [OF _ X]) (use b o1 assms(2,3) in \<open>auto simp: processJob_def split_beta\<close>)
qed

lemma run_end_twice:
  assumes "s = [] \<Longrightarrow> s0 = br_StartedAt b"
  shows "run_end tx s ms e (b\<lparr>br_StartedAt := s0\<rparr>) = run_end tx s ms e b"
  using assms by (cases b) (simp add: run_end_def)

lemma run_end_id [simp]: "br_ID (run_end tx s ms e b) = br_ID b"
  by (simp add: run_end_def)

lemma format_datetime_ne [simp]: "format_datetime t \<noteq> []"
  by (simp add: format_datetime_def format_2006_01_02_def)

lemma job_times_local:
  "j_AgentID job = 0 \<Longrightarrow> job_times T job result = (st, ms) \<Longrightarrow> st \<noteq> []"
  by (auto simp: job_times_def)

section \<open>A job to apply the theorems at\<close>

definition plain_texts :: err_texts where
  "plain_texts = \<lparr>quote = (\<lambda>s. s), unique_text = (\<lambda>s. s), foreign_key_text = [], json_error = (\<lambda>s. s)\<rparr>"

definition work_registry :: registry where
  "work_registry = sample_registry
     \<lparr>storage_targets := \<lparr>t_rows = [\<lparr>st_ID = 1, st_Kind = ''s3'', st_Label = ''bucket'',
        st_Config = json_text (s3_json zero_s3), st_CreatedAt = sample_clock, st_UpdatedAt = sample_clock\<rparr>], t_seq = 1\<rparr>,
      backup_runs := \<lparr>t_rows = [(running_run sample_row1)\<lparr>br_ID := 1\<rparr>], t_seq = 1\<rparr>\<rparr>"

definition work_world :: "((string \<times> string) list, string list) world" where
  "work_world = \<lparr>w_m = \<lparr>m_files = Map.empty, m_ds = \<lparr>ds_reg = work_registry, ds_cloud = [], ds_last = []\<rparr>\<rparr>, w_net = []\<rparr>"

definition work_setting :: "((string \<times> string) list, string list) setting" where
  "work_setting = \<lparr>v_tx = plain_texts, v_cloud = sample_cloud, v_host = sample_host, v_agents = one_cert_net,
     v_cfg = Load Map.empty, v_zone = ''UTC''\<rparr>"

definition work_readings :: readings where
  "work_readings = \<lparr>t_started = sample_time, t_date = sample_time, t_stamp = sample_time, t_elapsed = 1500, t_wakeups = [],
     t_signal = None\<rparr>"

lemma work_undisturbed [simp]: "undisturbed work_readings" "t_signal work_readings = None"
  by (simp_all add: undisturbed_def work_readings_def)

definition work_job :: Job where
  "work_job = NewBackupJob ''shop'' ''mysql'' ''db1'' ''3306'' ''root'' ''secret'' [] 1 0 1"

lemmas work_defs = work_registry_def work_world_def work_setting_def work_readings_def work_job_def

lemma work_job_fields [simp]:
  "j_Cmd work_job = ''backup''" "j_DBName work_job = ''shop''" "j_Driver work_job = ''mysql''"
  "j_StorageTargetID work_job = 1" "j_AgentID work_job = 0" "j_RunID work_job = 1"
  by (simp_all add: work_job_def NewBackupJob_def)

lemma work_calm: "no_faults (w_reg work_world)"
  by (simp add: work_defs sample_tables)

lemma work_inv: "reg_inv (w_reg work_world)"
  using sample_registry_inv
  by (simp add: work_defs inv_defs wf_table_def sample_tables running_run_def)

lemma local_job:
  assumes "j_Driver job = ''mysql'' \<or> j_Driver job = ''postgres''" and "j_StorageTargetID job = 1"
    and "m_files m = Map.empty" and "storage_targets (ds_reg (m_ds m)) = storage_targets work_registry"
    and "no_faults (ds_reg (m_ds m))"
  shows "\<exists>up m'. localBackupAndUpload work_setting work_readings job m = ((Some up, None), m') \<and>
    m_files m' = Map.empty \<and> ds_reg (m_ds m') = ds_reg (m_ds m)"
  using assms
  by (elim disjE) (simp_all add: localBackupAndUpload_def work_setting_def work_readings_def Extension_def Let_def
      on_files_eq on_mds_eq run_dump_def MySQL_def Postgres_def runToGzipFile_def sample_host_def GetStorageTarget_def
      by_id_def work_registry_def storage_Build_def newS3_def sample_s3_config s3_New_def sample_cloud_def
      provider_Upload_def s3_Upload_def os_Remove_def)

lemma work_job_done:
  "\<exists>up w2. backupAndUpload work_setting work_readings work_job (mark_started work_readings work_job work_world) =
    (Some (Some up, None), w2)"
proof -
  let ?w = "mark_started work_readings work_job work_world"
  have "m_files (w_m ?w) = Map.empty"
    by (simp add: mark_started_def on_wreg_def set_reg_def split_beta work_world_def)
  moreover have "storage_targets (w_reg ?w) = storage_targets work_registry" "no_faults (w_reg ?w)"
    using work_calm by (simp_all add: mark_started_calm) (simp add: work_world_def)
  ultimately show ?thesis
    using local_job [of work_job "w_m ?w"] by (auto simp: backupAndUpload_def)
qed

lemma work_processed: "\<exists>w'. processJob work_setting work_readings work_job work_world = Some w'"
  using work_job_done by (auto simp: processJob_def split_beta)

section \<open>Properties\<close>

text \<open>
  C6. The log tells the truth about every job: once a job with a run row is processed, no signal having come, the row says success
  exactly when the dump and the upload returned no error, and otherwise carries the text of the error; it has
  the duration and start of the side that did the work, and no other row of the log changes.
\<close>

theorem job_outcome_is_recorded:
  assumes "no_faults (w_reg w)" and "j_Cmd job = ''backup''" and "j_RunID job \<noteq> 0"
    and "by_id br_ID (j_RunID job) (backup_runs (w_reg w)) = Some b"
    and "processJob V T job w = Some w'" and "undisturbed T"
  shows "\<exists>result jobErr w2 st ms.
    backupAndUpload V T job (mark_started T job w) = (Some (result, jobErr), w2) \<and>
    job_times T job result = (st, ms) \<and>
    by_id br_ID (j_RunID job) (backup_runs (w_reg w')) =
      Some (b\<lparr>br_Status := (if jobErr = None then ''success'' else ''error''),
              br_Message := (case jobErr of None \<Rightarrow> [] | Some e \<Rightarrow> Error (v_tx V) e),
              br_DurationMS := ms, br_StartedAt := (if st = [] then br_StartedAt b else st)\<rparr>) \<and>
    (\<forall>k. k \<noteq> j_RunID job \<longrightarrow> by_id br_ID k (backup_runs (w_reg w')) = by_id br_ID k (backup_runs (w_reg w)))"
proof -
  from processJob_calm [OF assms(1,2,5)]
  obtain outcome w2 X where bu: "backupAndUpload V T job (mark_started T job w) = (Some outcome, w2)"
    and w2: "w_reg w2 = (w_reg (mark_started T job w))\<lparr>storage_targets := X\<rparr>"
    and "w_reg w' = fst (conclude_job V (after_poll outcome T) job outcome (w_reg w2, w_net w2))" by blast
  with after_poll_undisturbed [OF assms(6) bu]
  have w': "w_reg w' = fst (conclude_job V T job outcome (w_reg w2, w_net w2))" by simp
  have u: "\<not> ended T stage" for stage using assms(6) by (simp add: undisturbed_def)
  obtain st ms where t: "job_times T job (fst outcome) = (st, ms)" by fastforce
  have f: "no_faults (w_reg w2)" using assms(1) by (simp add: w2 mark_started_calm)
  obtain res where g: "on_ctx (ended T Resolving) (GetByNameAgentDriver (j_DBName job) (j_AgentID job) (j_Driver job))
      (w_reg w2) = (res, w_reg w2)" using GetByName_ctx [OF f] by blast
  let ?d = "or_zero None res"
  let ?r2 = "recordBackupRun (ended T Recording) (v_tx V) ?d job st ms (snd outcome) (w_reg w2)"
  have r2: "?r2 = (w_reg w2)\<lparr>backup_runs :=
      sql_update (\<lambda>x. br_ID x = j_RunID job) (run_end (v_tx V) st ms (snd outcome)) (backup_runs (w_reg w2))\<rparr>"
    by (simp add: recordBackupRun_calm [OF f assms(3)] u)
  have "no_faults ?r2" using f by (simp add: r2)
  from record_upload_calm [OF this, of "ended T Filing" ?d job outcome] obtain Y where
    "record_upload (ended T Filing) ?d job outcome ?r2 = ?r2\<lparr>backup_files := Y\<rparr>" by blast
  then have runs: "backup_runs (w_reg w') = sql_update (\<lambda>x. br_ID x = j_RunID job)
      (run_end (v_tx V) st ms (snd outcome)) (backup_runs (w_reg w2))"
    using conclude_job_calm [OF f t g refl refl, of V "w_net w2"] by (simp add: w' r2)
  have "by_id br_ID (j_RunID job) (backup_runs (w_reg w')) =
      Some (run_end (v_tx V) st ms (snd outcome)
        (if starts_here job then b\<lparr>br_StartedAt := format_datetime (t_started T)\<rparr> else b))"
    using assms(1,3,4) u by (simp add: runs run_tbl.by_id_update w2 mark_started_calm)
  also have "\<dots> = Some (run_end (v_tx V) st ms (snd outcome) b)"
    using job_times_local [OF _ t] by (auto intro!: run_end_twice)
  finally have "by_id br_ID (j_RunID job) (backup_runs (w_reg w')) = Some (run_end (v_tx V) st ms (snd outcome) b)" .
  moreover have "by_id br_ID k (backup_runs (w_reg w')) = by_id br_ID k (backup_runs (w_reg w))"
    if "k \<noteq> j_RunID job" for k
    using that assms(1) by (simp add: runs run_tbl.by_id_update w2 mark_started_calm)
  ultimately show ?thesis using bu t
    by (intro exI [of _ "fst outcome"] exI [of _ "snd outcome"] exI [of _ w2] exI [of _ st] exI [of _ ms])
      (simp add: run_end_def)
qed

lemma job_outcome_is_recorded_witness:
  "\<exists>w' b. processJob work_setting work_readings work_job work_world = Some w' \<and>
     by_id br_ID 1 (backup_runs (w_reg w')) = Some b \<and> br_Status b = ''success'' \<and> br_DurationMS b = 1500"
proof -
  obtain w' where w': "processJob work_setting work_readings work_job work_world = Some w'"
    using work_processed by blast
  have "by_id br_ID (j_RunID work_job) (backup_runs (w_reg work_world)) =
      Some ((running_run sample_row1)\<lparr>br_ID := 1\<rparr>)"
    by (simp add: work_world_def work_registry_def by_id_def)
  from job_outcome_is_recorded [OF work_calm _ _ this w' work_undisturbed(1)] work_job_done w' show ?thesis
    by (auto simp: job_times_def work_readings_def)
qed

text \<open>
  C7. A finished job of a registered database, no signal having come, is filed and announced under that database and no other: the
  file list grows by exactly the file an upload without error returned, and by nothing otherwise, and each
  assigned channel that can be reached gets one message that says how the job ended.
\<close>

theorem job_is_filed_and_announced:
  assumes "no_faults (w_reg w)" and "reg_inv (w_reg w)" and "j_Cmd job = ''backup''"
    and "d \<in> set (t_rows (databases (w_reg w)))" and "db_identity d = (j_DBName job, j_AgentID job, j_Driver job)"
    and "ListNotifyChannelsForDatabase (d_ID d) (w_reg w) = (Inr chs, r)"
    and "processJob V T job w = Some w'" and "undisturbed T"
  shows "\<exists>result jobErr w2.
    backupAndUpload V T job (mark_started T job w) = (Some (result, jobErr), w2) \<and>
    t_rows (backup_files (w_reg w')) = t_rows (backup_files (w_reg w)) @
      (case (result, jobErr) of
         (Some up, None) \<Rightarrow> [file_row (w_reg w) (d_ID d) (j_DBName job) up] | _ \<Rightarrow> []) \<and>
    w_net w' = fold (\<lambda>req n. snd (net_do (an_net (v_agents V)) req n))
      (filter (\<lambda>req. net_bad_url (an_net (v_agents V)) (rq_url req) = None)
        (map (\<lambda>c. telegram_request c
           (case jobErr of
              None \<Rightarrow> success_message (c_ProjectName (v_cfg V)) (j_DBName job) (j_Driver job)
            | Some e \<Rightarrow> error_message (v_tx V) (c_ProjectName (v_cfg V)) (j_DBName job) e)) (usable chs)))
      (w_net w2)"
proof -
  from processJob_calm [OF assms(1,3,7)]
  obtain outcome w2 X where bu: "backupAndUpload V T job (mark_started T job w) = (Some outcome, w2)"
    and w2: "w_reg w2 = (w_reg (mark_started T job w))\<lparr>storage_targets := X\<rparr>"
    and "w_reg w' = fst (conclude_job V (after_poll outcome T) job outcome (w_reg w2, w_net w2))"
      "w_net w' = snd (conclude_job V (after_poll outcome T) job outcome (w_reg w2, w_net w2))" by blast
  with after_poll_undisturbed [OF assms(8) bu]
  have w': "w_reg w' = fst (conclude_job V T job outcome (w_reg w2, w_net w2))"
      "w_net w' = snd (conclude_job V T job outcome (w_reg w2, w_net w2))" by simp_all
  have u: "\<not> ended T stage" for stage using assms(8) by (simp add: undisturbed_def)
  obtain st ms where t: "job_times T job (fst outcome) = (st, ms)" by fastforce
  obtain R where r: "w_reg w2 = (w_reg w)\<lparr>backup_runs := R, storage_targets := X\<rparr>"
    using assms(1) by (auto simp: w2 mark_started_calm)
  have f: "no_faults (w_reg w2)" using assms(1) by (simp add: r)
  have "GetByNameAgentDriver (j_DBName job) (j_AgentID job) (j_Driver job) (w_reg w) = (Inr (Some d), w_reg w)"
    by (rule GetByNameAgentDriver_exact [OF assms(1,2,4,5)])
  then have g: "on_ctx (ended T Resolving) (GetByNameAgentDriver (j_DBName job) (j_AgentID job) (j_Driver job)) (w_reg w2) =
      (Inr (Some d), w_reg w2)"
    using assms(1) f by (simp add: GetByNameAgentDriver_calm r u)
  have d: "Some d = or_zero None (Inr (Some d))" by (simp add: or_zero_def)
  let ?r2 = "recordBackupRun (ended T Recording) (v_tx V) (Some d) job st ms (snd outcome) (w_reg w2)"
  obtain R2 where r2: "?r2 = (w_reg w2)\<lparr>backup_runs := R2\<rparr>"
    using recordBackupRun_same [OF f] by blast
  have f2: "no_faults ?r2" using f by (simp add: r2)
  define r3 where "r3 = record_upload (ended T Filing) (Some d) job outcome ?r2"
  from record_upload_calm [OF f2, of "ended T Filing" "Some d" job outcome] obtain Y where y: "r3 = ?r2\<lparr>backup_files := Y\<rparr>"
    and Y: "t_rows Y = t_rows (backup_files ?r2) @
      (case outcome of (Some up, None) \<Rightarrow> [file_row ?r2 (db_id (Some d)) (j_DBName job) up] | _ \<Rightarrow> [])"
    unfolding r3_def using u by auto
  note c = conclude_job_calm [OF f t g d refl, of V "w_net w2", folded r3_def]
  have files: "backup_files (w_reg w') = Y" using c by (simp add: w' y)
  have "ListNotifyChannelsForDatabase (d_ID d) r3 = (Inr chs, r3)"
    unfolding y r2 unfolding r using assms(1,6) by (auto simp: ListNotifyChannelsForDatabase_calm)
  then have "w_net w' = send_all (an_net (v_agents V))
      (case snd outcome of
         None \<Rightarrow> success_message (c_ProjectName (v_cfg V)) (j_DBName job) (j_Driver job)
       | Some e \<Rightarrow> error_message (v_tx V) (c_ProjectName (v_cfg V)) (j_DBName job) e) chs (w_net w2)"
    using c by (cases "snd outcome")
      (simp_all add: w' u tell_channels_def DispatchError_def DispatchSuccess_def dispatch_def)
  moreover have fr: "file_row ((w_reg w2)\<lparr>backup_runs := R2\<rparr>) (db_id (Some d)) = file_row (w_reg w) (d_ID d)"
    by (intro ext) (simp add: r db_id_def file_row_def)
  have "t_rows Y = t_rows (backup_files (w_reg w)) @
      (case outcome of (Some up, None) \<Rightarrow> [file_row (w_reg w) (d_ID d) (j_DBName job) up] | _ \<Rightarrow> [])"
    using Y unfolding r2 fr by (simp add: r)
  ultimately show ?thesis using bu
    by (intro exI [of _ "fst outcome"] exI [of _ "snd outcome"] exI [of _ w2])
      (simp add: files send_all_usable fold_Send)
qed

lemma job_is_filed_and_announced_witness:
  "\<exists>w' f. processJob work_setting work_readings work_job work_world = Some w' \<and>
     t_rows (backup_files (w_reg w')) = [f] \<and> bf_DatabaseID f = 1"
proof -
  obtain w' where w': "processJob work_setting work_readings work_job work_world = Some w'"
    using work_processed by blast
  have d: "sample_row1 \<in> set (t_rows (databases (w_reg work_world)))"
    "db_identity sample_row1 = (j_DBName work_job, j_AgentID work_job, j_Driver work_job)"
    by (simp_all add: work_world_def work_registry_def sample_tables db_identity_def sample_row1_def sample_db_def)
  obtain chs r where "ListNotifyChannelsForDatabase (d_ID sample_row1) (w_reg work_world) = (Inr chs, r)"
    using work_calm by (simp add: ListNotifyChannelsForDatabase_calm)
  from job_is_filed_and_announced [OF work_calm work_inv _ d this w' work_undisturbed(1)] work_job_done w' show ?thesis
    by (auto simp: file_row_def work_world_def work_registry_def sample_tables sample_row1_def)
qed

text \<open>
  C13. Every job ends: the consumer is done with a job after at most 4321 pauses of its poll loop, six hours at
  five seconds each and one more, whatever agent, network, tools and services answer.
\<close>

theorem job_always_ends:
  assumes "paced 0 (t_wakeups T)" and "4321 \<le> length (t_wakeups T)"
  shows "processJob V T job w \<noteq> None"
proof -
  have "x \<noteq> None" if "poll_loop A c label jobID targetID (t_wakeups T) n = (x, n')"
    for A :: "'b agent_net" and c label jobID targetID n x n'
    using poll_loop_ends [OF assms(1), of A c label jobID targetID n] assms(2) that
    by (simp add: remoteAgentMaxWait_def remoteAgentPollInterval_def) fastforce
  then have "fst (remoteBackupAndUpload V T job s) \<noteq> None" for s
    by (fastforce simp: remoteBackupAndUpload_def Let_def split: prod.split sum.split option.split)
  then have "fst (backupAndUpload V T job (mark_started T job w)) \<noteq> None"
    by (simp add: backupAndUpload_def split_beta)
  then show ?thesis
    by (auto simp: processJob_def split_beta split: option.split)
qed

fun steady :: "nat \<Rightarrow> int \<Rightarrow> wakeup list" where
  "steady 0 t = []"
| "steady (Suc n) t = Wake (t + remoteAgentPollInterval) # steady n (t + remoteAgentPollInterval)"

lemma paced_steady: "paced t (steady n t)"
  by (induction n arbitrary: t) simp_all

lemma length_steady: "length (steady n t) = n"
  by (induction n arbitrary: t) simp_all

lemma job_always_ends_witness:
  "processJob work_setting (work_readings\<lparr>t_wakeups := steady 4321 0\<rparr>) (work_job\<lparr>j_AgentID := 1\<rparr>) work_world \<noteq> None"
  by (rule job_always_ends) (simp_all add: paced_steady length_steady)

lemma query_found:
  assumes "on_ctx over (query q) r = (Inr x, r')"
  shows "\<exists>fs. r' = r\<lparr>eng := (eng r)\<lparr>e_faults := fs\<rparr>\<rparr> \<and> x = q r'"
  using assms query_state [of q r]
  by (cases over) (auto simp: query_def split: prod.splits option.splits)

lemma client_Run_over: "\<exists>e. client_Run (agents_ctx True A) c req w = (Inl e, w)"
  using agents_ctx_over [of A c "''POST''" "''/run''" "Some (request_json req)" w] by (auto simp: client_Run_def)

text \<open>
  C14. A backup at an agent counts as successful only when the agent said so of this job: the request with the
  database, destination and time zone was accepted under an id, and after some number of polls for that id the
  agent answered that it is done and successful; the result carries the file name, reference and size of that answer.
\<close>

theorem remote_success_is_the_agents:
  assumes "remoteBackupAndUpload V T job (r, n) = (Some (Some up, None), r', n')"
  shows "\<exists>agent target client jobID n1 k st.
    by_id ra_ID (j_AgentID job) (remote_agents r) = Some agent \<and>
    by_id st_ID (j_StorageTargetID job) (storage_targets r) = Some target \<and>
    client = NewClient (ra_Endpoint agent) (ra_Token agent) (ra_CertFingerprint agent) \<and>
    client_Run (v_agents V) client (run_request (v_zone V) job target) n = (Inr jobID, n1) \<and>
    client_Status (v_agents V) client jobID (((\<lambda>m. snd (client_Status (v_agents V) client jobID m)) ^^ k) n1) = (Inr st, n') \<and>
    rst_Status st = ''done'' \<and> rst_Success st \<and> up = agent_success (j_StorageTargetID job) st"
proof -
  let ?A = "v_agents V"
  from assms obtain agent r1 where a: "on_ctx (ended T Preparing) (GetRemoteAgent (j_AgentID job)) r = (Inr (Some agent), r1)"
    by (auto simp: remoteBackupAndUpload_def split: sum.splits option.splits prod.splits)
  with assms obtain target r2 where t: "on_ctx (ended T Locating) (GetStorageTarget (j_StorageTargetID job)) r1 = (Inr (Some target), r2)"
    by (auto simp: remoteBackupAndUpload_def split: sum.splits option.splits prod.splits if_splits)
  have a': "by_id ra_ID (j_AgentID job) (remote_agents r) = Some agent" and r1: "storage_targets r1 = storage_targets r"
    using query_found [OF a [unfolded GetRemoteAgent_def]] by auto
  have t': "by_id st_ID (j_StorageTargetID job) (storage_targets r) = Some target"
    using query_found [OF t [unfolded GetStorageTarget_def]] r1 by auto
  define client where "client = NewClient (ra_Endpoint agent) (ra_Token agent) (ra_CertFingerprint agent)"
  from assms a t obtain jobID n1 where
    run: "client_Run (agents_ctx (ended T Transferring) ?A) client (run_request (v_zone V) job target) n = (Inr jobID, n1)"
    and "poll_loop ?A client (ra_Label agent) jobID (j_StorageTargetID job) (t_wakeups T) n1 = (Some (Some up, None), n')"
    by (auto simp: remoteBackupAndUpload_def Let_def client_def split: sum.splits option.splits prod.splits if_splits)
  from poll_loop_success [OF this(2)] obtain k st where
    "client_Status ?A client jobID (((\<lambda>m. snd (client_Status ?A client jobID m)) ^^ k) n1) = (Inr st, n')"
    "rst_Status st = ''done''" "rst_Success st" "up = agent_success (j_StorageTargetID job) st" by blast
  moreover have "client_Run ?A client (run_request (v_zone V) job target) n = (Inr jobID, n1)"
    using run client_Run_over [of ?A client "run_request (v_zone V) job target" n] by (cases "ended T Transferring") auto
  ultimately show ?thesis
    using a' t' client_def by blast
qed

text \<open>An agent that takes every request for job \<open>j1\<close> and has always just finished it.\<close>

definition prompt_reply :: json where
  "prompt_reply = JObj [(''job_id'', JStr ''j1''), (''status'', JStr ''done''), (''success'', JBool True)]"

definition prompt_net :: "string list agent_net" where
  "prompt_net = one_cert_net\<lparr>an_net :=
     \<lparr>net_bad_url = (\<lambda>u. None),
      net_do = (\<lambda>req w. (Inr \<lparr>rs_code = 200, rs_status = ''200 OK'', rs_body = json_text prompt_reply\<rparr>, w @ [rq_url req]))\<rparr>\<rparr>"

definition remote_registry :: registry where
  "remote_registry = work_registry\<lparr>remote_agents :=
     \<lparr>t_rows = [sample_agent\<lparr>ra_ID := 1, ra_CertFingerprint := ''63:65:72:74''\<rparr>], t_seq = 1\<rparr>\<rparr>"

lemma prompt_names:
  "fold_name ''job_id'' \<noteq> fold_name ''status''" "fold_name ''job_id'' \<noteq> fold_name ''success''"
  "fold_name ''job_id'' \<noteq> fold_name ''message''" "fold_name ''job_id'' \<noteq> fold_name ''filename''"
  "fold_name ''job_id'' \<noteq> fold_name ''remote_ref''" "fold_name ''job_id'' \<noteq> fold_name ''size_bytes''"
  "fold_name ''job_id'' \<noteq> fold_name ''started_at''" "fold_name ''job_id'' \<noteq> fold_name ''duration_ms''"
  by code_simp+

lemma prompt_accepted: "Decode accepted_fields [] (json_text prompt_reply) = Some ''j1''"
  unfolding prompt_reply_def using prompt_names(1,2)
  by (subst Decode_first) (auto simp: valid_utf8_ascii find_field_def accepted_fields_def store_simps)

lemma prompt_status:
  "Decode status_fields zero_status (json_text prompt_reply) =
   Some (zero_status\<lparr>rst_Status := ''done'', rst_Success := True\<rparr>)"
  unfolding prompt_reply_def using prompt_names
  by (subst Decode_first) (auto simp: valid_utf8_ascii find_field_def status_fields_def store_simps)

lemma cert_hex: "hex_encode ''cert'' = ''63657274''"
  by code_simp

lemma remote_success_is_the_agents_witness:
  "\<exists>up r' n'. remoteBackupAndUpload (work_setting\<lparr>v_agents := prompt_net\<rparr>) (work_readings\<lparr>t_wakeups := [Wake 5000]\<rparr>)
     (work_job\<lparr>j_AgentID := 1\<rparr>) (remote_registry, []) = (Some (Some up, None), r', n') \<and> ur_StorageTargetID up = 1"
proof -
  let ?r = "remoteBackupAndUpload (work_setting\<lparr>v_agents := prompt_net\<rparr>) (work_readings\<lparr>t_wakeups := [Wake 5000]\<rparr>)
     (work_job\<lparr>j_AgentID := 1\<rparr>) (remote_registry, [])"
  have pin: "VerifyPeerCertificate prompt_net (cl_pin (NewClient e t ''63:65:72:74'')) [''cert''] = None" for e t
    by (simp add: VerifyPeerCertificate_def Fingerprint_def prompt_net_def one_cert_net_def cert_hex
        NewClient_def ReplaceAll_def replace_bytes_def ToLower_def lower_byte_def Let_def)
  have call: "\<exists>n'. client_do prompt_net (NewClient e t ''63:65:72:74'') m p b n = (Inr (json_text prompt_reply), n')" for e t m p b n
    using pin by (simp add: client_do_def Let_def prompt_net_def one_cert_net_def)
  have "\<exists>up r' n'. ?r = (Some (Some up, None), r', n')"
  proof -
    obtain n1 where "client_do prompt_net (NewClient ''https://site2:8443'' ''t0k'' ''63:65:72:74'') ''POST'' ''/run''
        (Some (request_json (run_request ''UTC'' (work_job\<lparr>j_AgentID := 1\<rparr>) (hd (t_rows (storage_targets work_registry)))))) [] =
        (Inr (json_text prompt_reply), n1)" using call by blast
    moreover obtain n2 where "client_do prompt_net (NewClient ''https://site2:8443'' ''t0k'' ''63:65:72:74'') ''GET''
        ''/run/j1'' None n1 = (Inr (json_text prompt_reply), n2)" using call by blast
    ultimately show ?thesis
      by (simp add: remoteBackupAndUpload_def GetRemoteAgent_def GetStorageTarget_def by_id_def remote_registry_def
          work_registry_def sample_tables sample_agent_def work_setting_def work_readings_def client_Run_def
          client_Status_def prompt_accepted prompt_status [unfolded zero_status_def] remoteAgentMaxWait_def Let_def zero_status_def)
  qed
  then obtain up r' n' where r: "?r = (Some (Some up, None), r', n')" by blast
  from remote_success_is_the_agents [OF r] r show ?thesis by (auto simp: agent_success_def)
qed

text \<open>A local job whose signal comes before its upload does not succeed.\<close>

lemma folder_over: "\<exists>e. fst (findOrCreateFolder (cloud_ctx True C) src name parent st) = Inl e"
  by (auto simp: findOrCreateFolder_def drive_call_def cloud_ctx_def on_ds_def split: sum.splits prod.splits)

lemma upload_over: "\<exists>e. fst (provider_Upload (cloud_ctx True C) p fs db date name path st) = Inl e"
proof (cases p)
  case (DriveProvider c)
  obtain e st' where "findOrCreateFolder (cloud_ctx True C) (dc_source c) db (dc_rootID c) st = (Inl e, st')"
    using folder_over [of C "dc_source c" db "dc_rootID c" st] by (metis prod.collapse)
  then show ?thesis by (simp add: DriveProvider provider_Upload_def gdrive_Upload_def)
next
  case (S3Provider c)
  then show ?thesis by (simp add: provider_Upload_def s3_Upload_def cloud_ctx_def Let_def)
qed

lemma local_in_time:
  assumes "localBackupAndUpload V T job m = ((Some up, None), m')"
  shows "\<not> ended T Transferring"
proof
  assume "ended T Transferring"
  moreover have "provider_Upload (cloud_ctx True C) p fs db date name path st \<noteq> (Inr x, st')" for C :: "'a cloud" and p fs db date name path st x st'
    using upload_over [of C p fs db date name path st] by auto
  ultimately show False
    using assms by (auto simp: localBackupAndUpload_def Let_def on_files_def on_mds_def
        split: sum.splits prod.splits if_splits option.splits)
qed

text \<open>What a local backup to S3 returns, what it uploads and where it leaves the registry.\<close>

lemma local_s3:
  assumes "localBackupAndUpload V T job m = ((Some up, None), m')" and "no_faults (ds_reg (m_ds m))"
    and "by_id st_ID (j_StorageTargetID job) (storage_targets (ds_reg (m_ds m))) = Some t" and "st_Kind t = ''s3''"
    and "Unmarshal s3_fields zero_s3 (st_Config t) = Some sc"
  obtains ext fs dump n where "Extension (j_Driver job) = Inr ext"
    "ur_Filename up = backup_filename (j_DBName job) (format_060102 (t_date T)) (format_15h04 (t_stamp T)) ext"
    "ur_RemoteRef up = s3_key (s3_Prefix sc) (j_DBName job) (format_060102 (t_date T)) (ur_Filename up)"
    "run_dump (v_host V) (j_Driver job) (j_DBName job) (ParseParams (j_Params job))
       (path_Join [c_TmpDir (v_cfg V), ur_Filename up]) (m_files m) = (Inr (), fs)"
    "fs (path_Join [c_TmpDir (v_cfg V), ur_Filename up]) = Some dump"
    "cl_s3_put (v_cloud V) sc (ur_RemoteRef up) (Some dump) (ds_cloud (m_ds m)) = (Inr n, ds_cloud (m_ds m'))"
    "ds_reg (m_ds m') = ds_reg (m_ds m)"
proof -
  have in_time: "\<not> ended T Preparing" "\<not> ended T Locating" "\<not> ended T Transferring"
    using local_in_time [OF assms(1)] ended_mono [of T]
    by (auto simp: less_eq_job_stage_def dest: ended_mono [of T _ Transferring])
  obtain ext where e: "Extension (j_Driver job) = Inr ext"
    using assms(1) by (auto simp: localBackupAndUpload_def Let_def split: sum.splits)
  let ?name = "backup_filename (j_DBName job) (format_060102 (t_date T)) (format_15h04 (t_stamp T)) ext"
  let ?out = "path_Join [c_TmpDir (v_cfg V), ?name]"
  obtain fs where d: "run_dump (v_host V) (j_Driver job) (j_DBName job) (ParseParams (j_Params job)) ?out (m_files m) = (Inr (), fs)"
    using assms(1) e in_time by (auto simp: localBackupAndUpload_def Let_def on_files_def split: sum.splits prod.splits)
  obtain dump where c: "fs ?out = Some dump" using run_dump_writes [OF e d] by auto
  show thesis
    by (rule that [of ext fs dump "ur_SizeBytes up"])
      (use assms e d c in_time in \<open>auto simp: localBackupAndUpload_def Let_def on_files_eq on_mds_eq GetStorageTarget_def
        storage_Build_def newS3_def s3_New_def provider_Upload_def s3_Upload_def os_Remove_def
        split: sum.splits prod.splits if_splits option.splits\<close>)
qed

text \<open>
  C38. Two databases of one name whose drivers share a file extension, a MySQL and a PostgreSQL one for
  instance, overwrite each other when both are backed up here to one bucket in the same minute: both backups are
  reported as successful under one reference, and once the second is uploaded, that reference holds its dump
  and not the first's. The bucket is any in which an upload that succeeds puts its content under its key.
\<close>

theorem same_name_same_object:
  fixes stored :: "'d \<Rightarrow> S3Config \<Rightarrow> string \<Rightarrow> string option"
  assumes "localBackupAndUpload V T a m = ((Some ua, None), m1)"
    and "localBackupAndUpload V T' b m1 = ((Some ub, None), m2)"
    and "no_faults (ds_reg (m_ds m))"
    and "by_id st_ID (j_StorageTargetID a) (storage_targets (ds_reg (m_ds m))) = Some t" and "st_Kind t = ''s3''"
    and "Unmarshal s3_fields zero_s3 (st_Config t) = Some sc"
    and "j_StorageTargetID b = j_StorageTargetID a" and "j_DBName b = j_DBName a"
    and "Extension (j_Driver b) = Extension (j_Driver a)"
    and "format_060102 (t_date T') = format_060102 (t_date T)"
    and "format_15h04 (t_stamp T') = format_15h04 (t_stamp T)"
    and "\<And>c k x d n d'. cl_s3_put (v_cloud V) c k (Some x) d = (Inr n, d') \<Longrightarrow> stored d' c k = Some x"
  shows "ur_RemoteRef ub = ur_RemoteRef ua \<and>
    (\<exists>out fs dump_a fs' dump_b.
      run_dump (v_host V) (j_Driver a) (j_DBName a) (ParseParams (j_Params a)) out (m_files m) = (Inr (), fs) \<and>
      fs out = Some dump_a \<and> stored (ds_cloud (m_ds m1)) sc (ur_RemoteRef ua) = Some dump_a \<and>
      run_dump (v_host V) (j_Driver b) (j_DBName b) (ParseParams (j_Params b)) out (m_files m1) = (Inr (), fs') \<and>
      fs' out = Some dump_b \<and> stored (ds_cloud (m_ds m2)) sc (ur_RemoteRef ua) = Some dump_b)"
proof -
  from local_s3 [OF assms(1,3-6)] obtain ext fs da n where a:
    "Extension (j_Driver a) = Inr ext"
    "ur_Filename ua = backup_filename (j_DBName a) (format_060102 (t_date T)) (format_15h04 (t_stamp T)) ext"
    "ur_RemoteRef ua = s3_key (s3_Prefix sc) (j_DBName a) (format_060102 (t_date T)) (ur_Filename ua)"
    "run_dump (v_host V) (j_Driver a) (j_DBName a) (ParseParams (j_Params a))
       (path_Join [c_TmpDir (v_cfg V), ur_Filename ua]) (m_files m) = (Inr (), fs)"
    "fs (path_Join [c_TmpDir (v_cfg V), ur_Filename ua]) = Some da"
    "cl_s3_put (v_cloud V) sc (ur_RemoteRef ua) (Some da) (ds_cloud (m_ds m)) = (Inr n, ds_cloud (m_ds m1))"
    "ds_reg (m_ds m1) = ds_reg (m_ds m)" .
  have "no_faults (ds_reg (m_ds m1))"
    "by_id st_ID (j_StorageTargetID b) (storage_targets (ds_reg (m_ds m1))) = Some t"
    using assms(3,4,7) a(7) by simp_all
  from local_s3 [OF assms(2) this assms(5,6)] obtain ext' fs' db n' where b:
    "Extension (j_Driver b) = Inr ext'"
    "ur_Filename ub = backup_filename (j_DBName b) (format_060102 (t_date T')) (format_15h04 (t_stamp T')) ext'"
    "ur_RemoteRef ub = s3_key (s3_Prefix sc) (j_DBName b) (format_060102 (t_date T')) (ur_Filename ub)"
    "run_dump (v_host V) (j_Driver b) (j_DBName b) (ParseParams (j_Params b))
       (path_Join [c_TmpDir (v_cfg V), ur_Filename ub]) (m_files m1) = (Inr (), fs')"
    "fs' (path_Join [c_TmpDir (v_cfg V), ur_Filename ub]) = Some db"
    "cl_s3_put (v_cloud V) sc (ur_RemoteRef ub) (Some db) (ds_cloud (m_ds m1)) = (Inr n', ds_cloud (m_ds m2))" .
  have f: "ur_Filename ub = ur_Filename ua" using a(1,2) b(1,2) assms(8-11) by simp
  have r: "ur_RemoteRef ub = ur_RemoteRef ua" using a(3) b(3) assms(8,10) f by simp
  have "stored (ds_cloud (m_ds m1)) sc (ur_RemoteRef ua) = Some da" using a(6) by (rule assms(12))
  moreover have "stored (ds_cloud (m_ds m2)) sc (ur_RemoteRef ua) = Some db" using b(6) unfolding r by (rule assms(12))
  ultimately show ?thesis using r a(4,5) b(4,5) unfolding f by blast
qed

lemma same_name_same_object_witness:
  "\<exists>ua ub m1 m2. localBackupAndUpload work_setting work_readings work_job (w_m work_world) = ((Some ua, None), m1) \<and>
     localBackupAndUpload work_setting work_readings (work_job\<lparr>j_Driver := ''postgres''\<rparr>) m1 = ((Some ub, None), m2) \<and>
     ur_RemoteRef ub = ur_RemoteRef ua \<and> map_of (ds_cloud (m_ds m1)) (ur_RemoteRef ua) = Some ''gz:mysqldump'' \<and>
     map_of (ds_cloud (m_ds m2)) (ur_RemoteRef ua) = Some ''gz:pg_dump''"
proof -
  let ?b = "work_job\<lparr>j_Driver := ''postgres''\<rparr>"
  obtain ua m1 where a: "localBackupAndUpload work_setting work_readings work_job (w_m work_world) = ((Some ua, None), m1)"
    and m1: "m_files m1 = Map.empty" "ds_reg (m_ds m1) = work_registry"
    using local_job [of work_job "w_m work_world"] work_calm by (auto simp: work_world_def)
  obtain ub m2 where b: "localBackupAndUpload work_setting work_readings ?b m1 = ((Some ub, None), m2)"
    using local_job [of ?b m1] m1 work_calm by (auto simp: work_world_def)
  let ?t = "hd (t_rows (storage_targets work_registry))"
  have t: "by_id st_ID (j_StorageTargetID work_job) (storage_targets (ds_reg (m_ds (w_m work_world)))) = Some ?t"
      "st_Kind ?t = ''s3''" "Unmarshal s3_fields zero_s3 (st_Config ?t) = Some zero_s3"
    by (simp_all add: by_id_def work_world_def work_registry_def sample_s3_config)
  have put: "cl_s3_put (v_cloud work_setting) c k (Some x) d = (Inr n, d') \<Longrightarrow> map_of d' k = Some x" for c k x d n d'
    by (auto simp: work_setting_def sample_cloud_def)
  have dump: "fs out = Some x \<Longrightarrow> x = ''gz:'' @ tool"
    if "run_dump (v_host work_setting) driver name params out m = (Inr (), fs)"
      "(driver, tool) \<in> {(''mysql'', ''mysqldump''), (''postgres'', ''pg_dump'')}" for out driver name params fs m x tool
    using that by (auto simp: run_dump_def MySQL_def Postgres_def runToGzipFile_def work_setting_def sample_host_def Let_def)
  have "ur_RemoteRef ub = ur_RemoteRef ua \<and> (\<exists>out fs dump_a fs' dump_b.
      run_dump (v_host work_setting) (j_Driver work_job) (j_DBName work_job) (ParseParams (j_Params work_job)) out (m_files (w_m work_world)) = (Inr (), fs) \<and>
      fs out = Some dump_a \<and> map_of (ds_cloud (m_ds m1)) (ur_RemoteRef ua) = Some dump_a \<and>
      run_dump (v_host work_setting) (j_Driver ?b) (j_DBName ?b) (ParseParams (j_Params ?b)) out (m_files m1) = (Inr (), fs') \<and>
      fs' out = Some dump_b \<and> map_of (ds_cloud (m_ds m2)) (ur_RemoteRef ua) = Some dump_b)"
    by (rule same_name_same_object [OF a b work_calm t, where stored = "\<lambda>d c k. map_of d k"])
      (simp_all add: Extension_def put)
  then obtain out fs da fs' db where r: "ur_RemoteRef ub = ur_RemoteRef ua"
    and da: "run_dump (v_host work_setting) ''mysql'' (j_DBName work_job) (ParseParams (j_Params work_job)) out (m_files (w_m work_world)) = (Inr (), fs)"
      "fs out = Some da" "map_of (ds_cloud (m_ds m1)) (ur_RemoteRef ua) = Some da"
    and db: "run_dump (v_host work_setting) ''postgres'' (j_DBName ?b) (ParseParams (j_Params ?b)) out (m_files m1) = (Inr (), fs')"
      "fs' out = Some db" "map_of (ds_cloud (m_ds m2)) (ur_RemoteRef ua) = Some db" by auto
  have "da = ''gz:mysqldump''" "db = ''gz:pg_dump''"
    using dump [OF da(1) _ da(2), of "''mysqldump''"] dump [OF db(1) _ db(2), of "''pg_dump''"] by simp_all
  with a b r da(3) db(3) show ?thesis by blast
qed

text \<open>
  A dump that cannot be uploaded stays behind: the job fails, and the file of the dump is still on the
  machine, beside every other file as it was.
\<close>

theorem failed_upload_leaves_dump:
  assumes "localBackupAndUpload V T job m = ((res, Some (Wrap ''upload failed'' e)), m')"
  shows "\<exists>ext c. Extension (j_Driver job) = Inr ext \<and> m_files m' = (m_files m)(path_Join [c_TmpDir (v_cfg V),
    backup_filename (j_DBName job) (format_060102 (t_date T)) (format_15h04 (t_stamp T)) ext] \<mapsto> c)"
proof -
  obtain ext where ext: "Extension (j_Driver job) = Inr ext"
    using assms by (auto simp: localBackupAndUpload_def Let_def Extension_def split: sum.splits if_splits)
  let ?out = "path_Join [c_TmpDir (v_cfg V),
    backup_filename (j_DBName job) (format_060102 (t_date T)) (format_15h04 (t_stamp T)) ext]"
  obtain fs where d: "run_dump (host_ctx (ended T Preparing) (v_host V)) (j_Driver job) (j_DBName job) (ParseParams (j_Params job)) ?out (m_files m) =
      (Inr (), fs)" and fs: "m_files m' = fs"
    using assms ext by (auto simp: localBackupAndUpload_def Let_def on_files_def on_mds_eq
        split: sum.splits prod.splits if_splits option.splits)
  from run_dump_writes [OF ext d] fs ext show ?thesis by auto
qed

definition full_bucket :: "(string \<times> string) list cloud" where
  "full_bucket = sample_cloud\<lparr>cl_s3_put := (\<lambda>c k f d. (Inl ''quota exceeded'', d))\<rparr>"

lemma failed_upload_leaves_dump_witness:
  "\<exists>e m' p. localBackupAndUpload (work_setting\<lparr>v_cloud := full_bucket\<rparr>) work_readings work_job (w_m work_world) =
     ((None, Some (Wrap ''upload failed'' e)), m') \<and> m_files m' p \<noteq> None"
proof -
  obtain e m' where f: "localBackupAndUpload (work_setting\<lparr>v_cloud := full_bucket\<rparr>) work_readings work_job
      (w_m work_world) = ((None, Some (Wrap ''upload failed'' e)), m')"
    using work_calm
    by (simp add: localBackupAndUpload_def work_setting_def work_readings_def Extension_def Let_def on_files_eq
      on_mds_eq run_dump_def MySQL_def runToGzipFile_def sample_host_def GetStorageTarget_def by_id_def full_bucket_def
      work_registry_def work_world_def storage_Build_def newS3_def sample_s3_config s3_New_def sample_cloud_def
      provider_Upload_def s3_Upload_def sample_tables)
  from failed_upload_leaves_dump [OF f] f show ?thesis by (metis fun_upd_same option.distinct(1))
qed

end
