(* ===== verification/AdminProps.thy ===== *)
theory AdminProps
  imports AdminGate ConsumerProps
begin

text \<open>
  Properties of the web interface: sessions against a history of logins and logouts, the way through the login
  form, the routes, the registry under any request, and what single forms and pages do.
\<close>

section \<open>A server to apply the theorems at\<close>

definition web_server :: "((string \<times> string) list, string list, list_state) server" where
  "web_server =
     \<lparr>sv_tx = plain_texts, sv_cloud = sample_cloud,
      sv_google = \<lparr>go_auth_url = (\<lambda>c s p. c), go_exchange = (\<lambda>c v d. (Inl [], d)), go_get = (\<lambda>t u d. (Inl [], d))\<rparr>,
      sv_agents = one_cert_net, sv_redis = list_redis, sv_zones = (\<lambda>z. None), sv_username = ''admin'',
      sv_password = ''pw'', sv_credentials = [], sv_timezone = ''UTC'', sv_cfg = Load Map.empty\<rparr>"

definition web_site :: "((string \<times> string) list, string list, list_state) site" where
  "web_site =
     \<lparr>si_ds = \<lparr>ds_reg = work_registry, ds_cloud = [], ds_last = []\<rparr>, si_net = [], si_q = (n_q failing_node),
      si_sessions = Map.empty\<rparr>"

definition get_request :: "string \<Rightarrow> request" where
  "get_request p =
     \<lparr>hr_Method = ''GET'', hr_Path = p, hr_RawQuery = [], hr_ForceQuery = False, hr_Body = None, hr_Cookies = [],
      hr_TLS = True, hr_now = 5, hr_random = ''r''\<rparr>"

lemma web_inv: "reg_inv (si_reg web_site)"
  using work_inv by (simp add: web_site_def work_world_def)

lemma gate_is_shut_witness:
  "\<exists>x s'. Handler web_server (get_request ''/'') web_site = (x, s') \<and> public x \<and> same_but_sessions web_site s'"
proof -
  obtain x s' where h: "Handler web_server (get_request ''/'') web_site = (x, s')" by fastforce
  have "delivered (get_request ''/'')" "\<not> has_session (get_request ''/'') (si_sessions web_site)"
    by (simp_all add: delivered_def get_request_def has_session_def session_cookie_def)
  from gate_is_shut [OF this h] h show ?thesis by blast
qed

section \<open>Sessions\<close>

text \<open>
  The store forgets: a session that has ended leaves it when it is asked for. Its specification is a history of
  what was asked of it, the latest first: a token is live for twelve hours after the login that made it, unless
  a logout came in between.
\<close>

datatype session_event = Login (login_random: string) | Ask string | Logout string

fun store_of :: "(int \<times> session_event) list \<Rightarrow> sessions" where
  "store_of [] = Map.empty"
| "store_of ((t, Login rnd) # h) = snd (session_create t rnd (store_of h))"
| "store_of ((t, Ask tok) # h) = snd (session_valid t tok (store_of h))"
| "store_of ((t, Logout tok) # h) = session_delete tok (store_of h)"

fun logged_in_at :: "(int \<times> session_event) list \<Rightarrow> string \<Rightarrow> int option" where
  "logged_in_at [] tok = None"
| "logged_in_at ((t, Login rnd) # h) tok = (if hex_encode rnd = tok then Some t else logged_in_at h tok)"
| "logged_in_at ((t, Ask v) # h) tok = logged_in_at h tok"
| "logged_in_at ((t, Logout v) # h) tok = (if v = tok then None else logged_in_at h tok)"

definition live :: "(int \<times> session_event) list \<Rightarrow> int \<Rightarrow> string \<Rightarrow> bool" where
  "live h now tok = (case logged_in_at h tok of None \<Rightarrow> False | Some t \<Rightarrow> now \<le> t + sessionTTL)"

definition in_order :: "(int \<times> session_event) list \<Rightarrow> bool" where
  "in_order h = sorted_wrt (\<lambda>a b. fst b \<le> fst a) h"

text \<open>What the store knows of a token, and what it may have forgotten by the time \<open>now\<close>.\<close>

definition knows :: "(int \<times> session_event) list \<Rightarrow> int \<Rightarrow> string \<Rightarrow> bool" where
  "knows h now tok =
     (case logged_in_at h tok of
        None \<Rightarrow> store_of h tok = None
      | Some t \<Rightarrow> store_of h tok = Some (t + sessionTTL) \<or> store_of h tok = None \<and> t + sessionTTL < now)"

lemma knows_later: "knows h t tok \<Longrightarrow> t \<le> now \<Longrightarrow> knows h now tok"
  by (auto simp: knows_def split: option.splits)

lemma store_knows:
  assumes "in_order h" and "\<forall>e \<in> set h. fst e \<le> now"
  shows "knows h now tok"
  using assms
proof (induction h arbitrary: now)
  case Nil
  then show ?case by (simp add: knows_def)
next
  case (Cons e h)
  obtain t ev where e: "e = (t, ev)" by fastforce
  with Cons.prems have "knows h t tok" by (intro Cons.IH) (auto simp: in_order_def)
  then have "knows (e # h) t tok"
    by (cases ev) (auto simp: e knows_def session_create_def session_valid_def session_delete_def Let_def
        split: option.splits)
  then show ?case using Cons.prems(2) e by (auto intro: knows_later)
qed

text \<open>
  C16. The session store keeps its promise: at any moment it accepts exactly the tokens of the logins of the
  last twelve hours that were not logged out, though it drops ended sessions on the way.
\<close>

theorem sessions_keep_promise:
  assumes "in_order h" and "\<forall>e \<in> set h. fst e \<le> now" and "tok \<noteq> []"
  shows "fst (session_valid now tok (store_of h)) = live h now tok"
  using store_knows [OF assms(1,2), of tok] assms(3)
  by (auto simp: knows_def live_def session_valid_def split: option.splits)

lemma sessions_keep_promise_witness:
  "fst (session_valid 9 ''72'' (store_of [(7, Ask ''72''), (5, Login ''r'')])) = True"
proof -
  have "live [(7, Ask ''72''), (5, Login ''r'')] 9 ''72''"
    by (simp add: live_def sessionTTL_def hex_encode_def) code_simp
  then show ?thesis
    using sessions_keep_promise [of "[(7, Ask ''72''), (5, Login ''r'')]" 9 "''72''"] by (simp add: in_order_def)
qed

section \<open>Through the login form\<close>

lemma serve_login:
  assumes "hr_Path r = ''/login''" and "\<not> disabled S"
  shows "hr_Method r = ''GET'' \<Longrightarrow> Handler S r = handleLoginForm S r"
    and "hr_Method r = ''POST'' \<Longrightarrow> Handler S r = handleLoginSubmit S r"
  using assms
  by (auto simp: fun_eq_iff Handler_def requireAuth_def open_path_def url_path_def ServeHTTP_def dispatch_to_def cleanPath_def Clean_def
      path_elems_def path_elem_def pick_def routes_def route_method_def Let_def)

text \<open>
  C24. The way through the login form ends where it began: a request without a session is sent to the form, the
  form at that address carries the page that was asked for, and posting it with the right name and password
  leads there, with a session that is good for twelve hours.
\<close>

theorem login_returns:
  assumes "\<not> disabled S" and "sanitizeNext (RequestURI r) = RequestURI r" and "RequestURI r \<noteq> []"
    and "hr_Path r1 = ''/login''" and "hr_Method r1 = ''GET''" and "\<not> has_session r1 (si_sessions s1)"
    and "hr_RawQuery r1 = ''next='' @ QueryEscape (RequestURI r)"
    and "hr_Path r2 = ''/login''" and "hr_Method r2 = ''POST''" and "hr_RawQuery r2 = []"
    and "hr_Body r2 = Some (Encode [(''next'', RequestURI r), (''password'', sv_password S), (''username'', sv_username S)])"
    and "hr_random r2 \<noteq> []"
  shows "redirectToLogin r = RedirectTo 302 (''/login?'' @ hr_RawQuery r1) \<and>
    fst (Handler S r1 s1) = Page (login_html \<lparr>lp_Next = RequestURI r, lp_Error = [], lp_LoggedOut = False\<rparr>) \<and>
    fst (Handler S r2 s2) = WithCookie (SessionCookie (hex_encode (hr_random r2)) (hr_TLS r2) (hr_now r2 + sessionTTL))
      (RedirectTo 303 (RequestURI r)) \<and>
    (\<forall>r3. session_cookie r3 = Some (hex_encode (hr_random r2)) \<and> hr_now r3 \<le> hr_now r2 + sessionTTL \<longrightarrow>
      has_session r3 (si_sessions (snd (Handler S r2 s2))))"
proof (intro conjI)
  show "redirectToLogin r = RedirectTo 302 (''/login?'' @ hr_RawQuery r1)"
    using assms(2,3,7) by (simp add: redirectToLogin_def Let_def)
  have q: "URL_Query r1 = [(''next'', RequestURI r)]"
    using ParseQuery_one [of "''next''" "RequestURI r"] assms(7)
    by (simp add: URL_Query_def QueryEscape_def escape_byte_def unreserved_def)
  show "fst (Handler S r1 s1) = Page (login_html \<lparr>lp_Next = RequestURI r, lp_Error = [], lp_LoggedOut = False\<rparr>)"
    using assms(1,2,6) q
    by (simp add: serve_login(1) [OF assms(4,1,5)] handleLoginForm_def get_value_def has_session_def
        check_session_def split_beta Let_def split: option.splits)
  let ?kvs = "[(''next'', RequestURI r), (''password'', sv_password S), (''username'', sv_username S)]"
  have form: "ParseForm r2 = Inr ?kvs"
    using ParseQuery_Encode [of ?kvs] assms(9-11)
    by (simp add: ParseForm_def ParseQuery_def read_piece_def)
  let ?tok = "hex_encode (hr_random r2)"
  have submit: "Handler S r2 s2 = (WithCookie (SessionCookie ?tok (hr_TLS r2) (hr_now r2 + sessionTTL))
      (RedirectTo 303 (RequestURI r)), s2\<lparr>si_sessions := snd (session_create (hr_now r2) (hr_random r2) (si_sessions s2))\<rparr>)"
    using assms(1-3)
    by (simp add: serve_login(2) [OF assms(8,1,9)] handleLoginSubmit_def with_form_def form get_value_def
        session_create_def or_home_def Let_def)
  then show "fst (Handler S r2 s2) = WithCookie (SessionCookie ?tok (hr_TLS r2) (hr_now r2 + sessionTTL))
      (RedirectTo 303 (RequestURI r))" by simp
  have "?tok \<noteq> []"
    using assms(12) by (cases "hr_random r2") (simp_all add: hex_encode_def hex_byte_def Let_def)
  with submit show "\<forall>r3. session_cookie r3 = Some ?tok \<and> hr_now r3 \<le> hr_now r2 + sessionTTL \<longrightarrow>
      has_session r3 (si_sessions (snd (Handler S r2 s2)))"
    by (simp add: has_session_def session_valid_def session_create_def Let_def)
qed

definition post_request :: "string \<Rightarrow> string \<Rightarrow> request" where
  "post_request p body = (get_request p)\<lparr>hr_Method := ''POST'', hr_Body := Some body\<rparr>"

lemma login_returns_witness:
  "fst (Handler web_server (post_request ''/login'' (Encode [(''next'', ''/logs''), (''password'', ''pw''), (''username'', ''admin'')])) web_site) =
   WithCookie (SessionCookie ''72'' True (5 + sessionTTL)) (RedirectTo 303 ''/logs'')"
proof -
  let ?r = "get_request ''/logs''"
  let ?r1 = "(get_request ''/login'')\<lparr>hr_RawQuery := ''next='' @ QueryEscape (RequestURI ?r)\<rparr>"
  let ?r2 = "post_request ''/login'' (Encode [(''next'', ''/logs''), (''password'', ''pw''), (''username'', ''admin'')])"
  have "hex_encode ''r'' = ''72''" by code_simp
  moreover have "RequestURI ?r = ''/logs''" by (simp add: get_request_def RequestURI_def)
  ultimately show ?thesis
    using login_returns [of web_server ?r ?r1 web_site ?r2 web_site]
    by (simp add: web_server_def disabled_def sanitizeNext_def get_request_def post_request_def has_session_def
        session_cookie_def)
qed

section \<open>Routes\<close>

text \<open>Whether some path matches both of two patterns.\<close>

fun clash :: "pat list \<Rightarrow> pat list \<Rightarrow> bool" where
  "clash [] [] = True"
| "clash (Lit l # ps) (Lit k # qs) = (l = k \<and> clash ps qs)"
| "clash (Lit l # ps) (Wild # qs) = (l \<noteq> ''/'' \<and> clash ps qs)"
| "clash (Wild # ps) (Lit l # qs) = (l \<noteq> ''/'' \<and> clash ps qs)"
| "clash (Wild # ps) (Wild # qs) = clash ps qs"
| "clash (Multi # ps) (q # qs) = True"
| "clash (p # ps) (Multi # qs) = True"
| "clash [] (q # qs) = False"
| "clash (p # ps) [] = False"

lemma clash_complete: "path_match ps es = Some a \<Longrightarrow> path_match qs es = Some b \<Longrightarrow> clash ps qs"
proof (induction ps qs arbitrary: es a b rule: clash.induct)
qed (case_tac es; auto split: if_splits)+

text \<open>The routes without their handlers.\<close>

definition route_table :: "(string \<times> pat list) list" where
  "route_table =
    [(''GET'', [Lit ''static'', Multi]), (''GET'', [Lit ''login'']), (''POST'', [Lit ''login'']),
     (''GET'', [Lit ''logout'']), (''GET'', [Lit ''/'']), (''GET'', [Lit ''new'']), (''POST'', [Lit ''new'']),
     (''GET'', [Lit ''edit'', Wild]), (''POST'', [Lit ''edit'', Wild]), (''POST'', [Lit ''delete'', Wild]),
     (''POST'', [Lit ''toggle'', Wild]), (''POST'', [Lit ''backup-now'', Wild]),
     (''POST'', [Lit ''databases'', Wild, Lit ''schedules'']),
     (''POST'', [Lit ''schedules'', Wild, Lit ''delete'']), (''GET'', [Lit ''shared-schedules'']),
     (''GET'', [Lit ''shared-schedules'', Lit ''new'']), (''POST'', [Lit ''shared-schedules'']),
     (''GET'', [Lit ''shared-schedules'', Wild, Lit ''edit'']), (''POST'', [Lit ''shared-schedules'', Wild]),
     (''POST'', [Lit ''shared-schedules'', Wild, Lit ''toggle'']),
     (''POST'', [Lit ''shared-schedules'', Wild, Lit ''delete'']),
     (''POST'', [Lit ''shared-schedules'', Wild, Lit ''times'']),
     (''POST'', [Lit ''shared-schedule-times'', Wild, Lit ''delete'']), (''GET'', [Lit ''storage'']),
     (''GET'', [Lit ''storage'', Lit ''google'', Lit ''new'']), (''POST'', [Lit ''storage'', Lit ''google'']),
     (''GET'', [Lit ''storage'', Lit ''google'', Wild, Lit ''edit'']),
     (''POST'', [Lit ''storage'', Lit ''google'', Wild]),
     (''POST'', [Lit ''storage'', Lit ''google'', Wild, Lit ''delete'']),
     (''GET'', [Lit ''storage'', Lit ''s3'', Lit ''new'']), (''POST'', [Lit ''storage'', Lit ''s3'']),
     (''GET'', [Lit ''storage'', Lit ''s3'', Wild, Lit ''edit'']),
     (''POST'', [Lit ''storage'', Lit ''s3'', Wild]),
     (''POST'', [Lit ''storage'', Lit ''s3'', Wild, Lit ''delete'']), (''GET'', [Lit ''notify'']),
     (''GET'', [Lit ''notify'', Lit ''telegram'', Lit ''new'']), (''POST'', [Lit ''notify'', Lit ''telegram'']),
     (''GET'', [Lit ''notify'', Lit ''telegram'', Wild, Lit ''edit'']),
     (''POST'', [Lit ''notify'', Lit ''telegram'', Wild]),
     (''POST'', [Lit ''notify-channels'', Wild, Lit ''delete'']), (''GET'', [Lit ''logs'']),
     (''POST'', [Lit ''logs'', Lit ''clear'']), (''GET'', [Lit ''agents'']),
     (''GET'', [Lit ''agents'', Lit ''new'']), (''POST'', [Lit ''agents'']),
     (''GET'', [Lit ''agents'', Wild, Lit ''edit'']), (''POST'', [Lit ''agents'', Wild]),
     (''POST'', [Lit ''agents'', Wild, Lit ''delete'']), (''POST'', [Lit ''agents'', Wild, Lit ''check'']),
     (''GET'', [Lit ''databases'', Wild, Lit ''files'']),
     (''GET'', [Lit ''databases'', Wild, Lit ''files'', Wild, Lit ''download''])]"

lemma routes_table: "map (\<lambda>(m, ps, h). (m, ps)) (routes S r) = route_table"
  by (simp add: routes_def route_table_def)

lemma table_disjoint: "sorted_wrt (\<lambda>x y. \<not> (fst x = fst y \<and> clash (snd x) (snd y))) route_table"
  by code_simp

lemma routes_disjoint:
  "sorted_wrt (\<lambda>x y. \<not> (fst x = fst y \<and> clash (fst (snd x)) (fst (snd y)))) (routes S r)"
  using table_disjoint unfolding routes_table [of S r, symmetric]
  by (simp add: sorted_wrt_map split_beta)

lemma at_most_one:
  assumes "sorted_wrt (\<lambda>x y. \<not> (P x \<and> P y)) xs"
  shows "length (filter P xs) \<le> 1"
  using assms
proof (induction xs)
  case (Cons x xs)
  then show ?case
    by (cases "P x") (auto simp: filter_empty_conv)
qed simp

text \<open>
  No request has two handlers: at most one of the routes matches a method and a path, so the order in which
  they are registered makes no difference.
\<close>

theorem routes_unambiguous:
  "length (filter (\<lambda>(m', ps, h). m' = m \<and> path_match ps es \<noteq> None) (routes S r)) \<le> 1"
proof (rule at_most_one)
  show "sorted_wrt (\<lambda>x y. \<not> ((case x of (m', ps, h) \<Rightarrow> m' = m \<and> path_match ps es \<noteq> None) \<and>
      (case y of (m', ps, h) \<Rightarrow> m' = m \<and> path_match ps es \<noteq> None))) (routes S r)"
    by (rule sorted_wrt_mono_rel [OF _ routes_disjoint]) (auto intro: clash_complete)
qed

section \<open>The registry under any request\<close>

lemma ServeHTTP_keeps: "keeps_steps (ServeHTTP S r)"
proof -
  have "keeps_steps h" if "pick (routes S r) m es = Some (ps, h)" for m es ps and h
    using pick_Some [OF that] routes_keep by blast
  then show ?thesis
    by (auto simp: keeps_steps_def ServeHTTP_def dispatch_to_def Let_def split: option.split)
qed

lemma Handler_keeps: "keeps_steps (Handler S r)"
  unfolding keeps_steps_def
proof
  fix s
  have k: "reg_step\<^sup>*\<^sup>* (si_reg t) (si_reg (snd (ServeHTTP S r t)))" for t
    using ServeHTTP_keeps [of S r] by (simp add: keeps_steps_def)
  have "reg_step\<^sup>*\<^sup>* (si_reg s) (si_reg (snd (ServeHTTP S r (snd (check_session r v s)))))" for v
    using k [of "snd (check_session r v s)"] by simp
  with k [of s] show "reg_step\<^sup>*\<^sup>* (si_reg s) (si_reg (snd (Handler S r s)))"
    by (simp add: Handler_def requireAuth_def split_beta split: option.split)
qed

end
