(* ===== verification/AdminPages.thy ===== *)
theory AdminPages
  imports AdminProps
begin

text \<open>
  Properties of single pages and forms of the web interface: the pages of the log, the sizes in the list of
  files, and what a posted form leaves in the registry.
\<close>

section \<open>The log\<close>

lemma wrap64_id: "min_int64 \<le> n \<Longrightarrow> n \<le> max_int64 \<Longrightarrow> wrap64 n = n"
  by (simp add: wrap64_def signed_take_bit_int_eq_self min_int64_def max_int64_def)

lemma sdiv_pos: "0 \<le> a \<Longrightarrow> 0 < b \<Longrightarrow> a sdiv b = a div (b :: int)"
  by (cases "a = 0") (simp_all add: signed_divide_int_def)

definition page_count :: "int \<Rightarrow> int \<Rightarrow> int" where
  "page_count rows limit = max 1 ((rows + limit - 1) div limit)"

lemma newPagination_page:
  assumes "0 < limit" "0 \<le> rows" "rows + limit - 1 \<le> max_int64" "1 \<le> k" "k \<le> page_count rows limit"
  shows "pg_Page (newPagination k rows limit url) = k"
    and "Offset (newPagination k rows limit url) limit = (k - 1) * limit"
proof -
  have t: "wrap64 (rows + limit - 1) sdiv limit = (rows + limit - 1) div limit"
    using assms(1-3) by (simp add: wrap64_id min_int64_def sdiv_pos)
  show p: "pg_Page (newPagination k rows limit url) = k"
    using assms(1,4,5) t by (auto simp: newPagination_def Let_def page_count_def)
  have "(k - 1) * limit \<le> rows"
  proof (cases "k = 1")
    case False
    with assms(4,5) have "k \<le> (rows + limit - 1) div limit" by (simp add: page_count_def)
    then have "k * limit \<le> (rows + limit - 1) div limit * limit" using assms(1) by simp
    also have "\<dots> \<le> rows + limit - 1"
      using pos_mod_sign [OF assms(1), of "rows + limit - 1"] div_mult_mod_eq [of "rows + limit - 1" limit] by linarith
    finally have "k * limit \<le> rows + limit - 1" .
    then show ?thesis by (simp add: algebra_simps)
  qed (use assms(2) in simp)
  moreover have "k - 1 \<le> (k - 1) * limit" using assms(1,4) by (simp add: mult_le_cancel_left1)
  moreover have "0 \<le> (k - 1) * limit" using assms(1,4) by simp
  ultimately have "wrap64 (k - 1) = k - 1" "wrap64 ((k - 1) * limit) = (k - 1) * limit"
    using assms(1-4) by (auto intro!: wrap64_id simp: min_int64_def)
  with p show "Offset (newPagination k rows limit url) limit = (k - 1) * limit"
    by (simp add: Offset_def)
qed

lemma pages_concat:
  "concat (map (\<lambda>k. take n (drop (k * n) xs)) [0..<m]) = take (m * n) xs"
  by (induction m) (simp_all add: take_add [symmetric] add.commute)

lemma Atoi_itoa: "min_int64 \<le> n \<Longrightarrow> n \<le> max_int64 \<Longrightarrow> fst (Atoi (itoa n)) = n"
  by (simp add: Atoi_def ParseInt_itoa split_beta)

text \<open>The runs that the page of a request lists.\<close>

definition shown :: "('d, 'n, 'q) server \<Rightarrow> request \<Rightarrow> ('d, 'n, 'q) site \<Rightarrow> BackupRun list" where
  "shown S r s = (case fst (handleLogs S r s) of Page (logs_html d) \<Rightarrow> map rv_BackupRun (ld_Runs d) | _ \<Rightarrow> [])"

definition wanted :: "string \<Rightarrow> string \<Rightarrow> BackupRun \<Rightarrow> bool" where
  "wanted status q b \<longleftrightarrow> (status = [] \<or> br_Status b = status) \<and> (q = [] \<or> contains_ci (br_DBName b) q)"

lemma run_matches_wanted: "run_matches status q = wanted status q"
  by (cases "status = []"; cases "q = []")
    (simp_all add: fun_eq_iff run_matches_def wanted_def run_conds_def like_search [simplified])

lemma shown_page:
  assumes "no_faults (si_reg s)" and "limit = c_LogListLimit (sv_cfg S)"
    and "runs = rev (sort_key br_ID (filter (wanted (status_filter r) (log_query r)) (t_rows (backup_runs (si_reg s)))))"
  shows "shown S r s = sql_page limit
    (Offset (newPagination (fst (Atoi (get_value (URL_Query r) ''page''))) (int (length runs)) limit
      (logs_url (filter_params (status_filter r) (log_query r)))) limit) runs"
  using assms
  by (simp add: shown_def handleLogs_def or_fail_def on_db_def CountBackupRuns_def ListBackupRuns_def Let_def
      run_matches_wanted run_view_def comp_def length_filter_conv_card)

text \<open>
  C28. The pages of the log are the log: read one after the other they list every run with the status and a
  database name that contains the query, in either case of its letters, once, the newest first.
\<close>

theorem log_pages_cover:
  assumes "no_faults (si_reg s)" and "0 < limit" and "limit = c_LogListLimit (sv_cfg S)"
    and "runs = rev (sort_key br_ID (filter (wanted status q) (t_rows (backup_runs (si_reg s)))))"
    and "int (length runs) + limit - 1 \<le> max_int64"
    and "\<And>k. status_filter (R k) = status \<and> log_query (R k) = q \<and> get_value (URL_Query (R k)) ''page'' = itoa (int k + 1)"
  shows "concat (map (\<lambda>k. shown S (R k) s) [0..<nat (page_count (int (length runs)) limit)]) = runs"
proof -
  let ?N = "int (length runs)" and ?n = "nat limit"
  let ?T = "nat (page_count ?N limit)"
  have "shown S (R k) s = take ?n (drop (k * ?n) runs)" if "k < ?T" for k
  proof -
    have k: "1 \<le> int k + 1" "int k + 1 \<le> page_count ?N limit" using that by auto
    have "(?N + limit - 1) div limit \<le> ?N + limit - 1"
      using assms(2) zdiv_mono2 [of "?N + limit - 1" 1 limit] by simp
    then have "int k + 1 \<le> max_int64"
      using k(2) assms(2,5) by (simp add: page_count_def max_int64_def split: if_splits)
    then have a: "fst (Atoi (itoa (int k + 1))) = int k + 1" by (simp add: Atoi_itoa min_int64_def)
    have "shown S (R k) s = sql_page limit (int k * limit) runs"
      using shown_page [OF assms(1,3), of runs "R k"] assms(4,6) a newPagination_page(2) [OF assms(2) _ assms(5) k]
      by simp
    moreover have "nat (int k * limit) = k * ?n" using assms(2) by (simp add: nat_mult_distrib)
    ultimately show ?thesis using assms(2) by (simp add: sql_page_def)
  qed
  then have "map (\<lambda>k. shown S (R k) s) [0..<?T] = map (\<lambda>k. take ?n (drop (k * ?n) runs)) [0..<?T]" by simp
  then have "concat (map (\<lambda>k. shown S (R k) s) [0..<?T]) = take (?T * ?n) runs"
    by (simp only: pages_concat)
  moreover have "?N \<le> page_count ?N limit * limit"
  proof -
    have "?N + limit - 1 = limit * ((?N + limit - 1) div limit) + (?N + limit - 1) mod limit" by simp
    moreover have "(?N + limit - 1) mod limit < limit" using assms(2) by simp
    ultimately have "?N \<le> limit * ((?N + limit - 1) div limit)" by linarith
    also have "\<dots> \<le> limit * page_count ?N limit"
      using assms(2) by (intro mult_left_mono) (simp_all add: page_count_def)
    finally show ?thesis by (simp add: mult.commute)
  qed
  then have "length runs \<le> ?T * ?n"
    using assms(2) by (metis int_nat_eq le_nat_iff less_imp_le nat_int nat_mono nat_mult_distrib page_count_def max.cobounded1 order_trans zero_le_one)
  ultimately show ?thesis by simp
qed

definition log_request :: "nat \<Rightarrow> request" where
  "log_request k = (get_request ''/logs'')
     \<lparr>hr_RawQuery := QueryEscape ''page'' @ ''='' @ QueryEscape (itoa (int k + 1))\<rparr>"

lemma log_pages_cover_witness:
  "concat (map (\<lambda>k. shown web_server (log_request k) web_site) [0..<nat (page_count 1 200)]) =
   t_rows (backup_runs (si_reg web_site))"
proof -
  have q: "URL_Query (log_request k) = [(''page'', itoa (int k + 1))]" for k
    unfolding log_request_def URL_Query_def by (simp add: ParseQuery_one [simplified])
  have r: "no_faults (si_reg web_site)" "length (t_rows (backup_runs (si_reg web_site))) = 1"
    "c_LogListLimit (sv_cfg web_server) = 200"
    using work_calm by (simp_all add: web_site_def work_world_def work_registry_def web_server_def Load_def getEnvInt_def getEnv_def)
  have e: "TrimSpace [] = []" by code_simp
  from r obtain b where b: "t_rows (backup_runs (si_reg web_site)) = [b]" by (auto simp: length_Suc_conv)
  have "concat (map (\<lambda>k. shown web_server (log_request k) web_site)
      [0..<nat (page_count (int (length [b])) 200)]) = [b]"
    by (rule log_pages_cover [where status = "[]" and q = "[]"])
      (use r b q e in \<open>simp_all add: wanted_def status_filter_def log_query_def get_value_def max_int64_def\<close>)
  with b show ?thesis by simp
qed

section \<open>Sizes\<close>

lemma size_loop_power:
  assumes "1 \<le> n2" and "n2 < 1024 ^ fuel"
  shows "\<exists>j. size_loop fuel n2 (d, e) = (d * 1024 ^ j, e + j) \<and> 1024 ^ j \<le> n2 \<and> n2 < 1024 ^ (j + 1)"
  using assms
proof (induction fuel arbitrary: n2 d e)
  case (Suc k)
  show ?case
  proof (cases "1024 \<le> n2")
    case True
    then have "1 \<le> n2 div 1024" "n2 div 1024 < 1024 ^ k" using Suc.prems(2) by auto
    from Suc.IH [OF this, of "d * 1024" "e + 1"] obtain j where
      j: "size_loop k (n2 div 1024) (d * 1024, e + 1) = (d * 1024 * 1024 ^ j, e + 1 + j)"
        "1024 ^ j \<le> n2 div 1024" "n2 div 1024 < 1024 ^ (j + 1)" by blast
    then have "1024 ^ Suc j \<le> n2 \<and> n2 < 1024 ^ (Suc j + 1)" by auto
    with True j(1) show ?thesis by (intro exI [of _ "Suc j"]) simp
  next
    case False
    with Suc.prems(1) show ?thesis by (intro exI [of _ 0]) simp
  qed
qed simp

text \<open>
  C34. A size is always shown in one of the six units, for every number of bytes an int64 holds: the loop stops
  at the largest power of 1024 that fits, which is below 2^61, so neither the multiplication wraps nor the index
  into the units leaves the text.
\<close>

theorem human_size_fits:
  assumes "1024 \<le> n" and "n \<le> max_int64"
  shows "\<exists>d e. size_loop 64 (n div 1024) (1024, 0) = (d, e) \<and> e < 6 \<and> d = 1024 ^ (e + 1) \<and> d \<le> 2 ^ 60 \<and>
    d \<le> n \<and> n < 1024 * d \<and> humanSize n \<noteq> None"
proof -
  have n: "1 \<le> n div 1024" "n div 1024 < 1024 ^ 64" using assms by (auto simp: max_int64_def)
  from size_loop_power [OF n, of 1024 0] obtain j where
    j: "size_loop 64 (n div 1024) (1024, 0) = (1024 * 1024 ^ j, j)" "1024 ^ j \<le> n div 1024" "n div 1024 < 1024 ^ (j + 1)"
    by auto
  have "j < 6"
  proof (rule ccontr)
    assume "\<not> j < 6"
    then have "(1024 :: int) ^ 6 \<le> 1024 ^ j" by (intro power_increasing) auto
    with j(2) assms(2) show False by (simp add: max_int64_def)
  qed
  moreover from this have "(1024 :: int) ^ (j + 1) \<le> 1024 ^ 6" by (intro power_increasing) auto
  moreover have "1024 ^ (j + 1) \<le> n \<and> n < 1024 * 1024 ^ (j + 1)" using j(2,3) by auto
  moreover have "humanSize n \<noteq> None" using assms(1) j(1) \<open>j < 6\<close> by (simp add: humanSize_def Let_def)
  ultimately show ?thesis using j(1) by (intro exI [of _ "1024 ^ (j + 1)"] exI [of _ j]) simp
qed

lemma human_size_fits_witness: "humanSize max_int64 \<noteq> None"
  using human_size_fits [of max_int64] by (auto simp: max_int64_def)

end
