(* ===== verification/AdminForms.thy ===== *)
theory AdminForms
  imports AdminPages
begin

text \<open>
  Properties of the posted forms: what they store is what the rest of the program reads.
\<close>

section \<open>Posted forms\<close>

definition posts :: "request \<Rightarrow> pairs \<Rightarrow> bool" where
  "posts r kvs \<longleftrightarrow> hr_Method r = ''POST'' \<and> hr_RawQuery r = [] \<and> hr_Body r = Some (Encode kvs)"

lemma find_filter: "find P xs = (case filter P xs of [] \<Rightarrow> None | x # _ \<Rightarrow> Some x)"
  by (induction xs) auto

lemma get_value_sorted [simp]: "get_value (sort_key fst kvs) k = get_value kvs k"
  by (simp add: get_value_def find_filter sort_key_stable)

lemma get_values_sorted [simp]: "get_values (sort_key fst kvs) k = get_values kvs k"
  by (simp add: get_values_def sort_key_stable)

lemma ParseForm_posts: "posts r kvs \<Longrightarrow> kvs \<noteq> [] \<Longrightarrow> ParseForm r = Inr (sort_key fst kvs)"
  by (simp add: posts_def ParseForm_def ParseQuery_Encode) (simp add: ParseQuery_def read_piece_def)

section \<open>Databases\<close>

text \<open>The fields of the form for a database as the browser posts them.\<close>

definition form_of :: "Database \<Rightarrow> int list \<Rightarrow> pairs" where
  "form_of d channelIDs =
     [(''name'', d_Name d), (''driver'', d_Driver d), (''host'', d_Host d), (''port'', d_Port d),
      (''username'', d_Username d), (''password'', d_Password d), (''auth_db'', d_AuthDB d),
      (''storage_target_id'', itoa (d_StorageTargetID d)), (''agent_id'', itoa (d_AgentID d))] @
     (if d_Enabled d then [(''enabled'', ''on'')] else []) @
     map (\<lambda>i. (''notify_channel_ids'', itoa i)) channelIDs"

definition in_int64 :: "int \<Rightarrow> bool" where
  "in_int64 n \<longleftrightarrow> min_int64 \<le> n \<and> n \<le> max_int64"

lemma parsed_form:
  assumes "posts r (form_of d channelIDs)" and "in_int64 (d_StorageTargetID d)" and "in_int64 (d_AgentID d)"
    and "\<forall>i \<in> set channelIDs. in_int64 i"
  shows "parseForm r = Inr (d\<lparr>d_ID := 0, d_CreatedAt := [], d_UpdatedAt := []\<rparr>, channelIDs)"
proof -
  have ne: "form_of d channelIDs \<noteq> []" by (simp add: form_of_def)
  have v: "get_value (form_of d channelIDs) ''enabled'' = (if d_Enabled d then ''on'' else [])"
    by (simp add: form_of_def get_value_def find_None_iff split: option.split)
      (auto dest!: find_Some_mem)
  have "get_values (form_of d channelIDs) ''notify_channel_ids'' = map itoa channelIDs"
    by (simp add: form_of_def get_values_def filter_map comp_def)
  moreover have "concat (map (\<lambda>v. if snd (ParseInt v) = None then [fst (ParseInt v)] else []) (map itoa channelIDs)) = channelIDs"
    using assms(4) by (induction channelIDs) (simp_all add: ParseInt_itoa in_int64_def)
  ultimately have ids: "form_ids (form_of d channelIDs) ''notify_channel_ids'' = channelIDs"
    by (simp add: form_ids_def)
  have "database_of_form (form_of d channelIDs) = d\<lparr>d_ID := 0, d_CreatedAt := [], d_UpdatedAt := []\<rparr>"
    using assms(2,3) v
    by (simp add: database_of_form_def in_int64_def ParseInt_itoa) (simp add: form_of_def get_value_def in_int64_def ParseInt_itoa)
  moreover have "parseForm r = Inr (database_of_form (form_of d channelIDs), form_ids (form_of d channelIDs) ''notify_channel_ids'')"
    using ParseForm_posts [OF assms(1)] ne by (simp add: parseForm_def database_of_form_def form_ids_def)
  ultimately show ?thesis using ids by simp
qed

lemma insert_channels_databases: "databases (snd (insert_channels i cs r)) = databases r"
proof (induction cs arbitrary: r)
  case (Cons c cs)
  have "databases (snd (insert_channel i c r)) = databases r"
    by (cases "insert_channel i c r"; rule exec_cases [of "\<lambda>r. if (i, c) \<in> set (database_notify_channels r)
     then (Inl (SqlUnique ''database_notify_channels.database_id, database_notify_channels.notify_channel_id''), r)
     else if \<not> has_id d_ID i (databases r) \<or> \<not> has_id nc_ID c (notify_channels r)
     then (Inl SqlForeignKey, r)
     else (Inr (), r\<lparr>database_notify_channels := database_notify_channels r @ [(i, c)]\<rparr>)" r])
      (auto simp: insert_channel_def split: if_splits)
  with Cons.IH show ?case by (auto split: prod.split sum.split)
qed simp

lemma SetDatabaseNotifyChannels_databases: "databases (snd (SetDatabaseNotifyChannels i cs r)) = databases r"
proof -
  have "databases (snd (clear_channels i r)) = databases r"
    by (rule exec_cases [of "\<lambda>r. (Inr (), r\<lparr>database_notify_channels := filter (\<lambda>p. fst p \<noteq> i) (database_notify_channels r)\<rparr>)" r])
      (auto simp: clear_channels_def)
  then show ?thesis
    by (auto simp: SetDatabaseNotifyChannels_def split: prod.split sum.split) (metis insert_channels_databases snd_conv)+
qed

text \<open>
  C27. The form of a new database loses nothing: what the browser posts for a database is the row the registry
  then holds, field by field, whatever bytes the fields contain, beside the rows it held before.
\<close>

theorem new_database_is_stored:
  assumes "no_faults (si_reg s)" and "posts r (form_of d channelIDs)"
    and "in_int64 (d_StorageTargetID d)" and "in_int64 (d_AgentID d)" and "\<forall>i \<in> set channelIDs. in_int64 i"
    and "db_identity d \<notin> db_identity ` set (t_rows (databases (si_reg s)))"
    and "handleCreate S r s = (x, s')"
  shows "t_rows (databases (si_reg s')) = t_rows (databases (si_reg s)) @
    [d\<lparr>d_ID := t_seq (databases (si_reg s)) + 1, d_CreatedAt := now_utc (si_reg s), d_UpdatedAt := now_utc (si_reg s)\<rparr>]"
proof -
  let ?row = "d\<lparr>d_ID := t_seq (databases (si_reg s)) + 1, d_CreatedAt := now_utc (si_reg s), d_UpdatedAt := now_utc (si_reg s)\<rparr>"
  let ?t = "\<lparr>t_rows = t_rows (databases (si_reg s)) @ [?row], t_seq = t_seq (databases (si_reg s)) + 1\<rparr>"
  have "db_identity (d\<lparr>d_ID := 0, d_CreatedAt := [], d_UpdatedAt := []\<rparr>) = db_identity d" by (simp add: db_identity_def)
  then have c: "reg_Create (d\<lparr>d_ID := 0, d_CreatedAt := [], d_UpdatedAt := []\<rparr>) (si_reg s) =
      (Inr (t_seq (databases (si_reg s)) + 1), (si_reg s)\<lparr>databases := ?t\<rparr>)"
    using assms(1,6) by (simp add: reg_Create_def sql_insert_def set_d_ID_def Let_def)
  have "databases (si_reg s') = ?t"
    using assms(7) parsed_form [OF assms(2-5)] c
      SetDatabaseNotifyChannels_databases [of "t_seq (databases (si_reg s)) + 1" channelIDs "(si_reg s)\<lparr>databases := ?t\<rparr>"]
    by (auto simp: handleCreate_def or_fail_def on_db_def split: prod.splits sum.splits)
  then show ?thesis by simp
qed

definition new_db :: Database where
  "new_db = sample_db\<lparr>d_Name := ''wiki''\<rparr>"

lemma new_database_is_stored_witness:
  "length (t_rows (databases (si_reg (snd (handleCreate web_server (post_request ''/new'' (Encode (form_of new_db [1]))) web_site))))) = 3"
proof -
  obtain x s' where h: "handleCreate web_server (post_request ''/new'' (Encode (form_of new_db [1]))) web_site = (x, s')"
    by fastforce
  have p: "posts (post_request ''/new'' (Encode (form_of new_db [1]))) (form_of new_db [1])"
    by (simp add: posts_def post_request_def get_request_def)
  have d: "databases (si_reg web_site) = databases sample_registry"
    by (simp add: web_site_def work_registry_def)
  have "no_faults (si_reg web_site)"
    using work_calm by (simp add: web_site_def work_world_def)
  from new_database_is_stored [OF this p _ _ _ _ h] h show ?thesis
    by (simp add: d sample_databases new_db_def sample_db_def sample_db2_def sample_row1_def sample_row2_def
        db_identity_def in_int64_def min_int64_def max_int64_def)
qed

section \<open>Times\<close>

text \<open>
  C40. A time typed without its leading zero is accepted and never comes: the form takes ``9:05'', answers that
  all is well, and the schedule it stores is due at no moment of any day.
\<close>

theorem short_hour_never_comes:
  assumes "no_faults (si_reg s)" and "reg_inv (si_reg s)" and "posts r [(''time_of_day'', t)]"
    and "Parse_15_04 t = Some (h, m)" and "length t = 4"
    and "has_id d_ID i (databases (si_reg s))" and "in_int64 i"
    and "handleAddSchedule S r (itoa i) s = (x, s')"
  shows "\<exists>row. x = RedirectTo 303 (''/edit/'' @ itoa i) \<and>
    t_rows (schedules (si_reg s')) = t_rows (schedules (si_reg s)) @ [row] \<and>
    s_DatabaseID row = i \<and> s_Enabled row \<and> s_TimeOfDay row = t \<and>
    (\<forall>now date item. item \<in> set (due_rows (si_reg s') (format_15_04 now) date) \<longrightarrow> dj_ScheduleID item \<noteq> s_ID row)"
proof -
  let ?t = "schedules (si_reg s)"
  let ?row = "\<lparr>s_ID = t_seq ?t + 1, s_DatabaseID = i, s_TimeOfDay = t, s_Enabled = True, s_LastRunDate = [],
    s_CreatedAt = now_utc (si_reg s)\<rparr>"
  have f: "ParseForm r = Inr [(''time_of_day'', t)]" using ParseForm_posts [OF assms(3)] by simp
  have i: "ParseInt (itoa i) = (i, None)" using assms(7) by (simp add: ParseInt_itoa in_int64_def)
  have s': "x = RedirectTo 303 (''/edit/'' @ itoa i)"
    "si_reg s' = (si_reg s)\<lparr>schedules := \<lparr>t_rows = t_rows ?t @ [?row], t_seq = t_seq ?t + 1\<rparr>\<rparr>"
    using assms(1,4,6,8)
    by (auto simp: handleAddSchedule_def with_id_def i with_form_def f with_time_def get_value_def or_fail_def
        on_db_def CreateSchedule_def sql_insert_def set_s_ID_def Let_def)
  have t: "t \<noteq> format_15_04 now" for now using assms(5) by (metis length_format_15_04 eval_nat_numeral(3) n_not_Suc_n)
  have "wf_table s_ID ?t" using assms(2) by (simp add: reg_inv_def tables_wf_def)
  then have "\<forall>y \<in> set (t_rows ?t). s_ID y \<noteq> t_seq ?t + 1" by (force simp: wf_table_def)
  with t have "dj_ScheduleID item \<noteq> s_ID ?row"
    if "item \<in> set (due_rows (si_reg s') (format_15_04 now) date)" for now date item
    using that by (auto simp: due_rows_def s')
  with s' show ?thesis by (intro exI [of _ ?row]) simp
qed

lemma short_hour_never_comes_witness:
  "fst (handleAddSchedule web_server (post_request ''/databases/1/schedules'' (Encode [(''time_of_day'', ''9:05'')])) (itoa 1) web_site) =
   RedirectTo 303 (''/edit/'' @ itoa 1)"
proof -
  let ?r = "post_request ''/databases/1/schedules'' (Encode [(''time_of_day'', ''9:05'')])"
  obtain x s' where h: "handleAddSchedule web_server ?r (itoa 1) web_site = (x, s')" by fastforce
  have p: "posts ?r [(''time_of_day'', ''9:05'')]" by (simp add: posts_def post_request_def get_request_def)
  have d: "has_id d_ID 1 (databases (si_reg web_site))"
    by (simp add: web_site_def work_registry_def sample_databases has_id_def sample_row1_def)
  have t: "Parse_15_04 ''9:05'' = Some (9, 5)" by code_simp
  have n: "no_faults (si_reg web_site)"
    using work_calm by (simp add: web_site_def work_world_def)
  from short_hour_never_comes [OF n web_inv p t _ d _ h] h show ?thesis
    by (auto simp: in_int64_def min_int64_def max_int64_def)
qed

section \<open>Configurations\<close>

text \<open>
  C29. The web interface and the services agree on the JSON of a configuration, which either side declares for
  itself: a Telegram channel that is posted complete is stored as a row from which the notifier builds exactly
  that channel, and an S3 destination as a row from which the storage component builds its client.
\<close>

theorem saved_configuration_is_read:
  assumes "no_faults (si_reg s)" and "ParseForm r = Inr form"
    and "\<forall>k. valid_utf8 (TrimSpace (get_value form k))" and "TrimSpace (get_value form ''label'') \<noteq> []"
  shows "(\<forall>token chat. token = TrimSpace (get_value form ''bot_token'') \<and> chat = TrimSpace (get_value form ''chat_id'') \<and>
      token \<noteq> [] \<and> chat \<noteq> [] \<longrightarrow>
      (\<exists>row. t_rows (notify_channels (si_reg (snd (handleNotifyAddTelegram S r s)))) =
          t_rows (notify_channels (si_reg s)) @ [row] \<and> Build row = Inr (Telegram token chat))) \<and>
    (cl_s3_new (sv_cloud S) (s3_of_form form) = None \<longrightarrow>
      (\<exists>row. t_rows (storage_targets (si_reg (snd (handleStorageAddS3 S r s)))) =
          t_rows (storage_targets (si_reg s)) @ [row] \<and>
        (\<forall>cfg st. storage_Build (sv_cloud S) cfg row st = (Inr (S3Provider (s3_of_form form)), st))))"
proof (intro conjI allI impI)
  fix token chat
  assume a: "token = TrimSpace (get_value form ''bot_token'') \<and> chat = TrimSpace (get_value form ''chat_id'') \<and>
      token \<noteq> [] \<and> chat \<noteq> []"
  then have a': "TrimSpace (get_value form ''bot_token'') = token" "TrimSpace (get_value form ''chat_id'') = chat"
    "token \<noteq> []" "chat \<noteq> []" by blast+
  let ?c = "\<lparr>tc_BotToken = token, tc_ChatID = chat\<rparr>" and ?t = "notify_channels (si_reg s)"
  let ?row = "\<lparr>nc_ID = t_seq ?t + 1, nc_Kind = ''telegram'', nc_Label = TrimSpace (get_value form ''label''),
    nc_Config = json_text (telegram_json ?c), nc_CreatedAt = now_utc (si_reg s), nc_UpdatedAt = now_utc (si_reg s)\<rparr>"
  have "t_rows (notify_channels (si_reg (snd (handleNotifyAddTelegram S r s)))) = t_rows ?t @ [?row]"
    using assms(1,2,4) a'
    by (simp add: handleNotifyAddTelegram_def parseTelegramForm_def or_fail_def telegram_incomplete_def or_again_def
        on_db_def CreateNotifyChannel_def sql_insert_def set_nc_ID_def Let_def)
  moreover have "Build ?row = Inr (Telegram token chat)"
    using newTelegram_of_json [of ?c ?row] spec [OF assms(3), of "''bot_token''"] spec [OF assms(3), of "''chat_id''"] a' by (simp add: Build_def)
  ultimately show "\<exists>row. t_rows (notify_channels (si_reg (snd (handleNotifyAddTelegram S r s)))) = t_rows ?t @ [row] \<and>
      Build row = Inr (Telegram token chat)" by blast
next
  assume c: "cl_s3_new (sv_cloud S) (s3_of_form form) = None"
  let ?t = "storage_targets (si_reg s)"
  let ?row = "\<lparr>st_ID = t_seq ?t + 1, st_Kind = ''s3'', st_Label = TrimSpace (get_value form ''label''),
    st_Config = json_text (s3_json (s3_of_form form)), st_CreatedAt = now_utc (si_reg s), st_UpdatedAt = now_utc (si_reg s)\<rparr>"
  have "t_rows (storage_targets (si_reg (snd (handleStorageAddS3 S r s)))) = t_rows ?t @ [?row]"
    using assms(1,2,4)
    by (simp add: handleStorageAddS3_def parseS3Form_def or_fail_def or_again_def on_db_def CreateStorageTarget_def
        sql_insert_def set_st_ID_def Let_def)
  moreover have "Unmarshal s3_fields zero_s3 (json_text (s3_json (s3_of_form form))) = Some (s3_of_form form)"
    by (rule Unmarshal_s3) (use assms(3) in \<open>simp add: s3_of_form_def Let_def\<close>)
  then have "storage_Build (sv_cloud S) cfg ?row st = (Inr (S3Provider (s3_of_form form)), st)" for cfg and st
    using c by (simp add: storage_Build_def newS3_def s3_New_def)
  ultimately show "\<exists>row. t_rows (storage_targets (si_reg (snd (handleStorageAddS3 S r s)))) = t_rows ?t @ [row] \<and>
      (\<forall>cfg st. storage_Build (sv_cloud S) cfg row st = (Inr (S3Provider (s3_of_form form)), st))" by blast
qed

definition channel_form :: pairs where
  "channel_form = [(''label'', ''ops''), (''bot_token'', ''42:x''), (''chat_id'', ''-7'')]"

lemma saved_configuration_is_read_witness:
  "\<exists>row. t_rows (notify_channels (si_reg (snd (handleNotifyAddTelegram web_server
      (post_request ''/notify/telegram'' (Encode channel_form)) web_site)))) =
    t_rows (notify_channels (si_reg web_site)) @ [row] \<and> Build row = Inr (Telegram ''42:x'' ''-7'')"
proof -
  let ?r = "post_request ''/notify/telegram'' (Encode channel_form)"
  have "posts ?r channel_form" by (simp add: posts_def post_request_def get_request_def)
  then have f: "ParseForm ?r = Inr (sort_key fst channel_form)" by (simp add: ParseForm_posts channel_form_def)
  have n: "no_faults (si_reg web_site)"
    using work_calm by (simp add: web_site_def work_world_def)
  have v: "get_value channel_form k = (if k = ''label'' then ''ops'' else if k = ''bot_token'' then ''42:x''
      else if k = ''chat_id'' then ''-7'' else [])" for k
    by (simp add: channel_form_def get_value_def)
  have t: "TrimSpace ''ops'' = ''ops''" "TrimSpace ''42:x'' = ''42:x''" "TrimSpace ''-7'' = ''-7''" "TrimSpace [] = []"
    by code_simp+
  have "\<forall>k. valid_utf8 (TrimSpace (get_value channel_form k))" using t by (simp add: v valid_utf8_ascii)
  with saved_configuration_is_read [OF n f] show ?thesis using t by (simp add: v)
qed

section \<open>What is due after a click\<close>

text \<open>The two lists that a tick works off, as functions of the rows they are made from.\<close>

definition own_due :: "Schedule list \<Rightarrow> Database list \<Rightarrow> string \<Rightarrow> string \<Rightarrow> DueJob list" where
  "own_due ss ds hhmm today =
     concat (map (\<lambda>s. map (DueJob.make (s_ID s))
       (filter (\<lambda>d. d_ID d = s_DatabaseID s \<and> s_Enabled s \<and> d_Enabled d \<and> s_TimeOfDay s = hhmm \<and> s_LastRunDate s \<noteq> today) ds)) ss)"

definition shared_due ::
  "SharedScheduleTime list \<Rightarrow> SharedScheduleRow list \<Rightarrow> (int \<times> int) list \<Rightarrow> Database list \<Rightarrow> string \<Rightarrow> string \<Rightarrow> DueJob list" where
  "shared_due ts ss ms ds hhmm today =
     concat (map (\<lambda>t. concat (map (\<lambda>s. concat (map (\<lambda>m. map (DueJob.make (sst_ID t))
       (filter (\<lambda>d. ss_ID s = sst_SharedScheduleID t \<and> fst m = ss_ID s \<and> d_ID d = snd m \<and> ss_Enabled s \<and> d_Enabled d \<and>
          sst_TimeOfDay t = hhmm \<and> sst_LastRunDate t \<noteq> today) ds)) ms)) ss)) ts)"

lemma pick_rows: "concat (map (\<lambda>d. if P d then [f d] else []) ds) = map f (filter P ds)"
  by (induction ds) auto

lemma due_as_rows:
  "due_rows r hhmm today = own_due (t_rows (schedules r)) (t_rows (databases r)) hhmm today"
  "due_shared_rows r hhmm today = shared_due (t_rows (shared_schedule_times r)) (t_rows (shared_schedules r))
     (shared_schedule_databases r) (t_rows (databases r)) hhmm today"
  unfolding due_rows_def due_shared_rows_def own_due_def shared_due_def boolToInt_1 pick_rows
  by (simp_all add: DueJob.make_def [abs_def])

definition of_others :: "int \<Rightarrow> DueJob \<Rightarrow> bool" where
  "of_others i j \<longleftrightarrow> d_ID (dj_Database j) \<noteq> i"

lemma filter_made: "filter (of_others i) (map (DueJob.make k) ds) = map (DueJob.make k) (filter (\<lambda>d. d_ID d \<noteq> i) ds)"
  by (simp add: filter_map comp_def of_others_def DueJob.make_def)

lemma swap_filters: "filter P (filter Q xs) = filter Q (filter P xs)"
  by (simp add: conj_commute)

text \<open>Without the rows of a database the lists lose its jobs and nothing else; only databases that are on count.\<close>

lemma due_of_others:
  "filter (of_others i) (own_due ss ds hhmm today) = own_due ss (filter (\<lambda>d. d_ID d \<noteq> i) ds) hhmm today"
  "filter (of_others i) (shared_due ts shs ms ds hhmm today) = shared_due ts shs ms (filter (\<lambda>d. d_ID d \<noteq> i) ds) hhmm today"
  unfolding own_due_def shared_due_def filter_concat map_map comp_def filter_made
  by (subst swap_filters, rule refl)+

lemma due_of_enabled:
  "own_due ss (filter d_Enabled ds) hhmm today = own_due ss ds hhmm today"
  "shared_due ts shs ms (filter d_Enabled ds) hhmm today = shared_due ts shs ms ds hhmm today"
  unfolding own_due_def shared_due_def filter_filter
  by (intro arg_cong [where f = concat] map_cong filter_cong refl; blast)+

lemma concat_map_drop: "(\<And>x. x \<in> set xs \<Longrightarrow> \<not> P x \<Longrightarrow> f x = []) \<Longrightarrow> concat (map f (filter P xs)) = concat (map f xs)"
  by (induction xs) auto

lemma due_unreferenced:
  assumes "\<forall>d\<in>set ds. d_ID d \<noteq> i"
  shows "own_due (filter (\<lambda>s. s_DatabaseID s \<noteq> i) ss) ds hhmm today = own_due ss ds hhmm today"
    and "shared_due ts shs (filter (\<lambda>m. snd m \<noteq> i) ms) ds hhmm today = shared_due ts shs ms ds hhmm today"
proof -
  have none: "filter (\<lambda>d. P d \<and> d_ID d = i \<and> Q d) ds = []" "filter (\<lambda>d. d_ID d = i \<and> Q d) ds = []" for P Q
    using assms by (auto simp: filter_empty_conv)
  show "own_due (filter (\<lambda>s. s_DatabaseID s \<noteq> i) ss) ds hhmm today = own_due ss ds hhmm today"
    unfolding own_due_def by (rule concat_map_drop) (use none in auto)
  have members: "concat (map (\<lambda>m. map (DueJob.make (sst_ID t))
       (filter (\<lambda>d. ss_ID s = sst_SharedScheduleID t \<and> fst m = ss_ID s \<and> d_ID d = snd m \<and> ss_Enabled s \<and> d_Enabled d \<and>
          sst_TimeOfDay t = hhmm \<and> sst_LastRunDate t \<noteq> today) ds)) (filter (\<lambda>m. snd m \<noteq> i) ms)) =
      concat (map (\<lambda>m. map (DueJob.make (sst_ID t))
       (filter (\<lambda>d. ss_ID s = sst_SharedScheduleID t \<and> fst m = ss_ID s \<and> d_ID d = snd m \<and> ss_Enabled s \<and> d_Enabled d \<and>
          sst_TimeOfDay t = hhmm \<and> sst_LastRunDate t \<noteq> today) ds)) ms)" for t s
    by (rule concat_map_drop) (use assms in \<open>auto simp: filter_empty_conv\<close>)
  show "shared_due ts shs (filter (\<lambda>m. snd m \<noteq> i) ms) ds hhmm today = shared_due ts shs ms ds hhmm today"
    unfolding shared_due_def by (simp only: members)
qed

lemma delete_none: "(\<And>x. x \<in> set (t_rows t) \<Longrightarrow> \<not> P x) \<Longrightarrow> sql_delete P t = t"
  by (cases t) (auto simp: sql_delete_def intro: filter_True)

text \<open>
  C25. Deleting a database on the page takes its jobs off the schedule and touches nothing else that runs: at every
  moment of every day the jobs due are those that were due before, in their order, less the ones of that database;
  every other database keeps its row and its channels, and the log, the list of files and the queue are as they were.
\<close>

theorem deleted_database_is_gone:
  assumes "no_faults (si_reg s)" and "reg_inv (si_reg s)" and "ParseInt v = (i, None)"
    and "handleDelete S v s = (x, s')"
  shows "x = RedirectTo 303 ''/'' \<and>
    t_rows (databases (si_reg s')) = filter (\<lambda>d. d_ID d \<noteq> i) (t_rows (databases (si_reg s))) \<and>
    database_notify_channels (si_reg s') = filter (\<lambda>p. fst p \<noteq> i) (database_notify_channels (si_reg s)) \<and>
    (\<forall>hhmm today. due_rows (si_reg s') hhmm today = filter (of_others i) (due_rows (si_reg s) hhmm today) \<and>
       due_shared_rows (si_reg s') hhmm today = filter (of_others i) (due_shared_rows (si_reg s) hhmm today)) \<and>
    backup_runs (si_reg s') = backup_runs (si_reg s) \<and> backup_files (si_reg s') = backup_files (si_reg s) \<and>
    si_q s' = si_q s"
proof -
  let ?r = "si_reg s"
  let ?ds = "filter (\<lambda>d. d_ID d \<noteq> i) (t_rows (databases ?r))"
  let ?R = "?r\<lparr>databases := sql_delete (\<lambda>x. d_ID x = i) (databases ?r), schedules := sql_delete (\<lambda>x. s_DatabaseID x = i) (schedules ?r),
     shared_schedule_databases := filter (\<lambda>p. snd p \<noteq> i) (shared_schedule_databases ?r),
     database_notify_channels := filter (\<lambda>p. fst p \<noteq> i) (database_notify_channels ?r)\<rparr>"
  have "ds_reg (si_ds s') = ?R \<and> x = RedirectTo 303 ''/'' \<and> si_q s' = si_q s"
  proof (cases "has_id d_ID i (databases ?r)")
    case True
    with assms(1,3,4) show ?thesis
      by (auto simp: handleDelete_def with_id_def or_fail_def on_db_def reg_Delete_def)
  next
    case False
    have out: "i \<notin> d_ID ` set (t_rows (databases ?r))"
      using False by (auto simp: has_id_def)
    have sub: "s_DatabaseID ` set (t_rows (schedules ?r)) \<subseteq> d_ID ` set (t_rows (databases ?r))"
      "set (shared_schedule_databases ?r) \<subseteq> ids ss_ID (shared_schedules ?r) \<times> d_ID ` set (t_rows (databases ?r))"
      "set (database_notify_channels ?r) \<subseteq> d_ID ` set (t_rows (databases ?r)) \<times> ids nc_ID (notify_channels ?r)"
      using assms(2) by (simp_all add: reg_inv_def refs_wf_def ids_def)
    have refs: "s_DatabaseID x \<noteq> i" if "x \<in> set (t_rows (schedules ?r))" for x
      using sub out that by auto
    have pairs: "snd p \<noteq> i" if "p \<in> set (shared_schedule_databases ?r)" for p
      using sub out that by auto
    have pairs': "fst p \<noteq> i" if "p \<in> set (database_notify_channels ?r)" for p
      using sub out that by auto
    have gone: "sql_delete (\<lambda>x. d_ID x = i) (databases ?r) = databases ?r"
      "sql_delete (\<lambda>x. s_DatabaseID x = i) (schedules ?r) = schedules ?r"
      "filter (\<lambda>p. snd p \<noteq> i) (shared_schedule_databases ?r) = shared_schedule_databases ?r"
      "filter (\<lambda>p. fst p \<noteq> i) (database_notify_channels ?r) = database_notify_channels ?r"
      using out refs pairs pairs' by (auto intro!: delete_none filter_True)
    show ?thesis
      using assms(1,3,4) False unfolding gone
      by (auto simp: handleDelete_def with_id_def or_fail_def on_db_def reg_Delete_def)
  qed
  moreover have "\<forall>d\<in>set ?ds. d_ID d \<noteq> i" by simp
  note due_unreferenced [OF this]
  ultimately show ?thesis by (simp add: due_as_rows due_of_others)
qed

lemma web_site_due:
  "map (\<lambda>j. d_ID (dj_Database j)) (due_shared_rows (si_reg web_site) ''02:30'' ''2026-03-01'') = [1, 2]"
proof -
  have rows: "databases (si_reg web_site) = databases sample_registry" "shared_schedules (si_reg web_site) = shared_schedules sample_registry"
    "shared_schedule_times (si_reg web_site) = shared_schedule_times sample_registry"
    "shared_schedule_databases (si_reg web_site) = shared_schedule_databases sample_registry"
    by (simp_all add: web_site_def work_registry_def)
  have "d_ID sample_row1 = 1" "d_ID sample_row2 = 2" "d_Enabled sample_row1" "d_Enabled sample_row2"
    by (simp_all add: sample_row1_def sample_row2_def sample_db_def sample_db2_def)
  then show ?thesis
    unfolding due_as_rows rows sample_databases sample_shared shared_due_def by (simp add: DueJob.make_def)
qed

lemma ids_of_others:
  "map (\<lambda>j. d_ID (dj_Database j)) (filter (of_others i) js) = filter (\<lambda>k. k \<noteq> i) (map (\<lambda>j. d_ID (dj_Database j)) js)"
  by (induction js) (simp_all add: of_others_def)

lemma deleted_database_is_gone_witness:
  "map (\<lambda>j. d_ID (dj_Database j)) (due_shared_rows (si_reg web_site) ''02:30'' ''2026-03-01'') = [1, 2] \<and>
   map (\<lambda>j. d_ID (dj_Database j)) (due_shared_rows (si_reg (snd (handleDelete web_server ''1'' web_site))) ''02:30'' ''2026-03-01'') = [2]"
proof -
  have n: "no_faults (si_reg web_site)" using work_calm by (simp add: web_site_def work_world_def)
  have "itoa 1 = ''1''" by code_simp
  then have v: "ParseInt ''1'' = (1, None)" using ParseInt_itoa [of 1] by (simp add: min_int64_def max_int64_def)
  note d = web_site_due
  obtain x s' where h: "handleDelete web_server ''1'' web_site = (x, s')" by fastforce
  have due: "due_shared_rows (si_reg s') ''02:30'' ''2026-03-01'' =
      filter (of_others 1) (due_shared_rows (si_reg web_site) ''02:30'' ''2026-03-01'')"
    using deleted_database_is_gone [OF n web_inv v h] by blast
  have "map (\<lambda>j. d_ID (dj_Database j)) (due_shared_rows (si_reg s') ''02:30'' ''2026-03-01'') = [2]"
    unfolding due ids_of_others d by simp
  with d show ?thesis unfolding h snd_conv by blast
qed

text \<open>
  C26. The switch of a database does what it says, and back: the row is flipped and no other one, a database switched
  off has no job due at any moment while the others keep theirs in their order, one switched on is due exactly where
  its schedules say, and a second click restores what was due.
\<close>

theorem toggle_switches_the_schedule:
  assumes "no_faults (si_reg s)" and "reg_inv (si_reg s)" and "ParseInt v = (i, None)"
    and "by_id d_ID i (databases (si_reg s)) = Some d" and "handleToggle S v s = (x, s')" and "handleToggle S v s' = (y, s'')"
  shows "x = RedirectTo 303 ''/'' \<and>
    by_id d_ID i (databases (si_reg s')) = Some (d\<lparr>d_Enabled := \<not> d_Enabled d, d_UpdatedAt := now_utc (si_reg s)\<rparr>) \<and>
    (\<forall>k. k \<noteq> i \<longrightarrow> by_id d_ID k (databases (si_reg s')) = by_id d_ID k (databases (si_reg s))) \<and>
    (\<forall>hhmm today.
      (if d_Enabled d
       then due_rows (si_reg s') hhmm today = filter (of_others i) (due_rows (si_reg s) hhmm today) \<and>
         due_shared_rows (si_reg s') hhmm today = filter (of_others i) (due_shared_rows (si_reg s) hhmm today)
       else due_rows (si_reg s) hhmm today = filter (of_others i) (due_rows (si_reg s') hhmm today) \<and>
         due_shared_rows (si_reg s) hhmm today = filter (of_others i) (due_shared_rows (si_reg s') hhmm today))) \<and>
    by_id d_ID i (databases (si_reg s'')) = Some (d\<lparr>d_UpdatedAt := now_utc (si_reg s)\<rparr>)"
proof -
  let ?ds = "t_rows (databases (si_reg s))" and ?now = "now_utc (si_reg s)"
  define flip where "flip e x = (if d_ID x = i then x\<lparr>d_Enabled := e, d_UpdatedAt := ?now\<rparr> else x)" for e and x :: Database
  have click: "z = RedirectTo 303 ''/'' \<and> si_reg t' = (si_reg t)\<lparr>databases := (databases (si_reg t))
      \<lparr>t_rows := map (flip (\<not> d_Enabled b)) (t_rows (databases (si_reg t)))\<rparr>\<rparr>"
    if "no_faults (si_reg t)" "by_id d_ID i (databases (si_reg t)) = Some b" "handleToggle S v t = (z, t')" "now_utc (si_reg t) = ?now"
    for t t' :: "('a, 'b, 'c) site" and b z
    using that assms(3) by (auto simp: handleToggle_def with_id_def or_fail_def or_404_def on_db_def reg_Get_def SetEnabled_def
        sql_update_def flip_def [abs_def])
  note one = click [OF assms(1,4,5) refl]
  have ids: "d_ID (flip e x) = d_ID x" for e x by (simp add: flip_def)
  have find: "find (\<lambda>x. d_ID x = k) (map (flip e) xs) = map_option (flip e) (find (\<lambda>x. d_ID x = k) xs)" for k e xs
    by (induction xs) (simp_all add: ids)
  have i: "d_ID d = i" using by_id_Some [OF assms(4)] by simp
  have there: "by_id d_ID i (databases (si_reg s')) = Some (d\<lparr>d_Enabled := \<not> d_Enabled d, d_UpdatedAt := ?now\<rparr>)"
    "\<And>k. k \<noteq> i \<Longrightarrow> by_id d_ID k (databases (si_reg s')) = by_id d_ID k (databases (si_reg s))"
    using one assms(4) i by (auto simp: by_id_def find flip_def map_option_case dest: find_Some_mem split: option.split)
  have "no_faults (si_reg s')" "now_utc (si_reg s') = ?now" using one assms(1) by auto
  note two = click [OF this(1) there(1) assms(6) this(2)]
  have again: "by_id d_ID i (databases (si_reg s'')) = Some (d\<lparr>d_UpdatedAt := ?now\<rparr>)"
    using two there(1) i by (simp add: by_id_def find) (simp add: flip_def)
  have "distinct (map d_ID ?ds)" using assms(2) by (simp add: inv_defs wf_table_def)
  then have only: "b = d" if "b \<in> set ?ds" "d_ID b = i" for b
    using that by_id_Some [OF assms(4)] i by (metis inj_onD distinct_map)
  have off: "filter d_Enabled (map (flip False) xs) = filter d_Enabled (filter (\<lambda>d. d_ID d \<noteq> i) xs)" for xs
    by (induction xs) (simp_all add: flip_def)
  have on: "filter d_Enabled (filter (\<lambda>d. d_ID d \<noteq> i) (map (flip True) xs)) = filter d_Enabled xs"
    if "\<forall>b\<in>set xs. d_ID b = i \<longrightarrow> \<not> d_Enabled b" for xs
    using that
  proof (induction xs)
    case (Cons a xs)
    then show ?case by (cases "d_ID a = i") (simp_all add: ids, simp_all add: flip_def)
  qed simp
  have rows: "t_rows (databases (si_reg s')) = map (flip (\<not> d_Enabled d)) ?ds"
    "schedules (si_reg s') = schedules (si_reg s)" "shared_schedule_times (si_reg s') = shared_schedule_times (si_reg s)"
    "shared_schedules (si_reg s') = shared_schedules (si_reg s)"
    "shared_schedule_databases (si_reg s') = shared_schedule_databases (si_reg s)"
    using one by simp_all
  have due: "if d_Enabled d
       then due_rows (si_reg s') hhmm today = filter (of_others i) (due_rows (si_reg s) hhmm today) \<and>
         due_shared_rows (si_reg s') hhmm today = filter (of_others i) (due_shared_rows (si_reg s) hhmm today)
       else due_rows (si_reg s) hhmm today = filter (of_others i) (due_rows (si_reg s') hhmm today) \<and>
         due_shared_rows (si_reg s) hhmm today = filter (of_others i) (due_shared_rows (si_reg s') hhmm today)" for hhmm today
  proof (cases "d_Enabled d")
    case True
    have "own_due ss (map (flip False) ?ds) hhmm today = own_due ss (filter (\<lambda>d. d_ID d \<noteq> i) ?ds) hhmm today"
      "shared_due ts shs ms (map (flip False) ?ds) hhmm today = shared_due ts shs ms (filter (\<lambda>d. d_ID d \<noteq> i) ?ds) hhmm today"
      for ss ts shs ms
      using due_of_enabled(1) [of ss "map (flip False) ?ds" hhmm today] due_of_enabled(2) [of ts shs ms "map (flip False) ?ds" hhmm today]
      unfolding off by (simp_all only: due_of_enabled)
    with True show ?thesis
      unfolding due_as_rows due_of_others rows by (simp only: True if_True not_True_eq_False simp_thms)
  next
    case False
    then have "\<forall>b\<in>set ?ds. d_ID b = i \<longrightarrow> \<not> d_Enabled b" using only by auto
    note on' = on [OF this]
    have "own_due ss (filter (\<lambda>d. d_ID d \<noteq> i) (map (flip True) ?ds)) hhmm today = own_due ss ?ds hhmm today"
      "shared_due ts shs ms (filter (\<lambda>d. d_ID d \<noteq> i) (map (flip True) ?ds)) hhmm today = shared_due ts shs ms ?ds hhmm today"
      for ss ts shs ms
      using due_of_enabled(1) [of ss "filter (\<lambda>d. d_ID d \<noteq> i) (map (flip True) ?ds)" hhmm today]
        due_of_enabled(2) [of ts shs ms "filter (\<lambda>d. d_ID d \<noteq> i) (map (flip True) ?ds)" hhmm today]
      unfolding on' by (simp_all only: due_of_enabled)
    with False show ?thesis
      unfolding due_as_rows due_of_others rows by (simp only: False if_False not_False_eq_True simp_thms)
  qed
  show ?thesis using one there again due by blast
qed

lemma toggle_switches_the_schedule_witness:
  "map (\<lambda>j. d_ID (dj_Database j)) (due_shared_rows (si_reg (snd (handleToggle web_server ''1'' web_site))) ''02:30'' ''2026-03-01'') = [2]"
proof -
  have n: "no_faults (si_reg web_site)" using work_calm by (simp add: web_site_def work_world_def)
  have "itoa 1 = ''1''" by code_simp
  then have v: "ParseInt ''1'' = (1, None)" using ParseInt_itoa [of 1] by (simp add: min_int64_def max_int64_def)
  note d = web_site_due
  have b: "by_id d_ID 1 (databases (si_reg web_site)) = Some sample_row1" "d_Enabled sample_row1"
    by (simp_all add: web_site_def work_registry_def sample_databases by_id_def sample_row1_def sample_db_def)
  obtain x s' where h: "handleToggle web_server ''1'' web_site = (x, s')" by fastforce
  obtain y s'' where h': "handleToggle web_server ''1'' s' = (y, s'')" by fastforce
  have due: "due_shared_rows (si_reg s') ''02:30'' ''2026-03-01'' =
      filter (of_others 1) (due_shared_rows (si_reg web_site) ''02:30'' ''2026-03-01'')"
    using toggle_switches_the_schedule [OF n web_inv v b(1) h h'] b(2) by (simp only: if_True)
  have "map (\<lambda>j. d_ID (dj_Database j)) (due_shared_rows (si_reg s') ''02:30'' ''2026-03-01'') = [2]"
    unfolding due ids_of_others d by simp
  with d show ?thesis unfolding h snd_conv by blast
qed

end
