(* ===== verification/Migrations.thy ===== *)
theory Migrations
  imports Errors Prelude
begin

text \<open>
  \<open>registry.Open\<close>: the schema and the migrations that bring the file of an older installation to it. Here the
  file is what SQLite's own catalogue says of it, tables with named columns and unique indexes, since the code
  asks the catalogue which migrations are due. Every statement, query, begin and commit may fail, as in the
  theory of the registry. Pragmas and indexes that are not unique change nothing that is modelled.
\<close>

section \<open>A file and a connection\<close>

datatype cell = IntCell int | TextCell string

type_synonym record_row = "(string \<times> cell) list"

record file_table =
  tb_columns :: "string list"
  tb_unique :: "(string \<times> string list) list"   \<comment> \<open>unique indexes with their columns\<close>
  tb_rows :: "record_row list"
  tb_seq :: int                                   \<comment> \<open>the last id given out\<close>

type_synonym db_file = "string \<rightharpoonup> file_table"

record conn =
  co_file :: db_file
  co_now :: string
  co_faults :: "string option list"

type_synonym 'a file_op = "(go_error, 'a, conn) op"

definition hiccup :: "unit file_op" where
  "hiccup c =
     (case co_faults c of
        [] \<Rightarrow> (Inr (), c)
      | None # fs \<Rightarrow> (Inr (), c\<lparr>co_faults := fs\<rparr>)
      | Some m # fs \<Rightarrow> (Inl (SqlFault m), c\<lparr>co_faults := fs\<rparr>))"

definition ask :: "(db_file \<Rightarrow> 'a) \<Rightarrow> 'a file_op" where
  "ask q c = (case hiccup c of (Inl e, c) \<Rightarrow> (Inl e, c) | (Inr _, c) \<Rightarrow> (Inr (q (co_file c)), c))"

definition stmt :: "(string \<Rightarrow> db_file \<Rightarrow> go_error + db_file) \<Rightarrow> unit file_op" where
  "stmt f c =
     (case hiccup c of
        (Inl e, c) \<Rightarrow> (Inl e, c)
      | (Inr _, c) \<Rightarrow>
          (case f (co_now c) (co_file c) of Inl e \<Rightarrow> (Inl e, c) | Inr fl \<Rightarrow> (Inr (), c\<lparr>co_file := fl\<rparr>)))"

definition wrapped :: "string \<Rightarrow> 'a file_op \<Rightarrow> 'a file_op" where
  "wrapped m u c = (case u c of (Inl e, c) \<Rightarrow> (Inl (Wrap m e), c) | (Inr x, c) \<Rightarrow> (Inr x, c))"

fun all_of :: "unit file_op list \<Rightarrow> unit file_op" where
  "all_of [] c = (Inr (), c)"
| "all_of (u # us) c = (case u c of (Inl e, c) \<Rightarrow> (Inl e, c) | (Inr _, c) \<Rightarrow> all_of us c)"

text \<open>Begin, body and commit; whatever fails, the file is as it was.\<close>

definition transaction :: "unit file_op \<Rightarrow> unit file_op" where
  "transaction u c =
     (case hiccup c of
        (Inl e, c1) \<Rightarrow> (Inl e, c1)
      | (Inr _, c1) \<Rightarrow>
          (case u c1 of
             (Inl e, c2) \<Rightarrow> (Inl e, c2\<lparr>co_file := co_file c1\<rparr>)
           | (Inr _, c2) \<Rightarrow>
               (case hiccup c2 of
                  (Inl e, c3) \<Rightarrow> (Inl e, c3\<lparr>co_file := co_file c1\<rparr>)
                | (Inr _, c3) \<Rightarrow> (Inr (), c3))))"

definition no_effect :: "unit file_op" where
  "no_effect = stmt (\<lambda>now f. Inr f)"

section \<open>Statements\<close>

definition no_table :: go_error where
  "no_table = SqlFault ''no such table''"

definition create_table :: "string \<Rightarrow> string list \<Rightarrow> string \<Rightarrow> db_file \<Rightarrow> go_error + db_file" where
  "create_table t cols now f =
     Inr (if f t = None then f(t \<mapsto> \<lparr>tb_columns = cols, tb_unique = [], tb_rows = [], tb_seq = 0\<rparr>) else f)"

definition add_column :: "string \<Rightarrow> string \<Rightarrow> cell \<Rightarrow> string \<Rightarrow> db_file \<Rightarrow> go_error + db_file" where
  "add_column t col dflt now f =
     (case f t of
        None \<Rightarrow> Inl no_table
      | Some tb \<Rightarrow>
          if col \<in> set (tb_columns tb) then Inl (SqlFault ''duplicate column name'')
          else Inr (f(t \<mapsto> tb\<lparr>tb_columns := tb_columns tb @ [col],
                              tb_rows := map (\<lambda>row. (col, dflt) # row) (tb_rows tb)\<rparr>)))"

definition drop_column :: "string \<Rightarrow> string \<Rightarrow> string \<Rightarrow> db_file \<Rightarrow> go_error + db_file" where
  "drop_column t col now f =
     (case f t of
        None \<Rightarrow> Inl no_table
      | Some tb \<Rightarrow>
          if col \<notin> set (tb_columns tb) then Inl (SqlFault ''no such column'')
          else Inr (f(t \<mapsto> tb\<lparr>tb_columns := filter (\<lambda>c. c \<noteq> col) (tb_columns tb),
                              tb_rows := map (filter (\<lambda>p. fst p \<noteq> col)) (tb_rows tb)\<rparr>)))"

definition hasColumn :: "string \<Rightarrow> string \<Rightarrow> bool file_op" where
  "hasColumn t col =
     wrapped (''check '' @ t @ '' columns'')
       (ask (\<lambda>f. case f t of None \<Rightarrow> False | Some tb \<Rightarrow> col \<in> set (tb_columns tb)))"

definition indexColumns :: "string \<Rightarrow> string \<Rightarrow> string list file_op" where
  "indexColumns t i =
     ask (\<lambda>f. case f t of None \<Rightarrow> [] | Some tb \<Rightarrow> (case map_of (tb_unique tb) i of None \<Rightarrow> [] | Some cs \<Rightarrow> cs))"

fun some_single :: "string \<Rightarrow> string \<Rightarrow> string list \<Rightarrow> bool file_op" where
  "some_single t col [] c = (Inr False, c)"
| "some_single t col (i # is) c =
     (case indexColumns t i c of
        (Inl e, c) \<Rightarrow> (Inl e, c)
      | (Inr cs, c) \<Rightarrow> if cs = [col] then (Inr True, c) else some_single t col is c)"

definition hasSingleColumnUniqueIndex :: "string \<Rightarrow> string \<Rightarrow> bool file_op" where
  "hasSingleColumnUniqueIndex t col c =
     (case wrapped (''list '' @ t @ '' indexes'')
             (ask (\<lambda>f. case f t of None \<Rightarrow> [] | Some tb \<Rightarrow> map fst (tb_unique tb))) c of
        (Inl e, c) \<Rightarrow> (Inl e, c)
      | (Inr is, c) \<Rightarrow> some_single t col is c)"

section \<open>The schema\<close>

definition database_columns :: "string list" where
  "database_columns =
     [''id'', ''name'', ''driver'', ''host'', ''port'', ''username'', ''password'', ''auth_db'',
      ''storage_target_id'', ''agent_id'', ''enabled'', ''created_at'', ''updated_at'']"

definition schema :: "(string \<times> string list) list" where
  "schema =
     [(''storage_targets'', [''id'', ''kind'', ''label'', ''config'', ''created_at'', ''updated_at'']),
      (''databases'', database_columns),
      (''schedules'', [''id'', ''database_id'', ''time_of_day'', ''enabled'', ''last_run_date'', ''created_at'']),
      (''shared_schedules'', [''id'', ''name'', ''enabled'', ''created_at'']),
      (''shared_schedule_databases'', [''shared_schedule_id'', ''database_id'']),
      (''shared_schedule_times'', [''id'', ''shared_schedule_id'', ''time_of_day'', ''last_run_date'', ''created_at'']),
      (''notify_channels'', [''id'', ''kind'', ''label'', ''config'', ''created_at'', ''updated_at'']),
      (''database_notify_channels'', [''database_id'', ''notify_channel_id'']),
      (''backup_runs'', [''id'', ''database_id'', ''dbname'', ''driver'', ''status'', ''message'', ''duration_ms'',
         ''started_at'', ''created_at'']),
      (''backup_files'', [''id'', ''database_id'', ''dbname'', ''storage_target_id'', ''filename'', ''remote_ref'',
         ''size_bytes'', ''created_at'']),
      (''remote_agents'', [''id'', ''label'', ''endpoint'', ''token'', ''cert_fingerprint'', ''created_at'', ''updated_at''])]"

section \<open>Migrations\<close>

definition when_column :: "bool \<Rightarrow> string \<Rightarrow> string \<Rightarrow> unit file_op \<Rightarrow> unit file_op" where
  "when_column b t col u c =
     (case hasColumn t col c of
        (Inl e, c) \<Rightarrow> (Inl e, c)
      | (Inr has, c) \<Rightarrow> if has = b then u c else (Inr (), c))"

definition value_of :: "record_row \<Rightarrow> string \<Rightarrow> cell" where
  "value_of row col = (case map_of row col of None \<Rightarrow> TextCell [] | Some x \<Rightarrow> x)"

definition time_row :: "string \<Rightarrow> int \<Rightarrow> record_row \<Rightarrow> record_row" where
  "time_row now i row =
     [(''id'', IntCell i), (''shared_schedule_id'', value_of row ''id''), (''time_of_day'', value_of row ''time_of_day''),
      (''last_run_date'', value_of row ''last_run_date''), (''created_at'', TextCell now)]"

definition copy_times :: "string \<Rightarrow> db_file \<Rightarrow> go_error + db_file" where
  "copy_times now f =
     (case (f ''shared_schedules'', f ''shared_schedule_times'') of
        (Some s, Some t) \<Rightarrow>
          if ''last_run_date'' \<notin> set (tb_columns s) then Inl (SqlFault ''no such column'')
          else
            (let n = length (tb_rows s) in
             Inr (f(''shared_schedule_times'' \<mapsto> t
               \<lparr>tb_rows := tb_rows t @ map2 (time_row now) [tb_seq t + 1 .. tb_seq t + int n] (tb_rows s),
                tb_seq := tb_seq t + int n\<rparr>)))
      | _ \<Rightarrow> Inl no_table)"

definition migrateSharedScheduleTimes :: "unit file_op" where
  "migrateSharedScheduleTimes =
     when_column True ''shared_schedules'' ''time_of_day''
       (transaction (all_of
         [wrapped ''copy existing times'' (stmt copy_times),
          wrapped ''drop time_of_day'' (stmt (drop_column ''shared_schedules'' ''time_of_day'')),
          wrapped ''drop last_run_date'' (stmt (drop_column ''shared_schedules'' ''last_run_date''))]))"

definition migrateNotifyChannelEvents :: "unit file_op" where
  "migrateNotifyChannelEvents =
     when_column True ''notify_channels'' ''notify_on_success''
       (transaction (all_of
         [wrapped ''drop notify_on_success'' (stmt (drop_column ''notify_channels'' ''notify_on_success'')),
          wrapped ''drop notify_on_error'' (stmt (drop_column ''notify_channels'' ''notify_on_error''))]))"

definition migrateAgentIDColumn :: "unit file_op" where
  "migrateAgentIDColumn =
     when_column False ''databases'' ''agent_id'' (stmt (add_column ''databases'' ''agent_id'' (IntCell 0)))"

definition migrateSharedScheduleNameColumn :: "unit file_op" where
  "migrateSharedScheduleNameColumn =
     when_column False ''shared_schedules'' ''name'' (stmt (add_column ''shared_schedules'' ''name'' (TextCell [])))"

text \<open>
  The rebuild of \<open>databases\<close>. A table that is filled with explicit ids continues after the largest of them, and
  one that is dropped takes its unique indexes along.
\<close>

definition max_id :: "record_row list \<Rightarrow> int" where
  "max_id rows = foldr (\<lambda>row m. case value_of row ''id'' of IntCell i \<Rightarrow> max i m | TextCell _ \<Rightarrow> m) rows 0"

definition create_new :: "string \<Rightarrow> db_file \<Rightarrow> go_error + db_file" where
  "create_new now f =
     (if f ''databases_new'' \<noteq> None then Inl (SqlFault ''table already exists'')
      else create_table ''databases_new'' database_columns now f)"

definition copy_databases :: "string \<Rightarrow> db_file \<Rightarrow> go_error + db_file" where
  "copy_databases now f =
     (case (f ''databases'', f ''databases_new'') of
        (Some t, Some n) \<Rightarrow>
          if \<not> set database_columns \<subseteq> set (tb_columns t) then Inl (SqlFault ''no such column'')
          else
            (let rows = map (\<lambda>row. map (\<lambda>c. (c, value_of row c)) database_columns) (tb_rows t) in
             Inr (f(''databases_new'' \<mapsto> n\<lparr>tb_rows := rows, tb_seq := max_id rows\<rparr>)))
      | _ \<Rightarrow> Inl no_table)"

definition drop_databases :: "string \<Rightarrow> db_file \<Rightarrow> go_error + db_file" where
  "drop_databases now f = (if f ''databases'' = None then Inl no_table else Inr (f(''databases'' := None)))"

definition rename_new :: "string \<Rightarrow> db_file \<Rightarrow> go_error + db_file" where
  "rename_new now f =
     (case f ''databases_new'' of
        None \<Rightarrow> Inl no_table
      | Some n \<Rightarrow>
          if f ''databases'' \<noteq> None then Inl (SqlFault ''there is already another table'')
          else Inr (f(''databases_new'' := None, ''databases'' \<mapsto> n)))"

definition foreign_keys :: "(string \<times> string \<times> string) list" where
  "foreign_keys =
     [(''schedules'', ''database_id'', ''databases''),
      (''shared_schedule_databases'', ''shared_schedule_id'', ''shared_schedules''),
      (''shared_schedule_databases'', ''database_id'', ''databases''),
      (''shared_schedule_times'', ''shared_schedule_id'', ''shared_schedules''),
      (''database_notify_channels'', ''database_id'', ''databases''),
      (''database_notify_channels'', ''notify_channel_id'', ''notify_channels'')]"

definition rows_of :: "db_file \<Rightarrow> string \<Rightarrow> record_row list" where
  "rows_of f t = (case f t of None \<Rightarrow> [] | Some tb \<Rightarrow> tb_rows tb)"

definition dangling :: "db_file \<Rightarrow> bool" where
  "dangling f =
     list_ex (\<lambda>(child, col, parent).
       list_ex (\<lambda>row. value_of row col \<notin> (\<lambda>p. value_of p ''id'') ` set (rows_of f parent)) (rows_of f child)) foreign_keys"

definition check_foreign_keys :: "unit file_op" where
  "check_foreign_keys c =
     (case wrapped ''foreign_key_check'' (ask dangling) c of
        (Inl e, c) \<Rightarrow> (Inl e, c)
      | (Inr bad, c) \<Rightarrow>
          if bad then (Inl (Message ''foreign_key_check found violations after databases table rebuild''), c)
          else (Inr (), c))"

definition rebuild_databases :: "unit file_op" where
  "rebuild_databases =
     transaction (all_of
       [wrapped ''create databases_new'' (stmt create_new),
        wrapped ''copy databases rows'' (stmt copy_databases),
        wrapped ''drop old databases table'' (stmt drop_databases),
        wrapped ''rename databases_new'' (stmt rename_new)])"

text \<open>The deferred pragma runs whatever happened, and its own error is dropped.\<close>

definition migrateDatabasesNameUniqueScope :: "unit file_op" where
  "migrateDatabasesNameUniqueScope c =
     (case hasSingleColumnUniqueIndex ''databases'' ''name'' c of
        (Inl e, c) \<Rightarrow> (Inl e, c)
      | (Inr old, c) \<Rightarrow>
          if \<not> old then (Inr (), c)
          else
            (case no_effect c of
               (Inl e, c) \<Rightarrow> (Inl e, c)
             | (Inr _, c) \<Rightarrow>
                 (case all_of [rebuild_databases, check_foreign_keys] c of (x, c) \<Rightarrow> (x, snd (no_effect c)))))"

section \<open>Open\<close>

definition identity_index :: string where
  "identity_index = ''idx_databases_name_agent_driver''"

definition identity_columns :: "string list" where
  "identity_columns = [''name'', ''agent_id'', ''driver'']"

definition create_identity_index :: "string \<Rightarrow> db_file \<Rightarrow> go_error + db_file" where
  "create_identity_index now f =
     (case f ''databases'' of
        None \<Rightarrow> Inl no_table
      | Some t \<Rightarrow>
          if identity_index \<in> fst ` set (tb_unique t) then Inr f
          else if \<not> distinct (map (\<lambda>row. map (value_of row) identity_columns) (tb_rows t))
          then Inl (SqlUnique ''databases.name, databases.agent_id, databases.driver'')
          else Inr (f(''databases'' \<mapsto> t\<lparr>tb_unique := tb_unique t @ [(identity_index, identity_columns)]\<rparr>)))"

definition open_stages :: "unit file_op list" where
  "open_stages =
     [wrapped ''PRAGMA journal_mode=WAL;'' no_effect, wrapped ''PRAGMA busy_timeout=5000;'' no_effect,
      wrapped ''PRAGMA foreign_keys=ON;'' no_effect] @
     map (\<lambda>(t, cols). wrapped ''apply schema'' (stmt (create_table t cols))) schema @
     [wrapped ''migrate shared schedule times'' migrateSharedScheduleTimes,
      wrapped ''migrate notify channel events'' migrateNotifyChannelEvents,
      wrapped ''migrate agent_id column'' migrateAgentIDColumn,
      wrapped ''migrate databases name unique scope'' migrateDatabasesNameUniqueScope,
      wrapped ''migrate shared schedule name column'' migrateSharedScheduleNameColumn,
      wrapped ''create databases name/agent/driver index'' (stmt create_identity_index)]"

text \<open>The arguments are the errors, if any, of creating the directory and of opening the file.\<close>

definition reg_Open :: "string option \<Rightarrow> string option \<Rightarrow> unit file_op" where
  "reg_Open mkdir_error open_error c =
     (case mkdir_error of
        Some m \<Rightarrow> (Inl (Wrap ''create sqlite dir'' (External m)), c)
      | None \<Rightarrow>
          (case open_error of
             Some m \<Rightarrow> (Inl (Wrap ''open sqlite'' (External m)), c)
           | None \<Rightarrow> all_of open_stages c))"

section \<open>What a stage does when nothing fails\<close>

type_synonym effect = "string \<Rightarrow> db_file \<Rightarrow> db_file option"

definition effect_of :: "(string \<Rightarrow> db_file \<Rightarrow> go_error + db_file) \<Rightarrow> effect" where
  "effect_of g now f = (case g now f of Inl e \<Rightarrow> None | Inr f' \<Rightarrow> Some f')"

fun run :: "effect list \<Rightarrow> effect" where
  "run [] now f = Some f"
| "run (e # es) now f = (case e now f of None \<Rightarrow> None | Some f' \<Rightarrow> run es now f')"

definition outcome :: "effect \<Rightarrow> conn \<Rightarrow> go_error + unit \<Rightarrow> conn \<Rightarrow> bool" where
  "outcome e c x c' \<longleftrightarrow>
     co_now c' = co_now c \<and>
     (case x of
        Inr _ \<Rightarrow> e (co_now c) (co_file c) = Some (co_file c')
      | Inl _ \<Rightarrow>
          co_file c' = co_file c \<or> e (co_now c) (co_file c) = Some (co_file c') \<or> e (co_now c) (co_file c) = None) \<and>
     (co_faults c = [] \<longrightarrow> co_faults c' = [] \<and> (isl x \<longrightarrow> e (co_now c) (co_file c) = None))"

definition steps_as :: "unit file_op \<Rightarrow> effect \<Rightarrow> bool" where
  "steps_as u e \<longleftrightarrow> (\<forall>c x c'. u c = (x, c') \<longrightarrow> outcome e c x c')"

lemma steps_asI: "(\<And>c x c'. u c = (x, c') \<Longrightarrow> outcome e c x c') \<Longrightarrow> steps_as u e"
  by (simp add: steps_as_def)

lemma steps_asD: "steps_as u e \<Longrightarrow> u c = (x, c') \<Longrightarrow> outcome e c x c'"
  by (simp add: steps_as_def)

lemma hiccup_cases:
  "hiccup c = (x, c') \<Longrightarrow> co_now c' = co_now c \<and> co_file c' = co_file c \<and>
     (co_faults c = [] \<longrightarrow> x = Inr () \<and> co_faults c' = [])"
  by (auto simp: hiccup_def split: list.splits option.splits)

lemma ask_cases:
  "ask q c = (x, c') \<Longrightarrow> co_now c' = co_now c \<and> co_file c' = co_file c \<and>
     (\<forall>y. x = Inr y \<longrightarrow> y = q (co_file c)) \<and>
     (co_faults c = [] \<longrightarrow> x = Inr (q (co_file c)) \<and> co_faults c' = [])"
  by (auto simp: ask_def dest!: hiccup_cases split: prod.splits sum.splits)

lemma steps_as_wrapped [intro]:
  assumes "steps_as u e"
  shows "steps_as (wrapped m u) e"
proof (rule steps_asI)
  fix c x c'
  assume w: "wrapped m u c = (x, c')"
  obtain y c2 where u: "u c = (y, c2)" by fastforce
  from steps_asD [OF assms u] w u show "outcome e c x c'"
    by (cases y) (auto simp: wrapped_def outcome_def)
qed

lemma steps_as_stmt [intro]: "steps_as (stmt g) (effect_of g)"
  by (rule steps_asI)
    (auto simp: stmt_def effect_of_def outcome_def dest!: hiccup_cases split: prod.splits sum.splits)

lemma steps_as_no_effect [intro]: "steps_as no_effect (\<lambda>now f. Some f)"
  using steps_as_stmt [of "\<lambda>now f. Inr f"] by (simp add: no_effect_def effect_of_def [abs_def])

lemma all_of_steps:
  assumes "list_all2 steps_as us es" and "all_of us c = (x, c')"
  shows "co_now c' = co_now c \<and>
     (\<forall>v. x = Inr v \<longrightarrow> run es (co_now c) (co_file c) = Some (co_file c')) \<and>
     (co_faults c = [] \<longrightarrow> co_faults c' = [] \<and> (isl x \<longrightarrow> run es (co_now c) (co_file c) = None))"
  using assms
proof (induction us es arbitrary: c rule: list_all2_induct)
  case (Cons u us e es)
  obtain y c2 where u: "u c = (y, c2)" by fastforce
  show ?case
  proof (cases y)
    case (Inl m)
    with steps_asD [OF Cons.hyps(1) u] Cons.prems u show ?thesis by (auto simp: outcome_def)
  next
    case (Inr v)
    then have "all_of us c2 = (x, c')" using Cons.prems u by simp
    from Cons.IH [OF this] steps_asD [OF Cons.hyps(1) u] Inr show ?thesis by (auto simp: outcome_def)
  qed
qed auto

lemma steps_as_transaction [intro]:
  assumes "list_all2 steps_as us es"
  shows "steps_as (transaction (all_of us)) (run es)"
proof (rule steps_asI)
  fix c x c'
  assume t: "transaction (all_of us) c = (x, c')"
  obtain y c1 where h: "hiccup c = (y, c1)" by fastforce
  obtain z c2 where a: "all_of us c1 = (z, c2)" by fastforce
  obtain w c3 where k: "hiccup c2 = (w, c3)" by fastforce
  note facts = hiccup_cases [OF h] all_of_steps [OF assms a] hiccup_cases [OF k]
  show "outcome (run es) c x c'"
    using t h a k facts
    by (cases y; cases z; cases w) (auto simp: transaction_def outcome_def)
qed

definition guarded :: "(db_file \<Rightarrow> bool) \<Rightarrow> effect \<Rightarrow> effect" where
  "guarded p e now f = (if p f then e now f else Some f)"

definition column_in :: "db_file \<Rightarrow> string \<Rightarrow> string \<Rightarrow> bool" where
  "column_in f t col \<longleftrightarrow> (case f t of None \<Rightarrow> False | Some tb \<Rightarrow> col \<in> set (tb_columns tb))"

lemma hasColumn_cases:
  "hasColumn t col c = (x, c') \<Longrightarrow> co_now c' = co_now c \<and> co_file c' = co_file c \<and>
     (\<forall>y. x = Inr y \<longrightarrow> y = column_in (co_file c) t col) \<and>
     (co_faults c = [] \<longrightarrow> x = Inr (column_in (co_file c) t col) \<and> co_faults c' = [])"
  by (auto simp: hasColumn_def wrapped_def column_in_def dest!: ask_cases split: prod.splits sum.splits)

lemma steps_as_when_column [intro]:
  assumes "steps_as u e"
  shows "steps_as (when_column b t col u) (guarded (\<lambda>f. column_in f t col = b) e)"
proof (rule steps_asI)
  fix c x c'
  assume w: "when_column b t col u c = (x, c')"
  obtain y c1 where h: "hasColumn t col c = (y, c1)" by fastforce
  obtain z c2 where u: "u c1 = (z, c2)" by fastforce
  note facts = hasColumn_cases [OF h] steps_asD [OF assms u]
  show "outcome (guarded (\<lambda>f. column_in f t col = b) e) c x c'"
    using w h u facts
    by (cases y; cases z) (auto simp: when_column_def guarded_def outcome_def split: if_splits)
qed

definition single_in :: "db_file \<Rightarrow> string \<Rightarrow> string \<Rightarrow> bool" where
  "single_in f t col \<longleftrightarrow>
     (case f t of None \<Rightarrow> False | Some tb \<Rightarrow> list_ex (\<lambda>i. map_of (tb_unique tb) i = Some [col]) (map fst (tb_unique tb)))"

lemma single_in_iff:
  "single_in f t col \<longleftrightarrow> (\<exists>tb i. f t = Some tb \<and> map_of (tb_unique tb) i = Some [col])"
  by (auto simp: single_in_def list_ex_iff split: option.splits dest: map_of_SomeD)
    (metis fst_conv map_of_SomeD)

lemma some_single_cases:
  "some_single t col is c = (x, c') \<Longrightarrow> co_now c' = co_now c \<and> co_file c' = co_file c \<and>
     (\<forall>y. x = Inr y \<longrightarrow> y = (case co_file c t of None \<Rightarrow> False
        | Some tb \<Rightarrow> list_ex (\<lambda>i. map_of (tb_unique tb) i = Some [col]) is)) \<and>
     (co_faults c = [] \<longrightarrow> \<not> isl x \<and> co_faults c' = [])"
proof (induction "is" arbitrary: c)
  case (Cons i "is")
  obtain y c1 where i: "indexColumns t i c = (y, c1)" by fastforce
  note facts = ask_cases [OF i [unfolded indexColumns_def]]
  show ?case
  proof (cases y)
    case (Inl e)
    with Cons.prems i facts show ?thesis by auto
  next
    case (Inr cs)
    show ?thesis
    proof (cases "cs = [col]")
      case True
      with Cons.prems i facts Inr show ?thesis by (auto split: option.splits)
    next
      case False
      then have "some_single t col is c1 = (x, c')" using Cons.prems i Inr by simp
      from Cons.IH [OF this] facts Inr False show ?thesis by (auto split: option.splits)
    qed
  qed
qed (auto split: option.splits)

lemma single_cases:
  assumes "hasSingleColumnUniqueIndex t col c = (x, c')"
  shows "co_now c' = co_now c \<and> co_file c' = co_file c \<and> (\<forall>y. x = Inr y \<longrightarrow> y = single_in (co_file c) t col) \<and>
     (co_faults c = [] \<longrightarrow> \<not> isl x \<and> co_faults c' = [])"
proof -
  obtain y c1 where q: "ask (\<lambda>f. case f t of None \<Rightarrow> [] | Some tb \<Rightarrow> map fst (tb_unique tb)) c = (y, c1)" by fastforce
  show ?thesis
  proof (cases y)
    case (Inl e)
    with assms q ask_cases [OF q] show ?thesis
      by (auto simp: hasSingleColumnUniqueIndex_def wrapped_def)
  next
    case (Inr "is")
    then have "some_single t col is c1 = (x, c')"
      using assms q by (simp add: hasSingleColumnUniqueIndex_def wrapped_def)
    from some_single_cases [OF this] ask_cases [OF q] Inr show ?thesis
      by (auto simp: single_in_def split: option.splits)
  qed
qed

definition no_dangling :: effect where
  "no_dangling now f = (if dangling f then None else Some f)"

lemma steps_as_check [intro]: "steps_as check_foreign_keys no_dangling"
proof (rule steps_asI)
  fix c x c'
  assume k: "check_foreign_keys c = (x, c')"
  obtain y c1 where q: "ask dangling c = (y, c1)" by fastforce
  show "outcome no_dangling c x c'"
    using k q ask_cases [OF q]
    by (cases y) (auto simp: check_foreign_keys_def wrapped_def outcome_def no_dangling_def split: if_splits)
qed

lemma steps_as_then_check:
  assumes "steps_as u e"
  shows "steps_as (all_of [u, check_foreign_keys]) (run [e, no_dangling])"
proof (rule steps_asI)
  fix c x c'
  assume a: "all_of [u, check_foreign_keys] c = (x, c')"
  obtain y c1 where u: "u c = (y, c1)" by fastforce
  obtain z c2 where k: "check_foreign_keys c1 = (z, c2)" by fastforce
  show "outcome (run [e, no_dangling]) c x c'"
    using a u k steps_asD [OF assms u] steps_asD [OF steps_as_check k]
    by (cases y; cases z) (auto simp: outcome_def no_dangling_def split: option.splits if_splits)
qed

definition rebuild_effect :: effect where
  "rebuild_effect = run [run (map effect_of [create_new, copy_databases, drop_databases, rename_new]), no_dangling]"

lemma steps_as_rebuild:
  "steps_as migrateDatabasesNameUniqueScope (guarded (\<lambda>f. single_in f ''databases'' ''name'') rebuild_effect)"
proof (rule steps_asI)
  fix c x c'
  assume m: "migrateDatabasesNameUniqueScope c = (x, c')"
  obtain y c1 where s: "hasSingleColumnUniqueIndex ''databases'' ''name'' c = (y, c1)" by fastforce
  obtain z c2 where off: "no_effect c1 = (z, c2)" by fastforce
  obtain w c3 where r: "all_of [rebuild_databases, check_foreign_keys] c2 = (w, c3)" by fastforce
  obtain v c4 where on: "no_effect c3 = (v, c4)" by fastforce
  have "steps_as rebuild_databases (run (map effect_of [create_new, copy_databases, drop_databases, rename_new]))"
    unfolding rebuild_databases_def by (intro steps_as_transaction) auto
  from steps_as_then_check [OF this]
  have "steps_as (all_of [rebuild_databases, check_foreign_keys]) rebuild_effect" by (simp add: rebuild_effect_def)
  note facts = single_cases [OF s] steps_asD [OF steps_as_no_effect off] steps_asD [OF this r]
    steps_asD [OF steps_as_no_effect on]
  note shape = migrateDatabasesNameUniqueScope_def guarded_def outcome_def
  show "outcome (guarded (\<lambda>f. single_in f ''databases'' ''name'') rebuild_effect) c x c'"
  proof (cases y)
    case (Inl e)
    with m s facts show ?thesis by (auto simp: shape)
  next
    case (Inr old)
    show ?thesis
    proof (cases "old \<and> \<not> isl z")
      case False
      have "migrateDatabasesNameUniqueScope c = (if old then (z, c2) else (Inr (), c1))"
        using False s off Inr
        by (cases z) (simp_all add: migrateDatabasesNameUniqueScope_def del: all_of.simps)
      with m False facts(1,2) Inr show ?thesis
        by (cases z) (auto simp: guarded_def outcome_def split: if_splits)
    next
      case True
      then obtain u where z: "old" "z = Inr u" by (cases z) auto
      have "migrateDatabasesNameUniqueScope c = (w, c4)"
        using s off r on Inr z by (simp add: migrateDatabasesNameUniqueScope_def del: all_of.simps)
      with m have c': "x = w" "c' = c4" by auto
      have "co_file c4 = co_file c3" "co_now c4 = co_now c3" "co_faults c3 = [] \<Longrightarrow> co_faults c4 = []"
        using facts(4) unfolding outcome_def by (auto split: sum.splits)
      moreover have "co_now c2 = co_now c" "co_file c2 = co_file c" "co_faults c = [] \<Longrightarrow> co_faults c2 = []"
        "single_in (co_file c) ''databases'' ''name''"
        using facts(1,2) z Inr by (auto simp: outcome_def)
      ultimately show ?thesis
        using facts(3) by (cases w) (simp_all add: c' guarded_def outcome_def)
    qed
  qed
qed

section \<open>Stages that need no second run\<close>

type_synonym milestone = "db_file \<Rightarrow> bool"

definition reaches :: "effect \<Rightarrow> milestone \<Rightarrow> bool" where
  "reaches e d \<longleftrightarrow> (\<forall>now f f'. (e now f = Some f' \<longrightarrow> d f') \<and> (d f \<longrightarrow> e now f = Some f))"

definition keeps :: "effect \<Rightarrow> milestone \<Rightarrow> bool" where
  "keeps e d \<longleftrightarrow> (\<forall>now f f'. e now f = Some f' \<longrightarrow> d f \<longrightarrow> d f')"

lemma reachesD: "reaches e d \<Longrightarrow> e now f = Some f' \<Longrightarrow> d f'" "reaches e d \<Longrightarrow> d f \<Longrightarrow> e now f = Some f"
  by (auto simp: reaches_def)

lemma keepsI: "(\<And>now f f'. e now f = Some f' \<Longrightarrow> d f \<Longrightarrow> d f') \<Longrightarrow> keeps e d"
  by (auto simp: keeps_def)

lemma keepsD: "keeps e d \<Longrightarrow> e now f = Some f' \<Longrightarrow> d f \<Longrightarrow> d f'"
  by (auto simp: keeps_def)

lemma keeps_run: "(\<And>e. e \<in> set es \<Longrightarrow> keeps e d) \<Longrightarrow> keeps (run es) d"
proof (rule keepsI)
  fix now f f'
  assume "\<And>e. e \<in> set es \<Longrightarrow> keeps e d" "run es now f = Some f'" "d f"
  then show "d f'"
    by (induction es arbitrary: f) (auto split: option.splits dest: keepsD)
qed

definition in_turn :: "(effect \<times> milestone) list \<Rightarrow> bool" where
  "in_turn eds \<longleftrightarrow>
     list_all (\<lambda>ed. reaches (fst ed) (snd ed)) eds \<and> sorted_wrt (\<lambda>ed later. keeps (fst later) (snd ed)) eds"

lemma in_turn_Cons:
  "in_turn ((e, d) # eds) \<longleftrightarrow> reaches e d \<and> (\<forall>e'\<in>set (map fst eds). keeps e' d) \<and> in_turn eds"
  by (auto simp: in_turn_def)

lemma milestones_reached:
  "in_turn eds \<Longrightarrow> run (map fst eds) now f = Some f' \<Longrightarrow> \<forall>(e, d)\<in>set eds. d f'"
proof (induction eds arbitrary: f)
  case (Cons ed eds)
  obtain e d where [simp]: "ed = (e, d)" by fastforce
  from Cons.prems obtain f1 where 1: "e now f = Some f1" "run (map fst eds) now f1 = Some f'"
    by (auto split: option.splits)
  from Cons.prems have turn: "reaches e d" "in_turn eds" "keeps (run (map fst eds)) d"
    by (auto simp: in_turn_Cons intro!: keeps_run)
  from 1 turn Cons.IH show ?case by (auto dest: reachesD keepsD)
qed simp

lemma partial_run_keeps:
  assumes "list_all2 steps_as us es" and "\<And>e. e \<in> set es \<Longrightarrow> keeps e d"
    and "all_of us c = (x, c')" and "run es (co_now c) (co_file c) \<noteq> None" and "d (co_file c)"
  shows "d (co_file c')"
  using assms
proof (induction us es arbitrary: c rule: list_all2_induct)
  case (Cons u us e es)
  obtain y c1 where u: "u c = (y, c1)" by fastforce
  from Cons.prems(3) obtain f1 where e: "e (co_now c) (co_file c) = Some f1" and "run es (co_now c) f1 \<noteq> None"
    by (auto split: option.splits)
  moreover have "d f1" using keepsD [of e d, OF _ e] Cons.prems by auto
  ultimately show ?case
    using steps_asD [OF Cons.hyps(1) u] Cons.prems u Cons.IH [of c1]
    by (cases y) (auto simp: outcome_def)
qed auto

lemma partial_run_finishes:
  assumes "list_all2 steps_as us (map fst eds)" and "in_turn eds"
    and "all_of us c = (x, c')" and "run (map fst eds) (co_now c) (co_file c) = Some f"
  shows "run (map fst eds) (co_now c) (co_file c') = Some f \<and> co_now c' = co_now c"
  using assms
proof (induction eds arbitrary: us c)
  case (Cons ed eds)
  obtain e d where [simp]: "ed = (e, d)" by fastforce
  from Cons.prems(1) obtain u us' where us: "us = u # us'" and ue: "steps_as u e"
    and rest: "list_all2 steps_as us' (map fst eds)"
    by (auto simp: list_all2_Cons2)
  from Cons.prems(2) have turn: "reaches e d" "in_turn eds" "\<And>e'. e' \<in> set (map fst eds) \<Longrightarrow> keeps e' d"
    by (auto simp: in_turn_Cons)
  from Cons.prems(4) obtain f1 where e: "e (co_now c) (co_file c) = Some f1"
    and run: "run (map fst eds) (co_now c) f1 = Some f"
    by (auto split: option.splits)
  obtain y c1 where u: "u c = (y, c1)" by fastforce
  note out = steps_asD [OF ue u, unfolded outcome_def]
  show ?case
  proof (cases y)
    case (Inl m)
    then have "co_file c' = co_file c \<or> co_file c' = f1" "co_now c' = co_now c"
      using out Cons.prems(3) us u e by auto
    moreover have "e (co_now c) f1 = Some f1" using reachesD [OF turn(1)] e by blast
    ultimately show ?thesis using Cons.prems(4) run by auto
  next
    case (Inr v)
    then have c1: "co_file c1 = f1" "co_now c1 = co_now c" "all_of us' c1 = (x, c')"
      using out Cons.prems(3) us u e by auto
    have "run (map fst eds) (co_now c) (co_file c') = Some f \<and> co_now c' = co_now c"
      using Cons.IH [OF rest turn(2) c1(3)] run c1 by simp
    moreover have "d f1" using reachesD [OF turn(1)] e by blast
    then have "d (co_file c')"
      using partial_run_keeps [OF rest turn(3) c1(3)] run c1 by simp
    then have "e (co_now c) (co_file c') = Some (co_file c')" using reachesD [OF turn(1)] by blast
    ultimately show ?thesis by simp
  qed
qed simp

section \<open>The stages of Open\<close>

definition rebuilt :: "file_table \<Rightarrow> file_table" where
  "rebuilt t =
     (let rows = map (\<lambda>row. map (\<lambda>c. (c, value_of row c)) database_columns) (tb_rows t) in
      \<lparr>tb_columns = database_columns, tb_unique = [], tb_rows = rows, tb_seq = max_id rows\<rparr>)"

lemma rebuild_result:
  assumes "rebuild_effect now f = Some f'"
  obtains t where "f ''databases'' = Some t" and "f' = f(''databases'' \<mapsto> rebuilt t)"
    and "set database_columns \<subseteq> set (tb_columns t)"
  using assms
  by (auto simp: rebuild_effect_def effect_of_def create_new_def create_table_def copy_databases_def
      drop_databases_def rename_new_def no_dangling_def rebuilt_def Let_def fun_upd_twist fun_upd_idem
      split: option.splits if_splits)

lemma rebuilt_simps [simp]:
  "tb_columns (rebuilt t) = database_columns" "tb_unique (rebuilt t) = []"
  "tb_seq (rebuilt t) = max_id (tb_rows (rebuilt t))"
  by (simp_all add: rebuilt_def Let_def)

definition times_effect :: effect where
  "times_effect = guarded (\<lambda>f. column_in f ''shared_schedules'' ''time_of_day'' = True)
     (run (map effect_of [copy_times, drop_column ''shared_schedules'' ''time_of_day'',
        drop_column ''shared_schedules'' ''last_run_date'']))"

definition events_effect :: effect where
  "events_effect = guarded (\<lambda>f. column_in f ''notify_channels'' ''notify_on_success'' = True)
     (run (map effect_of [drop_column ''notify_channels'' ''notify_on_success'',
        drop_column ''notify_channels'' ''notify_on_error'']))"

definition agent_effect :: effect where
  "agent_effect = guarded (\<lambda>f. column_in f ''databases'' ''agent_id'' = False)
     (effect_of (add_column ''databases'' ''agent_id'' (IntCell 0)))"

definition name_effect :: effect where
  "name_effect = guarded (\<lambda>f. column_in f ''shared_schedules'' ''name'' = False)
     (effect_of (add_column ''shared_schedules'' ''name'' (TextCell [])))"

definition scope_effect :: effect where
  "scope_effect = guarded (\<lambda>f. single_in f ''databases'' ''name'') rebuild_effect"

definition index_effect :: effect where
  "index_effect = effect_of create_identity_index"

definition indexed :: milestone where
  "indexed f \<longleftrightarrow>
     (case f ''databases'' of None \<Rightarrow> False | Some t \<Rightarrow> identity_index \<in> set (map fst (tb_unique t)))"

definition open_effects :: "(effect \<times> milestone) list" where
  "open_effects =
     replicate 3 (\<lambda>now f. Some f, \<lambda>f. True) @
     map (\<lambda>(t, cols). (effect_of (create_table t cols), \<lambda>f. f t \<noteq> None)) schema @
     [(times_effect, \<lambda>f. \<not> column_in f ''shared_schedules'' ''time_of_day''),
      (events_effect, \<lambda>f. \<not> column_in f ''notify_channels'' ''notify_on_success''),
      (agent_effect, \<lambda>f. column_in f ''databases'' ''agent_id''),
      (scope_effect, \<lambda>f. \<not> single_in f ''databases'' ''name''),
      (name_effect, \<lambda>f. column_in f ''shared_schedules'' ''name''),
      (index_effect, indexed)]"

lemmas step_rules = steps_as_wrapped steps_as_when_column steps_as_transaction steps_as_stmt steps_as_no_effect
  steps_as_rebuild list_all2_Nil [THEN iffD2] list_all2_Cons [THEN iffD2] conjI refl

lemma steps_as_stages:
  "steps_as migrateSharedScheduleTimes times_effect"
  "steps_as migrateNotifyChannelEvents events_effect"
  "steps_as migrateAgentIDColumn agent_effect"
  "steps_as migrateDatabasesNameUniqueScope scope_effect"
  "steps_as migrateSharedScheduleNameColumn name_effect"
  "steps_as (stmt create_identity_index) index_effect"
  unfolding migrateSharedScheduleTimes_def times_effect_def migrateNotifyChannelEvents_def events_effect_def
    migrateAgentIDColumn_def agent_effect_def migrateSharedScheduleNameColumn_def name_effect_def index_effect_def
    scope_effect_def
  by (simp_all only: list.map, (intro step_rules)+)

lemma stages_step: "list_all2 steps_as open_stages (map fst open_effects)"
proof -
  have "list_all2 steps_as (map (\<lambda>(t, cols). wrapped ''apply schema'' (stmt (create_table t cols))) l)
      (map fst (map (\<lambda>(t, cols). (effect_of (create_table t cols), \<lambda>f. f t \<noteq> None)) l))" for l :: "(string \<times> string list) list"
    by (induction l) (auto intro!: step_rules)
  from this [of schema] show ?thesis
    unfolding open_stages_def open_effects_def map_append
    by (intro list_all2_appendI) (simp_all only: list.map fst_conv replicate_Suc replicate_0 numeral_3_eq_3, auto intro!: steps_as_stages step_rules)
qed

lemma keeps_guarded: "keeps e d \<Longrightarrow> keeps (guarded p e) d"
  by (auto simp: keeps_def guarded_def split: if_splits)

lemmas statements = effect_of_def create_table_def copy_times_def drop_column_def add_column_def
  create_identity_index_def Let_def

lemma effects_keep_tables:
  "keeps (effect_of (create_table t cols)) (\<lambda>f. f t' \<noteq> None)"
  "keeps times_effect (\<lambda>f. f t' \<noteq> None)"
  "keeps events_effect (\<lambda>f. f t' \<noteq> None)"
  "keeps agent_effect (\<lambda>f. f t' \<noteq> None)"
  "keeps scope_effect (\<lambda>f. f t' \<noteq> None)"
  "keeps name_effect (\<lambda>f. f t' \<noteq> None)"
  "keeps index_effect (\<lambda>f. f t' \<noteq> None)"
proof -
  show "keeps (effect_of (create_table t cols)) (\<lambda>f. f t' \<noteq> None)"
    by (rule keepsI) (auto simp: statements)
  show "keeps times_effect (\<lambda>f. f t' \<noteq> None)" "keeps events_effect (\<lambda>f. f t' \<noteq> None)"
    unfolding times_effect_def events_effect_def
    by (intro keeps_guarded keeps_run keepsI, auto simp: statements split: option.splits if_splits)+
  show "keeps agent_effect (\<lambda>f. f t' \<noteq> None)" "keeps name_effect (\<lambda>f. f t' \<noteq> None)"
    "keeps index_effect (\<lambda>f. f t' \<noteq> None)"
    unfolding agent_effect_def name_effect_def index_effect_def
    by (intro keeps_guarded keepsI; auto simp: statements split: option.splits if_splits)+
  show "keeps scope_effect (\<lambda>f. f t' \<noteq> None)"
    unfolding scope_effect_def
    by (intro keeps_guarded keepsI) (auto elim!: rebuild_result)
qed

lemma effects_keep_no_time:
  "keeps events_effect (\<lambda>f. \<not> column_in f ''shared_schedules'' ''time_of_day'')"
  "keeps agent_effect (\<lambda>f. \<not> column_in f ''shared_schedules'' ''time_of_day'')"
  "keeps scope_effect (\<lambda>f. \<not> column_in f ''shared_schedules'' ''time_of_day'')"
  "keeps name_effect (\<lambda>f. \<not> column_in f ''shared_schedules'' ''time_of_day'')"
  "keeps index_effect (\<lambda>f. \<not> column_in f ''shared_schedules'' ''time_of_day'')"
  unfolding events_effect_def agent_effect_def scope_effect_def name_effect_def index_effect_def
  by (intro keeps_guarded keeps_run keepsI;
      auto simp: statements column_in_def elim!: rebuild_result split: option.splits if_splits)+

lemma effects_keep_no_events:
  "keeps agent_effect (\<lambda>f. \<not> column_in f ''notify_channels'' ''notify_on_success'')"
  "keeps scope_effect (\<lambda>f. \<not> column_in f ''notify_channels'' ''notify_on_success'')"
  "keeps name_effect (\<lambda>f. \<not> column_in f ''notify_channels'' ''notify_on_success'')"
  "keeps index_effect (\<lambda>f. \<not> column_in f ''notify_channels'' ''notify_on_success'')"
  unfolding agent_effect_def scope_effect_def name_effect_def index_effect_def
  by (intro keeps_guarded keeps_run keepsI;
      auto simp: statements column_in_def elim!: rebuild_result split: option.splits if_splits)+

lemma effects_keep_agent:
  "keeps scope_effect (\<lambda>f. column_in f ''databases'' ''agent_id'')"
  "keeps name_effect (\<lambda>f. column_in f ''databases'' ''agent_id'')"
  "keeps index_effect (\<lambda>f. column_in f ''databases'' ''agent_id'')"
  "keeps name_effect (\<lambda>f. \<not> single_in f ''databases'' ''name'')"
  "keeps index_effect (\<lambda>f. \<not> single_in f ''databases'' ''name'')"
  "keeps index_effect (\<lambda>f. column_in f ''shared_schedules'' ''name'')"
  unfolding scope_effect_def name_effect_def index_effect_def
  by (intro keeps_guarded keeps_run keepsI;
      auto simp: statements column_in_def single_in_iff database_columns_def identity_columns_def
        map_add_Some_iff elim!: rebuild_result split: option.splits if_splits)+

lemma effects_reach:
  "reaches (\<lambda>now f. Some f) (\<lambda>f. True)"
  "reaches (effect_of (create_table t cols)) (\<lambda>f. f t \<noteq> None)"
  "reaches times_effect (\<lambda>f. \<not> column_in f ''shared_schedules'' ''time_of_day'')"
  "reaches events_effect (\<lambda>f. \<not> column_in f ''notify_channels'' ''notify_on_success'')"
  "reaches agent_effect (\<lambda>f. column_in f ''databases'' ''agent_id'')"
  "reaches scope_effect (\<lambda>f. \<not> single_in f ''databases'' ''name'')"
  "reaches name_effect (\<lambda>f. column_in f ''shared_schedules'' ''name'')"
  "reaches index_effect indexed"
  unfolding times_effect_def events_effect_def agent_effect_def scope_effect_def name_effect_def index_effect_def
    reaches_def guarded_def
  by (auto simp: statements column_in_def single_in_iff indexed_def elim!: rebuild_result
      split: option.splits if_splits)

lemma in_turn_append:
  "in_turn (as @ bs) \<longleftrightarrow>
     in_turn as \<and> in_turn bs \<and> (\<forall>ed\<in>set as. \<forall>later\<in>set bs. keeps (fst later) (snd ed))"
  by (auto simp: in_turn_def sorted_wrt_append)

lemma in_turn_schema:
  "in_turn (map (\<lambda>(t, cols). (effect_of (create_table t cols), \<lambda>f. f t \<noteq> None)) l)"
  by (induction l) (auto simp: in_turn_Cons effects_reach [unfolded not_None_eq] effects_keep_tables [unfolded not_None_eq]
    in_turn_def)

lemma open_effects_in_turn: "in_turn open_effects"
proof -
  have "keeps e (\<lambda>f. True)" for e by (rule keepsI) simp
  then show ?thesis
    unfolding open_effects_def in_turn_append
    by (simp add: in_turn_schema [unfolded not_None_eq] in_turn_Cons effects_reach effects_keep_no_time
        effects_keep_no_events effects_keep_agent effects_keep_tables [unfolded not_None_eq] numeral_3_eq_3)
      (auto simp: in_turn_def effects_keep_tables [unfolded not_None_eq])
qed

lemma Open_runs:
  assumes "reg_Open None None c = (Inr (), d)"
  shows "run (map fst open_effects) (co_now c) (co_file c) = Some (co_file d)"
  using all_of_steps [OF stages_step] assms by (fastforce simp: reg_Open_def)

section \<open>An old installation\<close>

definition old_database :: "int \<Rightarrow> string \<Rightarrow> record_row" where
  "old_database i n =
     (''id'', IntCell i) # (''name'', TextCell n) # map (\<lambda>c. (c, TextCell ''x'')) (drop 2 (remove1 ''agent_id'' database_columns))"

definition old_file :: db_file where
  "old_file =
     [''databases'' \<mapsto> \<lparr>tb_columns = remove1 ''agent_id'' database_columns,
        tb_unique = [(''sqlite_autoindex_databases_1'', [''name''])],
        tb_rows = [old_database 1 ''shop'', old_database 2 ''blog''], tb_seq = 9\<rparr>,
      ''shared_schedules'' \<mapsto> \<lparr>tb_columns = [''id'', ''time_of_day'', ''enabled'', ''last_run_date'', ''created_at''],
        tb_unique = [],
        tb_rows = [[(''id'', IntCell 4), (''time_of_day'', TextCell ''02:30''), (''enabled'', IntCell 1),
          (''last_run_date'', TextCell ''2026-01-02''), (''created_at'', TextCell ''x'')]], tb_seq = 4\<rparr>]"

definition old_conn :: conn where
  "old_conn = \<lparr>co_file = old_file, co_now = ''2026-01-03 00:00:00'', co_faults = []\<rparr>"

text \<open>The connection is lost after the rebuild of \<open>databases\<close>, at the check of the foreign keys.\<close>

definition broken_conn :: conn where
  "broken_conn = old_conn\<lparr>co_faults := replicate 32 None @ [Some ''disk I/O error'']\<rparr>"

lemma old_upgrades: "fst (reg_Open None None old_conn) = Inr ()"
  by code_simp

lemma broken_fails:
  "fst (reg_Open None None broken_conn) =
     Inl (Wrap ''migrate databases name unique scope'' (Wrap ''foreign_key_check'' (SqlFault ''disk I/O error'')))"
  by code_simp

section \<open>Correctness of Open\<close>

text \<open>
  C15. An \<open>Open\<close> may be repeated. Take any attempt to open the registry, in which any statement may have failed and
  left the migrations half done, or none may have failed. If an undisturbed \<open>Open\<close> of the file as it was before
  the attempt succeeds, an undisturbed \<open>Open\<close> of what the attempt left (at the same time of the clock) succeeds
  too and gives the same file: no migration is lost and none is applied twice.
\<close>

theorem open_can_be_repeated:
  assumes "reg_Open m n c = (x, c')" and "reg_Open None None (c\<lparr>co_faults := []\<rparr>) = (Inr (), d)"
  shows "reg_Open None None (c'\<lparr>co_faults := []\<rparr>) = (Inr (), d)"
proof -
  have run: "run (map fst open_effects) (co_now c) (co_file c) = Some (co_file d)"
    using Open_runs [OF assms(2)] by simp
  have left: "run (map fst open_effects) (co_now c) (co_file c') = Some (co_file d) \<and> co_now c' = co_now c"
    using assms(1) run partial_run_finishes [OF stages_step open_effects_in_turn]
    by (auto simp: reg_Open_def split: option.splits)
  obtain y e where o: "reg_Open None None (c'\<lparr>co_faults := []\<rparr>) = (y, e)" by fastforce
  note second = all_of_steps [OF stages_step o [unfolded reg_Open_def, simplified]]
  note first = all_of_steps [OF stages_step assms(2) [unfolded reg_Open_def, simplified]]
  have "y = Inr ()" using second left by (cases y) auto
  moreover have "e = d" using first second left run \<open>y = Inr ()\<close> by (auto intro!: conn.equality)
  ultimately show ?thesis using o by simp
qed

lemma open_can_be_repeated_witness:
  "\<exists>m c' d. reg_Open None None broken_conn = (Inl m, c') \<and> reg_Open None None old_conn = (Inr (), d) \<and>
     reg_Open None None (c'\<lparr>co_faults := []\<rparr>) = (Inr (), d)"
proof -
  obtain c' where b: "reg_Open None None broken_conn =
      (Inl (Wrap ''migrate databases name unique scope'' (Wrap ''foreign_key_check'' (SqlFault ''disk I/O error''))), c')"
    using broken_fails by (metis prod.collapse)
  obtain d where o: "reg_Open None None old_conn = (Inr (), d)"
    using old_upgrades by (metis prod.collapse)
  have "broken_conn\<lparr>co_faults := []\<rparr> = old_conn" by (simp add: broken_conn_def old_conn_def)
  with o have "reg_Open None None (broken_conn\<lparr>co_faults := []\<rparr>) = (Inr (), d)" by simp
  from open_can_be_repeated [OF b this] b o show ?thesis by blast
qed

section \<open>What an upgrade does to the rows\<close>

lemma run_append: "run (as @ bs) now f = (case run as now f of None \<Rightarrow> None | Some f' \<Rightarrow> run bs now f')"
  by (induction as arbitrary: f) (auto split: option.splits)

lemma keeps_all:
  assumes "run es now f = Some f'" and "d f" and "list_all (\<lambda>e. keeps e d) es"
  shows "d f'"
  using assms keepsD [OF keeps_run [of es d]] by (auto simp: list_all_iff)

text \<open>
  The rows of \<open>databases\<close>, and the rows as the code of this release has to see them: a database of a release without
  agents is one of the central server.
\<close>

definition database_rows :: "db_file \<Rightarrow> cell list list" where
  "database_rows f = map (\<lambda>row. map (value_of row) database_columns) (rows_of f ''databases'')"

definition upgraded_rows :: "db_file \<Rightarrow> cell list list" where
  "upgraded_rows f =
     map (\<lambda>row. map (\<lambda>c. if c = ''agent_id'' \<and> \<not> column_in f ''databases'' ''agent_id'' then IntCell 0 else value_of row c)
         database_columns) (rows_of f ''databases'')"

lemma upgraded_has_agent: "column_in f ''databases'' ''agent_id'' \<Longrightarrow> upgraded_rows f = database_rows f"
  by (simp add: upgraded_rows_def database_rows_def)

lemma value_of_added: "value_of ((c, x) # row) col = (if col = c then x else value_of row col)"
  by (simp add: value_of_def)

lemma value_of_rebuilt: "col \<in> set cols \<Longrightarrow> value_of (map (\<lambda>c. (c, g c)) cols) col = g col"
  by (simp add: value_of_def map_of_map_restrict)

lemma effects_keep_rows:
  "keeps (effect_of (create_table t cols)) (\<lambda>f. upgraded_rows f = rows)"
  "keeps times_effect (\<lambda>f. upgraded_rows f = rows)"
  "keeps events_effect (\<lambda>f. upgraded_rows f = rows)"
  "keeps agent_effect (\<lambda>f. upgraded_rows f = rows)"
  "keeps scope_effect (\<lambda>f. upgraded_rows f = rows)"
  "keeps name_effect (\<lambda>f. upgraded_rows f = rows)"
  "keeps index_effect (\<lambda>f. upgraded_rows f = rows)"
proof -
  note rows = upgraded_rows_def rows_of_def column_in_def
  show "keeps (effect_of (create_table t cols)) (\<lambda>f. upgraded_rows f = rows)"
    "keeps index_effect (\<lambda>f. upgraded_rows f = rows)"
    unfolding index_effect_def
    by (intro keepsI; auto simp: statements rows split: option.splits if_splits)+
  show "keeps times_effect (\<lambda>f. upgraded_rows f = rows)" "keeps events_effect (\<lambda>f. upgraded_rows f = rows)"
    "keeps name_effect (\<lambda>f. upgraded_rows f = rows)"
    unfolding times_effect_def events_effect_def name_effect_def
    by (intro keeps_guarded keeps_run keepsI;
        auto simp: statements rows split: option.splits if_splits)+
  show "keeps agent_effect (\<lambda>f. upgraded_rows f = rows)"
    unfolding agent_effect_def keeps_def guarded_def
    by (auto simp: statements rows value_of_added comp_def split: option.splits if_splits)
  have "map (value_of (map (\<lambda>c. (c, value_of row c)) database_columns)) database_columns = map (value_of row) database_columns" for row
    by (simp add: value_of_rebuilt)
  moreover have "''agent_id'' \<in> set database_columns" by (simp add: database_columns_def)
  ultimately show "keeps scope_effect (\<lambda>f. upgraded_rows f = rows)"
    unfolding scope_effect_def
    by (intro keeps_guarded keepsI) (auto simp: rows rebuilt_def Let_def comp_def subset_iff elim!: rebuild_result)
qed

text \<open>
  C22. Whatever release left the file, a successful \<open>Open\<close> brings it to the shape the code uses: databases have an
  agent, no index makes the name alone unique, the index over name, agent and driver is there, shared schedules
  have a name and no time of their own, channels no event filter. The rows of \<open>databases\<close> are the ones that were
  there, in the same order, with the same value in every column, the agent included where the release had one; where it
  had none, the database is backed up by the central server.
\<close>

theorem open_upgrades:
  assumes "reg_Open None None c = (Inr (), d)"
  shows "column_in (co_file d) ''databases'' ''agent_id'' \<and> \<not> single_in (co_file d) ''databases'' ''name'' \<and>
    indexed (co_file d) \<and> column_in (co_file d) ''shared_schedules'' ''name'' \<and>
    \<not> column_in (co_file d) ''shared_schedules'' ''time_of_day'' \<and>
    \<not> column_in (co_file d) ''notify_channels'' ''notify_on_success'' \<and>
    database_rows (co_file d) = upgraded_rows (co_file c)"
proof -
  note run = Open_runs [OF assms]
  have "keeps (\<lambda>now f. Some f) (\<lambda>f. upgraded_rows f = rows)" for rows by (rule keepsI) simp
  then have "upgraded_rows (co_file d) = upgraded_rows (co_file c)"
    by (intro keeps_all [OF run, of "\<lambda>f. upgraded_rows f = upgraded_rows (co_file c)"])
      (auto simp: open_effects_def effects_keep_rows list_all_iff)
  moreover from milestones_reached [OF open_effects_in_turn run]
  have m: "column_in (co_file d) ''databases'' ''agent_id'' \<and> \<not> single_in (co_file d) ''databases'' ''name'' \<and>
    indexed (co_file d) \<and> column_in (co_file d) ''shared_schedules'' ''name'' \<and>
    \<not> column_in (co_file d) ''shared_schedules'' ''time_of_day'' \<and>
    \<not> column_in (co_file d) ''notify_channels'' ''notify_on_success''"
    unfolding open_effects_def by (simp only: set_append list.set ball_Un ball_simps prod.case not_False_eq_True simp_thms)
  ultimately show ?thesis using upgraded_has_agent [of "co_file d"] by simp
qed

text \<open>
  Two installations of older releases: one without agents, and one with them whose names are still unique. The
  second keeps its agent through the rebuild.
\<close>

definition agent_conn :: conn where
  "agent_conn = old_conn\<lparr>co_file := old_file(''databases'' \<mapsto>
     \<lparr>tb_columns = database_columns, tb_unique = [(''sqlite_autoindex_databases_1'', [''name''])],
      tb_rows = [(''agent_id'', IntCell 7) # old_database 1 ''shop''], tb_seq = 9\<rparr>)\<rparr>"

lemma agent_upgrades: "fst (reg_Open None None agent_conn) = Inr ()"
  by code_simp

lemma open_upgrades_witness:
  "(\<exists>d. reg_Open None None old_conn = (Inr (), d) \<and> indexed (co_file d) \<and>
     map (\<lambda>vs. (vs ! 1, vs ! 9)) (database_rows (co_file d)) = [(TextCell ''shop'', IntCell 0), (TextCell ''blog'', IntCell 0)]) \<and>
   (\<exists>d. reg_Open None None agent_conn = (Inr (), d) \<and> \<not> single_in (co_file d) ''databases'' ''name'' \<and>
     map (\<lambda>vs. (vs ! 1, vs ! 9)) (database_rows (co_file d)) = [(TextCell ''shop'', IntCell 7)])"
proof (intro conjI)
  obtain d where o: "reg_Open None None old_conn = (Inr (), d)" using old_upgrades by (metis prod.collapse)
  have "map (\<lambda>vs. (vs ! 1, vs ! 9)) (upgraded_rows (co_file old_conn)) =
      [(TextCell ''shop'', IntCell 0), (TextCell ''blog'', IntCell 0)]" by code_simp
  with open_upgrades [OF o] o show "\<exists>d. reg_Open None None old_conn = (Inr (), d) \<and> indexed (co_file d) \<and>
     map (\<lambda>vs. (vs ! 1, vs ! 9)) (database_rows (co_file d)) = [(TextCell ''shop'', IntCell 0), (TextCell ''blog'', IntCell 0)]"
    by auto
next
  obtain d where o: "reg_Open None None agent_conn = (Inr (), d)" using agent_upgrades by (metis prod.collapse)
  have "map (\<lambda>vs. (vs ! 1, vs ! 9)) (upgraded_rows (co_file agent_conn)) = [(TextCell ''shop'', IntCell 7)]" by code_simp
  with open_upgrades [OF o] o show "\<exists>d. reg_Open None None agent_conn = (Inr (), d) \<and>
      \<not> single_in (co_file d) ''databases'' ''name'' \<and>
      map (\<lambda>vs. (vs ! 1, vs ! 9)) (database_rows (co_file d)) = [(TextCell ''shop'', IntCell 7)]"
    by auto
qed

definition before_times :: "effect list" where
  "before_times = replicate 3 (\<lambda>now f. Some f) @ map (\<lambda>(t, cols). effect_of (create_table t cols)) schema"

lemma open_effects_split:
  "map fst open_effects =
     before_times @ times_effect # [events_effect, agent_effect, scope_effect, name_effect, index_effect]"
  by (simp add: open_effects_def before_times_def comp_def case_prod_unfold)

lemma before_times_keeps: "(\<And>t cols. keeps (effect_of (create_table t cols)) d) \<Longrightarrow> keeps (run before_times) d"
  unfolding before_times_def by (rule keeps_run) (auto intro: keepsI)

definition shared_times :: "db_file \<Rightarrow> (cell \<times> cell \<times> cell) list" where
  "shared_times f =
     map (\<lambda>row. (value_of row ''shared_schedule_id'', value_of row ''time_of_day'', value_of row ''last_run_date''))
       (rows_of f ''shared_schedule_times'')"

lemma time_row_values:
  "value_of (time_row now i row) ''shared_schedule_id'' = value_of row ''id''"
  "value_of (time_row now i row) ''time_of_day'' = value_of row ''time_of_day''"
  "value_of (time_row now i row) ''last_run_date'' = value_of row ''last_run_date''"
  by (simp_all add: time_row_def) (simp_all add: value_of_def)

lemma times_are_copied:
  assumes "times_effect now f = Some f'" and "column_in f ''shared_schedules'' ''time_of_day''"
    and "row \<in> set (rows_of f ''shared_schedules'')"
  shows "(value_of row ''id'', value_of row ''time_of_day'', value_of row ''last_run_date'') \<in> set (shared_times f')"
proof -
  obtain s t where st: "f ''shared_schedules'' = Some s" "f ''shared_schedule_times'' = Some t"
    using assms(1,2)
    by (auto simp: times_effect_def guarded_def statements split: option.splits if_splits)
  then obtain k where k: "k < length (tb_rows s)" "tb_rows s ! k = row"
    using assms(3) by (auto simp: rows_of_def in_set_conv_nth)
  define ids where "ids = [tb_seq t + 1 .. tb_seq t + int (length (tb_rows s))]"
  have "length ids = length (tb_rows s)" by (simp add: ids_def)
  with k have "time_row now (ids ! k) row \<in> set (map2 (time_row now) ids (tb_rows s))"
    by (auto simp: set_zip intro!: image_eqI [of _ _ "(ids ! k, row)"])
  moreover have "rows_of f' ''shared_schedule_times'' = tb_rows t @ map2 (time_row now) ids (tb_rows s)"
    using assms(1,2) st
    by (auto simp: times_effect_def guarded_def statements rows_of_def ids_def split: option.splits if_splits)
  ultimately have "time_row now (ids ! k) row \<in> set (rows_of f' ''shared_schedule_times'')" by simp
  then show ?thesis unfolding shared_times_def set_map by (rule image_eqI [rotated]) (simp add: time_row_values)
qed

lemma effects_keep_time:
  "keeps events_effect (\<lambda>f. shared_times f = ts)" "keeps agent_effect (\<lambda>f. shared_times f = ts)"
  "keeps scope_effect (\<lambda>f. shared_times f = ts)" "keeps name_effect (\<lambda>f. shared_times f = ts)"
  "keeps index_effect (\<lambda>f. shared_times f = ts)"
  unfolding events_effect_def agent_effect_def scope_effect_def name_effect_def index_effect_def
  by (intro keeps_guarded keeps_run keepsI;
      auto simp: statements shared_times_def rows_of_def elim!: rebuild_result split: option.splits if_splits)+

lemma create_keeps_table: "keeps (effect_of (create_table t cols)) (\<lambda>f. f t' = Some tb)"
  by (rule keepsI) (auto simp: statements)

text \<open>
  C23. A shared schedule of an installation that had one time of day for it still runs at that time: after \<open>Open\<close>
  a row of \<open>shared_schedule_times\<close> gives the schedule's id that time, with the date of its last run, so that the
  upgrade does not fire it a second time on that day.
\<close>

theorem open_moves_times:
  assumes "reg_Open None None c = (Inr (), d)" and "co_file c ''shared_schedules'' = Some s"
    and "''time_of_day'' \<in> set (tb_columns s)" and "row \<in> set (tb_rows s)"
  shows "(value_of row ''id'', value_of row ''time_of_day'', value_of row ''last_run_date'')
    \<in> set (shared_times (co_file d))"
proof -
  from Open_runs [OF assms(1)] obtain f1 f2 where
    1: "run before_times (co_now c) (co_file c) = Some f1" and 2: "times_effect (co_now c) f1 = Some f2"
    and 3: "run [events_effect, agent_effect, scope_effect, name_effect, index_effect] (co_now c) f2 = Some (co_file d)"
    unfolding open_effects_split run_append by (auto split: option.splits simp del: run.simps(1))
  have "f1 ''shared_schedules'' = Some s"
    using keepsD [OF before_times_keeps [OF create_keeps_table], OF 1 assms(2)] .
  then have "(value_of row ''id'', value_of row ''time_of_day'', value_of row ''last_run_date'') \<in> set (shared_times f2)"
    using times_are_copied [OF 2] assms(3,4) by (simp add: column_in_def rows_of_def)
  moreover have "shared_times (co_file d) = shared_times f2"
    using keeps_all [OF 3, of "\<lambda>f. shared_times f = shared_times f2"] by (simp add: effects_keep_time)
  ultimately show ?thesis by simp
qed

lemma open_moves_times_witness:
  "\<exists>d. reg_Open None None old_conn = (Inr (), d) \<and>
     (IntCell 4, TextCell ''02:30'', TextCell ''2026-01-02'') \<in> set (shared_times (co_file d))"
proof -
  obtain d where o: "reg_Open None None old_conn = (Inr (), d)" using old_upgrades by (metis prod.collapse)
  define s where "s = the (old_file ''shared_schedules'')"
  define row where "row = hd (tb_rows s)"
  have "co_file old_conn ''shared_schedules'' = Some s" "''time_of_day'' \<in> set (tb_columns s)" "row \<in> set (tb_rows s)"
    and "value_of row ''id'' = IntCell 4" "value_of row ''time_of_day'' = TextCell ''02:30''"
    "value_of row ''last_run_date'' = TextCell ''2026-01-02''"
    by (simp_all add: s_def row_def old_conn_def old_file_def value_of_def)
  with open_moves_times [OF o, of s row] o show ?thesis by auto
qed

section \<open>Ids of deleted databases\<close>

definition seq_is_max :: milestone where
  "seq_is_max f \<longleftrightarrow>
     (case f ''databases'' of None \<Rightarrow> False | Some t \<Rightarrow> tb_seq t = max_id (tb_rows t))"

lemma effects_keep_single:
  "keeps (effect_of (create_table t cols)) (\<lambda>f. single_in f ''databases'' ''name'')"
  "keeps times_effect (\<lambda>f. single_in f ''databases'' ''name'')"
  "keeps events_effect (\<lambda>f. single_in f ''databases'' ''name'')"
  "keeps agent_effect (\<lambda>f. single_in f ''databases'' ''name'')"
  "keeps name_effect seq_is_max" "keeps index_effect seq_is_max"
  unfolding times_effect_def events_effect_def agent_effect_def name_effect_def index_effect_def
  by (intro keeps_guarded keeps_run keepsI;
      auto simp: statements single_in_iff seq_is_max_def split: option.splits if_splits)+

text \<open>
  C36. The migration that drops the old uniqueness of names loses the mark of the ids handed out: afterwards the
  table continues after the largest id still in it, not after the largest ever given. The ids of databases that
  were deleted last are given out again, and with them the backup files that are recorded under those ids.
\<close>

theorem rebuild_forgets_ids:
  assumes "reg_Open None None c = (Inr (), d)" and "single_in (co_file c) ''databases'' ''name''"
  shows "\<exists>t. co_file d ''databases'' = Some t \<and> tb_seq t = max_id (tb_rows t)"
proof -
  have "map fst open_effects = (before_times @ [times_effect, events_effect, agent_effect]) @
      scope_effect # [name_effect, index_effect]"
    by (simp add: open_effects_split)
  with Open_runs [OF assms(1)] obtain f1 f2 where
    1: "run (before_times @ [times_effect, events_effect, agent_effect]) (co_now c) (co_file c) = Some f1"
    and 2: "scope_effect (co_now c) f1 = Some f2" and 3: "run [name_effect, index_effect] (co_now c) f2 = Some (co_file d)"
    by (auto simp: run_append [of _ "scope_effect # _"] split: option.splits simp del: run.simps(1) append_assoc)
  have "single_in f1 ''databases'' ''name''"
    by (rule keeps_all [OF 1, of "\<lambda>f. single_in f ''databases'' ''name''"])
      (auto simp: assms(2) before_times_def effects_keep_single list_all_iff intro: keepsI)
  with 2 have "seq_is_max f2"
    by (auto simp: scope_effect_def guarded_def seq_is_max_def elim!: rebuild_result)
  then have "seq_is_max (co_file d)" using keeps_all [OF 3, of seq_is_max] by (simp add: effects_keep_single)
  then show ?thesis by (auto simp: seq_is_max_def split: option.splits)
qed

lemma rebuild_forgets_ids_witness:
  "\<exists>d t. map_option tb_seq (old_file ''databases'') = Some 9 \<and> reg_Open None None old_conn = (Inr (), d) \<and>
     co_file d ''databases'' = Some t \<and> tb_seq t = max_id (tb_rows t) \<and> tb_seq t = 2"
proof -
  obtain d where o: "reg_Open None None old_conn = (Inr (), d)" using old_upgrades by (metis prod.collapse)
  have "single_in (co_file old_conn) ''databases'' ''name''" by code_simp
  from rebuild_forgets_ids [OF o this] obtain t where
    t: "co_file d ''databases'' = Some t" "tb_seq t = max_id (tb_rows t)" by blast
  have "map_option tb_seq (co_file (snd (reg_Open None None old_conn)) ''databases'') = Some 2" by code_simp
  with t o show ?thesis by (simp add: old_file_def)
qed

end
