(* ===== verification/AgentServer.thy ===== *)
theory AgentServer
  imports Agent Mux
begin

text \<open>
  The rest of \<open>cmd/backupdb/agent.go\<close>: the certificate the agent keeps on disk, its start, and its HTTP server
  with the token in front of the three routes. Below it, the agent as the network sees it, so that the
  client of the central server can be run against it.
\<close>

section \<open>The disk\<close>

text \<open>A fault carries the error and what a failed write leaves of the file.\<close>

record disk =
  dk_files :: files
  dk_faults :: "(string \<times> string option) option list"

definition disk_fault :: "disk \<Rightarrow> (string \<times> string option) option \<times> disk" where
  "disk_fault d = (case dk_faults d of [] \<Rightarrow> (None, d) | f # fs \<Rightarrow> (f, d\<lparr>dk_faults := fs\<rparr>))"

definition os_ReadFile :: "string \<Rightarrow> (go_error, string, disk) op" where
  "os_ReadFile p d =
     (case disk_fault d of
        (Some (m, _), d) \<Rightarrow> (Inl (External m), d)
      | (None, d) \<Rightarrow>
          (case dk_files d p of
             None \<Rightarrow> (Inl (External ''no such file or directory''), d)
           | Some c \<Rightarrow> (Inr c, d)))"

definition os_WriteFile :: "string \<Rightarrow> string \<Rightarrow> (go_error, unit, disk) op" where
  "os_WriteFile p c d =
     (case disk_fault d of
        (Some (m, left), d) \<Rightarrow> (Inl (External m), d\<lparr>dk_files := (dk_files d)(p := left)\<rparr>)
      | (None, d) \<Rightarrow> (Inr (), d\<lparr>dk_files := (dk_files d)(p \<mapsto> c)\<rparr>))"

definition os_MkdirAll :: "string \<Rightarrow> (go_error, unit, disk) op" where
  "os_MkdirAll dir d =
     (case disk_fault d of (Some (m, _), d) \<Rightarrow> (Inl (External m), d) | (None, d) \<Rightarrow> (Inr (), d))"

section \<open>The certificate\<close>

text \<open>
  \<open>tls.X509KeyPair\<close> gives the DER bytes of the certificate of two PEM texts, or an error; a new pair of PEM texts
  comes from randomness and clock, unless generating the key, the serial number or the certificate, or
  encoding the key fails.
\<close>

record 'r x509 =
  x_pair :: "string \<Rightarrow> string \<Rightarrow> string + string"
  x_issue :: "'r \<Rightarrow> string + string \<times> string"

definition LoadX509KeyPair :: "'r x509 \<Rightarrow> string \<Rightarrow> string \<Rightarrow> (go_error, string, disk) op" where
  "LoadX509KeyPair X certFile keyFile d =
     (case os_ReadFile certFile d of
        (Inl e, d) \<Rightarrow> (Inl e, d)
      | (Inr c, d) \<Rightarrow>
          (case os_ReadFile keyFile d of
             (Inl e, d) \<Rightarrow> (Inl e, d)
           | (Inr k, d) \<Rightarrow> (case x_pair X c k of Inl m \<Rightarrow> (Inl (External m), d) | Inr der \<Rightarrow> (Inr der, d))))"

text \<open>\<open>filepath.Dir\<close>.\<close>

definition path_Dir :: "string \<Rightarrow> string" where
  "path_Dir p =
     (if CHR ''/'' \<in> set p then Clean (Join (butlast (Split (CHR ''/'') p)) ''/'' @ ''/'') else ''.'')"

text \<open>The result is the certificate and its fingerprint.\<close>

definition loadOrCreateAgentCert ::
  "'n agent_net \<Rightarrow> 'r x509 \<Rightarrow> 'r \<Rightarrow> string \<Rightarrow> string \<Rightarrow> (go_error, string \<times> string, disk) op" where
  "loadOrCreateAgentCert A X rnd certFile keyFile d =
     (case LoadX509KeyPair X certFile keyFile d of
        (Inr der, d) \<Rightarrow> (Inr (der, Fingerprint A der), d)
      | (Inl _, d) \<Rightarrow>
     (case (if path_Dir certFile \<noteq> ''.'' then os_MkdirAll (path_Dir certFile) d else (Inr (), d)) of
        (Inl e, d) \<Rightarrow> (Inl e, d)
      | (Inr _, d) \<Rightarrow>
     (case x_issue X rnd of
        Inl m \<Rightarrow> (Inl (External m), d)
      | Inr (certPEM, keyPEM) \<Rightarrow>
     (case os_WriteFile certFile certPEM d of
        (Inl e, d) \<Rightarrow> (Inl e, d)
      | (Inr _, d) \<Rightarrow>
     (case os_WriteFile keyFile keyPEM d of
        (Inl e, d) \<Rightarrow> (Inl e, d)
      | (Inr _, d) \<Rightarrow>
     (case x_pair X certPEM keyPEM of
        Inl m \<Rightarrow> (Inl (External m), d)
      | Inr der \<Rightarrow> (Inr (der, Fingerprint A der), d)))))))"

section \<open>The start\<close>

text \<open>What the server is started with: its certificate, its fingerprint for the log, the token.\<close>

record agent_server =
  as_der :: string
  as_fingerprint :: string
  as_token :: string

definition token_required :: string where
  "token_required =
     ''AGENT_TOKEN is required to run the agent '' @ em_dash @
     '' set a long random shared secret, the same value registered in the central admin UI''"

definition start_agent ::
  "'n agent_net \<Rightarrow> 'r x509 \<Rightarrow> 'r \<Rightarrow> Config \<Rightarrow> (go_error, agent_server, disk) op" where
  "start_agent A X rnd cfg d =
     (if c_AgentToken cfg = [] then (Inl (Message token_required), d)
      else
        (case os_MkdirAll (c_TmpDir cfg) d of
           (Inl e, d) \<Rightarrow> (Inl (Wrap ''prepare tmp dir'' e), d)
         | (Inr _, d) \<Rightarrow>
             (case loadOrCreateAgentCert A X rnd (c_AgentCertFile cfg) (c_AgentKeyFile cfg) d of
                (Inl e, d) \<Rightarrow> (Inl (Wrap ''prepare TLS certificate'' e), d)
              | (Inr (der, fp), d) \<Rightarrow>
                  (Inr \<lparr>as_der = der, as_fingerprint = fp, as_token = c_AgentToken cfg\<rparr>, d))))"

section \<open>The server\<close>

definition newJobID :: "string \<Rightarrow> string" where
  "newJobID random = hex_encode random"

text \<open>A request with its \<open>Authorization\<close> header; a mux may also answer with a redirect.\<close>

datatype answer = Answer reply | MovedTo string string

type_synonym agent_handler = "jobStore \<Rightarrow> answer \<times> jobStore"

definition agent_routes :: "err_texts \<Rightarrow> int \<Rightarrow> string \<Rightarrow> string \<Rightarrow> agent_handler mux_route list" where
  "agent_routes tx now jobID body =
     [(''POST'', [Lit ''run''], \<lambda>a s. (case handleRun tx now jobID body s of (x, s) \<Rightarrow> (Answer x, s))),
      (''GET'', [Lit ''run'', Wild], \<lambda>a s. (Answer (handleStatus (a ! 0) s), s)),
      (''GET'', [Lit ''health''], \<lambda>a s. (Answer (Reply 200 []), s))]"

definition agent_mux :: "err_texts \<Rightarrow> int \<Rightarrow> string \<Rightarrow> request \<Rightarrow> agent_handler" where
  "agent_mux tx now jobID r s =
     (case dispatch_to (agent_routes tx now jobID (case hr_Body r of None \<Rightarrow> [] | Some b \<Rightarrow> b)) r of
        Served h \<Rightarrow> h s
      | RedirectPath p q \<Rightarrow> (MovedTo p q, s)
      | BadMethod \<Rightarrow> (Answer (http_Error ''Method Not Allowed'' 405), s)
      | NoRoute \<Rightarrow> (Answer (http_Error ''404 page not found'' 404), s))"

definition agent_serve :: "err_texts \<Rightarrow> string \<Rightarrow> int \<Rightarrow> string \<Rightarrow> string \<Rightarrow> request \<Rightarrow> agent_handler" where
  "agent_serve tx token now jobID authorization r s =
     (if RequireToken token authorization then agent_mux tx now jobID r s
      else (Answer (http_Error ''unauthorized'' 401), s))"

section \<open>The agent on the network\<close>

text \<open>
  The agent at the end of a connection: what it holds, its clock, and the random bytes it will draw. The
  requests of the client reach it when their URL begins with its address; it presents its certificate. The
  status of a response is its code alone, and a redirect, which the client's two paths do not run into, is not followed.
\<close>

record agent_end =
  ae_store :: jobStore
  ae_now :: int
  ae_random :: "string list"   \<comment> \<open>12 bytes each\<close>

definition header :: "(string \<times> string) list \<Rightarrow> string \<Rightarrow> string" where
  "header hs k = (case map_of hs k of None \<Rightarrow> [] | Some v \<Rightarrow> v)"

definition wire_response :: "answer \<Rightarrow> http_response" where
  "wire_response a =
     (case a of
        Answer (Reply st body) \<Rightarrow> \<lparr>rs_code = st, rs_status = itoa st, rs_body = body\<rparr>
      | MovedTo p q \<Rightarrow> \<lparr>rs_code = 301, rs_status = itoa 301, rs_body = []\<rparr>)"

definition wire_request :: "string \<Rightarrow> http_request \<Rightarrow> request" where
  "wire_request address q =
     \<lparr>hr_Method = rq_method q, hr_Path = drop (length address) (rq_url q), hr_RawQuery = [], hr_ForceQuery = False,
      hr_Body = Some (rq_body q), hr_Cookies = [], hr_TLS = True, hr_now = 0, hr_random = []\<rparr>"

text \<open>What \<open>net/http\<close> answers a request without TLS on its TLS listener, before any handler.\<close>

definition http_to_https :: http_response where
  "http_to_https = \<lparr>rs_code = 400, rs_status = itoa 400,
     rs_body = ''Client sent an HTTP request to an HTTPS server.'' @ [CHR 0x0A]\<rparr>"

definition agent_link ::
  "err_texts \<Rightarrow> (string \<Rightarrow> string) \<Rightarrow> string \<Rightarrow> agent_server \<Rightarrow> agent_end agent_net" where
  "agent_link tx sha address srv =
     \<lparr>an_net =
        \<lparr>net_bad_url = (\<lambda>u. None),
         net_do = (\<lambda>q w.
           if HasPrefix (rq_url q) address
           then if uses_tls (rq_url q) then (case agent_serve tx (as_token srv) (ae_now w) (newJobID (hd (ae_random w))) (header (rq_headers q) ''Authorization'')
                        (wire_request address q) (ae_store w) of
                   (a, s) \<Rightarrow> (Inr (wire_response a), w\<lparr>ae_store := s, ae_random := tl (ae_random w)\<rparr>))
                else (Inr http_to_https, w)
           else (Inl ''no such host'', w))\<rparr>,
      an_certs = (\<lambda>u w. [as_der srv]),
      an_sha256 = sha,
      an_tls = ''tls''\<rparr>"

section \<open>Hexadecimal ids in a path\<close>

lemma hex_encode_digit: "c \<in> set (hex_encode s) \<Longrightarrow> \<exists>d < 16. c = hex_digit d"
  by (auto simp: hex_encode_def dest: hex_byte_digits)

lemma hex_char:
  assumes "c \<in> set (hex_encode s)"
  shows "c \<noteq> CHR ''/''" and "c \<noteq> CHR ''%''" and "c \<noteq> CHR ''.''" and "code c < 128"
proof -
  obtain d where "d < 16" "c = hex_digit d"
    using hex_encode_digit [OF assms] by blast
  moreover from this have "code c \<noteq> 47 \<and> code c \<noteq> 37 \<and> code c \<noteq> 46 \<and> code c < 128"
    by (auto simp: code_hex_digit)
  ultimately show "c \<noteq> CHR ''/''" and "c \<noteq> CHR ''%''" and "c \<noteq> CHR ''.''" and "code c < 128" by auto
qed

lemma hex_pin: "ToLower (ReplaceAll (hex_encode s) (CHR '':'') []) = hex_encode s"
proof -
  have c: "lower_byte c = c \<and> c \<noteq> CHR '':''" if m: "c \<in> set (hex_encode s)" for c
  proof -
    obtain d where "d < 16" "c = hex_digit d"
      using hex_encode_digit [OF m] by blast
    then have "\<not> (65 \<le> code c \<and> code c \<le> 90) \<and> code c \<noteq> 58" by (auto simp: code_hex_digit)
    then show ?thesis by (auto simp: lower_byte_def Let_def)
  qed
  have "ReplaceAll xs (CHR '':'') [] = xs" if "CHR '':'' \<notin> set xs" for xs
    using that by (induction xs) (auto simp: ReplaceAll_def replace_bytes_def)
  then have "ReplaceAll (hex_encode s) (CHR '':'') [] = hex_encode s" using c by blast
  then show ?thesis using c by (simp add: ToLower_def map_idI)
qed

lemma hex_encode_ne: "s \<noteq> [] \<Longrightarrow> hex_encode s \<noteq> []"
  by (cases s) (auto simp: hex_encode_def hex_byte_def Let_def)

lemma valid_utf8_all_ascii: "(\<And>c. c \<in> set s \<Longrightarrow> code c < 128) \<Longrightarrow> valid_utf8 s"
  by (induction s) (simp_all add: valid_utf8_ascii)

lemma unescape_plain: "CHR ''%'' \<notin> set s \<Longrightarrow> PathUnescape s = Inr s"
  by (induction s) auto

lemma run_path:
  assumes "random \<noteq> []"
  shows "cleanPath (''/run/'' @ newJobID random) = ''/run/'' @ newJobID random"
    and "path_elems (''/run/'' @ newJobID random) = [''run'', newJobID random]"
proof -
  let ?i = "newJobID random"
  have i: "CHR ''/'' \<notin> set ?i" "CHR ''%'' \<notin> set ?i" "CHR ''.'' \<notin> set ?i" "?i \<noteq> []"
    unfolding newJobID_def using hex_char(1-3) hex_encode_ne [OF assms] by metis+
  then have ne: "?i \<noteq> ''.''" "?i \<noteq> ''..''" by auto
  have split: "Split (CHR ''/'') (''/run/'' @ ?i) = [[], ''run'', ?i]"
    using Split_append_end [OF i(1), of "''/run''"] by simp
  have "last (''/run/'' @ ?i) \<noteq> CHR ''/''" using i(1,4) by (metis last_appendR last_in_set)
  then show "cleanPath (''/run/'' @ ?i) = ''/run/'' @ ?i"
    using split i(4) ne by (simp add: cleanPath_def Clean_def Let_def)
  show "path_elems (''/run/'' @ ?i) = [''run'', ?i]"
    using path_elems_slash [of "''run''" ?i] path_elems_one [OF i(1)] i(2,4)
    by (simp add: path_elem_def unescape_plain)
qed

section \<open>Properties\<close>

lemma calm_read: "dk_faults d = [] \<Longrightarrow> dk_files d p = Some c \<Longrightarrow> os_ReadFile p d = (Inr c, d)"
  by (simp add: os_ReadFile_def disk_fault_def)

text \<open>What a start that succeeds leaves on disk is a pair that loads as the certificate it serves.\<close>

lemma os_ReadFile_files: "os_ReadFile p d = (x, d') \<Longrightarrow> dk_files d' = dk_files d \<and> (\<forall>c. x = Inr c \<longrightarrow> dk_files d p = Some c)"
  by (auto simp: os_ReadFile_def disk_fault_def split: list.splits option.splits)

lemma os_WriteFile_files: "os_WriteFile p c d = (Inr x, d') \<Longrightarrow> dk_files d' = (dk_files d)(p \<mapsto> c)"
  by (auto simp: os_WriteFile_def disk_fault_def split: list.splits option.splits)

lemma certificate_on_disk:
  assumes "loadOrCreateAgentCert A X rnd cf kf d = (Inr (der, fp), d')" and "cf \<noteq> kf"
  shows "fp = Fingerprint A der \<and>
    (\<exists>c k. dk_files d' cf = Some c \<and> dk_files d' kf = Some k \<and> x_pair X c k = Inr der)"
proof (cases "LoadX509KeyPair X cf kf d")
  case (Pair x d1)
  show ?thesis
  proof (cases x)
    case (Inr der0)
    then have "der0 = der" "d1 = d'" "fp = Fingerprint A der"
      using assms(1) Pair by (auto simp: loadOrCreateAgentCert_def)
    moreover obtain c d0 k where "os_ReadFile cf d = (Inr c, d0)" "os_ReadFile kf d0 = (Inr k, d1)" "x_pair X c k = Inr der0"
      using Pair Inr by (auto simp: LoadX509KeyPair_def split: prod.splits sum.splits)
    ultimately show ?thesis using os_ReadFile_files by metis
  next
    case (Inl e)
    obtain d2 c k d3 where "x_issue X rnd = Inr (c, k)" "os_WriteFile cf c d2 = (Inr (), d3)"
      "os_WriteFile kf k d3 = (Inr (), d')" "x_pair X c k = Inr der" "fp = Fingerprint A der"
      using assms(1) Pair Inl
      by (auto simp: loadOrCreateAgentCert_def split: prod.splits sum.splits)
    then show ?thesis using assms(2) os_WriteFile_files by (auto simp: fun_upd_apply)
  qed
qed

text \<open>
  C12. The agent keeps its certificate: after a start that succeeded, whether it found a certificate or made one,
  and whatever was on disk before, every later start whose reads succeed serves the same certificate and leaves
  the disk as it is, and a client with the fingerprint that the first start logged accepts it.
\<close>

theorem agent_keeps_its_certificate:
  assumes "start_agent A X rnd cfg d = (Inr srv, d1)" and "dk_faults d1 = []"
    and "c_AgentCertFile cfg \<noteq> c_AgentKeyFile cfg"
  shows "start_agent A X later cfg d1 = (Inr srv, d1) \<and>
    VerifyPeerCertificate A (cl_pin (NewClient address token (as_fingerprint srv))) [as_der srv] = None"
proof -
  from assms(1) obtain d0 where t: "c_AgentToken cfg \<noteq> []"
    and l: "loadOrCreateAgentCert A X rnd (c_AgentCertFile cfg) (c_AgentKeyFile cfg) d0 = (Inr (as_der srv, as_fingerprint srv), d1)"
    and s: "srv = \<lparr>as_der = as_der srv, as_fingerprint = as_fingerprint srv, as_token = c_AgentToken cfg\<rparr>"
    by (auto simp: start_agent_def split: if_splits prod.splits sum.splits)
  from certificate_on_disk [OF l assms(3)] obtain c k where fp: "as_fingerprint srv = Fingerprint A (as_der srv)"
    and f: "dk_files d1 (c_AgentCertFile cfg) = Some c" "dk_files d1 (c_AgentKeyFile cfg) = Some k"
    "x_pair X c k = Inr (as_der srv)" by blast
  have "loadOrCreateAgentCert A X later (c_AgentCertFile cfg) (c_AgentKeyFile cfg) d1 = (Inr (as_der srv, as_fingerprint srv), d1)"
    using assms(2) f fp by (simp add: loadOrCreateAgentCert_def LoadX509KeyPair_def calm_read)
  then have "start_agent A X later cfg d1 = (Inr srv, d1)"
    using t s assms(2) by (simp add: start_agent_def os_MkdirAll_def disk_fault_def)
  moreover have "cl_pin (NewClient address token (as_fingerprint srv)) = as_fingerprint srv"
    unfolding fp Fingerprint_def by (simp add: NewClient_def hex_pin)
  ultimately show ?thesis by (simp add: VerifyPeerCertificate_def fp Let_def)
qed

section \<open>A small agent\<close>

text \<open>A key pair whose two PEM texts are the DER bytes, drawn directly.\<close>

definition plain_x509 :: "string x509" where
  "plain_x509 = \<lparr>x_pair = (\<lambda>c k. if c = k then Inr c else Inl ''tls: private key does not match public key''),
     x_issue = (\<lambda>r. Inr (r, r))\<rparr>"

definition token_env :: environ where
  "token_env = [''AGENT_TOKEN'' \<mapsto> ''t0k'']"

definition sample_server :: agent_server where
  "sample_server = \<lparr>as_der = ''cert'', as_fingerprint = ''63657274'', as_token = ''t0k''\<rparr>"

definition first_disk :: disk where
  "first_disk = \<lparr>dk_files = Map.empty, dk_faults = []\<rparr>"

definition kept_disk :: disk where
  "kept_disk = \<lparr>dk_files = [''./data/agent-cert.pem'' \<mapsto> ''cert'', ''./data/agent-key.pem'' \<mapsto> ''cert''], dk_faults = []\<rparr>"

lemmas start_defs =
  start_agent_def loadOrCreateAgentCert_def LoadX509KeyPair_def os_ReadFile_def os_WriteFile_def os_MkdirAll_def
  disk_fault_def

lemma token_config:
  "c_AgentToken (Load token_env) = ''t0k''" "c_AgentCertFile (Load token_env) = ''./data/agent-cert.pem''"
  "c_AgentKeyFile (Load token_env) = ''./data/agent-key.pem''"
  by (simp_all add: Load_def getEnv_def token_env_def)

lemma sample_fingerprint: "hex_encode ''cert'' = ''63657274''"
  by code_simp

lemma sample_start:
  "start_agent one_cert_net plain_x509 ''cert'' (Load token_env) first_disk = (Inr sample_server, kept_disk)"
  by (simp add: start_defs token_config first_disk_def kept_disk_def plain_x509_def sample_server_def
      one_cert_net_def Fingerprint_def sample_fingerprint)

lemma agent_keeps_its_certificate_witness:
  "start_agent one_cert_net plain_x509 ''other'' (Load token_env) kept_disk = (Inr sample_server, kept_disk)"
  using agent_keeps_its_certificate [OF sample_start, of "''other''"] by (simp add: kept_disk_def token_config)

text \<open>
  C37. A certificate that cannot be read is replaced: when the first read of a start fails for whatever reason, and
  not only because the file is not there, the agent makes a new certificate over the old one, and every client
  that has pinned the old fingerprint refuses it from then on, although the old pair was intact.
\<close>

theorem unreadable_certificate_is_replaced:
  assumes "dk_files d (c_AgentCertFile cfg) = Some c0" and "dk_files d (c_AgentKeyFile cfg) = Some k0"
    and "x_pair X c0 k0 = Inr old" and "dk_faults d = [None, Some (m, left)]"
    and "c_AgentToken cfg \<noteq> []" and "c_AgentCertFile cfg \<noteq> c_AgentKeyFile cfg"
    and "x_issue X rnd = Inr (c1, k1)" and "x_pair X c1 k1 = Inr new"
    and "Fingerprint A new \<noteq> Fingerprint A old"
  shows "\<exists>srv d'. start_agent A X rnd cfg d = (Inr srv, d') \<and>
    dk_files d' = (dk_files d)(c_AgentCertFile cfg \<mapsto> c1, c_AgentKeyFile cfg \<mapsto> k1) \<and>
    VerifyPeerCertificate A (cl_pin (NewClient address token (Fingerprint A old))) [as_der srv] \<noteq> None"
proof -
  let ?srv = "\<lparr>as_der = new, as_fingerprint = Fingerprint A new, as_token = c_AgentToken cfg\<rparr>"
  let ?d = "d\<lparr>dk_files := (dk_files d)(c_AgentCertFile cfg \<mapsto> c1, c_AgentKeyFile cfg \<mapsto> k1), dk_faults := []\<rparr>"
  have "start_agent A X rnd cfg d = (Inr ?srv, ?d)"
    using assms(4-8) by (simp add: start_defs)
  moreover have "cl_pin (NewClient address token (Fingerprint A old)) = Fingerprint A old"
    unfolding Fingerprint_def by (simp add: NewClient_def hex_pin)
  ultimately show ?thesis using assms(9) by (auto simp: VerifyPeerCertificate_def Let_def)
qed

lemma unreadable_certificate_is_replaced_witness:
  "\<exists>srv d'. start_agent one_cert_net plain_x509 ''new'' (Load token_env)
      (kept_disk\<lparr>dk_faults := [None, Some (''too many open files'', None)]\<rparr>) = (Inr srv, d') \<and>
    VerifyPeerCertificate one_cert_net (cl_pin (NewClient [] [] (Fingerprint one_cert_net ''cert''))) [as_der srv] \<noteq> None"
proof -
  have "Fingerprint one_cert_net ''new'' \<noteq> Fingerprint one_cert_net ''cert''"
    by (simp add: one_cert_net_def Fingerprint_def hex_encode_def hex_byte_def)
  then show ?thesis
    using unreadable_certificate_is_replaced [of "kept_disk\<lparr>dk_faults := [None, Some (''too many open files'', None)]\<rparr>"
        "Load token_env" "''cert''" "''cert''" plain_x509 "''cert''" "''too many open files''" None "''new''" "''new''" "''new''" "''new''"
        one_cert_net "[]" "[]"]
    by (simp add: token_config kept_disk_def plain_x509_def) blast
qed

lemma path_match_lit: "path_match [Lit l] es = Some vs \<Longrightarrow> es = [l]"
  by (cases es; cases "tl es") (auto split: if_splits)

lemma agent_route_effect:
  assumes "dispatch_to (agent_routes tx now jobID body) r = Served h" and "h s = (a, s')" and "s' \<noteq> s"
  shows "hr_Method r = ''POST'' \<and> path_elems (hr_Path r) = [''run''] \<and> Decode request_fields zero_request body \<noteq> None"
proof -
  let ?p = "if route_method (hr_Method r) = ''CONNECT'' then hr_Path r else cleanPath (hr_Path r)"
  obtain ps where k: "pick (agent_routes tx now jobID body) (route_method (hr_Method r)) (path_elems ?p) = Some (ps, h)"
    and p: "?p = hr_Path r"
    using assms(1) by (auto simp: dispatch_to_def Let_def split: option.splits if_splits prod.splits)
  have "route_method (hr_Method r) = ''POST'' \<and> path_match [Lit ''run''] (path_elems ?p) \<noteq> None \<and>
      h s = (case handleRun tx now jobID body s of (x, s) \<Rightarrow> (Answer x, s))"
    using k assms(2,3) by (auto simp: pick_def agent_routes_def split: if_splits)
  moreover from this assms(2,3) have "Decode request_fields zero_request body \<noteq> None"
    by (auto simp: handleRun_def split: option.splits)
  moreover have "route_method m = ''POST'' \<Longrightarrow> m = ''POST''" for m
    by (simp add: route_method_def split: if_splits)
  ultimately show ?thesis using p path_match_lit by force
qed

lemma Decode_nothing: "Decode fs zero [] = None"
proof -
  have "json_first [] = None" by code_simp
  then show ?thesis by (simp add: Decode_def)
qed

text \<open>
  C19. Only a central server with the token gives the agent work: a request changes the job store only if it
  carries the token, is a \<open>POST\<close> to \<open>/run\<close> and has a body that decodes; every other request leaves the store as
  it is, and one without the token is answered 401 whatever else it asks.
\<close>

theorem only_the_token_gives_work:
  assumes "agent_serve tx token now jobID authorization r s = (a, s')"
  shows "(s' \<noteq> s \<longrightarrow> RequireToken token authorization \<and> hr_Method r = ''POST'' \<and> path_elems (hr_Path r) = [''run''] \<and>
      (\<exists>body req. hr_Body r = Some body \<and> Decode request_fields zero_request body = Some req)) \<and>
    (\<not> RequireToken token authorization \<longrightarrow> a = Answer (http_Error ''unauthorized'' 401) \<and> s' = s)"
proof -
  have "RequireToken token authorization \<and> hr_Method r = ''POST'' \<and> path_elems (hr_Path r) = [''run''] \<and>
      (\<exists>body req. hr_Body r = Some body \<and> Decode request_fields zero_request body = Some req)" if "s' \<noteq> s"
  proof -
    from assms that obtain h where t: "RequireToken token authorization" and h: "h s = (a, s')"
      and d: "dispatch_to (agent_routes tx now jobID (case hr_Body r of None \<Rightarrow> [] | Some b \<Rightarrow> b)) r = Served h"
      by (auto simp: agent_serve_def agent_mux_def split: if_splits routed.splits)
    from agent_route_effect [OF d h that] t show ?thesis
      by (auto simp: Decode_nothing split: option.splits)
  qed
  then show ?thesis using assms by (auto simp: agent_serve_def)
qed

definition sample_delete :: request where
  "sample_delete = (wire_request [] \<lparr>rq_method = ''DELETE'', rq_url = ''/run'', rq_headers = [], rq_body = []\<rparr>)"

lemma only_the_token_gives_work_witness:
  "\<forall>tx. snd (agent_serve tx ''t0k'' 0 ''a1'' ''Bearer t0k'' sample_delete newJobStore) = newJobStore \<and>
    fst (agent_serve tx ''t0k'' 0 ''a1'' ''Bearer guess'' sample_delete newJobStore) = Answer (http_Error ''unauthorized'' 401)"
proof
  fix tx
  have "hr_Method sample_delete \<noteq> ''POST''" by (simp add: sample_delete_def wire_request_def)
  moreover have "\<not> RequireToken ''t0k'' ''Bearer guess''" by code_simp
  ultimately show "snd (agent_serve tx ''t0k'' 0 ''a1'' ''Bearer t0k'' sample_delete newJobStore) = newJobStore \<and>
      fst (agent_serve tx ''t0k'' 0 ''a1'' ''Bearer guess'' sample_delete newJobStore) = Answer (http_Error ''unauthorized'' 401)"
    using only_the_token_gives_work [OF surjective_pairing, of tx "''t0k''" 0 "''a1''" "''Bearer t0k''" sample_delete newJobStore]
      only_the_token_gives_work [OF surjective_pairing, of tx "''t0k''" 0 "''a1''" "''Bearer guess''" sample_delete newJobStore]
    by blast
qed

section \<open>Client and agent together\<close>

lemma start_agent_server:
  assumes "start_agent A X rnd cfg d = (Inr srv, d')"
  shows "as_token srv = c_AgentToken cfg \<and> c_AgentToken cfg \<noteq> [] \<and> as_fingerprint srv = Fingerprint A (as_der srv)"
proof -
  have f: "fp = Fingerprint A der" if "loadOrCreateAgentCert A X rnd cf kf d = (Inr (der, fp), d')" for cf kf d der fp
    using that by (auto simp: loadOrCreateAgentCert_def split: prod.splits sum.splits)
  show ?thesis
    using assms by (auto simp: start_agent_def dest!: f split: if_splits prod.splits sum.splits)
qed

text \<open>A client of the agent over TLS, and the two calls it makes of it.\<close>

definition client_of :: "(string \<Rightarrow> string) \<Rightarrow> agent_server \<Rightarrow> Client \<Rightarrow> bool" where
  "client_of sha srv c \<longleftrightarrow>
     as_token srv \<noteq> [] \<and> (\<exists>endpoint. uses_tls endpoint \<and> c = NewClient endpoint (as_token srv) (hex_encode (sha (as_der srv))))"

lemma started_client:
  assumes "start_agent A X rnd cfg d = (Inr srv, d')" and "c = NewClient endpoint (c_AgentToken cfg) (as_fingerprint srv)"
    and "uses_tls endpoint"
  shows "client_of (an_sha256 A) srv c"
  using start_agent_server [OF assms(1)] assms(2,3) by (auto simp: client_of_def Fingerprint_def)

lemma link_call:
  assumes "client_of sha srv c"
  shows "client_do (agent_link tx sha (cl_endpoint c) srv) c method path body w =
    (case agent_mux tx (ae_now w) (newJobID (hd (ae_random w)))
        (wire_request [] \<lparr>rq_method = method, rq_url = path, rq_headers = [],
           rq_body = (case body of None \<Rightarrow> [] | Some v \<Rightarrow> json_text v)\<rparr>) (ae_store w) of
       (a, s) \<Rightarrow>
         (let resp = wire_response a; w = w\<lparr>ae_store := s, ae_random := tl (ae_random w)\<rparr> in
          if 300 \<le> rs_code resp
          then (Inl (AgentReturned (rs_status resp) (TrimSpace (take 4096 (rs_body resp)))), w)
          else (Inr (rs_body resp), w)))"
proof -
  have "cl_pin c = hex_encode (sha (as_der srv))" "cl_bearer c = as_token srv" "as_token srv \<noteq> []" "uses_tls (cl_endpoint c)"
    using assms by (auto simp: client_of_def NewClient_def hex_pin)
  moreover from this have "RequireToken (as_token srv) (''Bearer '' @ as_token srv)"
    using TrimPrefix_append [of "''Bearer ''" "as_token srv"] by (simp add: RequireToken_def)
  ultimately show ?thesis
    by (simp add: client_do_def agent_link_def VerifyPeerCertificate_def Fingerprint_def header_def agent_serve_def
        wire_request_def HasPrefix_iff Let_def split: prod.split)
qed

lemma mux_post_run:
  assumes "hr_Method r = ''POST''" and "hr_Path r = ''/run''" and "hr_Body r = Some body"
  shows "agent_mux tx now jobID r s = (case handleRun tx now jobID body s of (x, s) \<Rightarrow> (Answer x, s))"
proof -
  have "cleanPath ''/run'' = ''/run''" "path_elems ''/run'' = [''run'']" by code_simp+
  then show ?thesis
    using assms by (simp add: agent_mux_def dispatch_to_def pick_def agent_routes_def route_method_def Let_def)
qed

lemma mux_get_run:
  assumes "hr_Method r = ''GET''" and "hr_Path r = ''/run/'' @ newJobID random" and "random \<noteq> []"
  shows "agent_mux tx now jobID r s = (Answer (handleStatus (newJobID random) s), s)"
proof -
  have "newJobID random \<noteq> ''/''"
    unfolding newJobID_def using hex_char(1) [of "CHR ''/''" random] by auto
  then show ?thesis
    using assms run_path [OF assms(3)]
    by (simp add: agent_mux_def dispatch_to_def pick_def agent_routes_def route_method_def Let_def)
qed

lemma handleRun_room:
  assumes "request_ok req" and "valid_utf8 jobID" and "length (js_queue s) < queueCapacity"
  obtains s' where "handleRun tx now jobID (json_text (request_json req)) s =
      (Reply 202 (json_text (accepted_json jobID) @ [CHR 0x0A]), s')"
    and "js_queue s' = js_queue s @ [\<lparr>qj_id = jobID, qj_req = req\<rparr>]" and "js_jobs s' jobID = Some fresh_entry"
    and "js_running s' = js_running s"
  using assms(3) Decode_request [OF assms(1)]
  by (simp add: handleRun_def send_job_def accept_job_def nth_append sweepLocked_def fresh_entry_def)

lemma Decode_accepted:
  "valid_utf8 jobID \<Longrightarrow> Decode accepted_fields [] (json_text (accepted_json jobID) @ [CHR 0x0A]) = Some jobID"
  unfolding accepted_json_def
  by (subst Decode_text) (simp_all add: valid_utf8_ascii find_field_def accepted_fields_def store_simps)

lemma newJobID_utf8: "valid_utf8 (newJobID random)"
  unfolding newJobID_def using hex_char(4) by (rule valid_utf8_all_ascii)

lemma run_call:
  assumes "client_of sha srv c" and "request_ok req" and "length (js_queue (ae_store w)) < queueCapacity"
    and "ae_random w = random # rest"
  obtains s where "client_Run (agent_link tx sha (cl_endpoint c) srv) c req w =
      (Inr (newJobID random), w\<lparr>ae_store := s, ae_random := rest\<rparr>)"
    and "js_queue s = js_queue (ae_store w) @ [\<lparr>qj_id = newJobID random, qj_req = req\<rparr>]"
    and "js_jobs s (newJobID random) = Some fresh_entry" and "js_running s = js_running (ae_store w)"
proof -
  let ?i = "newJobID random"
  obtain s where s: "handleRun tx (ae_now w) ?i (json_text (request_json req)) (ae_store w) =
      (Reply 202 (json_text (accepted_json ?i) @ [CHR 0x0A]), s)"
    "js_queue s = js_queue (ae_store w) @ [\<lparr>qj_id = ?i, qj_req = req\<rparr>]" "js_jobs s ?i = Some fresh_entry"
    "js_running s = js_running (ae_store w)"
    using handleRun_room [OF assms(2) newJobID_utf8 assms(3)] by metis
  have "client_Run (agent_link tx sha (cl_endpoint c) srv) c req w = (Inr ?i, w\<lparr>ae_store := s, ae_random := rest\<rparr>)"
    unfolding client_Run_def link_call [OF assms(1)]
    by (subst mux_post_run [where body = "json_text (request_json req)"])
      (simp_all add: wire_request_def assms(4) s(1) wire_response_def Decode_accepted [OF newJobID_utf8])
  from that [OF this s(2-4)] show thesis .
qed

lemma status_call:
  assumes "client_of sha srv c" and "js_jobs (ae_store w) (newJobID random) = Some e" and "random \<noteq> []"
    and "status_ok (job_status e)"
  shows "client_Status (agent_link tx sha (cl_endpoint c) srv) c (newJobID random) w =
    (Inr (job_status e), w\<lparr>ae_random := tl (ae_random w)\<rparr>)"
  unfolding client_Status_def link_call [OF assms(1)]
  by (subst mux_get_run [OF _ _ assms(3)])
    (simp_all add: wire_request_def handleStatus_def assms(2) wire_response_def Decode_status [OF assms(4)])

lemma pending_ok: "status_ok (job_status fresh_entry)"
  "job_status fresh_entry = zero_status\<lparr>rst_Status := ''pending''\<rparr>"
  by (simp_all add: job_status_def fresh_entry_def status_ok_def zero_status_def valid_utf8_ascii int64_def max_int64_def
      min_int64_def)

text \<open>
  C5. Dispatch works from end to end: between an agent that has started and a central server that knows its
  \<open>https\<close> address, its token and the fingerprint it logged, \<open>Run\<close> returns the id the agent drew, the request is at the
  end of the agent's queue as it was sent, and \<open>Status\<close> for that id answers that the job is pending.
\<close>

theorem dispatch_over_the_wire:
  assumes "start_agent A X rnd cfg d = (Inr srv, d')" and "request_ok req"
    and "length (js_queue (ae_store w)) < queueCapacity" and "ae_random w = random # rest" and "random \<noteq> []"
    and "c = NewClient endpoint (c_AgentToken cfg) (as_fingerprint srv)"
    and "uses_tls endpoint" and "L = agent_link tx (an_sha256 A) (cl_endpoint c) srv"
  shows "\<exists>w'. client_Run L c req w = (Inr (newJobID random), w') \<and>
    js_queue (ae_store w') = js_queue (ae_store w) @ [\<lparr>qj_id = newJobID random, qj_req = req\<rparr>] \<and>
    fst (client_Status L c (newJobID random) w') = Inr (zero_status\<lparr>rst_Status := ''pending''\<rparr>)"
proof -
  note c = started_client [OF assms(1,6,7)]
  obtain s where s: "client_Run L c req w = (Inr (newJobID random), w\<lparr>ae_store := s, ae_random := rest\<rparr>)"
    "js_queue s = js_queue (ae_store w) @ [\<lparr>qj_id = newJobID random, qj_req = req\<rparr>]"
    "js_jobs s (newJobID random) = Some fresh_entry"
    using run_call [OF c assms(2-4), of tx] unfolding assms(8) by metis
  have "fst (client_Status L c (newJobID random) (w\<lparr>ae_store := s, ae_random := rest\<rparr>)) = Inr (job_status fresh_entry)"
    unfolding assms(8) by (subst status_call [OF c _ assms(5) pending_ok(1)]) (simp_all add: s(3))
  with s show ?thesis by (auto simp: pending_ok(2))
qed

lemma dispatch_over_the_wire_witness:
  "\<forall>tx. \<exists>w'. client_Run (agent_link tx (\<lambda>x. x) ''https://a:8443'' sample_server)
       (NewClient ''https://a:8443/'' ''t0k'' ''63657274'') sample_request
       \<lparr>ae_store = newJobStore, ae_now = 0, ae_random = [''r'']\<rparr> = (Inr ''72'', w')"
proof
  fix tx
  let ?c = "NewClient ''https://a:8443/'' ''t0k'' ''63657274''"
  let ?w = "\<lparr>ae_store = newJobStore, ae_now = 0, ae_random = [''r'']\<rparr>"
  have "cl_endpoint ?c = ''https://a:8443''" by (simp add: NewClient_def TrimRight_def)
  moreover have "newJobID ''r'' = ''72''" by code_simp
  moreover have "uses_tls ''https://a:8443/''" by code_simp
  moreover have "an_sha256 one_cert_net = (\<lambda>x. x)" by (simp add: one_cert_net_def)
  ultimately show "\<exists>w'. client_Run (agent_link tx (\<lambda>x. x) ''https://a:8443'' sample_server) ?c sample_request ?w = (Inr ''72'', w')"
    using dispatch_over_the_wire [OF sample_start sample_messages_ok(1), where w = ?w and random = "''r''" and rest = "[]"
        and endpoint = "''https://a:8443/''" and c = ?c and tx = tx, OF _ _ _ _ _ refl]
    by (simp add: newJobStore_def queueCapacity_def token_config sample_server_def) blast
qed

end
