(* ===== verification/Remote.thy ===== *)
theory Remote
  imports AgentServer ConsumerProps Rfc3339
begin

text \<open>
  A backup at an agent from end to end: the consumer's side of it (\<open>remoteBackupAndUpload\<close> in
  \<open>cmd/backupdb/consumer.go\<close>) against the agent's (\<open>cmd/backupdb/agent.go\<close>), with the server in between.
\<close>

section \<open>The worker of the agent\<close>

text \<open>\<open>run\<close>: the clock is read at the start, for the date and the stamp of the file name, and at the end.\<close>

record job_clock =
  jc_start :: int
  jc_date :: int
  jc_stamp :: int
  jc_duration :: int     \<comment> \<open>in milliseconds\<close>
  jc_end :: int

definition agent_run ::
  "err_texts \<Rightarrow> zones \<Rightarrow> 'd cloud \<Rightarrow> host \<Rightarrow> Config \<Rightarrow> job_clock \<Rightarrow> RunRequest \<Rightarrow> 'd machine \<Rightarrow> RunStatus \<times> 'd machine" where
  "agent_run tx Z C H cfg t req m =
     (let off = (case Z (rr_Timezone req) of Inl _ \<Rightarrow> (\<lambda>_. 0) | Inr off \<Rightarrow> off);
          (result, m) = runBackupJob C H cfg (in_zone off (jc_date t)) (in_zone off (jc_stamp t)) req m
      in (run_status tx (in_zone off (jc_start t)) (jc_duration t) result, m))"

text \<open>One turn of \<open>worker\<close>: the oldest job of the channel, from taking it to its result.\<close>

definition worker_turn ::
  "err_texts \<Rightarrow> zones \<Rightarrow> 'd cloud \<Rightarrow> host \<Rightarrow> Config \<Rightarrow> job_clock \<Rightarrow> jobStore \<times> 'd machine \<Rightarrow> jobStore \<times> 'd machine" where
  "worker_turn tx Z C H cfg t sm =
     (case sm of (s, m) \<Rightarrow>
      case js_queue s of
        [] \<Rightarrow> (s, m)
      | j # _ \<Rightarrow>
          (case agent_run tx Z C H cfg t (qj_req j) m of
             (st, m) \<Rightarrow> (finish_job (jc_end t) st (take_job s), m)))"

section \<open>The agent and its machine at the end of a connection\<close>

text \<open>
  Between two requests the worker may complete jobs: the plan has an entry for each request, the turns that come
  before it.
\<close>

record 'd agent_host =
  ah_end :: agent_end
  ah_machine :: "'d machine"
  ah_plan :: "job_clock list list"

definition progress ::
  "err_texts \<Rightarrow> zones \<Rightarrow> 'd cloud \<Rightarrow> host \<Rightarrow> Config \<Rightarrow> 'd agent_host \<Rightarrow> 'd agent_host" where
  "progress tx Z C H cfg w =
     (case ah_plan w of
        [] \<Rightarrow> w
      | ts # plan \<Rightarrow>
          (case fold (worker_turn tx Z C H cfg) ts (ae_store (ah_end w), ah_machine w) of
             (s, m) \<Rightarrow> w\<lparr>ah_end := (ah_end w)\<lparr>ae_store := s\<rparr>, ah_machine := m, ah_plan := plan\<rparr>))"

definition host_link ::
  "err_texts \<Rightarrow> zones \<Rightarrow> 'd cloud \<Rightarrow> host \<Rightarrow> Config \<Rightarrow> (string \<Rightarrow> string) \<Rightarrow> string \<Rightarrow> agent_server \<Rightarrow>
   'd agent_host agent_net" where
  "host_link tx Z C H cfg sha address srv =
     (let L = agent_link tx sha address srv in
      \<lparr>an_net = \<lparr>net_bad_url = net_bad_url (an_net L),
         net_do = (\<lambda>q w. let w = progress tx Z C H cfg w in
           case net_do (an_net L) q (ah_end w) of (x, e) \<Rightarrow> (x, w\<lparr>ah_end := e\<rparr>))\<rparr>,
       an_certs = (\<lambda>u w. an_certs L u (ah_end w)), an_sha256 = an_sha256 L, an_tls = an_tls L\<rparr>)"

lemma host_call:
  assumes "client_of sha srv c"
  shows "client_do (host_link tx Z C H cfg sha (cl_endpoint c) srv) c method path body w =
    (let w = progress tx Z C H cfg w in
     case client_do (agent_link tx sha (cl_endpoint c) srv) c method path body (ah_end w) of
       (x, e) \<Rightarrow> (x, w\<lparr>ah_end := e\<rparr>))"
proof -
  have "cl_pin c = hex_encode (sha (as_der srv))" "uses_tls (cl_endpoint c)"
    using assms by (auto simp: client_of_def NewClient_def hex_pin)
  then show ?thesis
    by (simp add: client_do_def host_link_def agent_link_def VerifyPeerCertificate_def Fingerprint_def Let_def
        split: prod.split sum.split)
qed

lemma host_Run:
  assumes "client_of sha srv c"
  shows "client_Run (host_link tx Z C H cfg sha (cl_endpoint c) srv) c req w =
    (let w = progress tx Z C H cfg w in
     case client_Run (agent_link tx sha (cl_endpoint c) srv) c req (ah_end w) of (x, e) \<Rightarrow> (x, w\<lparr>ah_end := e\<rparr>))"
  by (simp add: client_Run_def host_call [OF assms] Let_def split: prod.split sum.split option.split)

lemma host_Status:
  assumes "client_of sha srv c"
  shows "client_Status (host_link tx Z C H cfg sha (cl_endpoint c) srv) c jobID w =
    (let w = progress tx Z C H cfg w in
     case client_Status (agent_link tx sha (cl_endpoint c) srv) c jobID (ah_end w) of (x, e) \<Rightarrow> (x, w\<lparr>ah_end := e\<rparr>))"
  by (simp add: client_Status_def host_call [OF assms] Let_def split: prod.split sum.split option.split)

section \<open>Polling\<close>

definition outcome_of :: "string \<Rightarrow> int \<Rightarrow> RunStatus \<Rightarrow> upload_outcome" where
  "outcome_of label targetID st =
     (if rst_Success st then (Some (agent_success targetID st), None)
      else (Some (agent_failure st), Some (AgentReported label (rst_Message st))))"

lemma progress_nothing:
  "ah_plan w = [] # plan \<Longrightarrow> progress tx Z C H cfg w = w\<lparr>ah_plan := plan\<rparr>"
  by (simp add: progress_def)

lemma polls_pending:
  assumes "client_of sha srv c" and "random \<noteq> []"
    and "js_jobs (ae_store (ah_end w)) (newJobID random) = Some fresh_entry"
    and "ah_plan w = replicate (length us) [] @ plan" and "\<forall>u\<in>set us. u \<le> remoteAgentMaxWait"
  shows "\<exists>w'. poll_loop (host_link tx Z C H cfg sha (cl_endpoint c) srv) c label (newJobID random) targetID (map Wake us @ ws) w =
      poll_loop (host_link tx Z C H cfg sha (cl_endpoint c) srv) c label (newJobID random) targetID ws w' \<and>
    ae_store (ah_end w') = ae_store (ah_end w) \<and> ah_machine w' = ah_machine w \<and> ah_plan w' = plan"
  using assms(3-5)
proof (induction us arbitrary: w)
  case (Cons u us)
  let ?w = "w\<lparr>ah_plan := replicate (length us) [] @ plan, ah_end := (ah_end w)\<lparr>ae_random := tl (ae_random (ah_end w))\<rparr>\<rparr>"
  have "client_Status (host_link tx Z C H cfg sha (cl_endpoint c) srv) c (newJobID random) w =
      (Inr (job_status fresh_entry), ?w)"
    using Cons.prems by (simp add: host_Status [OF assms(1)] progress_nothing
        status_call [OF assms(1) _ assms(2) pending_ok(1)])
  then have "poll_loop (host_link tx Z C H cfg sha (cl_endpoint c) srv) c label (newJobID random) targetID (map Wake (u # us) @ ws) w =
      poll_loop (host_link tx Z C H cfg sha (cl_endpoint c) srv) c label (newJobID random) targetID (map Wake us @ ws) ?w"
    using Cons.prems(3) by (simp add: pending_ok(2))
  with Cons.IH [of ?w] Cons.prems show ?case by simp
qed auto

lemma poll_done:
  assumes "client_of sha srv c" and "random \<noteq> []" and "js_queue (ae_store (ah_end w)) = [\<lparr>qj_id = newJobID random, qj_req = req\<rparr>]"
    and "js_jobs (ae_store (ah_end w)) (newJobID random) = Some fresh_entry"
    and "ah_plan w = [t] # plan" and "u \<le> remoteAgentMaxWait"
    and "agent_run tx Z C H cfg t req (ah_machine w) = (st, m)" and "status_ok st"
  shows "\<exists>w'. poll_loop (host_link tx Z C H cfg sha (cl_endpoint c) srv) c label (newJobID random) targetID (Wake u # ws) w =
      (Some (outcome_of label targetID st), w') \<and> ah_machine w' = m"
proof -
  let ?s = "finish_job (jc_end t) st (take_job (ae_store (ah_end w)))"
  let ?e = "fresh_entry\<lparr>je_done := True, je_completedAt := jc_end t, je_status := st\<rparr>"
  have p: "progress tx Z C H cfg w = w\<lparr>ah_end := (ah_end w)\<lparr>ae_store := ?s\<rparr>, ah_machine := m, ah_plan := plan\<rparr>"
    using assms(3,5,7) by (simp add: progress_def worker_turn_def)
  have e: "js_jobs ?s (newJobID random) = Some ?e"
    using assms(3,4) by (simp add: finish_job_def take_job_def)
  have st: "job_status ?e = st" "rst_Status st = ''done''"
    using assms(7) by (auto simp: job_status_def agent_run_def run_status_def Let_def split: prod.splits sum.splits)
  have "client_Status (host_link tx Z C H cfg sha (cl_endpoint c) srv) c (newJobID random) w =
      (Inr st, (progress tx Z C H cfg w)\<lparr>ah_end := (ah_end w)\<lparr>ae_store := ?s, ae_random := tl (ae_random (ah_end w))\<rparr>\<rparr>)"
    using status_call [OF assms(1) _ assms(2), of "(ah_end w)\<lparr>ae_store := ?s\<rparr>" ?e tx] e assms(8)
    by (simp add: host_Status [OF assms(1)] p st)
  then show ?thesis using assms(6) st(2) by (simp add: p outcome_of_def)
qed

section \<open>Properties\<close>

text \<open>
  C4. A backup at an agent is a backup: between a central server and an agent that has started and is registered
  with its \<open>https\<close> address, its token and the fingerprint it logged, and has nothing else to do, the job runs at the
  agent as \<open>runBackupJob\<close> with the connection details, destination and time zone the central server has for it,
  and the outcome the consumer goes on with is the one that the agent's status tells, with the file, reference,
  size, start and duration in it, however many polls found the job pending and as long as no signal comes.
\<close>

theorem remote_backup_is_a_backup:
  assumes "start_agent A X rnd cfg d = (Inr srv, d')"
    and "no_faults r" and "by_id ra_ID (j_AgentID job) (remote_agents r) = Some agent"
    and "j_StorageTargetID job \<noteq> 0" and "by_id st_ID (j_StorageTargetID job) (storage_targets r) = Some target"
    and "uses_tls (ra_Endpoint agent)" and "ra_Token agent = c_AgentToken cfg" and "ra_CertFingerprint agent = as_fingerprint srv"
    and "v_agents V = host_link tx Z C H cfg (an_sha256 A) (TrimRight (ra_Endpoint agent) (CHR ''/'')) srv"
    and "request_ok (run_request (v_zone V) job target)"
    and "js_queue (ae_store (ah_end w)) = []" and "ae_random (ah_end w) = random # others" and "random \<noteq> []"
    and "ah_plan w = [] # replicate (length us) [] @ [t] # plan"
    and "t_wakeups T = map Wake us @ Wake u # wakeups" and "\<forall>x\<in>insert u (set us). x \<le> remoteAgentMaxWait"
    and "agent_run tx Z C H cfg t (run_request (v_zone V) job target) (ah_machine w) = (st, m)" and "status_ok st"
    and "t_signal T = None"
  shows "\<exists>w'. remoteBackupAndUpload V T job (r, w) =
      (Some (outcome_of (ra_Label agent) (j_StorageTargetID job) st), r, w') \<and> ah_machine w' = m"
proof -
  let ?c = "NewClient (ra_Endpoint agent) (ra_Token agent) (ra_CertFingerprint agent)"
  let ?L = "host_link tx Z C H cfg (an_sha256 A) (cl_endpoint ?c) srv"
  let ?req = "run_request (v_zone V) job target" and ?i = "newJobID random"
  let ?w1 = "w\<lparr>ah_plan := replicate (length us) [] @ [t] # plan\<rparr>"
  have c: "client_of (an_sha256 A) srv ?c"
    unfolding assms(7,8) by (rule started_client [OF assms(1) refl assms(6)])
  have L: "v_agents V = ?L" using assms(9) by (simp add: NewClient_def)
  have "length (js_queue (ae_store (ah_end w))) < queueCapacity" using assms(11) by (simp add: queueCapacity_def)
  from run_call [OF c assms(10) this assms(12), of tx] obtain s where
    s: "client_Run (agent_link tx (an_sha256 A) (cl_endpoint ?c) srv) ?c ?req (ah_end w) =
      (Inr ?i, (ah_end w)\<lparr>ae_store := s, ae_random := others\<rparr>)"
    "js_queue s = js_queue (ae_store (ah_end w)) @ [\<lparr>qj_id = ?i, qj_req = ?req\<rparr>]" "js_jobs s ?i = Some fresh_entry" .
  let ?w2 = "?w1\<lparr>ah_end := (ah_end w)\<lparr>ae_store := s, ae_random := others\<rparr>\<rparr>"
  have run: "client_Run ?L ?c ?req w = (Inr ?i, ?w2)"
    by (simp add: host_Run [OF c] progress_nothing [OF assms(14)] s(1))
  obtain w3 where w3: "poll_loop ?L ?c (ra_Label agent) ?i (j_StorageTargetID job) (t_wakeups T) ?w2 =
      poll_loop ?L ?c (ra_Label agent) ?i (j_StorageTargetID job) (Wake u # wakeups) w3"
    "ae_store (ah_end w3) = s" "ah_machine w3 = ah_machine w" "ah_plan w3 = [t] # plan"
    using polls_pending [OF c assms(13), of ?w2 us "[t] # plan" tx Z C H cfg "ra_Label agent" "j_StorageTargetID job" "Wake u # wakeups"]
      s(3) assms(15,16) by auto
  obtain w4 where "poll_loop ?L ?c (ra_Label agent) ?i (j_StorageTargetID job) (t_wakeups T) ?w2 =
      (Some (outcome_of (ra_Label agent) (j_StorageTargetID job) st), w4)" "ah_machine w4 = m"
    using poll_done [OF c assms(13), of w3 ?req t plan u tx Z C H cfg st m "ra_Label agent" "j_StorageTargetID job" wakeups]
      s(2,3) w3 assms(11,16-18) by auto
  then show ?thesis
    using assms(2-5,19) run
    by (simp add: remoteBackupAndUpload_def GetRemoteAgent_def GetStorageTarget_def Let_def L)
qed

definition far_registry :: registry where
  "far_registry = work_registry\<lparr>remote_agents :=
     \<lparr>t_rows = [sample_agent\<lparr>ra_ID := 1, ra_CertFingerprint := ''63657274''\<rparr>], t_seq = 1\<rparr>\<rparr>"

definition far_job :: Job where
  "far_job = work_job\<lparr>j_AgentID := 1\<rparr>"

definition greenwich :: zones where
  "greenwich z = Inr (\<lambda>t. 0)"

definition epoch_clock :: job_clock where
  "epoch_clock = \<lparr>jc_start = 0, jc_date = 0, jc_stamp = 0, jc_duration = 1500, jc_end = 2\<rparr>"

definition far_host :: "(string \<times> string) list agent_host" where
  "far_host = \<lparr>ah_end = \<lparr>ae_store = newJobStore, ae_now = 0, ae_random = [''r'']\<rparr>, ah_machine = sample_machine,
     ah_plan = [[], [], [epoch_clock]]\<rparr>"

definition far_setting :: "((string \<times> string) list, (string \<times> string) list agent_host) setting" where
  "far_setting = \<lparr>v_tx = plain_texts, v_cloud = sample_cloud, v_host = sample_host,
     v_agents = host_link plain_texts greenwich sample_cloud sample_host (Load token_env) (\<lambda>x. x) ''https://site2:8443'' sample_server,
     v_cfg = Load Map.empty, v_zone = ''UTC''\<rparr>"

definition far_target :: StorageTarget where
  "far_target = \<lparr>st_ID = 1, st_Kind = ''s3'', st_Label = ''bucket'', st_Config = json_text (s3_json zero_s3),
     st_CreatedAt = sample_clock, st_UpdatedAt = sample_clock\<rparr>"

definition far_name :: string where
  "far_name = ''shop_700101_00h00.sql.gz''"

definition far_status :: RunStatus where
  "far_status = zero_status\<lparr>rst_Status := ''done'', rst_StartedAt := ''1970-01-01 00:00:00'', rst_DurationMS := 1500,
     rst_Success := True, rst_Filename := far_name, rst_RemoteRef := ''shop/700101/'' @ far_name, rst_SizeBytes := 12\<rparr>"

lemma epoch: "format_060102 (in_zone (\<lambda>t. 0) 0) = ''700101''" "format_15h04 (in_zone (\<lambda>t. 0) 0) = ''00h00''"
  "format_datetime (in_zone (\<lambda>t. 0) 0) = ''1970-01-01 00:00:00''"
  by code_simp+

lemma far_prefix: "Trim (s3_Prefix zero_s3) (CHR ''/'') = []"
  by (simp add: zero_s3_def Trim_def TrimRight_def TrimLeft_def)

lemma far_run:
  "\<exists>m. agent_run plain_texts greenwich sample_cloud sample_host (Load token_env) epoch_clock
     (run_request ''UTC'' far_job far_target) sample_machine = (far_status, m)"
  by (simp add: agent_run_def greenwich_def epoch_clock_def epoch run_request_def far_job_def far_target_def runBackupJob_def
      Extension_def Let_def on_files_eq on_mds_eq run_dump_def MySQL_def runToGzipFile_def sample_host_def
      buildAgentProvider_def sample_s3_config s3_New_def sample_cloud_def provider_Upload_def s3_Upload_def run_status_def
      far_status_def far_name_def backup_filename_def s3_key_def far_prefix)

lemma far_ok: "request_ok (run_request ''UTC'' far_job far_target)" "status_ok far_status"
proof -
  have "valid_utf8 (json_text (s3_json zero_s3))" by code_simp
  then show "request_ok (run_request ''UTC'' far_job far_target)"
    by (simp add: request_ok_def run_request_def far_job_def far_target_def work_job_def NewBackupJob_def valid_utf8_ascii)
  show "status_ok far_status"
    by (simp add: status_ok_def far_status_def far_name_def zero_status_def valid_utf8_ascii int64_def max_int64_def min_int64_def)
qed

lemma remote_backup_is_a_backup_witness:
  "\<exists>w'. remoteBackupAndUpload far_setting (work_readings\<lparr>t_wakeups := [Wake 5000, Wake 10000]\<rparr>) far_job (far_registry, far_host) =
    (Some (Some (agent_success 1 far_status), None), far_registry, w')"
proof -
  obtain m where m: "agent_run plain_texts greenwich sample_cloud sample_host (Load token_env) epoch_clock
     (run_request (v_zone far_setting) far_job far_target) sample_machine = (far_status, m)"
    using far_run by (auto simp: far_setting_def)
  have "outcome_of ''site2'' (j_StorageTargetID far_job) far_status = (Some (agent_success 1 far_status), None)"
    by (simp add: outcome_of_def far_job_def) (simp add: far_status_def)
  moreover have tls: "uses_tls ''https://site2:8443''" by code_simp
  moreover have "\<exists>w'. remoteBackupAndUpload far_setting (work_readings\<lparr>t_wakeups := [Wake 5000, Wake 10000]\<rparr>) far_job (far_registry, far_host) =
    (Some (outcome_of (ra_Label (sample_agent\<lparr>ra_ID := 1, ra_CertFingerprint := ''63657274''\<rparr>)) (j_StorageTargetID far_job) far_status),
     far_registry, w') \<and> ah_machine w' = m"
    by (rule remote_backup_is_a_backup [OF sample_start, where us = "[5000]" and u = 10000 and wakeups = "[]" and plan = "[]"
          and t = epoch_clock and random = "''r''" and others = "[]" and target = far_target and V = far_setting
          and tx = plain_texts and Z = greenwich and C = sample_cloud and H = sample_host])
      (use m far_ok tls in \<open>simp_all add: far_registry_def work_registry_def sample_tables by_id_def far_job_def far_target_def
         sample_agent_def token_config sample_server_def far_setting_def TrimRight_def one_cert_net_def far_host_def
         newJobStore_def remoteAgentMaxWait_def\<close>)
  ultimately show ?thesis by (auto simp: sample_agent_def)
qed

end
