(* ===== verification/Daily.thy ===== *)
theory Daily
  imports Scheduler
begin

text \<open>
  A day of the scheduler: a schedule that is due at some minute of the day, among ticks of which one falls into
  that minute, has its job queued. This is the promise the ticks of half a minute are there for.
\<close>

section \<open>A tick leaves the schedules of other minutes alone\<close>

definition scheduled :: "Schedule \<Rightarrow> 'q node \<Rightarrow> bool" where
  "scheduled s n \<longleftrightarrow> s \<in> set (t_rows (schedules (n_reg n)))"

lemma enqueue_keeps_others:
  assumes "no_faults (n_reg n)" and "scheduled s n" and "dj_ScheduleID item \<noteq> s_ID s"
  shows "scheduled s (enqueueDue R now MarkScheduleRun item n)"
  using assms
  by (auto simp: scheduled_def enqueueDue_def on_reg_def on_q_def CreateBackupRun_calm MarkScheduleRun_calm
      split_beta Let_def image_iff split: sum.split)

lemma fold_keeps_others:
  assumes "calm R n" and "scheduled s n" and "\<And>x. x \<in> set items \<Longrightarrow> dj_ScheduleID x \<noteq> s_ID s"
  shows "scheduled s (fold (enqueueDue R now MarkScheduleRun) items n)"
  using assms
proof (induction items arbitrary: n)
  case (Cons x xs)
  have "calm R (enqueueDue R now MarkScheduleRun x n)"
    using own.enqueue_all(1) [OF Cons.prems(1), of _ now "[x]"] by simp
  moreover have "scheduled s (enqueueDue R now MarkScheduleRun x n)"
    using Cons.prems by (intro enqueue_keeps_others) (auto simp: calm_def)
  ultimately show ?case using Cons by simp
qed simp

lemma tick_keeps_others:
  assumes "calm R n" and "reg_inv (n_reg n)" and "scheduled s n" and "format_15_04 now \<noteq> s_TimeOfDay s"
  shows "scheduled s (checkAndEnqueue R now n)"
proof -
  define due where "due = e_ord_due (eng (n_reg n)) (due_rows (n_reg n) (format_15_04 now) (format_2006_01_02 now))"
  define n2 where "n2 = fold (enqueueDue R now MarkScheduleRun) due n"
  note own = own.enqueue_all [OF assms(1) n2_def]
  have "permuting (e_ord_due (eng (n_reg n)))" using assms(2) by (simp add: reg_inv_def engine_ok_def)
  moreover have "a = s" if "a \<in> set (t_rows (schedules (n_reg n)))" "s_ID a = s_ID s" for a
  proof -
    have "wf_table s_ID (schedules (n_reg n))" using assms(2) by (simp add: reg_inv_def tables_wf_def)
    then show ?thesis
      using that assms(3) sched_tbl.by_id_mem unfolding scheduled_def by (metis option.inject)
  qed
  ultimately have "dj_ScheduleID x \<noteq> s_ID s" if "x \<in> set due" for x
    using that assms(4) by (fastforce simp: due_def permuting_set due_rows_iff)
  then have "scheduled s n2" unfolding n2_def by (rule fold_keeps_others [OF assms(1,3)])
  define items where "items = e_ord_due (eng (n_reg n2))
    (due_shared_rows (n_reg n2) (format_15_04 now) (format_2006_01_02 now))"
  have "checkAndEnqueue R now n = fold (enqueueDue R now MarkSharedScheduleRun) items n2"
    using assms(1) own(1)
    by (simp add: checkAndEnqueue_def ListDueSchedules_def ListDueSharedSchedules_def calm_def on_reg_query
        or_zero_def items_def n2_def due_def)
  with shared.enqueue_all(5) [OF own(1) this] \<open>scheduled s n2\<close> show ?thesis by (simp add: scheduled_def)
qed

section \<open>What is queued stays queued\<close>

lemma pushed_has: "x \<in> set items \<Longrightarrow> \<exists>j. job_text (dj_Database x) j \<in> set (pushed k items)"
  by (induction items arbitrary: k) auto

lemma loop_keeps_jobs:
  "calm R n \<Longrightarrow> set (jobs R n) \<subseteq> set (jobs R (scheduler_loop R ticks n))"
proof (induction ticks arbitrary: n)
  case (Cons t ticks)
  note c = checkAndEnqueue_calm [OF Cons.prems refl, of t]
  from Cons.IH [OF c(1)] c(2) show ?case by (auto simp: scheduler_loop_def)
qed (simp add: scheduler_loop_def)

text \<open>
  Every schedule gets its turn: while the registry and Redis answer, on a day on which an enabled schedule of
  an enabled database has not run yet, the ticks of that day leave a job for this database in the queue, provided
  one of them falls into the minute of the schedule, whatever else is due before, then or afterwards.
\<close>

theorem schedule_gets_its_turn:
  assumes "calm R n" and "reg_inv (n_reg n)" and "s \<in> set (t_rows (schedules (n_reg n)))" and "s_Enabled s"
    and "d \<in> set (t_rows (databases (n_reg n)))" and "d_ID d = s_DatabaseID s" and "d_Enabled d"
    and "\<And>t. t \<in> set ticks \<Longrightarrow> format_2006_01_02 t = today" and "s_LastRunDate s \<noteq> today"
    and "now \<in> set ticks" and "format_15_04 now = s_TimeOfDay s"
  shows "\<exists>k. job_text d k \<in> set (jobs R (scheduler_loop R ticks n))"
  using assms(1-3,5,8,10)
proof (induction ticks arbitrary: n)
  case (Cons t ticks)
  note c = checkAndEnqueue_calm [OF Cons.prems(1) refl, of t]
  have loop: "scheduler_loop R (t # ticks) n = scheduler_loop R ticks (checkAndEnqueue R t n)"
    by (simp add: scheduler_loop_def)
  show ?case
  proof (cases "format_15_04 t = s_TimeOfDay s")
    case True
    then have "\<lparr>dj_ScheduleID = s_ID s, dj_Database = d\<rparr> \<in>
        set (due_rows (n_reg n) (format_15_04 t) (format_2006_01_02 t))"
      using Cons.prems assms(4,6,7,9) by (auto simp: due_rows_iff)
    then have "\<lparr>dj_ScheduleID = s_ID s, dj_Database = d\<rparr> \<in> set (due_jobs t (n_reg n))"
      using Cons.prems(2) by (simp add: due_jobs_def permuting_set reg_inv_def engine_ok_def)
    from pushed_has [OF this] have "\<exists>k. job_text d k \<in> set (jobs R (checkAndEnqueue R t n))" using c(2) by auto
    with loop_keeps_jobs [OF c(1), of ticks] show ?thesis by (auto simp: loop)
  next
    case False
    have "scheduled s (checkAndEnqueue R t n)"
      using Cons.prems False by (intro tick_keeps_others) (simp_all add: scheduled_def)
    moreover have "reg_inv (n_reg (checkAndEnqueue R t n))"
      by (rule reg_sys.steps_inv [OF checkAndEnqueue_moves Cons.prems(2)])
    moreover have "d \<in> set (t_rows (databases (n_reg (checkAndEnqueue R t n))))"
      using c(3) Cons.prems(4) by (simp add: same_but_marks_def)
    moreover have "now \<in> set ticks" using Cons.prems(6) False assms(11) by auto
    ultimately show ?thesis
      using Cons.IH [OF c(1)] Cons.prems(5) by (simp add: loop scheduled_def)
  qed
qed simp

lemma schedule_gets_its_turn_witness:
  "\<exists>k. job_text sample_row1 k \<in>
     set (jobs calm_redis (scheduler_loop calm_redis [sample_time\<lparr>c_minute := 29\<rparr>, sample_time] sample_node))"
proof -
  have "format_2006_01_02 (sample_time\<lparr>c_minute := 29\<rparr>) = ''2026-03-01''" by code_simp
  then show ?thesis
    by (intro schedule_gets_its_turn [OF sample_node_calm,
          where s = "hd (t_rows (schedules sample_registry))" and today = "''2026-03-01''" and now = sample_time])
      (auto simp: sample_node_def sample_registry_inv sample_tables sample_row1_def sample_db_def sample_time_texts)
qed

end
