(* ===== verification/Cli.thy ===== *)
theory Cli
  imports ConsumerProps
begin

text \<open>
  The one-shot subcommands of \<open>cmd/backupdb\<close>: \<open>backup\<close>, \<open>upload\<close> and \<open>migrate\<close>, and the dispatch in
  \<open>main\<close>. What they print to the terminal is left out. Whether the registry could be opened is an argument;
  \<open>registry.Open\<close> itself is modelled in the theory of the migrations.
\<close>

section \<open>backup\<close>

definition manual_job :: "string \<Rightarrow> string list \<Rightarrow> Job" where
  "manual_job dbname rest =
     \<lparr>j_Cmd = ''backup'', j_DBName = dbname, j_Driver = (case rest of [] \<Rightarrow> ''mysql'' | d # _ \<Rightarrow> d),
      j_Params = (case rest of _ # p # _ \<Rightarrow> p | _ \<Rightarrow> []), j_StorageTargetID = 0, j_AgentID = 0, j_RunID = 0\<rparr>"

text \<open>A run row that cannot be created leaves the job with run 0; a job that cannot be pushed ends the loop.\<close>

fun enqueue_all :: "'q redis \<Rightarrow> Database list \<Rightarrow> (go_error, unit, 'q node) op" where
  "enqueue_all R [] n = (Inr (), n)"
| "enqueue_all R (d # ds) n =
     (let (res, n) = on_reg (CreateBackupRun (running_run d)) n in
      case on_q (Push R (job_for d (or_zero 0 res))) n of
        (Inl e, n) \<Rightarrow> (Inl (Wrap (''enqueue '' @ d_Name d) e), n)
      | (Inr _, n) \<Rightarrow> enqueue_all R ds n)"

definition runBackup :: "'q redis \<Rightarrow> go_error option \<Rightarrow> string list \<Rightarrow> (go_error, unit, 'q node) op" where
  "runBackup R opened args n =
     (case args of
        dbname # rest \<Rightarrow>
          (case on_q (Push R (manual_job dbname rest)) n of
             (Inl e, n) \<Rightarrow> (Inl (Wrap (''enqueue '' @ dbname) e), n)
           | (Inr _, n) \<Rightarrow> (Inr (), n))
      | [] \<Rightarrow>
          (case opened of
             Some e \<Rightarrow> (Inl (Wrap ''open registry'' e), n)
           | None \<Rightarrow>
               (case on_reg ListEnabled n of
                  (Inl e, n) \<Rightarrow> (Inl (Wrap ''list enabled databases'' e), n)
                | (Inr dbs, n) \<Rightarrow> enqueue_all R dbs n)))"

section \<open>upload\<close>

definition upload_target :: "err_texts \<Rightarrow> string \<Rightarrow> string list \<Rightarrow> Database option \<Rightarrow> go_error + int" where
  "upload_target tx dbname rest d =
     (case rest of
        s # _ \<Rightarrow>
          (case ParseInt s of
             (i, None) \<Rightarrow> Inr i
           | (i, Some e) \<Rightarrow> Inl (Wrap (''invalid storage-target-id '' @ quote tx s) (NumError ''ParseInt'' s e)))
      | [] \<Rightarrow>
          (case d of
             None \<Rightarrow> Inl (Message (dbname @ '' is not in the registry '' @ em_dash @ '' pass a storage-target-id explicitly''))
           | Some d \<Rightarrow> Inr (d_StorageTargetID d)))"

definition uploaded_file :: "Database option \<Rightarrow> string \<Rightarrow> int \<Rightarrow> string \<Rightarrow> string \<Rightarrow> int \<Rightarrow> BackupFile" where
  "uploaded_file d dbname targetID filename remoteRef sizeBytes =
     \<lparr>bf_ID = 0, bf_DatabaseID = (case d of None \<Rightarrow> 0 | Some d \<Rightarrow> d_ID d), bf_DBName = dbname,
      bf_StorageTargetID = targetID, bf_Filename = filename, bf_RemoteRef = remoteRef,
      bf_SizeBytes = sizeBytes, bf_CreatedAt = []\<rparr>"

text \<open>The time zone of the configuration and the registry are opened before anything else.\<close>

definition runUpload ::
  "('d, 'n) setting \<Rightarrow> files \<Rightarrow> go_error option \<Rightarrow> go_error option \<Rightarrow> civil \<Rightarrow> string list \<Rightarrow>
   (go_error, unit, 'd drive_state) op" where
  "runUpload V fs zone opened now args st =
     (case args of
        dbname # filePath # filename # rest \<Rightarrow>
          (case zone of
             Some e \<Rightarrow> (Inl (Wrap (''load timezone '' @ c_Timezone (v_cfg V)) e), st)
           | None \<Rightarrow>
          (case opened of
             Some e \<Rightarrow> (Inl (Wrap ''open registry'' e), st)
           | None \<Rightarrow>
          (case GetByName dbname (ds_reg st) of
             (Inl e, r) \<Rightarrow> (Inl (Wrap (''look up '' @ dbname @ '' in registry'') e), st\<lparr>ds_reg := r\<rparr>)
           | (Inr d, r) \<Rightarrow>
          (case upload_target (v_tx V) dbname rest d of
             Inl e \<Rightarrow> (Inl e, st\<lparr>ds_reg := r\<rparr>)
           | Inr targetID \<Rightarrow>
          (case storage_New (v_cloud V) (v_cfg V) targetID (st\<lparr>ds_reg := r\<rparr>) of
             (Inl e, st) \<Rightarrow> (Inl (Wrap ''resolve storage destination'' e), st)
           | (Inr store, st) \<Rightarrow>
          (case provider_Upload (v_cloud V) store fs dbname (format_060102 now) filename filePath st of
             (Inl e, st) \<Rightarrow> (Inl e, st)
           | (Inr (remoteRef, sizeBytes), st) \<Rightarrow>
          (case CreateBackupFile (uploaded_file d dbname targetID filename remoteRef sizeBytes) (ds_reg st) of
             (Inl e, r) \<Rightarrow> (Inl (Wrap ''record backup file'' e), st\<lparr>ds_reg := r\<rparr>)
           | (Inr _, r) \<Rightarrow> (Inr (), st\<lparr>ds_reg := r\<rparr>))))))))
      | _ \<Rightarrow> (Inl (Message ''usage: backupdb upload <dbname> <filepath> <filename> [storage-target-id]''), st))"

section \<open>migrate\<close>

text \<open>
  \<open>bufio.Scanner\<close> with its default buffer of 64 KiB: lines without their line feed and one carriage return
  before it; a line that does not fit ends the scan with an error.
\<close>

definition scan_lines :: "string \<Rightarrow> string list \<times> bool" where
  "scan_lines content =
     (let ls = Split (CHR 0x0A) content;
          ls = (if last ls = [] then butlast ls else ls);
          fits = takeWhile (\<lambda>l. length l < 65536) ls
      in (map (\<lambda>l. if l \<noteq> [] \<and> last l = CHR 0x0D then butlast l else l) fits, length fits < length ls))"

definition legacy_database :: "string \<Rightarrow> string \<Rightarrow> string list \<Rightarrow> Database option" where
  "legacy_database name driver p =
     (let d = \<lparr>d_ID = 0, d_Name = name, d_Driver = [], d_Host = get_part p 0, d_Port = [],
               d_Username = get_part p 1, d_Password = get_part p 2, d_AuthDB = [], d_StorageTargetID = 0,
               d_AgentID = 0, d_Enabled = True, d_CreatedAt = [], d_UpdatedAt = []\<rparr>
      in if driver = ''docker_mysql'' \<or> driver = ''mysql'' then Some (d\<lparr>d_Driver := ''mysql''\<rparr>)
         else if driver = ''docker_postgres'' \<or> driver = ''postgres'' then Some (d\<lparr>d_Driver := ''postgres''\<rparr>)
         else if driver = ''docker_mongo'' \<or> driver = ''mongo''
         then Some (d\<lparr>d_Driver := ''mongo'', d_AuthDB := get_part p 3\<rparr>)
         else None)"

definition legacy_line :: "string \<Rightarrow> Database option" where
  "legacy_line raw =
     (let line = TrimSpace raw in
      if line = [] \<or> HasPrefix line ''#'' then None
      else
        (let parts = SplitN (CHR '':'') line 3;
             driver = (if get_part parts 1 \<noteq> [] then get_part parts 1 else ''mysql'')
         in legacy_database (get_part parts 0) driver (Split (CHR ''|'') (get_part parts 2))))"

fun import_lines :: "string list \<Rightarrow> registry \<Rightarrow> int \<times> registry" where
  "import_lines [] r = (0, r)"
| "import_lines (l # ls) r =
     (case legacy_line l of
        None \<Rightarrow> import_lines ls r
      | Some d \<Rightarrow>
          (case reg_Create d r of
             (Inl e, r) \<Rightarrow> import_lines ls r
           | (Inr _, r) \<Rightarrow> (case import_lines ls r of (n, r) \<Rightarrow> (n + 1, r))))"

text \<open>The result is the error and the number of databases imported.\<close>

definition runMigrate ::
  "(string \<Rightarrow> string + string) \<Rightarrow> go_error option \<Rightarrow> string list \<Rightarrow> registry \<Rightarrow> (go_error option \<times> int) \<times> registry" where
  "runMigrate read_file opened args r =
     (case args of
        [] \<Rightarrow> ((Some (Message ''usage: backupdb migrate <path-to-databases.txt>''), 0), r)
      | path # _ \<Rightarrow>
          (case read_file path of
             Inl m \<Rightarrow> ((Some (External m), 0), r)
           | Inr content \<Rightarrow>
               (case opened of
                  Some e \<Rightarrow> ((Some (Wrap ''open registry'' e), 0), r)
                | None \<Rightarrow>
                    (let (ls, too_long) = scan_lines content; (n, r) = import_lines ls r in
                     ((if too_long then Some (Message ''bufio.Scanner: token too long'') else None, n), r)))))"

section \<open>main\<close>

definition subcommands :: "string list" where
  "subcommands = [''backup'', ''consumer'', ''scheduler'', ''admin'', ''agent'', ''upload'', ''migrate'']"

text \<open>\<open>run\<close> stands for the seven functions; the result is the exit status.\<close>

definition main :: "(string \<Rightarrow> string list \<Rightarrow> 's \<Rightarrow> go_error option \<times> 's) \<Rightarrow> string list \<Rightarrow> 's \<Rightarrow> nat \<times> 's" where
  "main run os_args s =
     (case os_args of
        program # cmd # args \<Rightarrow>
          if cmd \<in> set subcommands
          then (case run cmd args s of (Some e, s) \<Rightarrow> (1, s) | (None, s) \<Rightarrow> (0, s))
          else if cmd \<in> {''-h'', ''--help'', ''help''} then (0, s) else (1, s)
      | _ \<Rightarrow> (1, s))"

section \<open>Properties\<close>

text \<open>
  C39. A manual backup cannot succeed: the job that \<open>backupdb backup <dbname> ...\<close> queues names no destination,
  so whatever registry, tools and services the consumer has when it takes the job, the result is an error.
\<close>

theorem manual_backup_fails:
  assumes "redis_ok R" and "runBackup R opened (dbname # rest) n = (Inr (), n')"
  shows "jobs R n' = jobs R n @ [json_text (job_json (manual_job dbname rest))] \<and> n_reg n' = n_reg n \<and>
    (\<forall>V T w. \<exists>e w2. backupAndUpload V T (manual_job dbname rest) w = (Some (None, Some e), w2))"
proof (intro conjI allI)
  obtain x q where p: "Push R (manual_job dbname rest) (n_q n) = (x, q)" by fastforce
  with assms(2) have n': "n' = n\<lparr>n_q := q\<rparr>" and x: "x = Inr ()"
    by (auto simp: runBackup_def on_q_def split: sum.splits)
  from Push_list [OF assms(1) p] x n' show "jobs R n' = jobs R n @ [json_text (job_json (manual_job dbname rest))]"
    by (simp add: jobs_def)
  from n' show "n_reg n' = n_reg n" by simp
next
  fix V :: "('b, 'c) setting" and T and w :: "('b, 'c) world"
  obtain x m where l: "localBackupAndUpload V T (manual_job dbname rest) (w_m w) = (x, m)" by fastforce
  then have "\<exists>e. x = (None, Some e)"
    by (auto simp: localBackupAndUpload_def manual_job_def Let_def split: sum.splits prod.splits)
  with l show "\<exists>e w2. backupAndUpload V T (manual_job dbname rest) w = (Some (None, Some e), w2)"
    by (auto simp: backupAndUpload_def manual_job_def)
qed

lemma manual_backup_fails_witness:
  "jobs list_redis (snd (runBackup list_redis None [''shop''] (\<lparr>n_reg = sample_registry, n_q = \<lparr>ls_list = [], ls_faults = []\<rparr>\<rparr>))) =
   [json_text (job_json (manual_job ''shop'' []))]"
proof -
  let ?n = "\<lparr>n_reg = sample_registry, n_q = \<lparr>ls_list = [], ls_faults = []\<rparr>\<rparr>"
  have "runBackup list_redis None [''shop''] ?n = (Inr (), snd (runBackup list_redis None [''shop''] ?n))"
    by (simp add: runBackup_def on_q_def Push_def list_redis_def)
  from manual_backup_fails [OF list_redis_ok this, THEN conjunct1]
  have "jobs list_redis (snd (runBackup list_redis None [''shop''] ?n)) =
      jobs list_redis ?n @ [json_text (job_json (manual_job ''shop'' []))]" .
  moreover have "jobs list_redis ?n = []" by (simp add: jobs_def list_redis_def)
  ultimately show ?thesis by (simp only: append_Nil)
qed

section \<open>Importing twice\<close>

definition known :: "registry \<Rightarrow> (string \<times> int \<times> string) set" where
  "known r = db_identity ` set (t_rows (databases r))"

lemma create_calm:
  assumes "no_faults r"
  shows "\<exists>x r'. reg_Create d r = (x, r') \<and> no_faults r' \<and> known r' = insert (db_identity d) (known r) \<and>
    (db_identity d \<in> known r \<longrightarrow> x = Inl (SqlUnique db_identity_columns) \<and> r' = r)"
proof (cases "db_identity d \<in> known r")
  case True
  with assms show ?thesis by (auto simp: reg_Create_def known_def)
next
  case False
  with assms show ?thesis
    by (auto simp: reg_Create_def known_def sql_insert_def Let_def db_identity_def set_d_ID_def)
qed

lemma import_known:
  assumes "no_faults r" and "import_lines ls r = (k, r')"
  shows "no_faults r' \<and> known r \<subseteq> known r' \<and> (\<forall>l d. l \<in> set ls \<longrightarrow> legacy_line l = Some d \<longrightarrow> db_identity d \<in> known r')"
  using assms
proof (induction ls arbitrary: r k r')
  case (Cons l ls)
  show ?case
  proof (cases "legacy_line l")
    case None
    with Cons show ?thesis by auto
  next
    case (Some d)
    from create_calm [OF Cons.prems(1), of d] obtain x r1 where
      c: "reg_Create d r = (x, r1)" "no_faults r1" "known r1 = insert (db_identity d) (known r)" by blast
    obtain j r2 where i: "import_lines ls r1 = (j, r2)" by fastforce
    from Cons.IH [OF c(2) i] have "no_faults r2" "known r1 \<subseteq> known r2"
      "\<forall>l d. l \<in> set ls \<longrightarrow> legacy_line l = Some d \<longrightarrow> db_identity d \<in> known r2" by auto
    moreover have "r' = r2" using Cons.prems(2) Some c(1) i by (auto split: sum.splits)
    ultimately show ?thesis using Some c(3) by auto
  qed
qed simp

lemma import_known_nothing:
  assumes "no_faults r" and "\<forall>l d. l \<in> set ls \<longrightarrow> legacy_line l = Some d \<longrightarrow> db_identity d \<in> known r"
  shows "import_lines ls r = (0, r)"
  using assms
proof (induction ls)
  case (Cons l ls)
  then have i: "import_lines ls r = (0, r)" by auto
  show ?case
  proof (cases "legacy_line l")
    case (Some d)
    with Cons.prems(2) have "db_identity d \<in> known r" by simp
    with create_calm [OF Cons.prems(1), of d] have "reg_Create d r = (Inl (SqlUnique db_identity_columns), r)" by auto
    with Some i show ?thesis by simp
  qed (use i in simp)
qed simp

text \<open>
  C33. Importing is safe to repeat: a second import of a legacy file adds no database and changes nothing, even
  when the first one skipped lines or stopped at a line that is too long.
\<close>

theorem import_twice:
  assumes "no_faults r" and "read_file path = Inr content" and "runMigrate read_file None (path # others) r = (x, r')"
  shows "runMigrate read_file None (path # others) r' = ((fst x, 0), r')"
proof -
  obtain ls b where l: "scan_lines content = (ls, b)" by fastforce
  obtain k r2 where i: "import_lines ls r = (k, r2)" by fastforce
  from assms(2,3) l i have r: "r2 = r'" and x: "fst x = (if b then Some (Message ''bufio.Scanner: token too long'') else None)"
    by (auto simp: runMigrate_def)
  from import_known [OF assms(1) i] r have "import_lines ls r' = (0, r')" by (intro import_known_nothing) auto
  with assms(2) l x show ?thesis by (simp add: runMigrate_def)
qed

definition legacy_file :: string where
  "legacy_file = ''# old'' @ [CHR 0x0A] @ ''wiki:docker_mysql:db9|root|pw'' @ [CHR 0x0A]"

lemma import_twice_witness:
  "fst (runMigrate (\<lambda>p. Inr legacy_file) None [''databases.txt'']
     (snd (runMigrate (\<lambda>p. Inr legacy_file) None [''databases.txt''] sample_registry))) = (None, 0)"
proof -
  let ?run = "runMigrate (\<lambda>p. Inr legacy_file) None [''databases.txt'']"
  obtain x r' where h: "?run sample_registry = (x, r')" by fastforce
  have "no_faults sample_registry" by (simp add: sample_tables)
  from import_twice [OF this refl h] have "?run r' = ((fst x, 0), r')" .
  moreover have "snd (scan_lines legacy_file) = False" by (simp add: scan_lines_def legacy_file_def Let_def)
  then have "fst x = None" using h by (auto simp: runMigrate_def split_beta)
  ultimately show ?thesis using h by simp
qed

end
