(* ===== verification/Pipeline.thy ===== *)
theory Pipeline
  imports Daily Cli AdminDb
begin

text \<open>
  The processes together: the scheduler, the button of the web interface and the command line queue jobs, the
  consumer takes them, and they share the registry and the queue. A step is one action of one of them; a job at
  an agent is one step, taken when it is over. Nothing fails in these steps (what a failed push leaves behind
  is in the theory of the scheduler) and no signal comes, but jobs may fail.
\<close>

section \<open>Runs and the jobs that will finish them\<close>

text \<open>The jobs that are still to be processed: in the queue, or at an agent.\<close>

definition waiting :: "'q redis \<Rightarrow> 'q \<Rightarrow> Job list \<Rightarrow> Job set" where
  "waiting R q bg =
     {j. j_Cmd j = ''backup'' \<and>
       (j \<in> set bg \<or> (\<exists>v\<in>set (rd_list R QueueName q). Unmarshal job_fields zero_job v = Some j))}"

definition open_runs :: "registry \<Rightarrow> BackupRun list" where
  "open_runs r = filter (\<lambda>b. br_Status b = ''running'') (t_rows (backup_runs r))"

definition open_ids :: "registry \<Rightarrow> int set" where
  "open_ids r = br_ID ` set (open_runs r)"

text \<open>
  Every open run has a job; and: run \<open>i\<close> has none, and when the log shows it, then as open (the log can be cleared).
\<close>

definition accounted :: "registry \<Rightarrow> Job set \<Rightarrow> bool" where
  "accounted r js \<longleftrightarrow> open_ids r \<subseteq> j_RunID ` js"

definition left_open :: "int \<Rightarrow> registry \<Rightarrow> Job set \<Rightarrow> bool" where
  "left_open i r js \<longleftrightarrow> i \<notin> j_RunID ` js \<and> i \<le> t_seq (backup_runs r) \<and>
     (i \<in> ids br_ID (backup_runs r) \<longrightarrow> i \<in> open_ids r)"

lemma open_ids_iff: "i \<in> open_ids r \<longleftrightarrow> (\<exists>b\<in>set (t_rows (backup_runs r)). br_ID b = i \<and> br_Status b = ''running'')"
  by (auto simp: open_ids_def open_runs_def)

lemma open_ids_eqI: "backup_runs r = backup_runs r' \<Longrightarrow> open_ids r = open_ids r'"
  by (simp add: open_ids_def open_runs_def)

text \<open>Nothing fails, the registry is well formed, and what is in it survives the way through JSON.\<close>

definition sound :: "registry \<Rightarrow> bool" where
  "sound r \<longleftrightarrow> no_faults r \<and> reg_inv r \<and> (\<forall>d\<in>set (t_rows (databases r)). job_ok (job_for d 0))"

lemma open_id_range:
  assumes "reg_inv r" and "i \<in> open_ids r"
  shows "0 < i \<and> i \<le> t_seq (backup_runs r)"
proof -
  have "wf_table br_ID (backup_runs r)" using assms(1) by (simp add: reg_inv_def tables_wf_def)
  with assms(2) show ?thesis
    using run_tbl.positive [of "backup_runs r" i] by (auto simp: open_ids_iff wf_table_def ids_def)
qed

text \<open>A job is queued after its run is logged.\<close>

definition logged_run :: "Database \<Rightarrow> registry \<Rightarrow> registry" where
  "logged_run d r = snd (CreateBackupRun (running_run d) r)"

lemma logged_run_eq:
  "no_faults r \<Longrightarrow> logged_run d r = r\<lparr>backup_runs :=
     snd (sql_insert set_br_ID ((running_run d)\<lparr>br_CreatedAt := now_utc r\<rparr>) (backup_runs r))\<rparr>"
  by (simp add: logged_run_def CreateBackupRun_calm)

lemma logged_run_fields:
  "no_faults r \<Longrightarrow> databases (logged_run d r) = databases r"
  "no_faults r \<Longrightarrow> t_seq (backup_runs (logged_run d r)) = t_seq (backup_runs r) + 1"
  by (simp_all add: logged_run_eq)

lemma logged_run_open:
  "no_faults r \<Longrightarrow> open_ids (logged_run d r) = insert (t_seq (backup_runs r) + 1) (open_ids r)"
  by (auto simp: open_ids_def open_runs_def logged_run_eq run_tbl.insert_rows set_br_ID_def running_run_def)

lemma logged_run_ids:
  "no_faults r \<Longrightarrow> ids br_ID (backup_runs (logged_run d r)) = insert (t_seq (backup_runs r) + 1) (ids br_ID (backup_runs r))"
  by (simp add: logged_run_eq run_tbl.ids_insert)

definition emptied :: "registry \<Rightarrow> registry" where
  "emptied r = r\<lparr>backup_runs := sql_delete (\<lambda>_. True) (backup_runs r)\<rparr>"

lemma emptied_log: "open_ids (emptied r) = {}" "ids br_ID (backup_runs (emptied r)) = {}"
    "t_seq (backup_runs (emptied r)) = t_seq (backup_runs r)"
  by (auto simp: emptied_def open_ids_def open_runs_def ids_def sql_delete_def)

text \<open>Rows of the log only come with new ids, and what processing a job to its end does to the open runs.\<close>

definition log_grows :: "registry \<Rightarrow> registry \<Rightarrow> bool" where
  "log_grows r r' \<longleftrightarrow> t_seq (backup_runs r) \<le> t_seq (backup_runs r') \<and>
     (\<forall>i\<in>ids br_ID (backup_runs r'). i \<le> t_seq (backup_runs r) \<longrightarrow> i \<in> ids br_ID (backup_runs r))"

lemma log_grows_same: "backup_runs r' = backup_runs r \<Longrightarrow> log_grows r r'"
  by (simp add: log_grows_def)

lemma log_grows_trans: "log_grows r s \<Longrightarrow> log_grows s t \<Longrightarrow> log_grows r t"
  by (force simp: log_grows_def)

definition closes :: "Job \<Rightarrow> registry \<Rightarrow> registry \<Rightarrow> bool" where
  "closes job r r' \<longleftrightarrow> open_ids r' \<subseteq> open_ids r \<and> open_ids r - {j_RunID job} \<subseteq> open_ids r' \<and>
     j_RunID job \<notin> open_ids r' \<and> log_grows r r'"

text \<open>
  A promise about the log and the jobs still to be processed, kept whoever acts: a run is logged with its job
  queued, the log is left alone or cleared, or a job is processed.
\<close>

locale ledger =
  fixes P :: "registry \<Rightarrow> Job set \<Rightarrow> bool"
  assumes logged: "\<And>r js d. P r js \<Longrightarrow> no_faults r \<Longrightarrow> reg_inv r \<Longrightarrow>
      P (logged_run d r) (insert (job_for d (t_seq (backup_runs r) + 1)) js)"
    and untouched: "\<And>r r' js. P r js \<Longrightarrow> backup_runs r' = backup_runs r \<Longrightarrow> P r' js"
    and cleared: "\<And>r js. P r js \<Longrightarrow> P (emptied r) js"
    and closed: "\<And>r r' job js. P r (insert job js) \<Longrightarrow> closes job r r' \<Longrightarrow> P r' js"

lemma job_for_run_id [simp]: "j_RunID (job_for d k) = k" "j_Cmd (job_for d k) = ''backup''"
  by (simp_all add: job_for_def NewBackupJob_def)

interpretation accounting: ledger accounted
proof
  show "accounted (logged_run d r) (insert (job_for d (t_seq (backup_runs r) + 1)) js)"
    if "accounted r js" "no_faults r" for r js d
    using that by (auto simp: accounted_def logged_run_open)
  show "accounted r' js" if "accounted r js" "backup_runs r' = backup_runs r" for r r' js
    using that by (simp add: accounted_def open_ids_eqI [OF that(2)])
  show "accounted (emptied r) js" for r js by (simp add: accounted_def emptied_log)
  show "accounted r' js" if "accounted r (insert job js)" "closes job r r'" for r r' job js
    using that by (auto simp: accounted_def closes_def)
qed

interpretation orphan: ledger "left_open i" for i
proof
  show "left_open i (logged_run d r) (insert (job_for d (t_seq (backup_runs r) + 1)) js)"
    if "left_open i r js" "no_faults r" "reg_inv r" for r js d
    using that by (auto simp: left_open_def logged_run_open logged_run_ids logged_run_fields)
  show "left_open i r' js" if "left_open i r js" "backup_runs r' = backup_runs r" for r r' js
    using that by (simp add: left_open_def open_ids_eqI [OF that(2)])
  show "left_open i (emptied r) js" if "left_open i r js" for r js
    using that by (simp add: left_open_def emptied_log)
  show "left_open i r' js" if "left_open i r (insert job js)" "closes job r r'" for r r' job js
    using that by (auto simp: left_open_def closes_def log_grows_def)
qed

definition kept :: "(registry \<Rightarrow> Job set \<Rightarrow> bool) \<Rightarrow> 'q redis \<Rightarrow> Job list \<Rightarrow> 'q node \<Rightarrow> bool" where
  "kept P R bg n \<longleftrightarrow> redis_ok R \<and> redis_up R \<and> sound (n_reg n) \<and> P (n_reg n) (waiting R (n_q n) bg)"

lemma keptD: "kept P R bg n \<Longrightarrow> no_faults (n_reg n)" "kept P R bg n \<Longrightarrow> reg_inv (n_reg n)" "kept P R bg n \<Longrightarrow> calm R n"
  by (simp_all add: kept_def calm_def sound_def)

lemma job_for_run: "job_ok (job_for d 0) \<Longrightarrow> int64 k \<Longrightarrow> job_ok (job_for d k)"
  by (simp add: job_ok_def job_for_def NewBackupJob_def)

lemma create_push:
  assumes "calm R n"
  obtains q where
    "on_reg (CreateBackupRun (running_run d)) n = (Inr (t_seq (backup_runs (n_reg n)) + 1), n\<lparr>n_reg := logged_run d (n_reg n)\<rparr>)"
    "on_q (Push R (job_for d (t_seq (backup_runs (n_reg n)) + 1))) (n\<lparr>n_reg := logged_run d (n_reg n)\<rparr>) =
       (Inr (), n\<lparr>n_reg := logged_run d (n_reg n), n_q := q\<rparr>)"
    "rd_list R QueueName q = rd_list R QueueName (n_q n) @ [job_text d (t_seq (backup_runs (n_reg n)) + 1)]"
proof -
  let ?k = "t_seq (backup_runs (n_reg n)) + 1"
  from assms have c: "redis_ok R" "redis_up R" "no_faults (n_reg n)" by (simp_all add: calm_def)
  obtain q where q: "Push R (job_for d ?k) (n_q n) = (Inr (), q)"
    using Push_up [OF c(2)] by (metis prod.collapse)
  have "rd_list R QueueName q = rd_list R QueueName (n_q n) @ [job_text d ?k]"
    using Push_list [OF c(1) q] by (simp add: job_text_def)
  moreover have "on_reg (CreateBackupRun (running_run d)) n = (Inr ?k, n\<lparr>n_reg := logged_run d (n_reg n)\<rparr>)"
    using c(3) by (simp add: on_reg_def CreateBackupRun_calm logged_run_def)
  moreover have "on_q (Push R (job_for d ?k)) (n\<lparr>n_reg := logged_run d (n_reg n)\<rparr>) =
       (Inr (), n\<lparr>n_reg := logged_run d (n_reg n), n_q := q\<rparr>)"
    using q by (simp add: on_q_def)
  ultimately show thesis by (rule that [rotated 2])
qed

text \<open>The queue with one more job in it.\<close>

lemma waiting_pushed:
  assumes "job_ok (job_for d 0)" and "int64 k" and "rd_list R QueueName q' = rd_list R QueueName q @ [job_text d k]"
  shows "waiting R q' bg = insert (job_for d k) (waiting R q bg)"
proof -
  have "Unmarshal job_fields zero_job (job_text d k) = Some (job_for d k)"
    using assms(1,2) by (simp add: job_text_def Unmarshal_job job_for_run)
  then show ?thesis by (auto simp: waiting_def assms(3))
qed

section \<open>A job is processed\<close>

lemma finished_not_running: "fst (finished_run tx e) \<noteq> ''running''"
  by (simp add: finished_run_def split: option.split)

lemma recordBackupRun_open:
  assumes "no_faults r"
  shows "open_ids (recordBackupRun over tx d job st ms e r) =
    (if over \<or> j_RunID job = 0 then open_ids r else open_ids r - {j_RunID job})"
proof -
  have ended: "br_Status (run_end tx st ms e x) \<noteq> ''running''" for x by (simp add: run_end_def)
  consider "over" | "\<not> over" "j_RunID job = 0" | "\<not> over" "j_RunID job \<noteq> 0" by blast
  then show ?thesis
  proof cases
    case 1
    then show ?thesis by (simp add: recordBackupRun_def split_beta)
  next
    case 2
    with assms finished_not_running show ?thesis
      by (simp add: recordBackupRun_def CreateBackupRun_calm open_ids_def open_runs_def run_tbl.insert_rows split_beta set_br_ID_def)
  next
    case 3
    with assms ended show ?thesis
      by (auto simp: recordBackupRun_calm open_ids_iff sql_update_def split: if_splits)
  qed
qed

lemma update_open:
  assumes "\<And>x. br_ID (f x) = br_ID x" and "\<And>x. br_Status (f x) = br_Status x"
  shows "open_ids (r\<lparr>backup_runs := sql_update p f (backup_runs r)\<rparr>) = open_ids r"
proof -
  define g where "g x = (if p x then f x else x)" for x
  have "br_ID (g x) = br_ID x" "br_Status (g x) = br_Status x" for x using assms by (simp_all add: g_def)
  then show ?thesis by (simp add: set_eq_iff open_ids_iff sql_update_def g_def [symmetric])
qed

lemma recordBackupRun_grows:
  assumes "no_faults r"
  shows "log_grows r (recordBackupRun over tx d job st ms e r)"
proof -
  consider "over" | "\<not> over" "j_RunID job = 0" | "\<not> over" "j_RunID job \<noteq> 0" by blast
  then show ?thesis
  proof cases
    case 1
    then show ?thesis by (simp add: recordBackupRun_def split_beta log_grows_def)
  next
    case 2
    with assms show ?thesis
      by (auto simp: recordBackupRun_def CreateBackupRun_calm run_tbl.ids_insert split_beta log_grows_def)
  next
    case 3
    with assms show ?thesis
      by (simp add: recordBackupRun_calm log_grows_def run_tbl.ids_update)
  qed
qed

lemma mark_started_grows: "no_faults (w_reg w) \<Longrightarrow> log_grows (w_reg w) (w_reg (mark_started T job w))"
  by (simp add: mark_started_calm log_grows_def run_tbl.ids_update)

lemma mark_started_open:
  assumes "no_faults (w_reg w)"
  shows "open_ids (w_reg (mark_started T job w)) = open_ids (w_reg w)"
proof (cases "starts_here job \<and> \<not> ended T Marking")
  case True
  then show ?thesis unfolding mark_started_calm [OF assms] by (simp add: update_open)
next
  case False
  then show ?thesis unfolding mark_started_calm [OF assms] by (intro open_ids_eqI) auto
qed

lemma record_over: "record_upload True d job outcome r = r" "tell_channels True V x job e s = s"
  by (auto simp: record_upload_def recordBackupFile_def tell_channels_def split: option.split prod.split)

text \<open>Processing a job starts no run and leaves its own finished, unless the signal comes first.\<close>

lemma processJob_log:
  assumes "no_faults (w_reg w)" and "j_Cmd job = ''backup''" and "processJob V T job w = Some w'"
  obtains outcome w2 where "backupAndUpload V T job (mark_started T job w) = (Some outcome, w2)"
    "no_faults (w_reg w')" "databases (w_reg w') = databases (w_reg w)" "log_grows (w_reg w) (w_reg w')"
    "open_ids (w_reg w') =
      (if ended (after_poll outcome T) Recording \<or> j_RunID job = 0 then open_ids (w_reg w) else open_ids (w_reg w) - {j_RunID job})"
    "ended (after_poll outcome T) Recording \<Longrightarrow> backup_files (w_reg w') = backup_files (w_reg w) \<and> w_net w' = w_net w2"
proof -
  from processJob_calm [OF assms]
  obtain outcome w2 X where b: "backupAndUpload V T job (mark_started T job w) = (Some outcome, w2)"
    and w2: "w_reg w2 = (w_reg (mark_started T job w))\<lparr>storage_targets := X\<rparr>"
    and w': "w_reg w' = fst (conclude_job V (after_poll outcome T) job outcome (w_reg w2, w_net w2))"
      "w_net w' = snd (conclude_job V (after_poll outcome T) job outcome (w_reg w2, w_net w2))" .
  let ?T = "after_poll outcome T"
  obtain st ms where t: "job_times ?T job (fst outcome) = (st, ms)" by fastforce
  have f: "no_faults (w_reg w2)" using assms(1) by (simp add: w2 mark_started_calm)
  obtain res where g: "on_ctx (ended ?T Resolving) (GetByNameAgentDriver (j_DBName job) (j_AgentID job) (j_Driver job)) (w_reg w2) =
      (res, w_reg w2)" using GetByName_ctx [OF f] by blast
  define d where "d = or_zero None res"
  define r2 where "r2 = recordBackupRun (ended ?T Recording) (v_tx V) d job st ms (snd outcome) (w_reg w2)"
  obtain Y where r2: "r2 = (w_reg w2)\<lparr>backup_runs := Y\<rparr>" using recordBackupRun_same [OF f] unfolding r2_def by blast
  then have f2: "no_faults r2" using f by simp
  obtain Z where Z: "record_upload (ended ?T Filing) d job outcome r2 = r2\<lparr>backup_files := Z\<rparr>"
    using record_upload_calm [OF f2] by blast
  note c = conclude_job_calm [OF f t g d_def r2_def, of "w_net w2"]
  have r: "w_reg w' = r2\<lparr>backup_files := Z\<rparr>" using c Z by (simp add: w')
  have o2: "open_ids (w_reg w2) = open_ids (w_reg w)"
    using mark_started_open [OF assms(1), of T job] by (simp add: w2 open_ids_def open_runs_def)
  have "open_ids (w_reg w') = open_ids r2" by (simp add: r open_ids_def open_runs_def)
  then have o: "open_ids (w_reg w') =
      (if ended ?T Recording \<or> j_RunID job = 0 then open_ids (w_reg w) else open_ids (w_reg w) - {j_RunID job})"
    using recordBackupRun_open [OF f] o2 by (simp add: r2_def)
  have "backup_files (w_reg w') = backup_files (w_reg w) \<and> w_net w' = w_net w2" if "ended ?T Recording"
  proof -
    have later: "ended ?T Filing" "ended ?T Announcing"
      using that by (auto intro: ended_mono simp: less_eq_job_stage_def)
    have "w_reg w' = r2" "w_net w' = w_net w2"
      using c later by (simp_all add: w' record_over split: option.split)
    then show ?thesis using assms(1) by (simp add: r2 w2 mark_started_calm)
  qed
  moreover have "log_grows (w_reg w2) (w_reg w')"
    using recordBackupRun_grows [OF f] r2_def by (simp add: r log_grows_def)
  then have "log_grows (w_reg w) (w_reg w')"
    using mark_started_grows [OF assms(1), of T job] by (elim log_grows_trans [rotated]) (simp add: w2 log_grows_def)
  ultimately show thesis using that [OF b _ _ _ o]
    using f2 assms(1) by (simp add: r) (simp add: r2 w2 mark_started_calm)
qed

lemma processJob_closes:
  assumes "sound (w_reg w)" and "j_Cmd job = ''backup''" and "processJob V T job w = Some w'" and "undisturbed T"
  shows "closes job (w_reg w) (w_reg w')"
proof -
  have nf: "no_faults (w_reg w)" and inv: "reg_inv (w_reg w)" using assms(1) by (simp_all add: sound_def)
  from processJob_log [OF nf assms(2,3)] obtain outcome w2 where
    b: "backupAndUpload V T job (mark_started T job w) = (Some outcome, w2)" and g: "log_grows (w_reg w) (w_reg w')" and
    o: "open_ids (w_reg w') = (if ended (after_poll outcome T) Recording \<or> j_RunID job = 0 then open_ids (w_reg w)
      else open_ids (w_reg w) - {j_RunID job})" by metis
  have "\<not> ended (after_poll outcome T) Recording"
    using assms(4) after_poll_undisturbed [OF assms(4) b] by (simp add: undisturbed_def)
  then show ?thesis using o g open_id_range [OF inv, of 0] by (auto simp: closes_def)
qed

lemma processJob_sound:
  assumes "sound (w_reg w)" and "processJob V T job w = Some w'"
  shows "sound (w_reg w')"
proof (cases "j_Cmd job = ''backup''")
  case True
  have "no_faults (w_reg w)" using assms(1) by (simp add: sound_def)
  from processJob_log [OF this True assms(2)] have "no_faults (w_reg w')" "databases (w_reg w') = databases (w_reg w)" by metis+
  then show ?thesis
    using reg_sys.steps_inv [OF processJob_steps [OF assms(2)]] assms(1) by (simp add: sound_def)
next
  case False
  with assms show ?thesis by (auto simp: processJob_def)
qed

lemma local_job_ends: "j_AgentID job = 0 \<Longrightarrow> \<exists>w'. processJob V T job w = Some w'"
  by (auto simp: processJob_def backupAndUpload_def split_beta)

section \<open>Steps of the system\<close>

definition node_of :: "('d, 'n, 'q) consumer \<Rightarrow> 'q node" where
  "node_of k = \<lparr>n_reg = w_reg (k_world k), n_q = k_queue k\<rparr>"

definition with_node :: "'q node \<Rightarrow> ('d, 'n, 'q) consumer \<Rightarrow> ('d, 'n, 'q) consumer" where
  "with_node n k = k\<lparr>k_world := set_reg (n_reg n) (k_world k), k_queue := n_q n\<rparr>"

text \<open>
  Each step that logs runs finds ids left for them below the largest that SQLite can store. Whatever else the web
  interface does to the registry is \<open>sys_edit\<close>, any change that keeps it sound and leaves the log alone, or
  \<open>sys_clear\<close>, which empties the log (\<open>handleLogsClear\<close>).
\<close>

inductive sys_step ::
  "('d, 'n) setting \<Rightarrow> 'q redis \<Rightarrow> ('d, 'n, 'q) consumer \<Rightarrow> ('d, 'n, 'q) consumer \<Rightarrow> bool" for V R where
  sys_tick: "t_seq (backup_runs (n_reg (node_of k))) + int (length (due_jobs now (n_reg (node_of k)))) \<le> max_int64 \<Longrightarrow>
    sys_step V R k (with_node (checkAndEnqueue R now (node_of k)) k)"
| sys_backup: "t_seq (backup_runs (n_reg (node_of k))) + int (length (t_rows (databases (n_reg (node_of k))))) \<le> max_int64 \<Longrightarrow>
    sys_step V R k (with_node (snd (runBackup R None [] (node_of k))) k)"
| sys_button: "t_seq (backup_runs (n_reg (node_of k))) < max_int64 \<Longrightarrow> si_reg (s :: ('d, 'n, 'q) site) = w_reg (k_world k) \<Longrightarrow>
    si_q s = k_queue k \<Longrightarrow> sv_redis S = R \<Longrightarrow> handleBackupNow S v s = (resp, s') \<Longrightarrow>
    sys_step V R k (with_node \<lparr>n_reg = si_reg s', n_q = si_q s'\<rparr> k)"
| sys_edit: "backup_runs r = backup_runs (w_reg (k_world k)) \<Longrightarrow> sound r \<Longrightarrow>
    sys_step V R k (with_node \<lparr>n_reg = r, n_q = k_queue k\<rparr> k)"
| sys_clear: "sys_step V R k (with_node \<lparr>n_reg = snd (DeleteAllBackupRuns (w_reg (k_world k))), n_q = k_queue k\<rparr> k)"
| sys_take: "undisturbed T \<Longrightarrow> sys_step V R k (consume_one V R T k)"
| sys_finish: "k_background k = xs @ job # ys \<Longrightarrow> undisturbed T \<Longrightarrow>
    processJob V T job (k_world k) = Some w \<Longrightarrow>
    sys_step V R k (k\<lparr>k_world := w, k_background := xs @ ys\<rparr>)"

text \<open>A promise kept by the system, and the amount by which those who queue jobs make the log grow.\<close>

definition kept_sys :: "(registry \<Rightarrow> Job set \<Rightarrow> bool) \<Rightarrow> 'q redis \<Rightarrow> ('d, 'n, 'q) consumer \<Rightarrow> bool" where
  "kept_sys P R k \<longleftrightarrow> kept P R (k_background k) (node_of k)"

definition good :: "'q redis \<Rightarrow> ('d, 'n, 'q) consumer \<Rightarrow> bool" where
  "good R k \<longleftrightarrow> kept_sys accounted R k"

definition grew :: "(registry \<Rightarrow> Job set \<Rightarrow> bool) \<Rightarrow> 'q redis \<Rightarrow> Job list \<Rightarrow> int \<Rightarrow> 'q node \<Rightarrow> 'q node \<Rightarrow> bool" where
  "grew P R bg k n n' \<longleftrightarrow>
     kept P R bg n' \<and> databases (n_reg n') = databases (n_reg n) \<and>
     t_seq (backup_runs (n_reg n')) = t_seq (backup_runs (n_reg n)) + k"

lemma grew_refl: "kept P R bg n \<Longrightarrow> grew P R bg 0 n n"
  by (simp add: grew_def)

lemma kept_with_node: "kept P R (k_background k) n \<Longrightarrow> kept_sys P R (with_node n k)"
  by (cases n) (simp add: kept_sys_def node_of_def with_node_def)

lemmas kept_defs = kept_sys_def kept_def node_of_def

lemma waiting_pop:
  assumes "redis_ok R" and "Pop R q = (x, q')"
  shows "waiting R q bg = (case x of
      Inr (Some job) \<Rightarrow> (if j_Cmd job = ''backup'' then insert job (waiting R q' bg) else waiting R q' bg)
    | _ \<Rightarrow> waiting R q' bg)"
proof -
  obtain y q1 where b: "rd_blpop R QueueName q = (y, q1)" by fastforce
  show ?thesis
    using blpop_ok [OF assms(1) b] assms(2) b
    by (auto simp: Pop_def waiting_def split: sum.splits option.splits)
qed

lemma waiting_more:
  "waiting R q (xs @ job # ys) = (if j_Cmd job = ''backup'' then insert job (waiting R q (xs @ ys)) else waiting R q (xs @ ys))"
  by (auto simp: waiting_def)

section \<open>Whoever acts keeps the promise\<close>

context ledger begin

lemma kept_logged:
  assumes "kept P R bg n" and "d \<in> set (t_rows (databases (n_reg n)))"
    and "t_seq (backup_runs (n_reg n)) < max_int64"
    and "rd_list R QueueName q = rd_list R QueueName (n_q n) @ [job_text d (t_seq (backup_runs (n_reg n)) + 1)]"
  shows "kept P R bg (n\<lparr>n_reg := logged_run d (n_reg n), n_q := q\<rparr>)"
proof -
  let ?r = "n_reg n"
  let ?k = "t_seq (backup_runs ?r) + 1"
  from assms(1) have s: "no_faults ?r" "reg_inv ?r" "\<forall>d\<in>set (t_rows (databases ?r)). job_ok (job_for d 0)"
    by (auto simp: kept_def sound_def)
  then have "wf_table br_ID (backup_runs ?r)" by (simp add: reg_inv_def tables_wf_def)
  then have "0 < ?k" using run_tbl.positive_insert by (simp add: run_tbl.insert_id)
  then have "int64 ?k" using assms(3) by (simp add: int64_def min_int64_def)
  with s(3) assms(2,4) have "waiting R q bg = insert (job_for d ?k) (waiting R (n_q n) bg)"
    by (intro waiting_pushed) auto
  moreover have "reg_inv (logged_run d ?r)"
    unfolding logged_run_def by (rule reg_sys.steps_inv [OF _ s(2)]) (auto intro: reg_step.intros)
  ultimately show ?thesis
    using assms(1) s logged [OF _ s(1,2)] by (simp add: kept_def sound_def logged_run_fields)
      (simp add: logged_run_eq)
qed

lemma kept_mark:
  assumes "kept P R bg n"
  shows "grew P R bg 0 n (snd (on_reg (MarkScheduleRun i t) n))"
    and "grew P R bg 0 n (snd (on_reg (MarkSharedScheduleRun i t) n))"
proof -
  note nf = keptD(1) [OF assms] and inv = keptD(2) [OF assms]
  have "reg_inv (n_reg (snd (on_reg (MarkScheduleRun i t) n)))" "reg_inv (n_reg (snd (on_reg (MarkSharedScheduleRun i t) n)))"
    by (rule reg_sys.steps_inv [OF on_reg_moves inv], rule moves_intros)+
  with assms nf show "grew P R bg 0 n (snd (on_reg (MarkScheduleRun i t) n))"
    and "grew P R bg 0 n (snd (on_reg (MarkSharedScheduleRun i t) n))"
    by (simp_all add: grew_def kept_def sound_def on_reg_def MarkScheduleRun_calm MarkSharedScheduleRun_calm)
      (auto elim: untouched)
qed

lemma kept_enqueueDue:
  assumes "kept P R bg n" and "dj_Database item \<in> set (t_rows (databases (n_reg n)))"
    and "t_seq (backup_runs (n_reg n)) < max_int64" and "mark \<in> {MarkScheduleRun, MarkSharedScheduleRun}"
  shows "grew P R bg 1 n (enqueueDue R now mark item n)"
proof -
  note nf = keptD(1) [OF assms(1)]
  obtain q where q: "on_reg (CreateBackupRun (running_run (dj_Database item))) n =
      (Inr (t_seq (backup_runs (n_reg n)) + 1), n\<lparr>n_reg := logged_run (dj_Database item) (n_reg n)\<rparr>)"
    "on_q (Push R (job_for (dj_Database item) (t_seq (backup_runs (n_reg n)) + 1)))
       (n\<lparr>n_reg := logged_run (dj_Database item) (n_reg n)\<rparr>) =
       (Inr (), n\<lparr>n_reg := logged_run (dj_Database item) (n_reg n), n_q := q\<rparr>)"
    "rd_list R QueueName q = rd_list R QueueName (n_q n) @
       [job_text (dj_Database item) (t_seq (backup_runs (n_reg n)) + 1)]"
    using create_push [OF keptD(3) [OF assms(1)], of "dj_Database item"] by blast
  let ?m = "n\<lparr>n_reg := logged_run (dj_Database item) (n_reg n), n_q := q\<rparr>"
  have "kept P R bg ?m" by (rule kept_logged [OF assms(1-3) q(3)])
  then have "grew P R bg 0 ?m (snd (on_reg (mark i t) ?m))" for i t
    using assms(4) kept_mark by auto
  then show ?thesis
    using nf by (simp add: enqueueDue_def q or_zero_def grew_def logged_run_fields)
qed

lemma kept_enqueue_items:
  assumes "kept P R bg n" and "\<And>x. x \<in> set items \<Longrightarrow> dj_Database x \<in> set (t_rows (databases (n_reg n)))"
    and "t_seq (backup_runs (n_reg n)) + int (length items) \<le> max_int64"
    and "mark \<in> {MarkScheduleRun, MarkSharedScheduleRun}"
  shows "grew P R bg (int (length items)) n (fold (enqueueDue R now mark) items n)"
  using assms
proof (induction items arbitrary: n)
  case (Cons x xs)
  have 1: "grew P R bg 1 n (enqueueDue R now mark x n)"
    using Cons.prems by (intro kept_enqueueDue) auto
  have "grew P R bg (int (length xs)) (enqueueDue R now mark x n) (fold (enqueueDue R now mark) xs (enqueueDue R now mark x n))"
    using Cons.prems 1 by (intro Cons.IH) (auto simp: grew_def)
  with 1 show ?case by (auto simp: grew_def)
qed (simp add: grew_refl)

lemma kept_tick:
  assumes "kept P R bg n" and "t_seq (backup_runs (n_reg n)) + int (length (due_jobs now (n_reg n))) \<le> max_int64"
  shows "kept P R bg (checkAndEnqueue R now n)"
proof -
  let ?r = "n_reg n" and ?hm = "format_15_04 now" and ?day = "format_2006_01_02 now"
  define due where "due = e_ord_due (eng ?r) (due_rows ?r ?hm ?day)"
  define n2 where "n2 = fold (enqueueDue R now MarkScheduleRun) due n"
  define items where "items = e_ord_due (eng (n_reg n2)) (due_shared_rows (n_reg n2) ?hm ?day)"
  note own = own.enqueue_all [OF keptD(3) [OF assms(1)] n2_def]
  have eng: "eng (n_reg n2) = eng ?r" "due_shared_rows (n_reg n2) = due_shared_rows ?r"
    using own(4) shared.due_local [OF own(4,5)] by (simp_all add: same_but_marks_def)
  have p: "permuting (e_ord_due (eng ?r))" using assms(1) by (simp add: kept_def sound_def reg_inv_def engine_ok_def)
  have len: "length (due_jobs now ?r) = length due + length items"
    by (simp add: due_jobs_def due_def items_def eng)
  have n2: "grew P R bg (int (length due)) n n2"
    unfolding n2_def
    by (rule kept_enqueue_items [OF assms(1)]) (use assms(2) len in \<open>auto simp: due_def permuting_set [OF p] due_rows_iff\<close>)
  have "grew P R bg (int (length items)) n2 (fold (enqueueDue R now MarkSharedScheduleRun) items n2)"
    by (rule kept_enqueue_items)
      (use n2 assms(2) len in \<open>auto simp: grew_def items_def eng permuting_set [OF p] due_shared_rows_iff\<close>)
  moreover have "checkAndEnqueue R now n = fold (enqueueDue R now MarkSharedScheduleRun) items n2"
    using keptD(3) [OF assms(1)] own(1)
    by (simp add: checkAndEnqueue_def ListDueSchedules_def ListDueSharedSchedules_def calm_def on_reg_query
        or_zero_def items_def n2_def due_def)
  ultimately show ?thesis by (simp add: grew_def)
qed

lemma kept_enqueue_all:
  assumes "kept P R bg n" and "set ds \<subseteq> set (t_rows (databases (n_reg n)))"
    and "t_seq (backup_runs (n_reg n)) + int (length ds) \<le> max_int64"
  shows "grew P R bg (int (length ds)) n (snd (enqueue_all R ds n))"
  using assms
proof (induction ds arbitrary: n)
  case (Cons d ds)
  note nf = keptD(1) [OF Cons.prems(1)]
  obtain q where q: "on_reg (CreateBackupRun (running_run d)) n =
      (Inr (t_seq (backup_runs (n_reg n)) + 1), n\<lparr>n_reg := logged_run d (n_reg n)\<rparr>)"
    "on_q (Push R (job_for d (t_seq (backup_runs (n_reg n)) + 1))) (n\<lparr>n_reg := logged_run d (n_reg n)\<rparr>) =
       (Inr (), n\<lparr>n_reg := logged_run d (n_reg n), n_q := q\<rparr>)"
    "rd_list R QueueName q = rd_list R QueueName (n_q n) @ [job_text d (t_seq (backup_runs (n_reg n)) + 1)]"
    using create_push [OF keptD(3) [OF Cons.prems(1)], of d] by blast
  let ?m = "n\<lparr>n_reg := logged_run d (n_reg n), n_q := q\<rparr>"
  have m: "kept P R bg ?m"
    by (rule kept_logged [OF Cons.prems(1) _ _ q(3)]) (use Cons.prems in auto)
  have "grew P R bg (int (length ds)) ?m (snd (enqueue_all R ds ?m))"
    by (rule Cons.IH [OF m]) (use Cons.prems nf in \<open>simp_all add: logged_run_fields\<close>)
  then show ?case using nf by (simp add: q or_zero_def grew_def logged_run_fields)
qed (simp add: grew_refl)

lemma kept_runBackup:
  assumes "kept P R bg n" and "t_seq (backup_runs (n_reg n)) + int (length (t_rows (databases (n_reg n)))) \<le> max_int64"
  shows "kept P R bg (snd (runBackup R None [] n))"
proof -
  note nf = keptD(1) [OF assms(1)]
  define on where "on = filter (\<lambda>d. boolToInt (d_Enabled d) = 1) (t_rows (databases (n_reg n)))"
  define ds where "ds = sort_key d_Name (e_ord_db (eng (n_reg n)) on)"
  have p: "permuting (e_ord_db (eng (n_reg n)))"
    using assms(1) by (simp add: kept_def sound_def reg_inv_def engine_ok_def)
  have ds: "on_reg ListEnabled n = (Inr ds, n)" "set ds \<subseteq> set (t_rows (databases (n_reg n)))"
    "length ds \<le> length (t_rows (databases (n_reg n)))"
    using nf mset_eq_length [OF p [unfolded permuting_def, rule_format, of on]]
    by (auto simp: ListEnabled_def on_reg_query ds_def on_def permuting_set [OF p])
  have "grew P R bg (int (length ds)) n (snd (enqueue_all R ds n))"
    by (rule kept_enqueue_all [OF assms(1) ds(2)]) (use assms(2) ds(3) in simp)
  then show ?thesis by (simp add: runBackup_def ds(1) grew_def split_beta split: sum.split)
qed

lemma kept_button:
  fixes s :: "('d, 'n, 'q) site"
  assumes "kept P R bg \<lparr>n_reg = si_reg s, n_q = si_q s\<rparr>" and "t_seq (backup_runs (si_reg s)) < max_int64"
    and "sv_redis S = R" and "handleBackupNow S v s = (resp, s')"
  shows "kept P R bg \<lparr>n_reg = si_reg s', n_q = si_q s'\<rparr>"
proof -
  let ?n = "\<lparr>n_reg = si_reg s, n_q = si_q s\<rparr>"
  have nf: "no_faults (si_reg s)" using keptD(1) [OF assms(1)] by simp
  show ?thesis
  proof (cases "\<exists>i d. by_id d_ID i (databases (si_reg s)) = Some d \<and> ParseInt v = (i, None)")
    case False
    then have "si_reg s' = si_reg s \<and> si_q s' = si_q s"
      using assms(4) nf
      by (auto simp: handleBackupNow_def with_id_def or_fail_def or_404_def on_db_def reg_Get_def
          split: prod.splits option.splits)
    then show ?thesis using assms(1) by simp
  next
    case True
    then obtain i d where d: "by_id d_ID i (databases (si_reg s)) = Some d" "ParseInt v = (i, None)" by blast
    obtain q where q: "on_reg (CreateBackupRun (running_run d)) ?n =
        (Inr (t_seq (backup_runs (si_reg s)) + 1), ?n\<lparr>n_reg := logged_run d (si_reg s)\<rparr>)"
      "on_q (Push R (job_for d (t_seq (backup_runs (si_reg s)) + 1))) (?n\<lparr>n_reg := logged_run d (si_reg s)\<rparr>) =
         (Inr (), ?n\<lparr>n_reg := logged_run d (si_reg s), n_q := q\<rparr>)"
      "rd_list R QueueName q = rd_list R QueueName (si_q s) @ [job_text d (t_seq (backup_runs (si_reg s)) + 1)]"
      using create_push [OF keptD(3) [OF assms(1)], of d] by auto
    have "si_reg s' = logged_run d (si_reg s) \<and> si_q s' = q"
      using assms(3,4) d q(1,2) nf
      by (auto simp: handleBackupNow_def with_id_def or_fail_def or_404_def on_db_def reg_Get_def on_reg_def on_q_def
          on_queue_def or_zero_def split: prod.splits sum.splits)
    moreover have "d \<in> set (t_rows (databases (si_reg s)))" using by_id_Some [OF d(1)] by simp
    ultimately show ?thesis
      using kept_logged [OF assms(1), of d q] assms(2) q(3) by simp
  qed
qed

lemma kept_processed:
  assumes "sound (w_reg w)" and "P (w_reg w) (if j_Cmd job = ''backup'' then insert job js else js)"
    and "processJob V T job w = Some w'" and "undisturbed T"
  shows "sound (w_reg w') \<and> P (w_reg w') js"
proof (cases "j_Cmd job = ''backup''")
  case True
  with assms(2) show ?thesis
    using processJob_sound [OF assms(1,3)] closed processJob_closes [OF assms(1) True assms(3,4)] by auto
next
  case False
  with assms show ?thesis by (auto simp: processJob_def)
qed

lemma kept_take:
  assumes "kept_sys P R k" and "undisturbed T"
  shows "kept_sys P R (consume_one V R T k)"
proof -
  let ?r = "w_reg (k_world k)" and ?bg = "k_background k"
  from assms(1) have R: "redis_ok R" "redis_up R" and s: "sound ?r" and p: "P ?r (waiting R (k_queue k) ?bg)"
    by (simp_all add: kept_defs)
  obtain x q where pop: "Pop R (k_queue k) = (x, q)" by fastforce
  note wait = waiting_pop [OF R(1) pop]
  show ?thesis
  proof (cases "\<exists>job. x = Inr (Some job)")
    case False
    then have c: "consume_one V R T k = k\<lparr>k_queue := q\<rparr>" "waiting R (k_queue k) ?bg = waiting R q ?bg"
      using wait [of ?bg] pop by (auto simp: consume_one_def split: sum.splits option.splits)
    show ?thesis using R s p by (simp add: c kept_defs)
  next
    case True
    then obtain job where x: "x = Inr (Some job)" by blast
    have p': "P ?r (if j_Cmd job = ''backup'' then insert job (waiting R q ?bg) else waiting R q ?bg)"
      using p wait [of ?bg] x by simp
    show ?thesis
    proof (cases "j_AgentID job = 0")
      case True
      then obtain w where w: "processJob V T job (k_world k) = Some w" using local_job_ends by blast
      have c: "consume_one V R T k = k\<lparr>k_queue := q, k_world := w\<rparr>"
        using pop x True w by (simp add: consume_one_def)
      show ?thesis using R kept_processed [OF s p' w assms(2)] by (simp add: c kept_defs)
    next
      case False
      have c: "consume_one V R T k = k\<lparr>k_queue := q, k_background := ?bg @ [job]\<rparr>"
        using pop x False by (simp add: consume_one_def)
      show ?thesis using R s p' waiting_more [of R q ?bg job "[]"]
        by (cases "j_Cmd job = ''backup''") (simp_all add: c kept_defs)
    qed
  qed
qed

lemma kept_finish:
  assumes "kept_sys P R k" and "k_background k = xs @ job # ys" and "undisturbed T"
    and "processJob V T job (k_world k) = Some w"
  shows "kept_sys P R (k\<lparr>k_world := w, k_background := xs @ ys\<rparr>)"
proof -
  from assms(1,2) have R: "redis_ok R" "redis_up R" and s: "sound (w_reg (k_world k))"
    and p: "P (w_reg (k_world k)) (waiting R (k_queue k) (xs @ job # ys))"
    by (simp_all add: kept_defs)
  then show ?thesis
    using kept_processed [OF s p [unfolded waiting_more] assms(4,3)] by (simp add: kept_defs)
qed

lemma sys_step_kept: "sys_step V R k k' \<Longrightarrow> kept_sys P R k \<Longrightarrow> kept_sys P R k'"
proof (induction rule: sys_step.induct)
  case (sys_tick k now)
  then show ?case by (intro kept_with_node kept_tick) (simp_all add: kept_sys_def)
next
  case (sys_backup k)
  then show ?case by (intro kept_with_node kept_runBackup) (simp_all add: kept_sys_def)
next
  case (sys_button k s S v resp s')
  have "kept P R (k_background k) \<lparr>n_reg = si_reg s', n_q = si_q s'\<rparr>"
    by (rule kept_button [OF _ _ sys_button(4,5)])
      (use sys_button in \<open>simp_all add: kept_sys_def node_of_def\<close>)
  then show ?case by (rule kept_with_node)
next
  case (sys_edit r k)
  then have "kept P R (k_background k) \<lparr>n_reg = r, n_q = k_queue k\<rparr>"
    by (auto simp: kept_defs elim: untouched)
  then show ?case by (rule kept_with_node)
next
  case (sys_clear k)
  then have s: "sound (w_reg (k_world k))" and nf: "no_faults (w_reg (k_world k))" by (simp_all add: kept_defs sound_def)
  have e: "snd (DeleteAllBackupRuns (w_reg (k_world k))) = emptied (w_reg (k_world k))"
    using nf by (simp add: DeleteAllBackupRuns_def emptied_def)
  have "reg_inv (emptied (w_reg (k_world k)))"
    using DeleteAllBackupRuns_inv [of "w_reg (k_world k)"] s e by (simp add: sound_def)
  then have "sound (emptied (w_reg (k_world k)))" using s by (simp add: sound_def) (simp add: emptied_def)
  then have "kept P R (k_background k) \<lparr>n_reg = emptied (w_reg (k_world k)), n_q = k_queue k\<rparr>"
    using sys_clear cleared by (simp add: kept_defs)
  then show ?case unfolding e by (rule kept_with_node)
qed (auto intro: kept_take kept_finish)

lemma sys_steps_kept: "(sys_step V R)\<^sup>*\<^sup>* k k' \<Longrightarrow> kept_sys P R k \<Longrightarrow> kept_sys P R k'"
  by (induction rule: rtranclp_induct) (auto intro: sys_step_kept)

end

interpretation pipeline: step_invariant "sys_step V R" "good R" for V :: "('d, 'n) setting" and R :: "'q redis"
  by unfold_locales (simp add: good_def accounting.sys_step_kept)

section \<open>Every run comes to an end\<close>

lemma good_idle:
  assumes "good R k" and "waiting R (k_queue k) (k_background k) = {}"
  shows "open_runs (w_reg (k_world k)) = []"
  using assms by (simp add: good_def kept_defs accounted_def open_ids_def)

definition work_consumer :: "((string \<times> string) list, string list, string list) consumer" where
  "work_consumer = \<lparr>k_world = work_world, k_queue = [json_text (job_json work_job)], k_background = []\<rparr>"

lemma work_job_ok: "job_ok work_job"
  by (simp add: job_ok_def work_job_def NewBackupJob_def valid_utf8_ascii int64_def min_int64_def max_int64_def)

lemma work_sound: "sound work_registry"
  using work_inv work_calm
  by (simp add: sound_def work_world_def)
    (simp add: work_registry_def sample_tables job_ok_def job_for_def NewBackupJob_def sample_row1_def sample_row2_def
      sample_db_def sample_db2_def valid_utf8_ascii int64_def min_int64_def max_int64_def)

lemma work_good: "good calm_redis work_consumer"
proof -
  have "work_job \<in> waiting calm_redis [json_text (job_json work_job)] []"
    using Unmarshal_job [OF work_job_ok] by (simp add: waiting_def calm_redis_def)
  then have "j_RunID work_job \<in> j_RunID ` waiting calm_redis [json_text (job_json work_job)] []" by (rule imageI)
  then have "accounted work_registry (waiting calm_redis [json_text (job_json work_job)] [])"
    by (simp add: accounted_def open_ids_def open_runs_def work_registry_def)
  then show ?thesis
    using work_sound by (simp add: good_def kept_defs work_consumer_def work_world_def calm_redis_ok)
qed

text \<open>
  C3. No run stays open. However the scheduler, the button of the web interface, the command line, changes of the
  registry, the clearing of the log, the consumer and jobs at agents follow on each other, as long as statements and commands do not fail
  (the jobs may) and no signal stops the consumer, every run that the log shows as running belongs to a job that is in the queue or being
  processed, so that with an empty queue and no job at an agent no run is shown as running.
\<close>

theorem no_run_stays_open:
  assumes "good R k" and "(sys_step V R)\<^sup>*\<^sup>* k k'"
  shows "br_ID ` set (open_runs (w_reg (k_world k'))) \<subseteq> j_RunID ` waiting R (k_queue k') (k_background k') \<and>
    (rd_list R QueueName (k_queue k') = [] \<and> k_background k' = [] \<longrightarrow> open_runs (w_reg (k_world k')) = [])"
proof -
  from pipeline.steps_inv [OF assms(2,1)] have g: "good R k'" .
  then have "br_ID ` set (open_runs (w_reg (k_world k'))) \<subseteq> j_RunID ` waiting R (k_queue k') (k_background k')"
    by (simp add: good_def kept_defs accounted_def open_ids_def)
  moreover have "open_runs (w_reg (k_world k')) = []"
    if "rd_list R QueueName (k_queue k') = []" "k_background k' = []"
    using that by (intro good_idle [OF g]) (simp add: waiting_def)
  ultimately show ?thesis by blast
qed

lemma work_taken: "k_queue (consume_one V calm_redis T work_consumer) = [] \<and> k_background (consume_one V calm_redis T work_consumer) = []"
  using Unmarshal_job [OF work_job_ok]
  by (simp add: consume_one_def Pop_def work_consumer_def calm_redis_def split: option.split)

lemma no_run_stays_open_witness:
  "map br_ID (open_runs (w_reg (k_world work_consumer))) = [1] \<and>
   open_runs (w_reg (k_world (consume_one work_setting calm_redis work_readings work_consumer))) = []"
proof -
  have "(sys_step work_setting calm_redis)\<^sup>*\<^sup>* work_consumer (consume_one work_setting calm_redis work_readings work_consumer)"
    by (intro r_into_rtranclp sys_take work_undisturbed)
  from no_run_stays_open [OF work_good this] work_taken have
    "open_runs (w_reg (k_world (consume_one work_setting calm_redis work_readings work_consumer))) = []"
    by (simp add: calm_redis_def)
  moreover have "map br_ID (open_runs (w_reg (k_world work_consumer))) = [1]"
    by (simp add: open_runs_def work_consumer_def work_world_def work_registry_def running_run_def)
  ultimately show ?thesis by simp
qed

text \<open>A Redis that hands out what it holds.\<close>

definition serving :: "'q redis \<Rightarrow> bool" where
  "serving R \<longleftrightarrow>
     (\<forall>q. rd_list R QueueName q \<noteq> [] \<longrightarrow> (\<exists>v q'. rd_blpop R QueueName q = (Inr (Some v), q')))"

definition all_local :: "'q redis \<Rightarrow> 'q \<Rightarrow> bool" where
  "all_local R q \<longleftrightarrow>
     (\<forall>v\<in>set (rd_list R QueueName q). \<forall>j. Unmarshal job_fields zero_job v = Some j \<longrightarrow> j_AgentID j = 0)"

lemma take_shrinks:
  assumes "redis_ok R" and "serving R" and "all_local R (k_queue k)" and "rd_list R QueueName (k_queue k) \<noteq> []"
  shows "rd_list R QueueName (k_queue (consume_one V R T k)) = tl (rd_list R QueueName (k_queue k)) \<and>
    k_background (consume_one V R T k) = k_background k"
proof -
  obtain v q where b: "rd_blpop R QueueName (k_queue k) = (Inr (Some v), q)"
    using assms(2,4) unfolding serving_def by blast
  have l: "rd_list R QueueName (k_queue k) = v # rd_list R QueueName q"
    using blpop_ok [OF assms(1) b] by simp
  show ?thesis
    using assms(3) l b
    by (auto simp: consume_one_def Pop_def all_local_def split: option.splits)
qed

lemma fold_works_off:
  assumes "good R k" and "serving R" and "all_local R (k_queue k)" and "k_background k = []"
    and "length Ts = length (rd_list R QueueName (k_queue k))" and "\<forall>T\<in>set Ts. undisturbed T"
  shows "rd_list R QueueName (k_queue (fold (consume_one V R) Ts k)) = [] \<and>
    k_background (fold (consume_one V R) Ts k) = [] \<and>
    open_runs (w_reg (k_world (fold (consume_one V R) Ts k))) = []"
  using assms
proof (induction Ts arbitrary: k)
  case Nil
  then show ?case using good_idle [OF Nil(1)] by (simp add: waiting_def)
next
  case (Cons T Ts)
  have R: "redis_ok R" using Cons.prems(1) by (simp add: good_def kept_defs)
  have "rd_list R QueueName (k_queue k) \<noteq> []" using Cons.prems(5) by auto
  note t = take_shrinks [OF R Cons.prems(2,3) this, of V T]
  have "set (tl xs) \<subseteq> set xs" for xs :: "string list" by (cases xs) auto
  then have "all_local R (k_queue (consume_one V R T k))"
    using Cons.prems(3) t unfolding all_local_def by (metis in_mono)
  moreover have "good R (consume_one V R T k)"
    using accounting.kept_take Cons.prems(1,6) by (auto simp: good_def)
  ultimately show ?case
    using Cons.IH [OF _ Cons.prems(2)] t Cons.prems(4-6) by simp
qed

end
