(* ===== verification/Service.thy ===== *)
theory Service
  imports Pipeline AdminServer
begin

text \<open>
  The long-running processes as a whole: the start of the scheduler, of the consumer and of the web interface
  (\<open>runScheduler\<close>, \<open>runConsumer\<close>, \<open>runAdmin\<close> under \<open>cmd/backupdb\<close>), their loops until the signal, and what
  the ticker of the scheduler and the signal do to schedules and jobs. Whether directory and registry could be
  opened are arguments; \<open>registry.Open\<close> is modelled in the theory of the migrations.
\<close>

section \<open>The processes\<close>

text \<open>The moments are those of the ticks up to the signal, the first one at start, in seconds since the epoch.\<close>

definition runScheduler ::
  "zones \<Rightarrow> 'q redis \<Rightarrow> Config \<Rightarrow> go_error option \<Rightarrow> int list \<Rightarrow> (go_error, unit, 'q node) op" where
  "runScheduler Z R cfg opened moments n =
     (case Z (c_Timezone cfg) of
        Inl m \<Rightarrow> (Inl (Wrap (''load timezone '' @ c_Timezone cfg) (External m)), n)
      | Inr off \<Rightarrow>
          (case opened of
             Some e \<Rightarrow> (Inl (Wrap ''open registry'' e), n)
           | None \<Rightarrow> (Inr (), scheduler_loop R (map (in_zone off) moments) n)))"






text \<open>The web interface answers requests until it is stopped; it starts without sessions.\<close>

fun serve_all :: "('d, 'n, 'q) server \<Rightarrow> request list \<Rightarrow> ('d, 'n, 'q) site \<Rightarrow> response list \<times> ('d, 'n, 'q) site" where
  "serve_all S [] s = ([], s)"
| "serve_all S (r # rs) s =
     (case Handler S r s of (x, s) \<Rightarrow> (case serve_all S rs s of (xs, s) \<Rightarrow> (x # xs, s)))"

definition runAdmin ::
  "('d, 'n, 'q) server \<Rightarrow> go_error option \<Rightarrow> request list \<Rightarrow> (go_error, response list, ('d, 'n, 'q) site) op" where
  "runAdmin S opened rs s =
     (case opened of
        Some e \<Rightarrow> (Inl (Wrap ''open registry'' e), s)
      | None \<Rightarrow> (case serve_all S rs (s\<lparr>si_sessions := Map.empty\<rparr>) of (xs, s) \<Rightarrow> (Inr xs, s)))"

section \<open>The ticker\<close>

text \<open>Ticks at most a minute apart miss no minute between the first and the last.\<close>

lemma tick_in_minute:
  assumes "successively (\<lambda>a b. b \<le> a + 60) ts" and "ts \<noteq> []" and "hd ts < 60 * (m + 1)" and "60 * m \<le> last ts"
  shows "\<exists>t\<in>set ts. t div 60 = (m :: int)"
  using assms
proof (induction ts)
  case (Cons t ts)
  show ?case
  proof (cases "60 * m \<le> t")
    case True
    then have "t div 60 = m" using Cons.prems(3) by simp
    then show ?thesis by simp
  next
    case False
    then have "ts \<noteq> []" using Cons.prems(4) by auto
    then have "\<exists>t\<in>set ts. t div 60 = m"
      using Cons False by (intro Cons.IH) (auto simp: successively_Cons)
    then show ?thesis by simp
  qed
qed simp

text \<open>Within a minute, in a zone that is whole minutes from UTC, the clock shows one hour and minute.\<close>

lemma format_civil:
  "format_15_04 (civil_at u) = pad2 (nat (u mod 86400 div 3600)) @ '':'' @ pad2 (nat (u mod 86400 div 60 mod 60))"
  unfolding format_15_04_def civil_at_def Let_def split_beta by (simp only: civil.select_convs)

lemma minute_shown:
  assumes "t div 60 = m" and "off t = off (60 * m)" and "60 dvd off (60 * m)"
  shows "format_15_04 (in_zone off t) = format_15_04 (in_zone off (60 * m))"
proof -
  obtain k where k: "off (60 * m) = 60 * k" using assms(3) by (elim dvdE)
  let ?u = "t + off t" and ?v = "60 * m + off (60 * m)"
  have t: "t = 60 * m + t mod 60" using assms(1) by (metis mult_div_mod_eq)
  have same: "?u div 60 = ?v div 60" using t k assms(2) by simp
  have "x mod 86400 div 60 = x div 60 mod 1440" for x :: int
    using zmod_zmult2_eq [of 1440 x 60] by simp
  then have clock: "x mod 86400 div 3600 = x div 60 mod 1440 div 60" "x mod 86400 div 60 mod 60 = x div 60 mod 1440 mod 60" for x :: int
    using zdiv_zmult2_eq [of 60 "x mod 86400" 60] by simp_all
  have "?u mod 86400 div 3600 = ?v mod 86400 div 3600" "?u mod 86400 div 60 mod 60 = ?v mod 86400 div 60 mod 60"
    by (simp_all only: clock same)
  then show ?thesis by (simp only: in_zone_def format_civil)
qed

section \<open>Properties\<close>

text \<open>
  C2. The scheduler misses no schedule: while the registry and Redis answer and the ticks are at most a minute
  apart (the ticker fires every thirty seconds), a schedule that is on, of a database that is on, and has not run
  today, has its job queued when its minute lies between the first and the last tick of the day, whatever else
  is due; its minute is the one that the clock of the configured time zone shows.
\<close>

theorem scheduler_misses_no_schedule:
  assumes "runScheduler Z R cfg None moments n = (Inr (), n')" and "Z (c_Timezone cfg) = Inr off"
    and "calm R n" and "reg_inv (n_reg n)"
    and "s \<in> set (t_rows (schedules (n_reg n)))" and "s_Enabled s" and "s_LastRunDate s \<noteq> today"
    and "d \<in> set (t_rows (databases (n_reg n)))" and "d_ID d = s_DatabaseID s" and "d_Enabled d"
    and "moments \<noteq> []" and "successively (\<lambda>a b. b \<le> a + 60) moments"
    and "hd moments < 60 * (m + 1)" and "60 * m \<le> last moments"
    and "\<And>t. t \<in> set moments \<Longrightarrow> format_2006_01_02 (in_zone off t) = today"
    and "format_15_04 (in_zone off (60 * m)) = s_TimeOfDay s"
    and "60 dvd off (60 * m)" and "\<And>t. t div 60 = m \<Longrightarrow> off t = off (60 * m)"
  shows "\<exists>k. job_text d k \<in> set (jobs R n')"
proof -
  obtain t where t: "t \<in> set moments" "t div 60 = m"
    using tick_in_minute [OF assms(12,11,13,14)] by blast
  have "format_15_04 (in_zone off t) = s_TimeOfDay s"
    using minute_shown [of t m off, OF t(2) assms(18) [OF t(2)] assms(17)] assms(16) by simp
  moreover have "n' = scheduler_loop R (map (in_zone off) moments) n"
    using assms(1,2) by (simp add: runScheduler_def)
  moreover have "format_2006_01_02 c = today" if "c \<in> set (map (in_zone off) moments)" for c
    using that assms(15) by auto
  moreover have "in_zone off t \<in> set (map (in_zone off) moments)" using t(1) by simp
  ultimately show ?thesis
    using schedule_gets_its_turn [OF assms(3-6,8-10) _ assms(7)] by blast
qed

definition saigon :: zones where
  "saigon z = (if z = ''Asia/Ho_Chi_Minh'' then Inr (\<lambda>t. 25200) else Inl (''unknown time zone '' @ z))"

lemma scheduler_misses_no_schedule_witness:
  "\<exists>k. job_text sample_row1 k \<in> set (jobs calm_redis
     (snd (runScheduler saigon calm_redis (Load Map.empty) None [1772307000 - 30, 1772307000 + 15] sample_node)))"
proof -
  have z: "saigon (c_Timezone (Load Map.empty)) = Inr (\<lambda>t. 25200)"
    by (simp add: saigon_def Load_def getEnv_def)
  then have run: "runScheduler saigon calm_redis (Load Map.empty) None [1772307000 - 30, 1772307000 + 15] sample_node =
      (Inr (), snd (runScheduler saigon calm_redis (Load Map.empty) None [1772307000 - 30, 1772307000 + 15] sample_node))"
    by (simp add: runScheduler_def)
  have clock: "format_2006_01_02 (in_zone (\<lambda>t. 25200) (1772307000 - 30)) = ''2026-03-01''"
    "format_2006_01_02 (in_zone (\<lambda>t. 25200) (1772307000 + 15)) = ''2026-03-01''"
    "format_15_04 (in_zone (\<lambda>t. 25200) (60 * 29538450)) = ''02:30''"
    by code_simp+
  show ?thesis
    by (rule scheduler_misses_no_schedule [OF run z sample_node_calm,
          where s = "hd (t_rows (schedules sample_registry))" and today = "''2026-03-01''" and m = 29538450])
      (use clock in \<open>auto simp: sample_node_def sample_registry_inv sample_tables sample_row1_def sample_db_def\<close>)
qed



section \<open>The signal\<close>

text \<open>A signal before the run is recorded: outside the poll loop, or in it.\<close>

definition stopped_by :: "readings \<Rightarrow> upload_outcome \<Rightarrow> bool" where
  "stopped_by T outcome \<longleftrightarrow> ended T Recording \<or> snd outcome = Some ContextDone"

lemma stopped_ended: "stopped_by T outcome \<longleftrightarrow> ended (after_poll outcome T) Recording"
  by (auto simp: stopped_by_def after_poll_def ended_def less_eq_job_stage_def min_def split: option.splits)

text \<open>
  C35. A job that is under way when the consumer is told to stop leaves its run open for ever. The signal ends the
  context that every statement of the job takes, so whenever it comes before the run is recorded, even after an
  upload that succeeded, the run still says running when the job is over, no file is listed and nobody is told,
  although the consumer waits for the job; and whatever scheduler, web interface, command line and the next
  consumer do then, the run is shown as running as long as the log is not cleared, since no job is left that could
  end it.
\<close>

theorem stopped_job_stays_open:
  assumes "redis_ok R" and "redis_up R" and "sound (w_reg (k_world k))"
    and "j_Cmd job = ''backup''" and "j_RunID job \<in> open_ids (w_reg (k_world k))"
    and "backupAndUpload V T job (mark_started T job (k_world k)) = (Some outcome, w2)"
    and "stopped_by T outcome" and "processJob V T job (k_world k) = Some w"
    and "j_RunID job \<notin> j_RunID ` waiting R (k_queue k) (k_background k)"
    and "(sys_step V' R)\<^sup>*\<^sup>* (k\<lparr>k_world := w\<rparr>) k'"
  shows "j_RunID job \<in> open_ids (w_reg w) \<and> backup_files (w_reg w) = backup_files (w_reg (k_world k)) \<and>
    w_net w = w_net w2 \<and>
    (j_RunID job \<in> ids br_ID (backup_runs (w_reg (k_world k'))) \<longrightarrow> j_RunID job \<in> open_ids (w_reg (k_world k')))"
proof -
  have nf: "no_faults (w_reg (k_world k))" using assms(3) by (simp add: sound_def)
  have e: "ended (after_poll outcome T) Recording" using assms(7) by (simp add: stopped_ended)
  from processJob_log [OF nf assms(4,8)] assms(6) e
  have w: "open_ids (w_reg w) = open_ids (w_reg (k_world k))"
    "backup_files (w_reg w) = backup_files (w_reg (k_world k))" "w_net w = w_net w2"
    by (metis fst_conv option.inject snd_conv)+
  have "kept_sys (left_open (j_RunID job)) R (k\<lparr>k_world := w\<rparr>)"
    using assms(1,2,5,9) processJob_sound [OF assms(3,8)] w(1) open_id_range [of "w_reg w" "j_RunID job"]
    by (simp add: kept_defs left_open_def) (simp add: sound_def)
  from orphan.sys_steps_kept [OF assms(10) this]
  have "j_RunID job \<in> ids br_ID (backup_runs (w_reg (k_world k'))) \<longrightarrow> j_RunID job \<in> open_ids (w_reg (k_world k'))"
    by (simp add: kept_defs left_open_def)
  with w assms(5) show ?thesis by simp
qed

text \<open>The signal comes when the upload has succeeded, and the next consumer finds an empty queue.\<close>

definition late_signal :: readings where
  "late_signal = work_readings\<lparr>t_signal := Some Resolving\<rparr>"

lemma stopped_job_stays_open_witness:
  "\<exists>up w2 w. backupAndUpload work_setting late_signal work_job (mark_started late_signal work_job work_world) =
      (Some (Some up, None), w2) \<and>
    processJob work_setting late_signal work_job work_world = Some w \<and>
    1 \<in> open_ids (w_reg w)"
proof -
  let ?k = "\<lparr>k_world = work_world, k_queue = [], k_background = []\<rparr> :: (_, _, string list) consumer"
  have fields: "t_started late_signal = t_started work_readings" "t_date late_signal = t_date work_readings"
    "t_stamp late_signal = t_stamp work_readings" "ended late_signal Marking = ended work_readings Marking"
    "ended late_signal Preparing = ended work_readings Preparing" "ended late_signal Locating = ended work_readings Locating"
    "ended late_signal Transferring = ended work_readings Transferring"
    by (simp_all add: late_signal_def ended_def less_eq_job_stage_def work_readings_def)
  have same: "localBackupAndUpload V late_signal job m = localBackupAndUpload V work_readings job m"
      "mark_started late_signal job x = mark_started work_readings job x"
    for V :: "((string \<times> string) list, string list) setting" and job m and x :: "((string \<times> string) list, string list) world"
    by (simp_all only: localBackupAndUpload_def mark_started_def fields)
  then obtain up w2 where b: "backupAndUpload work_setting late_signal work_job (mark_started late_signal work_job work_world) =
      (Some (Some up, None), w2)"
    using work_job_done by (auto simp: backupAndUpload_def)
  then have "\<exists>w. processJob work_setting late_signal work_job work_world = Some w"
    by (simp add: processJob_def split_beta)
  then obtain w where w: "processJob work_setting late_signal work_job work_world = Some w" by blast
  have o: "j_RunID work_job \<in> open_ids (w_reg (k_world ?k))"
    by (simp add: open_ids_iff work_world_def work_registry_def running_run_def)
  have step: "(sys_step work_setting calm_redis)\<^sup>*\<^sup>* (?k\<lparr>k_world := w\<rparr>) (consume_one work_setting calm_redis work_readings (?k\<lparr>k_world := w\<rparr>))"
    by (intro r_into_rtranclp sys_take work_undisturbed)
  have wait: "j_RunID work_job \<notin> j_RunID ` waiting calm_redis (k_queue ?k) (k_background ?k)"
    by (simp add: waiting_def calm_redis_def)
  have "stopped_by late_signal (Some up, None)"
    by (simp add: stopped_by_def late_signal_def ended_def less_eq_job_stage_def)
  moreover have "sound (w_reg (k_world ?k))" using work_sound by (simp add: work_world_def)
  moreover have "backupAndUpload work_setting late_signal work_job (mark_started late_signal work_job (k_world ?k)) =
      (Some (Some up, None), w2)" using b by simp
  moreover have "processJob work_setting late_signal work_job (k_world ?k) = Some w" using w by simp
  ultimately have "j_RunID work_job \<in> open_ids (w_reg w)"
    using stopped_job_stays_open [OF calm_redis_ok _ work_job_fields(1) o _ _ _ wait step] by blast
  with b w show ?thesis by auto
qed

end
